(* ===== verification/Syouyu_Prelude.thy ===== *)
theory Syouyu_Prelude
  imports Main "HOL-Library.Word" "HOL-Library.List_Lexorder" "HOL-Library.Char_ord"
begin

text \<open>
  Shared vocabulary of the development: the machine types of the Rust sources, \<open>Result\<close> and the
  \<open>?\<close> operator, the parts of \<open>str\<close>, \<open>u8\<close> and integer conversion of the standard library that
  the crates use, JSON values, HTTP headers and URLs as the handlers see them, and generic lemmas
  on lists of rows. A Rust \<open>str\<close> is the list of its UTF-8 bytes (Isabelle's \<open>string\<close>);
  its length is therefore the byte length, and \<open>str_chars\<close> decodes the scalar values.
\<close>

section \<open>Collections of the development\<close>

named_theorems result_simps \<open>rewriting of results and the question-mark operator\<close>
named_theorems str_defs \<open>definitions of the character classes\<close>

section \<open>Machine types\<close>

type_synonym u8 = "8 word"
type_synonym u16 = "16 word"
type_synonym u32 = "32 word"
type_synonym u64 = "64 word"
type_synonym uuid = "128 word"
type_synonym bytes = "8 word list"

text \<open>Signed 64-bit values are integers; every operation that could leave the range says so.\<close>

type_synonym i64 = int
type_synonym timestamp = int  \<comment> \<open>microseconds, the resolution of \<open>TIMESTAMPTZ\<close>\<close>
type_synonym duration = nat  \<comment> \<open>nanoseconds, as \<open>std::time::Duration\<close>\<close>

definition i64_min :: int where "i64_min = - (2 ^ 63)"
definition i64_max :: int where "i64_max = 2 ^ 63 - 1"

definition in_i64 :: "int \<Rightarrow> bool" where
  "in_i64 x \<longleftrightarrow> i64_min \<le> x \<and> x \<le> i64_max"

definition i64_checked_add :: "i64 \<Rightarrow> i64 \<Rightarrow> i64 option" where
  "i64_checked_add a b = (if in_i64 (a + b) then Some (a + b) else None)"

definition i64_checked_sub :: "i64 \<Rightarrow> i64 \<Rightarrow> i64 option" where
  "i64_checked_sub a b = (if in_i64 (a - b) then Some (a - b) else None)"

definition i64_saturate :: "int \<Rightarrow> i64" where
  "i64_saturate x = max i64_min (min i64_max x)"

definition i64_saturating_add :: "i64 \<Rightarrow> i64 \<Rightarrow> i64" where
  "i64_saturating_add a b = i64_saturate (a + b)"

definition i64_saturating_sub :: "i64 \<Rightarrow> i64 \<Rightarrow> i64" where
  "i64_saturating_sub a b = i64_saturate (a - b)"

definition u64_saturating_add :: "u64 \<Rightarrow> u64 \<Rightarrow> u64" where
  "u64_saturating_add a b = (if unat a + unat b < 2 ^ 64 then a + b else - 1)"

text \<open>\<open>i64::try_from(u64)\<close>, \<open>u64::try_from(i64)\<close> and \<open>u16::try_from(i32)\<close>.\<close>

definition i64_try_from_u64 :: "u64 \<Rightarrow> i64 option" where
  "i64_try_from_u64 v = (if uint v \<le> i64_max then Some (uint v) else None)"

definition u64_try_from_i64 :: "i64 \<Rightarrow> u64 option" where
  "u64_try_from_i64 v = (if 0 \<le> v then Some (word_of_int v) else None)"

definition u16_try_from_i32 :: "int \<Rightarrow> u16 option" where
  "u16_try_from_i32 v = (if 0 \<le> v \<and> v < 2 ^ 16 then Some (word_of_int v) else None)"

lemmas i64_defs = i64_min_def i64_max_def in_i64_def i64_saturate_def
  i64_checked_add_def i64_checked_sub_def i64_saturating_add_def i64_saturating_sub_def

lemma i64_checked_sub_Some [simp]:
  "i64_checked_sub a b = Some c \<longleftrightarrow> c = a - b \<and> in_i64 (a - b)"
  by (auto simp: i64_checked_sub_def)

lemma i64_checked_add_Some [simp]:
  "i64_checked_add a b = Some c \<longleftrightarrow> c = a + b \<and> in_i64 (a + b)"
  by (auto simp: i64_checked_add_def)

lemma i64_saturating_sub_le: "0 \<le> c \<Longrightarrow> c < i64_max \<Longrightarrow> i64_saturating_sub a b \<le> c \<longleftrightarrow> a - b \<le> c"
  by (auto simp: i64_defs)

lemma i64_saturating_add_less: "in_i64 x \<Longrightarrow> i64_saturating_add a b < x \<Longrightarrow> a + b < x"
  by (auto simp: i64_defs)

lemma u64_saturating_add_unat: "unat (u64_saturating_add a b) = min (unat a + unat b) (2 ^ 64 - 1)"
  by (auto simp: u64_saturating_add_def unat_word_ariths unsigned_minus_1_eq_mask mask_eq_exp_minus_1)

lemma u64_i64_roundtrip:
  "i64_try_from_u64 v = Some i \<Longrightarrow> u64_try_from_i64 i = Some v"
  by (auto simp: i64_try_from_u64_def u64_try_from_i64_def split: if_splits)

lemma i64_try_from_u64_range: "i64_try_from_u64 v = Some i \<Longrightarrow> 0 \<le> i \<and> in_i64 i \<and> i = uint v"
proof -
  assume a: "i64_try_from_u64 v = Some i"
  have "0 \<le> uint v" by simp
  moreover from a have "i = uint v" "uint v \<le> i64_max"
    by (auto simp: i64_try_from_u64_def split: if_splits)
  ultimately have "0 \<le> i \<and> i = uint v \<and> i \<le> i64_max" by simp
  then show ?thesis by (simp add: i64_defs)
qed

lemma u16_i32_roundtrip [simp]: "u16_try_from_i32 (uint (v :: u16)) = Some v"
  using uint_lt2p [of v] by (simp add: u16_try_from_i32_def)

section \<open>Result and the question-mark operator\<close>

abbreviation Ok :: "'a \<Rightarrow> 'e + 'a" where "Ok \<equiv> Inr"
abbreviation Err :: "'e \<Rightarrow> 'e + 'a" where "Err \<equiv> Inl"

definition try_bind :: "'e + 'a \<Rightarrow> ('a \<Rightarrow> 'e + 'b) \<Rightarrow> 'e + 'b" where
  "try_bind r f = (case r of Err e \<Rightarrow> Err e | Ok x \<Rightarrow> f x)"

definition map_err :: "('e \<Rightarrow> 'f) \<Rightarrow> 'e + 'a \<Rightarrow> 'f + 'a" where
  "map_err g r = (case r of Err e \<Rightarrow> Err (g e) | Ok x \<Rightarrow> Ok x)"

definition ok_or :: "'a option \<Rightarrow> 'e \<Rightarrow> 'e + 'a" where
  "ok_or x e = (case x of None \<Rightarrow> Err e | Some v \<Rightarrow> Ok v)"

definition is_ok :: "'e + 'a \<Rightarrow> bool" where
  "is_ok r = (case r of Err _ \<Rightarrow> False | Ok _ \<Rightarrow> True)"

text \<open>Collecting an iterator of results into a result: the first error wins.\<close>

fun collect_results :: "('e + 'a) list \<Rightarrow> 'e + 'a list" where
  "collect_results [] = Ok []"
| "collect_results (r # rs) = try_bind r (\<lambda>x. try_bind (collect_results rs) (\<lambda>xs. Ok (x # xs)))"

lemma try_bind_simps [simp, result_simps]:
  "try_bind (Ok x) f = f x" "try_bind (Err e) f = Err e"
  by (simp_all add: try_bind_def)

lemma map_err_simps [simp, result_simps]:
  "map_err g (Ok x) = Ok x" "map_err g (Err e) = Err (g e)"
  by (simp_all add: map_err_def)

lemma ok_or_simps [simp, result_simps]: "ok_or (Some v) e = Ok v" "ok_or None e = Err e"
  by (simp_all add: ok_or_def)

lemma is_ok_simps [simp, result_simps]: "is_ok (Ok x)" "\<not> is_ok (Err e)"
  by (simp_all add: is_ok_def)

lemma try_bind_Ok [result_simps]: "try_bind r f = Ok y \<longleftrightarrow> (\<exists>x. r = Ok x \<and> f x = Ok y)"
  by (cases r) simp_all

lemma try_bind_Err [result_simps]:
  "try_bind r f = Err e \<longleftrightarrow> r = Err e \<or> (\<exists>x. r = Ok x \<and> f x = Err e)"
  by (cases r) simp_all

lemma map_err_Ok [simp, result_simps]: "map_err g r = Ok x \<longleftrightarrow> r = Ok x"
  by (cases r) simp_all

lemma ok_or_Ok [simp, result_simps]: "ok_or x e = Ok v \<longleftrightarrow> x = Some v"
  by (cases x) simp_all

lemma ok_or_Err [simp, result_simps]: "ok_or x e = Err e' \<longleftrightarrow> x = None \<and> e' = e"
  by (cases x) auto

lemma is_ok_iff: "is_ok r \<longleftrightarrow> (\<exists>x. r = Ok x)"
  by (cases r) simp_all

lemma is_ok_unit [simp]: "is_ok r \<longleftrightarrow> r = Ok ()"
  by (cases r) simp_all

lemma collect_results_Ok: "collect_results rs = Ok xs \<longleftrightarrow> rs = map Ok xs"
  by (induction rs arbitrary: xs) (auto simp: try_bind_Ok)

section \<open>Bytes, characters and strings\<close>

definition byte_of :: "char \<Rightarrow> nat" where "byte_of c = of_char c"

definition is_ascii_lowercase :: "char \<Rightarrow> bool" where
  [str_defs]: "is_ascii_lowercase c \<longleftrightarrow> 97 \<le> byte_of c \<and> byte_of c \<le> 122"

definition is_ascii_uppercase :: "char \<Rightarrow> bool" where
  [str_defs]: "is_ascii_uppercase c \<longleftrightarrow> 65 \<le> byte_of c \<and> byte_of c \<le> 90"

definition is_ascii_digit :: "char \<Rightarrow> bool" where
  [str_defs]: "is_ascii_digit c \<longleftrightarrow> 48 \<le> byte_of c \<and> byte_of c \<le> 57"

definition is_ascii_alphanumeric :: "char \<Rightarrow> bool" where
  [str_defs]: "is_ascii_alphanumeric c \<longleftrightarrow>
     is_ascii_lowercase c \<or> is_ascii_uppercase c \<or> is_ascii_digit c"

text \<open>
  The scalar values of a UTF-8 byte sequence. A Rust \<open>str\<close> is always well-formed UTF-8; on other
  byte sequences, which a \<open>str\<close> cannot hold, a stray byte stands for itself.
\<close>

fun utf8_chars :: "nat list \<Rightarrow> nat list" where
  "utf8_chars [] = []"
| "utf8_chars (b # bs) =
    (if b < 194 \<or> length bs = 0 then b # utf8_chars bs
     else if b < 224 then ((b - 192) * 64 + (bs ! 0) mod 64) # utf8_chars (drop 1 bs)
     else if length bs = 1 then b # utf8_chars bs
     else if b < 240 then
       ((b - 224) * 4096 + (bs ! 0 mod 64) * 64 + bs ! 1 mod 64) # utf8_chars (drop 2 bs)
     else if length bs = 2 then b # utf8_chars bs
     else ((b - 240) * 262144 + (bs ! 0 mod 64) * 4096 + (bs ! 1 mod 64) * 64 + bs ! 2 mod 64)
            # utf8_chars (drop 3 bs))"

definition str_chars :: "string \<Rightarrow> nat list" where
  "str_chars s = utf8_chars (map byte_of s)"

definition char_is_control :: "nat \<Rightarrow> bool" where
  [str_defs]: "char_is_control c \<longleftrightarrow> c < 32 \<or> (127 \<le> c \<and> c \<le> 159)"

definition char_is_whitespace :: "nat \<Rightarrow> bool" where
  [str_defs]: "char_is_whitespace c \<longleftrightarrow>
     (9 \<le> c \<and> c \<le> 13) \<or> c = 32 \<or> c = 133 \<or> c = 160 \<or> c = 5760 \<or>
     (8192 \<le> c \<and> c \<le> 8202) \<or> c = 8232 \<or> c = 8233 \<or> c = 8239 \<or> c = 8287 \<or> c = 12288"

definition chars_trim :: "nat list \<Rightarrow> nat list" where
  "chars_trim cs = rev (dropWhile char_is_whitespace (rev (dropWhile char_is_whitespace cs)))"

definition starts_with :: "string \<Rightarrow> string \<Rightarrow> bool" where
  "starts_with p s \<longleftrightarrow> take (length p) s = p"

definition ends_with :: "string \<Rightarrow> string \<Rightarrow> bool" where
  "ends_with p s \<longleftrightarrow> length p \<le> length s \<and> drop (length s - length p) s = p"

definition strip_prefix :: "string \<Rightarrow> string \<Rightarrow> string option" where
  "strip_prefix p s = (if starts_with p s then Some (drop (length p) s) else None)"

fun str_contains :: "string \<Rightarrow> string \<Rightarrow> bool" where
  "str_contains p [] = (p = [])"
| "str_contains p (c # s) = (starts_with p (c # s) \<or> str_contains p s)"

fun split_on :: "char \<Rightarrow> string \<Rightarrow> string list" where
  "split_on d [] = [[]]"
| "split_on d (c # s) =
     (if c = d then [] # split_on d s
      else (case split_on d s of [] \<Rightarrow> [[c]] | w # ws \<Rightarrow> (c # w) # ws))"

definition trim_end_matches :: "char \<Rightarrow> string \<Rightarrow> string" where
  "trim_end_matches c s = rev (dropWhile (\<lambda>x. x = c) (rev s))"

text \<open>\<open>str::trim\<close>: the scalar values are trimmed and encoded again.\<close>

definition utf8_encode :: "nat \<Rightarrow> nat list" where
  "utf8_encode c =
     (if c < 128 then [c]
      else if c < 2048 then [192 + c div 64, 128 + c mod 64]
      else if c < 65536 then [224 + c div 4096, 128 + c div 64 mod 64, 128 + c mod 64]
      else [240 + c div 262144, 128 + c div 4096 mod 64, 128 + c div 64 mod 64, 128 + c mod 64])"

definition str_trim :: "string \<Rightarrow> string" where
  "str_trim s = map char_of (concat (map utf8_encode (chars_trim (str_chars s))))"

definition as_bytes :: "string \<Rightarrow> bytes" where
  "as_bytes s = map (\<lambda>c. word_of_nat (byte_of c)) s"

lemma chars_trim_id:
  "chars_trim cs = cs \<longleftrightarrow>
     cs = [] \<or> (\<not> char_is_whitespace (hd cs) \<and> \<not> char_is_whitespace (last cs))"
proof (cases "cs = []")
  case False
  have *: "dropWhile P xs = xs \<longleftrightarrow> \<not> P (hd xs)" if "xs \<noteq> []" for P and xs :: "nat list"
  proof (cases xs)
    case (Cons x ys)
    have "length (dropWhile P ys) \<le> length ys" by (rule length_dropWhile_le)
    then have "dropWhile P ys \<noteq> x # ys" by (metis impossible_Cons)
    with Cons show ?thesis by simp
  qed (use that in simp)
  have len: "length (chars_trim cs) \<le> length (dropWhile char_is_whitespace cs)"
    unfolding chars_trim_def by (metis length_dropWhile_le length_rev)
  show ?thesis
  proof (cases "char_is_whitespace (hd cs)")
    case True
    then have "length (dropWhile char_is_whitespace cs) < length cs"
      using False by (cases cs) (auto simp: le_imp_less_Suc length_dropWhile_le)
    with len have "chars_trim cs \<noteq> cs" by auto
    with True False show ?thesis by simp
  next
    case False
    with \<open>cs \<noteq> []\<close> have "dropWhile char_is_whitespace cs = cs" by (simp add: *)
    then have "chars_trim cs = cs \<longleftrightarrow> dropWhile char_is_whitespace (rev cs) = rev cs"
      by (auto simp: chars_trim_def rev_swap)
    with \<open>cs \<noteq> []\<close> False show ?thesis by (simp add: * hd_rev)
  qed
qed (simp add: chars_trim_def)

lemma strip_prefix_Some [simp]: "strip_prefix p s = Some t \<longleftrightarrow> s = p @ t"
  by (auto simp: strip_prefix_def starts_with_def dest: sym [of "take _ _"])
     (metis append_take_drop_id)

lemma strip_prefix_append [simp]: "strip_prefix p (p @ t) = Some t"
  by simp

lemma utf8_chars_ascii: "\<forall>b \<in> set bs. b < 128 \<Longrightarrow> utf8_chars bs = bs"
  by (induction bs) auto

lemma str_chars_ascii: "\<forall>c \<in> set s. byte_of c < 128 \<Longrightarrow> str_chars s = map byte_of s"
  by (simp add: str_chars_def utf8_chars_ascii)

lemma byte_of_less: "byte_of c < 256"
  unfolding byte_of_def using of_char_mod_256 [of c, where ?'a = nat] by (metis mod_less_divisor zero_less_numeral)

lemma as_bytes_inject [simp]: "as_bytes a = as_bytes b \<longleftrightarrow> a = b"
proof
  assume "as_bytes a = as_bytes b"
  then have "map unat (as_bytes a) = map unat (as_bytes b)" by simp
  then have "map byte_of a = map byte_of b"
    by (simp add: as_bytes_def unat_of_nat byte_of_less comp_def)
  moreover have "inj byte_of" unfolding byte_of_def by (rule inj_of_char)
  ultimately show "a = b" by (metis inj_map_eq_map)
qed simp

section \<open>Values of the third-party data types\<close>

text \<open>
  \<open>serde_json::Value\<close>, \<open>http::HeaderMap\<close> and \<open>url::Url\<close> enter the model as data: a JSON
  value with its documented constructors (an object is the sorted list of its entries, as the
  default map of \<open>serde_json\<close> keeps them), a header lookup whose value either is visible text
  (\<open>to_str\<close> succeeds) or not, and the components of a parsed URL.
\<close>

datatype json =
    JNull
  | JBool bool
  | JNumber int
  | JString string
  | JArray "json list"
  | JObject "(string \<times> json) list"

fun json_insert :: "string \<Rightarrow> json \<Rightarrow> (string \<times> json) list \<Rightarrow> (string \<times> json) list" where
  "json_insert k v [] = [(k, v)]"
| "json_insert k v ((k', v') # kvs) =
     (if k = k' then (k, v) # kvs
      else if k < k' then (k, v) # (k', v') # kvs
      else (k', v') # json_insert k v kvs)"

definition json_object :: "(string \<times> json) list \<Rightarrow> json" where
  "json_object kvs = JObject (fold (\<lambda>(k, v). json_insert k v) kvs [])"

definition json_is_object :: "json \<Rightarrow> bool" where
  "json_is_object v = (case v of JObject _ \<Rightarrow> True | _ \<Rightarrow> False)"

lemma json_is_object_object [simp]: "json_is_object (json_object kvs)"
  by (simp add: json_is_object_def json_object_def)

datatype header_value = Visible string | Opaque

type_synonym headers = "string \<Rightarrow> header_value option"

record url =
  url_scheme :: string
  url_host_str :: "string option"
  url_username :: string
  url_password :: "string option"
  url_path :: string
  url_query :: "string option"
  url_fragment :: "string option"

section \<open>Tables as lists of rows\<close>

definition unique_on :: "('r \<Rightarrow> 'k) \<Rightarrow> 'r list \<Rightarrow> bool" where
  "unique_on f rows \<longleftrightarrow> distinct (map f rows)"

definition update_rows :: "('r \<Rightarrow> bool) \<Rightarrow> ('r \<Rightarrow> 'r) \<Rightarrow> 'r list \<Rightarrow> 'r list" where
  "update_rows P f rows = map (\<lambda>r. if P r then f r else r) rows"

definition delete_rows :: "('r \<Rightarrow> bool) \<Rightarrow> 'r list \<Rightarrow> 'r list" where
  "delete_rows P rows = filter (\<lambda>r. \<not> P r) rows"

definition count_rows :: "('r \<Rightarrow> bool) \<Rightarrow> 'r list \<Rightarrow> nat" where
  "count_rows P rows = length (filter P rows)"

lemma set_update_rows: "set (update_rows P f rows) = (\<lambda>r. if P r then f r else r) ` set rows"
  by (simp add: update_rows_def)

lemma in_update_rows: "x \<in> set (update_rows P f rows) \<longleftrightarrow>
    (\<exists>r \<in> set rows. x = (if P r then f r else r))"
  by (auto simp: update_rows_def)

lemma in_delete_rows [simp]: "x \<in> set (delete_rows P rows) \<longleftrightarrow> x \<in> set rows \<and> \<not> P x"
  by (simp add: delete_rows_def)

lemma map_update_rows_same:
  "(\<And>r. r \<in> set rows \<Longrightarrow> P r \<Longrightarrow> k (f r) = k r) \<Longrightarrow> map k (update_rows P f rows) = map k rows"
  by (simp add: update_rows_def)

lemma unique_on_same:
  "unique_on k rows \<Longrightarrow> x \<in> set rows \<Longrightarrow> y \<in> set rows \<Longrightarrow> k x = k y \<Longrightarrow> x = y"
  by (auto simp: unique_on_def distinct_map dest: inj_onD)

lemma unique_on_find:
  "unique_on k rows \<Longrightarrow> r \<in> set rows \<Longrightarrow> find (\<lambda>x. k x = k r) rows = Some r"
  by (induction rows) (auto simp: unique_on_def rev_image_eqI)

lemma unique_on_filter [intro]: "unique_on k rows \<Longrightarrow> unique_on k (filter P rows)"
  by (auto simp: unique_on_def distinct_map inj_on_def)

lemma unique_on_delete [intro]: "unique_on k rows \<Longrightarrow> unique_on k (delete_rows P rows)"
  by (auto simp: delete_rows_def)

lemma unique_on_snoc: "unique_on k (rows @ [r]) \<longleftrightarrow> unique_on k rows \<and> (\<forall>x \<in> set rows. k x \<noteq> k r)"
  by (auto simp: unique_on_def image_iff)

lemma find_Some_in: "find P xs = Some x \<Longrightarrow> x \<in> set xs \<and> P x"
  by (auto simp: find_Some_iff)

lemma find_append: "find P (xs @ ys) = (case find P xs of None \<Rightarrow> find P ys | Some x \<Rightarrow> Some x)"
  by (induction xs) simp_all

lemma find_update_rows:
  "(\<And>r. Q (if P r then f r else r) = Q r) \<Longrightarrow>
     find Q (update_rows P f rows) = map_option (\<lambda>r. if P r then f r else r) (find Q rows)"
  by (induction rows) (auto simp: update_rows_def)

lemma count_rows_0: "count_rows P rows = 0 \<longleftrightarrow> (\<forall>r \<in> set rows. \<not> P r)"
  by (auto simp: count_rows_def filter_empty_conv)

lemma count_rows_unique:
  "unique_on k rows \<Longrightarrow> (\<And>r. P r \<Longrightarrow> k r = c) \<Longrightarrow> count_rows P rows \<le> 1"
proof (induction rows)
  case (Cons r rows)
  have u: "unique_on k rows" using Cons.prems(1) by (simp add: unique_on_def)
  show ?case
  proof (cases "P r")
    case True
    have "\<forall>x \<in> set rows. \<not> P x"
    proof
      fix x assume "x \<in> set rows"
      then have "k x \<noteq> k r" using Cons.prems(1) by (auto simp: unique_on_def image_iff)
      with Cons.prems(2)[OF True] show "\<not> P x" using Cons.prems(2)[of x] by auto
    qed
    then have "count_rows P rows = 0" by (simp add: count_rows_0)
    with True show ?thesis by (simp add: count_rows_def)
  next
    case False
    with Cons.IH[OF u Cons.prems(2)] show ?thesis by (simp add: count_rows_def)
  qed
qed (simp add: count_rows_def)

lemma count_rows_unique_1:
  assumes "unique_on k rows" and "r \<in> set rows" and "P r" and "\<And>r. P r \<Longrightarrow> k r = c"
  shows "count_rows P rows = 1"
proof -
  have "count_rows P rows \<noteq> 0" using assms(2,3) by (auto simp: count_rows_0)
  moreover have "count_rows P rows \<le> 1" using assms(1,4) by (rule count_rows_unique)
  ultimately show ?thesis by simp
qed

lemma count_rows_append [simp]: "count_rows P (xs @ ys) = count_rows P xs + count_rows P ys"
  by (simp add: count_rows_def)

lemma count_rows_single [simp]: "count_rows P [r] = (if P r then 1 else 0)"
  by (simp add: count_rows_def)

lemma count_rows_simps:
  "count_rows P [] = 0"
  "count_rows P (r # rows) = (if P r then Suc (count_rows P rows) else count_rows P rows)"
  by (simp_all add: count_rows_def)

lemma count_rows_mono:
  assumes "\<And>r. r \<in> set rows \<Longrightarrow> P r \<Longrightarrow> Q r"
  shows "count_rows P rows \<le> count_rows Q rows"
  using assms by (induction rows) (simp_all add: count_rows_simps le_SucI)

lemma count_rows_update:
  "count_rows Q (update_rows P f rows) = count_rows (\<lambda>r. Q (if P r then f r else r)) rows"
  by (simp add: count_rows_def update_rows_def filter_map comp_def)

lemma count_rows_update_le:
  assumes "\<And>r. r \<in> set rows \<Longrightarrow> Q (if P r then f r else r) \<Longrightarrow> Q r"
  shows "count_rows Q (update_rows P f rows) \<le> count_rows Q rows"
  unfolding count_rows_update by (rule count_rows_mono) (use assms in blast)

lemma count_rows_update_same:
  assumes "\<And>r. r \<in> set rows \<Longrightarrow> Q (if P r then f r else r) = Q r"
  shows "count_rows Q (update_rows P f rows) = count_rows Q rows"
proof -
  have "filter (\<lambda>r. Q (if P r then f r else r)) rows = filter Q rows"
    by (rule filter_cong) (use assms in blast)+
  then have "count_rows (\<lambda>r. Q (if P r then f r else r)) rows = count_rows Q rows"
    unfolding count_rows_def by (rule arg_cong)
  then show ?thesis by (simp only: count_rows_update)
qed

lemma count_rows_delete: "count_rows Q (delete_rows P rows) = count_rows (\<lambda>r. \<not> P r \<and> Q r) rows"
  by (simp add: count_rows_def delete_rows_def)

lemma count_rows_delete_le: "count_rows Q (delete_rows P rows) \<le> count_rows Q rows"
  unfolding count_rows_delete by (rule count_rows_mono) simp

end
