(* ===== verification/Domain.thy ===== *)
theory Domain
  imports Syouyu_Prelude
begin

text \<open>
  The crate \<open>syouyu-domain\<close> (\<open>src/crates/syouyu-domain/src/lib.rs\<close>): service scopes, bucket
  specifications and quotas, permissions, phases, usage and status, each with its \<open>validate\<close>.
  The URL parser of the \<open>url\<close> crate is the parameter \<open>url_parse\<close>.
\<close>

section \<open>Constants and errors\<close>

definition MAX_REGION_LENGTH :: nat where "MAX_REGION_LENGTH = 63"
definition MIN_BUCKET_NAME_LENGTH :: nat where "MIN_BUCKET_NAME_LENGTH = 3"
definition MAX_BUCKET_NAME_LENGTH :: nat where "MAX_BUCKET_NAME_LENGTH = 63"
definition MAX_CREDENTIAL_NAME_LENGTH :: nat where "MAX_CREDENTIAL_NAME_LENGTH = 128"
definition MAX_BACKEND_ID_LENGTH :: nat where "MAX_BACKEND_ID_LENGTH = 256"
definition MAX_STATUS_MESSAGE_LENGTH :: nat where "MAX_STATUS_MESSAGE_LENGTH = 1024"
definition MAX_GARAGE_QUOTA :: u64 where "MAX_GARAGE_QUOTA = 9223372036854775807"

definition RESERVED_BUCKET_PREFIXES :: "string list" where
  "RESERVED_BUCKET_PREFIXES = [''xn--'', ''sthree-'', ''amzn-s3-demo-'']"

definition RESERVED_BUCKET_SUFFIXES :: "string list" where
  "RESERVED_BUCKET_SUFFIXES =
     [''-s3alias'', ''--ol-s3'', ''.mrap'', ''--x-s3'', ''--table-s3'', ''-an'']"

lemmas length_consts = MAX_REGION_LENGTH_def MIN_BUCKET_NAME_LENGTH_def MAX_BUCKET_NAME_LENGTH_def
  MAX_CREDENTIAL_NAME_LENGTH_def MAX_BACKEND_ID_LENGTH_def MAX_STATUS_MESSAGE_LENGTH_def

datatype validation_error =
    InvalidLength string nat nat nat  \<comment> \<open>field, minimum, maximum, actual\<close>
  | OutOfRange string u64 u64 u64  \<comment> \<open>field, minimum, maximum, actual\<close>
  | InvalidField string string  \<comment> \<open>field, reason\<close>
  | InvalidState string

section \<open>Field validators\<close>

definition uuid_is_nil :: "uuid \<Rightarrow> bool" where "uuid_is_nil u \<longleftrightarrow> u = 0"

definition ensure_uuid :: "string \<Rightarrow> uuid \<Rightarrow> validation_error + unit" where
  "ensure_uuid field value =
     (if uuid_is_nil value then Err (InvalidField field ''UUID must not be nil'') else Ok ())"

definition ensure_quota :: "string \<Rightarrow> u64 \<Rightarrow> validation_error + unit" where
  "ensure_quota field value =
     (if 1 \<le> value \<and> value \<le> MAX_GARAGE_QUOTA then Ok ()
      else Err (OutOfRange field 1 MAX_GARAGE_QUOTA value))"

definition validate_identifier :: "string \<Rightarrow> string \<Rightarrow> nat \<Rightarrow> validation_error + unit" where
  "validate_identifier field value maximum =
     (if value = [] \<or> length value > maximum
      then Err (InvalidLength field 1 maximum (length value))
      else if list_ex char_is_control (str_chars value)
      then Err (InvalidField field ''control characters are not allowed'')
      else Ok ())"

definition validate_human_name :: "string \<Rightarrow> string \<Rightarrow> nat \<Rightarrow> validation_error + unit" where
  "validate_human_name field value maximum =
     try_bind (validate_identifier field value maximum) (\<lambda>_.
     if chars_trim (str_chars value) \<noteq> str_chars value
     then Err (InvalidField field ''leading or trailing whitespace is not allowed'')
     else Ok ())"

definition validate_region :: "string \<Rightarrow> validation_error + unit" where
  "validate_region value =
     try_bind (validate_identifier ''region'' value MAX_REGION_LENGTH) (\<lambda>_.
     if \<not> is_ascii_alphanumeric (hd value)
        \<or> \<not> is_ascii_alphanumeric (last value)
        \<or> \<not> list_all (\<lambda>b. is_ascii_lowercase b \<or> is_ascii_digit b \<or> b = CHR ''-'') value
     then Err (InvalidField ''region''
                 ''region must use lowercase letters, digits, and internal hyphens'')
     else Ok ())"

text \<open>
  \<open>str::parse::<Ipv4Addr>\<close> of the standard library: at most 15 bytes, four dot-separated decimal
  octets of one to three digits, no leading zero, each at most 255.
\<close>

definition parse_octet :: "string \<Rightarrow> nat option" where
  "parse_octet w =
     (if w = [] \<or> length w > 3 \<or> \<not> list_all is_ascii_digit w
         \<or> (length w > 1 \<and> hd w = CHR ''0'') then None
      else let v = fold (\<lambda>c acc. 10 * acc + (byte_of c - 48)) w 0
           in if v \<le> 255 then Some v else None)"

definition parse_ipv4 :: "string \<Rightarrow> (nat \<times> nat \<times> nat \<times> nat) option" where
  "parse_ipv4 s =
     (if length s > 15 then None
      else case map parse_octet (split_on CHR ''.'' s) of
        [Some a, Some b, Some c, Some d] \<Rightarrow> Some (a, b, c, d)
      | _ \<Rightarrow> None)"

definition bucket_name_char :: "char \<Rightarrow> bool" where
  "bucket_name_char b \<longleftrightarrow>
     is_ascii_lowercase b \<or> is_ascii_digit b \<or> b = CHR ''.'' \<or> b = CHR ''-''"

definition validate_bucket_name :: "string \<Rightarrow> validation_error + unit" where
  "validate_bucket_name value =
     (let len = length value in
      if \<not> (MIN_BUCKET_NAME_LENGTH \<le> len \<and> len \<le> MAX_BUCKET_NAME_LENGTH)
      then Err (InvalidLength ''bucket_name'' MIN_BUCKET_NAME_LENGTH MAX_BUCKET_NAME_LENGTH len)
      else if \<not> list_all bucket_name_char value
           \<or> \<not> is_ascii_alphanumeric (hd value)
           \<or> \<not> is_ascii_alphanumeric (last value)
           \<or> str_contains ''..'' value
           \<or> parse_ipv4 value \<noteq> None
      then Err (InvalidField ''bucket_name''
                  ''bucket name is not a valid S3 general-purpose bucket name'')
      else if list_ex (\<lambda>p. starts_with p value) RESERVED_BUCKET_PREFIXES
           \<or> list_ex (\<lambda>p. ends_with p value) RESERVED_BUCKET_SUFFIXES
      then Err (InvalidField ''bucket_name''
                  ''bucket name uses an S3-reserved prefix or suffix'')
      else Ok ())"

definition http_origin :: "url \<Rightarrow> bool" where
  "http_origin u \<longleftrightarrow>
     \<not> (url_scheme u \<notin> {''http'', ''https''}
        \<or> url_host_str u = None
        \<or> url_username u \<noteq> []
        \<or> url_password u \<noteq> None
        \<or> url_query u \<noteq> None
        \<or> url_fragment u \<noteq> None)"

definition validate_endpoint :: "(string \<Rightarrow> url option) \<Rightarrow> string \<Rightarrow> validation_error + unit" where
  "validate_endpoint url_parse value =
     try_bind (ok_or (url_parse value)
        (InvalidField ''endpoint'' ''endpoint must be an absolute URL'')) (\<lambda>endpoint.
     if \<not> http_origin endpoint
     then Err (InvalidField ''endpoint''
       ''endpoint must be an HTTP(S) origin without credentials, query, or fragment'')
     else Ok ())"

section \<open>Scope, specification, quota\<close>

record service_scope =
  ss_organization_id :: uuid
  ss_project_id :: uuid
  ss_service_instance_id :: uuid

definition service_scope_validate :: "service_scope \<Rightarrow> validation_error + unit" where
  "service_scope_validate s =
     try_bind (ensure_uuid ''organization_id'' (ss_organization_id s)) (\<lambda>_.
     try_bind (ensure_uuid ''project_id'' (ss_project_id s)) (\<lambda>_.
     ensure_uuid ''service_instance_id'' (ss_service_instance_id s)))"

record bucket_quota =
  bq_bytes :: u64
  bq_objects :: u64

definition bucket_quota_validate :: "bucket_quota \<Rightarrow> validation_error + unit" where
  "bucket_quota_validate q =
     try_bind (ensure_quota ''quota_bytes'' (bq_bytes q)) (\<lambda>_.
     ensure_quota ''quota_objects'' (bq_objects q))"

record bucket_spec =
  bs_name :: string
  bs_quota :: bucket_quota

definition bucket_spec_validate :: "bucket_spec \<Rightarrow> validation_error + unit" where
  "bucket_spec_validate b =
     try_bind (validate_bucket_name (bs_name b)) (\<lambda>_. bucket_quota_validate (bs_quota b))"

record syouyu_spec =
  sp_region :: string
  sp_bucket_name :: string
  sp_quota_bytes :: u64
  sp_quota_objects :: u64

definition spec_quota :: "syouyu_spec \<Rightarrow> bucket_quota" where
  "spec_quota s = \<lparr>bq_bytes = sp_quota_bytes s, bq_objects = sp_quota_objects s\<rparr>"

definition spec_bucket_spec :: "syouyu_spec \<Rightarrow> bucket_spec" where
  "spec_bucket_spec s = \<lparr>bs_name = sp_bucket_name s, bs_quota = spec_quota s\<rparr>"

definition spec_validate :: "syouyu_spec \<Rightarrow> validation_error + unit" where
  "spec_validate s =
     try_bind (validate_region (sp_region s)) (\<lambda>_.
     try_bind (validate_bucket_name (sp_bucket_name s)) (\<lambda>_.
     bucket_quota_validate (spec_quota s)))"

section \<open>Permissions and credentials\<close>

datatype bucket_operation = OpList | OpRead | OpWrite | OpDelete

record bucket_permissions =
  bp_read :: bool
  bp_write :: bool

definition permissions_validate :: "bucket_permissions \<Rightarrow> validation_error + unit" where
  "permissions_validate p =
     (if bp_read p \<or> bp_write p then Ok ()
      else Err (InvalidField ''permissions'' ''at least one bucket permission is required''))"

fun allows :: "bucket_permissions \<Rightarrow> bucket_operation \<Rightarrow> bool" where
  "allows p OpList = bp_read p"
| "allows p OpRead = bp_read p"
| "allows p OpWrite = bp_write p"
| "allows p OpDelete = bp_write p"

record credential_spec =
  cs_name :: string
  cs_permissions :: bucket_permissions

definition credential_spec_validate :: "credential_spec \<Rightarrow> validation_error + unit" where
  "credential_spec_validate c =
     try_bind (validate_human_name ''credential_name'' (cs_name c) MAX_CREDENTIAL_NAME_LENGTH) (\<lambda>_.
     permissions_validate (cs_permissions c))"

section \<open>Phase, usage, status\<close>

datatype bucket_phase = Provisioning | Ready | Degraded | ErrorPhase | Deleting | Deleted

fun phase_to_string :: "bucket_phase \<Rightarrow> string" where
  "phase_to_string Provisioning = ''provisioning''"
| "phase_to_string Ready = ''ready''"
| "phase_to_string Degraded = ''degraded''"
| "phase_to_string ErrorPhase = ''error''"
| "phase_to_string Deleting = ''deleting''"
| "phase_to_string Deleted = ''deleted''"

definition phase_from_str :: "string \<Rightarrow> validation_error + bucket_phase" where
  "phase_from_str value =
     (if value = ''provisioning'' then Ok Provisioning
      else if value = ''ready'' then Ok Ready
      else if value = ''degraded'' then Ok Degraded
      else if value = ''error'' then Ok ErrorPhase
      else if value = ''deleting'' then Ok Deleting
      else if value = ''deleted'' then Ok Deleted
      else Err (InvalidField ''phase'' ''unknown bucket phase''))"

record bucket_usage =
  bu_bytes :: u64
  bu_objects :: u64
  bu_unfinished_upload_bytes :: u64
  bu_unfinished_uploads :: u64

definition usage_default :: bucket_usage where
  "usage_default = \<lparr>bu_bytes = 0, bu_objects = 0,
     bu_unfinished_upload_bytes = 0, bu_unfinished_uploads = 0\<rparr>"

definition usage_exceeds :: "bucket_usage \<Rightarrow> bucket_quota \<Rightarrow> bool" where
  "usage_exceeds u q \<longleftrightarrow> bu_bytes u > bq_bytes q \<or> bu_objects u > bq_objects q"

record bucket_status =
  st_observed_generation :: u64
  st_phase :: bucket_phase
  st_backend_bucket_id :: "string option"
  st_endpoint :: "string option"
  st_usage :: bucket_usage
  st_message :: "string option"
  st_updated_at :: timestamp

definition if_some :: "'a option \<Rightarrow> ('a \<Rightarrow> 'e + unit) \<Rightarrow> 'e + unit" where
  "if_some x f = (case x of None \<Rightarrow> Ok () | Some v \<Rightarrow> f v)"

definition status_validate :: "(string \<Rightarrow> url option) \<Rightarrow> bucket_status \<Rightarrow> validation_error + unit" where
  "status_validate url_parse s =
     try_bind (if_some (st_backend_bucket_id s)
       (\<lambda>id. validate_identifier ''backend_bucket_id'' id MAX_BACKEND_ID_LENGTH)) (\<lambda>_.
     try_bind (if_some (st_endpoint s) (validate_endpoint url_parse)) (\<lambda>_.
     try_bind (if_some (st_message s)
       (\<lambda>m. validate_human_name ''message'' m MAX_STATUS_MESSAGE_LENGTH)) (\<lambda>_.
     if st_phase s \<in> {Ready, Degraded}
        \<and> (st_backend_bucket_id s = None \<or> st_endpoint s = None)
     then Err (InvalidState ''ready or degraded buckets require a backend ID and endpoint'')
     else if st_phase s = Deleted
        \<and> (st_backend_bucket_id s \<noteq> None \<or> st_endpoint s \<noteq> None)
     then Err (InvalidState ''deleted buckets cannot retain a backend ID or endpoint'')
     else Ok ())))"

section \<open>What the field validators accept\<close>

lemma ensure_uuid_Ok [simp]: "ensure_uuid f u = Ok () \<longleftrightarrow> u \<noteq> 0"
  by (simp add: ensure_uuid_def uuid_is_nil_def)

lemma ensure_quota_Ok: "ensure_quota f v = Ok () \<longleftrightarrow> 1 \<le> uint v \<and> uint v \<le> i64_max"
  by (auto simp: ensure_quota_def MAX_GARAGE_QUOTA_def word_le_def i64_max_def)

lemma validate_identifier_Ok [simp]:
  "validate_identifier f v m = Ok () \<longleftrightarrow>
     v \<noteq> [] \<and> length v \<le> m \<and> (\<forall>c \<in> set (str_chars v). \<not> char_is_control c)"
  by (auto simp: validate_identifier_def list_ex_iff)

lemma validate_human_name_Ok [simp]:
  "validate_human_name f v m = Ok () \<longleftrightarrow>
     validate_identifier f v m = Ok () \<and> chars_trim (str_chars v) = str_chars v"
  by (auto simp: validate_human_name_def try_bind_Ok simp del: validate_identifier_Ok)

lemma service_scope_validate_Ok [simp]:
  "service_scope_validate s = Ok () \<longleftrightarrow>
     ss_organization_id s \<noteq> 0 \<and> ss_project_id s \<noteq> 0 \<and> ss_service_instance_id s \<noteq> 0"
  by (simp add: service_scope_validate_def try_bind_Ok)

lemma permissions_validate_Ok [simp]:
  "permissions_validate p = Ok () \<longleftrightarrow> bp_read p \<or> bp_write p"
  by (simp add: permissions_validate_def)

lemma validate_endpoint_Ok [simp]:
  "validate_endpoint up v = Ok () \<longleftrightarrow> (\<exists>u. up v = Some u \<and> http_origin u)"
  by (auto simp: validate_endpoint_def try_bind_Ok)

lemma if_some_Ok [simp]: "if_some x f = Ok () \<longleftrightarrow> (\<forall>v. x = Some v \<longrightarrow> f v = Ok ())"
  by (auto simp: if_some_def split: option.splits)

text \<open>Bytes of names in lower-case letters, digits and punctuation are ASCII and printable.\<close>

definition lower_or_digit :: "char \<Rightarrow> bool" where
  "lower_or_digit c \<longleftrightarrow> is_ascii_lowercase c \<or> is_ascii_digit c"

lemma hyphen_dot_bytes [simp]: "byte_of CHR ''-'' = 45" "byte_of CHR ''.'' = 46"
  by (simp_all add: byte_of_def)

lemma bucket_name_char_range: "bucket_name_char c \<Longrightarrow> 45 \<le> byte_of c \<and> byte_of c \<le> 122"
  by (auto simp: bucket_name_char_def str_defs)

lemma alphanumeric_bucket_char:
  "bucket_name_char c \<Longrightarrow> is_ascii_alphanumeric c \<longleftrightarrow> lower_or_digit c"
  by (auto simp: bucket_name_char_def lower_or_digit_def str_defs)

lemma printable_no_control:
  assumes "\<forall>c \<in> set s. 32 \<le> byte_of c \<and> byte_of c < 127"
  shows "\<forall>c \<in> set (str_chars s). \<not> char_is_control c"
proof -
  from assms have "str_chars s = map byte_of s" by (intro str_chars_ascii) auto
  with assms show ?thesis by (auto simp: char_is_control_def)
qed

lemma validate_bucket_name_Ok:
  "validate_bucket_name n = Ok () \<longleftrightarrow>
     3 \<le> length n \<and> length n \<le> 63 \<and> (\<forall>c \<in> set n. bucket_name_char c)
     \<and> lower_or_digit (hd n) \<and> lower_or_digit (last n)
     \<and> \<not> str_contains ''..'' n \<and> parse_ipv4 n = None
     \<and> (\<forall>p \<in> set RESERVED_BUCKET_PREFIXES. \<not> starts_with p n)
     \<and> (\<forall>p \<in> set RESERVED_BUCKET_SUFFIXES. \<not> ends_with p n)"
proof (cases "n \<noteq> [] \<and> (\<forall>c \<in> set n. bucket_name_char c)")
  case True
  then have "bucket_name_char (hd n)" "bucket_name_char (last n)" by simp_all
  with True show ?thesis
    by (cases "parse_ipv4 n") (auto simp: validate_bucket_name_def Let_def length_consts
        list_all_iff list_ex_iff alphanumeric_bucket_char)
qed (auto simp: validate_bucket_name_def Let_def length_consts list_all_iff)

lemma split_on_nonempty [simp]: "split_on d s \<noteq> []"
  by (induction s) (auto split: list.splits)

lemma hd_split_on_Nil: "hd (split_on d s) = [] \<longleftrightarrow> s = [] \<or> hd s = d"
  by (induction s) (auto split: list.splits)

lemma tl_split_on_Nil:
  "[] \<in> set (tl (split_on d s)) \<longleftrightarrow> (s \<noteq> [] \<and> last s = d) \<or> str_contains [d, d] s"
proof (induction s)
  case (Cons c s)
  obtain w ws where w: "split_on d s = w # ws" by (meson list.exhaust split_on_nonempty)
  have st: "starts_with [d, d] (c # s) \<longleftrightarrow> c = d \<and> s \<noteq> [] \<and> hd s = d"
    by (cases s) (auto simp: starts_with_def)
  have "w = [] \<longleftrightarrow> s = [] \<or> hd s = d" using hd_split_on_Nil [of d s] w by simp
  with Cons.IH w st show ?case by auto
qed simp

lemma split_on_empty_label:
  "[] \<in> set (split_on d s) \<longleftrightarrow> s = [] \<or> hd s = d \<or> last s = d \<or> str_contains [d, d] s"
proof -
  have "[] \<in> set (split_on d s) \<longleftrightarrow>
      hd (split_on d s) = [] \<or> [] \<in> set (tl (split_on d s))"
    using split_on_nonempty [of d s] by (cases "split_on d s") auto
  then show ?thesis by (auto simp: hd_split_on_Nil tl_split_on_Nil)
qed

lemma set_split_on: "w \<in> set (split_on d s) \<Longrightarrow> c \<in> set w \<Longrightarrow> c \<in> set s \<and> c \<noteq> d"
proof (induction s arbitrary: w)
  case (Cons x s)
  obtain v vs where v: "split_on d s = v # vs" by (meson list.exhaust split_on_nonempty)
  have IH: "c \<in> set s \<and> c \<noteq> d" if "u \<in> set (v # vs)" "c \<in> set u" for u
    using Cons.IH that v by metis
  show ?case
  proof (cases "x = d")
    case True
    with Cons.prems v have "w \<in> set (v # vs)" by auto
    with IH Cons.prems(2) show ?thesis by simp
  next
    case False
    with Cons.prems(1) v have "w = x # v \<or> w \<in> set vs" by simp
    with IH [of v] IH [of w] Cons.prems(2) False show ?thesis by auto
  qed
qed simp

lemma split_on_append: "d \<notin> set w \<Longrightarrow> split_on d (w @ d # s) = w # split_on d s"
  by (induction w) auto

lemma split_on_single: "d \<notin> set w \<Longrightarrow> split_on d w = [w]"
  by (induction w) auto

text \<open>The decimal rendering of an octet, and of an IPv4 address.\<close>

definition show_digit :: "nat \<Rightarrow> char" where "show_digit n = char_of (48 + n)"

definition show_octet :: "nat \<Rightarrow> string" where
  "show_octet n =
     (if n < 10 then [show_digit n]
      else if n < 100 then [show_digit (n div 10), show_digit (n mod 10)]
      else [show_digit (n div 100), show_digit (n div 10 mod 10), show_digit (n mod 10)])"

definition show_ipv4 :: "nat \<Rightarrow> nat \<Rightarrow> nat \<Rightarrow> nat \<Rightarrow> string" where
  "show_ipv4 a b c d = show_octet a @ ''.'' @ show_octet b @ ''.'' @ show_octet c @ ''.'' @ show_octet d"

lemma byte_of_show_digit [simp]: "n < 10 \<Longrightarrow> byte_of (show_digit n) = 48 + n"
  by (simp add: byte_of_def show_digit_def)

lemma show_digit_is_digit [simp]: "n < 10 \<Longrightarrow> is_ascii_digit (show_digit n)"
  by (simp add: is_ascii_digit_def)

lemma show_digit_not_zero: "n < 10 \<Longrightarrow> n \<noteq> 0 \<Longrightarrow> show_digit n \<noteq> CHR ''0''"
  using byte_of_show_digit [of n] by (auto simp: byte_of_def simp del: byte_of_show_digit)

lemma show_octet_digits: "n < 1000 \<Longrightarrow> c \<in> set (show_octet n) \<Longrightarrow> is_ascii_digit c"
  by (auto simp: show_octet_def split: if_splits)

lemma show_octet_length: "1 \<le> length (show_octet n) \<and> length (show_octet n) \<le> 3"
  by (simp add: show_octet_def)

lemma parse_octet_digits:
  "a < 10 \<Longrightarrow> parse_octet [show_digit a] = Some a"
  "a < 10 \<Longrightarrow> b < 10 \<Longrightarrow> a \<noteq> 0 \<Longrightarrow> parse_octet [show_digit a, show_digit b] = Some (10 * a + b)"
  "a < 10 \<Longrightarrow> b < 10 \<Longrightarrow> c < 10 \<Longrightarrow> a \<noteq> 0 \<Longrightarrow> 100 * a + 10 * b + c \<le> 255 \<Longrightarrow>
     parse_octet [show_digit a, show_digit b, show_digit c] = Some (100 * a + 10 * b + c)"
  by (simp_all add: parse_octet_def show_digit_not_zero Let_def)

lemma three_digits: "100 * (n div 100) + 10 * (n div 10 mod 10) + n mod 10 = (n :: nat)"
proof -
  have "n div 100 = n div 10 div 10" by (simp add: div_mult2_eq [symmetric])
  moreover have "10 * (n div 10 div 10) + n div 10 mod 10 = n div 10"
    using mult_div_mod_eq [of 10 "n div 10"] by simp
  moreover have "10 * (n div 10) + n mod 10 = n" using mult_div_mod_eq [of 10 n] by simp
  ultimately show ?thesis by linarith
qed

lemma parse_show_octet: "n \<le> 255 \<Longrightarrow> parse_octet (show_octet n) = Some n"
proof -
  assume n: "n \<le> 255"
  consider "n < 10" | "10 \<le> n" "n < 100" | "100 \<le> n" by linarith
  then show ?thesis
  proof cases
    case 1
    then show ?thesis by (simp add: show_octet_def parse_octet_digits)
  next
    case 2
    then have "n div 10 < 10" "n div 10 \<noteq> 0" by auto
    with 2 show ?thesis by (simp add: show_octet_def parse_octet_digits)
  next
    case 3
    then have "n div 100 < 10" "n div 100 \<noteq> 0" using n by auto
    with parse_octet_digits(3) [of "n div 100" "n div 10 mod 10" "n mod 10"] n 3 three_digits [of n]
    show ?thesis by (simp add: show_octet_def)
  qed
qed

lemma dot_not_octet: "n \<le> 255 \<Longrightarrow> CHR ''.'' \<notin> set (show_octet n)"
  using show_octet_digits [of n "CHR ''.''"] by (auto simp: is_ascii_digit_def)

lemma parse_show_ipv4:
  assumes "a \<le> 255" "b \<le> 255" "c \<le> 255" "d \<le> 255"
  shows "parse_ipv4 (show_ipv4 a b c d) = Some (a, b, c, d)"
proof -
  have "length (show_ipv4 a b c d) \<le> 15"
    using show_octet_length [of a] show_octet_length [of b] show_octet_length [of c]
      show_octet_length [of d] by (simp add: show_ipv4_def)
  moreover have "split_on CHR ''.'' (show_ipv4 a b c d) =
      [show_octet a, show_octet b, show_octet c, show_octet d]"
    using assms by (simp add: show_ipv4_def split_on_append split_on_single dot_not_octet)
  ultimately show ?thesis using assms by (simp add: parse_ipv4_def parse_show_octet)
qed

section \<open>Properties\<close>

text \<open>
  C26: an accepted bucket name is a sequence of dot-separated non-empty labels over lower-case
  letters, digits and hyphens, 3 to 63 bytes long, that starts and ends with a letter or digit.
\<close>
theorem bucket_name_labels:
  assumes "validate_bucket_name n = Ok ()"
  shows "(\<forall>w \<in> set (split_on CHR ''.'' n).
            w \<noteq> [] \<and> (\<forall>c \<in> set w. lower_or_digit c \<or> c = CHR ''-''))
         \<and> 3 \<le> length n \<and> length n \<le> 63 \<and> lower_or_digit (hd n) \<and> lower_or_digit (last n)"
proof -
  from assms have v: "\<forall>c \<in> set n. bucket_name_char c" "lower_or_digit (hd n)" "lower_or_digit (last n)"
    "\<not> str_contains ''..'' n" "3 \<le> length n" "length n \<le> 63"
    by (auto simp: validate_bucket_name_Ok)
  have "\<not> lower_or_digit CHR ''.''" by (simp add: lower_or_digit_def str_defs)
  with v have "[] \<notin> set (split_on CHR ''.'' n)" by (auto simp: split_on_empty_label)
  moreover have "lower_or_digit c \<or> c = CHR ''-''"
    if "w \<in> set (split_on CHR ''.'' n)" "c \<in> set w" for w c
    using set_split_on [OF that] v(1) by (auto simp: bucket_name_char_def lower_or_digit_def)
  ultimately show ?thesis using v by blast
qed

theorem bucket_name_labels_witness:
  "''b1'' \<in> set (split_on CHR ''.'' ''assets.b1'') \<and> ''b1'' \<noteq> [] \<and> length ''assets.b1'' \<le> 63"
proof -
  have "validate_bucket_name ''assets.b1'' = Ok ()" by code_simp
  from bucket_name_labels [OF this] show ?thesis by simp
qed

text \<open>
  No IPv4 address in dotted-decimal form is accepted as a bucket name, whatever its octets.
\<close>

lemma bucket_name_not_ipv4:
  assumes "a \<le> 255" and "b \<le> 255" and "c \<le> 255" and "d \<le> 255"
  shows "\<not> is_ok (validate_bucket_name (show_ipv4 a b c d))"
  using parse_show_ipv4 [OF assms] by (simp add: validate_bucket_name_Ok)

lemma bucket_name_not_ipv4_example:
  "\<not> is_ok (validate_bucket_name ''192.168.1.1'')"
proof -
  have "show_ipv4 192 168 1 1 = ''192.168.1.1''" by code_simp
  with bucket_name_not_ipv4 [of 192 168 1 1] show ?thesis by simp
qed

lemma spec_validate_Ok:
  "spec_validate s = Ok () \<longleftrightarrow>
     validate_region (sp_region s) = Ok () \<and> validate_bucket_name (sp_bucket_name s) = Ok ()
     \<and> 1 \<le> uint (sp_quota_bytes s) \<and> uint (sp_quota_bytes s) \<le> i64_max
     \<and> 1 \<le> uint (sp_quota_objects s) \<and> uint (sp_quota_objects s) \<le> i64_max"
  by (auto simp: spec_validate_def bucket_quota_validate_def spec_quota_def try_bind_Ok ensure_quota_Ok)

text \<open>
  The quotas of an accepted specification are positive and convert to the signed 64-bit
  columns of the database without loss in either direction.
\<close>
lemma spec_quota_fits_i64:
  assumes "spec_validate s = Ok ()" and "q \<in> {sp_quota_bytes s, sp_quota_objects s}"
  shows "\<exists>i. i64_try_from_u64 q = Some i \<and> 0 < i \<and> u64_try_from_i64 i = Some q"
proof -
  from assms have "1 \<le> uint q" "uint q \<le> i64_max" by (auto simp: spec_validate_Ok)
  then have "i64_try_from_u64 q = Some (uint q)" "0 < uint q" by (simp_all add: i64_try_from_u64_def)
  then show ?thesis using u64_i64_roundtrip by blast
qed

definition example_spec :: syouyu_spec where
  "example_spec = \<lparr>sp_region = ''heteronet-global'', sp_bucket_name = ''project-assets-019f'',
     sp_quota_bytes = 10737418240, sp_quota_objects = 1000000\<rparr>"

lemma example_spec_valid [simp]: "spec_validate example_spec = Ok ()"
  by code_simp

lemma spec_quota_fits_i64_example:
  "\<exists>i. i64_try_from_u64 (sp_quota_bytes example_spec) = Some i \<and> 0 < i
       \<and> u64_try_from_i64 i = Some 10737418240"
  using spec_quota_fits_i64 [OF example_spec_valid, of "sp_quota_bytes example_spec"]
  by (simp add: example_spec_def)

text \<open>
  \<open>Display\<close> and \<open>FromStr\<close> of the bucket phase are inverse: a string parses to a phase
  exactly when it is that phase's rendering, so every rendering parses and nothing else does.
\<close>
lemma phase_roundtrip: "phase_from_str s = Ok p \<longleftrightarrow> s = phase_to_string p"
  by (cases p) (auto simp: phase_from_str_def)

text \<open>
  A validated status is consistent with its phase: ready and degraded buckets carry a
  non-empty backend identifier of at most 256 bytes and an HTTP(S) endpoint without credentials,
  query or fragment; deleted buckets carry neither.
\<close>
lemma status_validate_consistent:
  assumes "status_validate url_parse s = Ok ()"
  shows "(st_phase s \<in> {Ready, Degraded} \<longrightarrow>
            (\<exists>b e u. st_backend_bucket_id s = Some b \<and> b \<noteq> [] \<and> length b \<le> 256
               \<and> st_endpoint s = Some e \<and> url_parse e = Some u \<and> http_origin u))
         \<and> (st_phase s = Deleted \<longrightarrow> st_backend_bucket_id s = None \<and> st_endpoint s = None)"
  using assms
  by (auto simp: status_validate_def try_bind_Ok length_consts split: if_splits)

definition example_url :: url where
  "example_url = \<lparr>url_scheme = ''https'', url_host_str = Some ''s3.example'', url_username = [],
     url_password = None, url_path = ''/'', url_query = None, url_fragment = None\<rparr>"

definition example_status :: bucket_status where
  "example_status = \<lparr>st_observed_generation = 2, st_phase = Ready,
     st_backend_bucket_id = Some ''garage-bucket-id'', st_endpoint = Some ''https://s3.example/'',
     st_usage = usage_default, st_message = None, st_updated_at = 0\<rparr>"

lemma status_validate_consistent_example:
  "\<exists>b. st_backend_bucket_id example_status = Some b \<and> b \<noteq> [] \<and> length b \<le> 256"
proof -
  have "status_validate (\<lambda>_. Some example_url) example_status = Ok ()" by code_simp
  from status_validate_consistent [OF this] show ?thesis by (auto simp: example_status_def)
qed

end
