(* ===== verification/Store_Models.thy ===== *)
theory Store_Models
  imports Domain
begin

text \<open>
  The data of \<open>syouyu-store\<close>: the commands, contexts, records and responses of
  \<open>src/crates/syouyu-store/src/models.rs\<close> with their validation, and the error type of
  \<open>src/crates/syouyu-store/src/lib.rs\<close>. SHA-256 and the JSON encoder are parameters.
\<close>

section \<open>Errors\<close>

text \<open>What the store distinguishes of a \<open>sqlx::Error\<close>: whether it is a unique violation.\<close>

datatype sqlx_error = UniqueViolation | OtherDatabaseError | ConnectionLost

datatype store_error =
    Database sqlx_error
  | Migration
  | Configuration string
  | Validation string
  | DomainValidation validation_error
  | NotFound
  | Conflict string
  | IdempotencyConflict
  | BucketNameUnavailable
  | StaleGeneration i64 i64  \<comment> \<open>current, requested\<close>
  | OperationInProgress uuid
  | OperationLeaseLost uuid
  | ServiceNotReady
  | CredentialLimitExceeded string u32
  | InvalidNumericValue string
  | CorruptData string
  | Encryption string

section \<open>Commands\<close>

record credential_limits =
  cl_max_credentials_per_bucket :: u32
  cl_max_total_credentials :: u32

definition limits_validate :: "credential_limits \<Rightarrow> store_error + credential_limits" where
  "limits_validate l =
     (if cl_max_credentials_per_bucket l = 0 \<or> cl_max_total_credentials l = 0
      then Err (Configuration ''credential limits must both be positive'')
      else Ok l)"

definition limits_default :: credential_limits where
  "limits_default = \<lparr>cl_max_credentials_per_bucket = 10000, cl_max_total_credentials = 1000000\<rparr>"

record operation_request =
  op_idempotency_key :: uuid
  op_organization_id :: uuid
  op_project_id :: uuid
  op_service_instance_id :: uuid
  op_principal_id :: uuid
  op_action :: string
  op_generation :: "i64 option"
  op_request_hash :: bytes

definition operation_validate :: "operation_request \<Rightarrow> store_error + unit" where
  "operation_validate op =
     (if op_action op = [] \<or> length (op_action op) > 128
      then Err (Validation ''operation action must contain between 1 and 128 bytes'')
      else if (case op_generation op of None \<Rightarrow> False | Some g \<Rightarrow> g \<le> 0)
      then Err (Validation ''operation generation must be positive'')
      else Ok ())"

record reconcile_command =
  rc_operation :: operation_request
  rc_name :: string
  rc_generation :: i64
  rc_spec :: syouyu_spec

definition reconcile_validate :: "reconcile_command \<Rightarrow> store_error + unit" where
  "reconcile_validate c =
     try_bind (operation_validate (rc_operation c)) (\<lambda>_.
     if op_generation (rc_operation c) \<noteq> Some (rc_generation c)
     then Err (Validation ''operation and reconcile generations do not match'')
     else if rc_name c = [] \<or> length (rc_name c) > 120
     then Err (Validation ''service name must contain between 1 and 120 bytes'')
     else map_err DomainValidation (spec_validate (rc_spec c)))"

record delete_command =
  dc_operation :: operation_request
  dc_generation :: i64

definition delete_validate :: "delete_command \<Rightarrow> store_error + unit" where
  "delete_validate c =
     try_bind (operation_validate (dc_operation c)) (\<lambda>_.
     if op_generation (dc_operation c) \<noteq> Some (dc_generation c)
     then Err (Validation ''operation and delete generations do not match'')
     else Ok ())"

record create_credential_command =
  cc_operation :: operation_request
  cc_name :: string
  cc_permissions :: bucket_permissions
  cc_credential_limits :: credential_limits

definition create_credential_validate :: "create_credential_command \<Rightarrow> store_error + unit" where
  "create_credential_validate c =
     try_bind (operation_validate (cc_operation c)) (\<lambda>_.
     try_bind (limits_validate (cc_credential_limits c)) (\<lambda>_.
     map_err DomainValidation
       (credential_spec_validate \<lparr>cs_name = cc_name c, cs_permissions = cc_permissions c\<rparr>)))"

record revoke_credential_command =
  vc_operation :: operation_request
  vc_credential_id :: uuid

section \<open>Actions\<close>

text \<open>
  The action names of the four operations, as the handlers put them into their requests
  (\<open>src/crates/syouyu-auth/src/lib.rs\<close> and \<open>src/crates/syouyu-api/src/routes.rs\<close>).
\<close>

definition PROVIDER_RECONCILE_ACTION :: string where
  "PROVIDER_RECONCILE_ACTION = ''service-instance.reconcile''"
definition PROVIDER_DELETE_ACTION :: string where
  "PROVIDER_DELETE_ACTION = ''service-instance.delete''"
definition CREDENTIAL_CREATE_ACTION :: string where
  "CREDENTIAL_CREATE_ACTION = ''credential.create''"
definition CREDENTIAL_REVOKE_ACTION :: string where
  "CREDENTIAL_REVOKE_ACTION = ''credential.revoke''"

lemmas action_defs = PROVIDER_RECONCILE_ACTION_def PROVIDER_DELETE_ACTION_def
  CREDENTIAL_CREATE_ACTION_def CREDENTIAL_REVOKE_ACTION_def

section \<open>Responses, records and contexts\<close>

record stored_http_response =
  sh_status :: u16
  sh_body :: json
  sh_failed :: bool

datatype 'c prepare =
    Execute uuid 'c
  | Replay stored_http_response
  | InProgress uuid

record bucket_record =
  br_service_instance_id :: uuid
  br_organization_id :: uuid
  br_project_id :: uuid
  br_physical_bucket_id :: "string option"
  br_bucket_name :: string
  br_region :: string
  br_quota_bytes :: u64
  br_quota_objects :: u64
  br_used_bytes :: u64
  br_used_objects :: u64
  br_usage_measured_at :: "timestamp option"

record service_record =
  sr_id :: uuid
  sr_organization_id :: uuid
  sr_project_id :: uuid
  sr_name :: string
  sr_desired_generation :: i64
  sr_observed_generation :: i64
  sr_phase :: string
  sr_operation_id :: uuid
  sr_spec :: syouyu_spec
  sr_bucket :: bucket_record

record reconcile_context =
  rx_bucket :: bucket_record
  rx_previously_applied :: bool

record delete_context =
  dx_bucket :: bucket_record
  dx_garage_key_ids :: "string list"

record create_credential_context =
  cx_bucket :: bucket_record
  cx_credential_id :: uuid

record revoke_credential_context =
  vx_garage_key_id :: string
  vx_already_revoked :: bool

record credential_record =
  ce_id :: uuid
  ce_service_instance_id :: uuid
  ce_name :: string
  ce_access_key_id :: string
  ce_permissions :: bucket_permissions
  ce_status :: string
  ce_created_at :: timestamp
  ce_revoked_at :: "timestamp option"

record usage_record =
  ur_service_instance_id :: uuid
  ur_bytes_used :: u64
  ur_objects_used :: u64
  ur_quota_bytes :: u64
  ur_quota_objects :: u64
  ur_measured_at :: timestamp

record new_credential =
  nc_id :: uuid
  nc_garage_key_id :: string
  nc_access_key_id :: string
  nc_secret_key_fingerprint :: bytes
  nc_name :: string
  nc_permissions :: bucket_permissions

record audit_event =
  au_organization_id :: uuid
  au_project_id :: uuid
  au_service_instance_id :: uuid
  au_principal_id :: uuid
  au_principal_context_id :: "uuid option"
  au_request_id :: string
  au_action :: string
  au_resource_type :: string
  au_resource_id :: "string option"
  au_outcome :: string
  au_details :: json

text \<open>
  \<open>request_hash\<close>: the digest covers a version tag, the action, a zero byte and the encoded
  request. \<open>sha256\<close> and \<open>to_vec\<close> (the JSON encoder at the request's type) are parameters.
\<close>

definition request_hash ::
  "(bytes \<Rightarrow> bytes) \<Rightarrow> ('r \<Rightarrow> bytes option) \<Rightarrow> string \<Rightarrow> 'r \<Rightarrow> store_error + bytes" where
  "request_hash sha256 to_vec action request =
     try_bind (ok_or (to_vec request) (CorruptData ''operation request serialization'')) (\<lambda>encoded.
     Ok (sha256 (as_bytes ''syouyu-operation-v1'' @ [0] @ as_bytes action @ [0] @ encoded)))"

section \<open>Validation facts\<close>

lemma operation_validate_Ok [simp]:
  "operation_validate op = Ok () \<longleftrightarrow>
     op_action op \<noteq> [] \<and> length (op_action op) \<le> 128
     \<and> (\<forall>g. op_generation op = Some g \<longrightarrow> 0 < g)"
  by (auto simp: operation_validate_def split: option.splits)

lemma limits_validate_Ok [simp]:
  "limits_validate l = Ok l' \<longleftrightarrow>
     l' = l \<and> cl_max_credentials_per_bucket l \<noteq> 0 \<and> cl_max_total_credentials l \<noteq> 0"
  by (auto simp: limits_validate_def)

lemma reconcile_validate_Ok [simp]:
  "reconcile_validate c = Ok () \<longleftrightarrow>
     operation_validate (rc_operation c) = Ok ()
     \<and> op_generation (rc_operation c) = Some (rc_generation c)
     \<and> rc_name c \<noteq> [] \<and> length (rc_name c) \<le> 120
     \<and> spec_validate (rc_spec c) = Ok ()"
  by (auto simp: reconcile_validate_def try_bind_Ok simp del: operation_validate_Ok)

lemma delete_validate_Ok [simp]:
  "delete_validate c = Ok () \<longleftrightarrow>
     operation_validate (dc_operation c) = Ok () \<and> op_generation (dc_operation c) = Some (dc_generation c)"
  by (auto simp: delete_validate_def try_bind_Ok simp del: operation_validate_Ok)

lemma create_credential_validate_Ok [simp]:
  "create_credential_validate c = Ok () \<longleftrightarrow>
     operation_validate (cc_operation c) = Ok ()
     \<and> limits_validate (cc_credential_limits c) = Ok (cc_credential_limits c)
     \<and> credential_spec_validate \<lparr>cs_name = cc_name c, cs_permissions = cc_permissions c\<rparr> = Ok ()"
  by (auto simp: create_credential_validate_def try_bind_Ok simp del: operation_validate_Ok limits_validate_Ok)
     (auto)

lemma append_sep_inject:
  "z \<notin> set xs \<Longrightarrow> z \<notin> set xs' \<Longrightarrow> xs @ z # ys = xs' @ z # ys' \<Longrightarrow> xs = xs' \<and> ys = ys'"
proof (induction xs arbitrary: xs')
  case Nil
  then show ?case by (cases xs') auto
next
  case (Cons x xs)
  then show ?case by (cases xs') auto
qed

section \<open>Properties\<close>

text \<open>
  The request digest binds the action and the request body: if two requests whose actions
  contain no zero byte have the same digest, then their actions and their encoded bodies are the
  same, or two different messages with the same SHA-256 digest are known.
\<close>
lemma request_hash_binds:
  assumes "request_hash sha256 to_vec a r = Ok h" and "request_hash sha256 to_vec' a' r' = Ok h"
    and "0 \<notin> set (as_bytes a)" and "0 \<notin> set (as_bytes a')"
  shows "(a = a' \<and> to_vec r = to_vec' r') \<or> (\<exists>m m'. m \<noteq> m' \<and> sha256 m = sha256 m')"
proof -
  let ?m = "\<lambda>a e. as_bytes ''syouyu-operation-v1'' @ [0] @ as_bytes a @ [0] @ e"
  from assms(1,2) obtain e e' where e: "to_vec r = Some e" "to_vec' r' = Some e'"
    and h: "sha256 (?m a e) = sha256 (?m a' e')"
    by (auto simp: request_hash_def try_bind_Ok)
  show ?thesis
  proof (cases "?m a e = ?m a' e'")
    case True
    then have "as_bytes a @ 0 # e = as_bytes a' @ 0 # e'" by simp
    then have "as_bytes a = as_bytes a' \<and> e = e'"
      using assms(3,4) by (rule append_sep_inject [rotated 2])
    with e show ?thesis by simp
  next
    case False
    with h show ?thesis by (intro disjI2 exI conjI)
  qed
qed

lemma request_hash_binds_example:
  "request_hash (\<lambda>m. m) Some ''credential.create'' [1] \<noteq> request_hash (\<lambda>m. m) Some ''credential.revoke'' [1]"
proof
  assume eq: "request_hash (\<lambda>m. m) Some ''credential.create'' [1] =
              request_hash (\<lambda>m. m) Some ''credential.revoke'' [1]"
  obtain h where h: "request_hash (\<lambda>m. m) Some ''credential.create'' [1] = Ok h"
    by (simp add: request_hash_def)
  have "(''credential.create'' = ''credential.revoke'' \<and> Some [1 :: 8 word] = Some [1])
        \<or> (\<exists>m m' :: bytes. m \<noteq> m' \<and> m = m')"
    by (rule request_hash_binds [OF h]) (use h eq in \<open>simp_all add: as_bytes_def byte_of_def\<close>)
  then show False by simp
qed

end
