(* ===== verification/Receipt_Cipher.thy ===== *)
theory Receipt_Cipher
  imports Store_Models
begin

text \<open>
  The receipt cipher (\<open>src/crates/syouyu-store/src/cipher.rs\<close>). AES-256-GCM is a parameter: an
  encryption and a decryption function of key, nonce, associated data and message. What the store
  relies on is stated by \<open>aead_correct\<close> (decryption inverts encryption) and \<open>aead_binds\<close>
  (a ciphertext does not open under other associated data). The random nonce is an argument,
  \<open>None\<close> where the system's generator fails.
\<close>

type_synonym aead = "bytes \<Rightarrow> bytes \<Rightarrow> bytes \<Rightarrow> bytes \<Rightarrow> bytes option"

definition aead_correct :: "aead \<Rightarrow> aead \<Rightarrow> bool" where
  "aead_correct enc dec \<longleftrightarrow>
     (\<forall>key nonce aad msg c. enc key nonce aad msg = Some c \<longrightarrow> dec key nonce aad c = Some msg)"

definition aead_binds :: "aead \<Rightarrow> aead \<Rightarrow> bool" where
  "aead_binds enc dec \<longleftrightarrow>
     (\<forall>key nonce aad aad' msg c. enc key nonce aad msg = Some c \<and> aad' \<noteq> aad
        \<longrightarrow> dec key nonce aad' c = None)"

definition NONCE_BYTES :: nat where "NONCE_BYTES = 12"

record receipt_cipher =
  cipher_key :: bytes

text \<open>
  \<open>Aes256Gcm::new_from_slice\<close> refuses only keys of another length, so its error branch is not reached
  after the check.
\<close>

definition cipher_new :: "bytes \<Rightarrow> store_error + receipt_cipher" where
  "cipher_new key =
     (if length key \<noteq> 32
      then Err (Configuration ''receipt encryption key must be exactly 32 bytes'')
      else Ok \<lparr>cipher_key = key\<rparr>)"

text \<open>\<open>Uuid::as_bytes\<close>: the sixteen bytes of the 128-bit value, most significant first.\<close>

definition uuid_bytes :: "uuid \<Rightarrow> bytes" where
  "uuid_bytes u = map (\<lambda>i. ucast (drop_bit (8 * (15 - i)) u)) [0..<16]"

definition receipt_aad :: "uuid \<Rightarrow> uuid \<Rightarrow> bytes" where
  "receipt_aad idempotency_key operation_id =
     uuid_bytes idempotency_key @ uuid_bytes operation_id @ as_bytes ''syouyu-receipt-1''"

definition cipher_encrypt ::
  "aead \<Rightarrow> receipt_cipher \<Rightarrow> bytes option \<Rightarrow> uuid \<Rightarrow> uuid \<Rightarrow> bytes \<Rightarrow> store_error + bytes \<times> bytes" where
  "cipher_encrypt enc self random_nonce idempotency_key operation_id plaintext =
     try_bind (ok_or random_nonce (Encryption ''cannot generate receipt nonce'')) (\<lambda>nonce.
     try_bind (ok_or (enc (cipher_key self) nonce (receipt_aad idempotency_key operation_id) plaintext)
        (Encryption ''cannot encrypt operation receipt'')) (\<lambda>ciphertext.
     Ok (nonce, ciphertext)))"

definition cipher_decrypt ::
  "aead \<Rightarrow> receipt_cipher \<Rightarrow> uuid \<Rightarrow> uuid \<Rightarrow> bytes \<Rightarrow> bytes \<Rightarrow> store_error + bytes" where
  "cipher_decrypt dec self idempotency_key operation_id nonce ciphertext =
     (if length nonce \<noteq> NONCE_BYTES then Err (CorruptData ''operation receipt nonce'')
      else ok_or (dec (cipher_key self) nonce (receipt_aad idempotency_key operation_id) ciphertext)
             (Encryption ''cannot decrypt operation receipt''))"

section \<open>The associated data identifies the operation\<close>

lemma length_uuid_bytes [simp]: "length (uuid_bytes u) = 16"
  by (simp add: uuid_bytes_def)

lemma length_receipt_aad: "length (receipt_aad k o') = 48"
  by (simp add: receipt_aad_def as_bytes_def)

lemma bit_uuid_bytes:
  assumes "n < 128"
  shows "bit u n \<longleftrightarrow> bit (uuid_bytes u ! (15 - n div 8)) (n mod 8)"
proof -
  from assms have i: "15 - n div 8 < 16" "15 - (15 - n div 8) = n div 8" by auto
  have "bit (uuid_bytes u ! (15 - n div 8)) (n mod 8) \<longleftrightarrow> bit u (8 * (n div 8) + n mod 8)"
    using i by (simp add: uuid_bytes_def bit_ucast_iff bit_drop_bit_eq)
  then show ?thesis by simp
qed

lemma uuid_bytes_inject [simp]: "uuid_bytes u = uuid_bytes v \<longleftrightarrow> u = v"
proof
  assume eq: "uuid_bytes u = uuid_bytes v"
  show "u = v"
  proof (rule bit_word_eqI)
    fix n assume "n < LENGTH(128)"
    then show "bit u n = bit v n" using bit_uuid_bytes [of n] eq by simp
  qed
qed simp

lemma receipt_aad_inject [simp]:
  "receipt_aad k o1 = receipt_aad k' o2 \<longleftrightarrow> k = k' \<and> o1 = o2"
  by (simp add: receipt_aad_def)

lemma cipher_encrypt_Ok:
  "cipher_encrypt enc c rn k o1 p = Ok (n, ct) \<longleftrightarrow>
     rn = Some n \<and> enc (cipher_key c) n (receipt_aad k o1) p = Some ct"
  by (auto simp: cipher_encrypt_def try_bind_Ok)

section \<open>Properties\<close>

text \<open>
  C25: a receipt encrypted with a 12-byte nonce decrypts to its plaintext under the same
  idempotency key and operation, and under any other key or operation it does not decrypt.
\<close>
theorem receipt_encryption_roundtrip_bound:
  assumes "aead_correct enc dec" and "aead_binds enc dec"
    and "cipher_encrypt enc c random_nonce k o1 p = Ok (n, ct)" and "length n = NONCE_BYTES"
  shows "cipher_decrypt dec c k' o2 n ct =
     (if k' = k \<and> o2 = o1 then Ok p else Err (Encryption ''cannot decrypt operation receipt''))"
proof -
  from assms(3) have e: "enc (cipher_key c) n (receipt_aad k o1) p = Some ct"
    by (simp add: cipher_encrypt_Ok)
  show ?thesis
  proof (cases "k' = k \<and> o2 = o1")
    case True
    with assms(1,4) e show ?thesis by (auto simp: cipher_decrypt_def aead_correct_def)
  next
    case False
    then have "receipt_aad k' o2 \<noteq> receipt_aad k o1" by auto
    with assms(2) e have "dec (cipher_key c) n (receipt_aad k' o2) ct = None"
      unfolding aead_binds_def by blast
    with False assms(4) show ?thesis by (auto simp: cipher_decrypt_def)
  qed
qed

text \<open>A stand-in with the two laws: the 48 bytes of associated data precede the message.\<close>

definition tagging_enc :: aead where
  "tagging_enc key nonce aad msg = (if length aad = 48 then Some (aad @ msg) else None)"

definition tagging_dec :: aead where
  "tagging_dec key nonce aad c =
     (if length aad = 48 \<and> take 48 c = aad then Some (drop 48 c) else None)"

lemma tagging_correct [simp]: "aead_correct tagging_enc tagging_dec"
  by (auto simp: aead_correct_def tagging_enc_def tagging_dec_def)

lemma tagging_binds [simp]: "aead_binds tagging_enc tagging_dec"
  by (auto simp: aead_binds_def tagging_enc_def tagging_dec_def)

theorem receipt_encryption_roundtrip_bound_witness:
  "\<exists>ct. cipher_encrypt tagging_enc \<lparr>cipher_key = replicate 32 7\<rparr> (Some (replicate 12 1)) 5 6 [1, 2]
          = Ok (replicate 12 1, ct)
     \<and> cipher_decrypt tagging_dec \<lparr>cipher_key = replicate 32 7\<rparr> 5 6 (replicate 12 1) ct = Ok [1, 2]
     \<and> cipher_decrypt tagging_dec \<lparr>cipher_key = replicate 32 7\<rparr> 5 8 (replicate 12 1) ct
          = Err (Encryption ''cannot decrypt operation receipt'')"
proof -
  let ?c = "\<lparr>cipher_key = replicate 32 7\<rparr>"
  obtain ct where e: "cipher_encrypt tagging_enc ?c (Some (replicate 12 1)) 5 6 [1, 2]
      = Ok (replicate 12 1, ct)"
    by (simp add: cipher_encrypt_Ok tagging_enc_def length_receipt_aad)
  have n: "length (replicate 12 (1 :: 8 word)) = NONCE_BYTES" by (simp add: NONCE_BYTES_def)
  note d = receipt_encryption_roundtrip_bound [OF tagging_correct tagging_binds e n]
  show ?thesis using e d [of 5 6] d [of 5 8] by auto
qed

end
