(* ===== verification/Pg_Tables.thy ===== *)
theory Pg_Tables
  imports Receipt_Cipher
begin

text \<open>
  The PostgreSQL schema of the store (\<open>src/migrations/0001_initial.sql\<close>,
  \<open>src/migrations/0002_operation_receipt_leases.sql\<close>) with the row types of
  \<open>src/crates/syouyu-store/src/lib.rs\<close>. A table is the list of its rows; the constraints of the
  schema are checked on the table a statement would produce. A violated \<open>CHECK\<close> or
  \<open>FOREIGN KEY\<close> constraint and a violated \<open>UNIQUE\<close> constraint are told apart because the
  store does.
\<close>

section \<open>Rows\<close>

record service_row =
  sv_id :: uuid
  sv_organization_id :: uuid
  sv_project_id :: uuid
  sv_name :: string
  sv_desired_generation :: i64
  sv_desired_spec :: json
  sv_observed_generation :: i64
  sv_phase :: string
  sv_current_operation_id :: uuid
  sv_last_error :: "string option"
  sv_created_at :: timestamp
  sv_updated_at :: timestamp
  sv_deleted_at :: "timestamp option"

record name_reservation_row =
  nr_bucket_name :: string
  nr_service_instance_id :: uuid
  nr_created_at :: timestamp

record bucket_row =
  bk_service_instance_id :: uuid
  bk_organization_id :: uuid
  bk_project_id :: uuid
  bk_physical_bucket_id :: "string option"
  bk_bucket_name :: string
  bk_region :: string
  bk_quota_bytes :: i64
  bk_quota_objects :: i64
  bk_used_bytes :: i64
  bk_used_objects :: i64
  bk_usage_measured_at :: "timestamp option"
  bk_created_at :: timestamp
  bk_updated_at :: timestamp

record credential_row =
  cr_id :: uuid
  cr_service_instance_id :: uuid
  cr_organization_id :: uuid
  cr_project_id :: uuid
  cr_principal_id :: uuid
  cr_name :: string
  cr_garage_key_id :: string
  cr_access_key_id :: string
  cr_permissions :: json
  cr_secret_key_fingerprint :: bytes
  cr_status :: string
  cr_created_at :: timestamp
  cr_revoked_at :: "timestamp option"
  cr_revoked_by :: "uuid option"

record credential_reservation_row =
  cv_credential_id :: uuid
  cv_operation_id :: uuid
  cv_service_instance_id :: uuid
  cv_organization_id :: uuid
  cv_project_id :: uuid
  cv_name :: string
  cv_permissions :: json
  cv_created_at :: timestamp

record receipt_row =
  re_idempotency_key :: uuid
  re_operation_id :: uuid
  re_organization_id :: uuid
  re_project_id :: uuid
  re_service_instance_id :: uuid
  re_principal_id :: uuid
  re_action :: string
  re_generation :: "i64 option"
  re_request_hash :: bytes
  re_state :: string
  re_lease_attempt :: i64
  re_lease_expires_at :: "timestamp option"
  re_response_status :: "int option"
  re_response_nonce :: "bytes option"
  re_response_ciphertext :: "bytes option"
  re_created_at :: timestamp
  re_completed_at :: "timestamp option"
  re_updated_at :: timestamp

record audit_row =
  ar_id :: uuid
  ar_event :: audit_event
  ar_created_at :: timestamp

record usage_row =
  us_service_instance_id :: uuid
  us_organization_id :: uuid
  us_project_id :: uuid
  us_bytes_used :: i64
  us_objects_used :: i64
  us_measured_at :: timestamp
  us_recorded_at :: timestamp

record database =
  services :: "service_row list"
  name_reservations :: "name_reservation_row list"
  buckets :: "bucket_row list"
  credentials :: "credential_row list"
  credential_reservations :: "credential_reservation_row list"
  receipts :: "receipt_row list"
  audit_events :: "audit_row list"
  usage_snapshots :: "usage_row list"

definition empty_database :: database where
  "empty_database = \<lparr>services = [], name_reservations = [], buckets = [], credentials = [],
     credential_reservations = [], receipts = [], audit_events = [], usage_snapshots = []\<rparr>"

section \<open>Constraints\<close>

definition char_length_between :: "nat \<Rightarrow> nat \<Rightarrow> string \<Rightarrow> bool" where
  "char_length_between lo hi s \<longleftrightarrow> lo \<le> length (str_chars s) \<and> length (str_chars s) \<le> hi"

definition service_check :: "service_row \<Rightarrow> bool" where
  "service_check r \<longleftrightarrow>
     char_length_between 1 120 (sv_name r) \<and> 0 < sv_desired_generation r
     \<and> json_is_object (sv_desired_spec r) \<and> 0 \<le> sv_observed_generation r
     \<and> sv_phase r \<in> {''provisioning'', ''ready'', ''degraded'', ''deleting'', ''deleted'', ''error''}
     \<and> (sv_phase r = ''deleted'' \<longleftrightarrow> sv_deleted_at r \<noteq> None)"

definition services_unique :: "service_row list \<Rightarrow> bool" where
  "services_unique rows \<longleftrightarrow>
     unique_on sv_id rows \<and> unique_on (\<lambda>r. (sv_project_id r, sv_name r)) rows"

definition name_reservations_unique :: "name_reservation_row list \<Rightarrow> bool" where
  "name_reservations_unique rows \<longleftrightarrow>
     unique_on nr_bucket_name rows \<and> unique_on nr_service_instance_id rows"

definition bucket_check :: "bucket_row \<Rightarrow> bool" where
  "bucket_check r \<longleftrightarrow>
     (\<forall>p \<in> set_option (bk_physical_bucket_id r). char_length_between 1 256 p)
     \<and> char_length_between 3 63 (bk_bucket_name r) \<and> char_length_between 1 64 (bk_region r)
     \<and> 0 < bk_quota_bytes r \<and> 0 < bk_quota_objects r
     \<and> 0 \<le> bk_used_bytes r \<and> 0 \<le> bk_used_objects r"

definition buckets_unique :: "bucket_row list \<Rightarrow> bool" where
  "buckets_unique rows \<longleftrightarrow>
     unique_on bk_service_instance_id rows \<and> unique_on bk_bucket_name rows
     \<and> unique_on bk_physical_bucket_id (filter (\<lambda>r. bk_physical_bucket_id r \<noteq> None) rows)"

definition credential_check :: "credential_row \<Rightarrow> bool" where
  "credential_check r \<longleftrightarrow>
     char_length_between 1 128 (cr_name r) \<and> char_length_between 1 256 (cr_garage_key_id r)
     \<and> char_length_between 1 256 (cr_access_key_id r) \<and> json_is_object (cr_permissions r)
     \<and> length (cr_secret_key_fingerprint r) = 32
     \<and> ((cr_status r = ''active'' \<and> cr_revoked_at r = None \<and> cr_revoked_by r = None)
        \<or> (cr_status r = ''revoked'' \<and> cr_revoked_at r \<noteq> None \<and> cr_revoked_by r \<noteq> None))"

definition credentials_unique :: "credential_row list \<Rightarrow> bool" where
  "credentials_unique rows \<longleftrightarrow>
     unique_on cr_id rows \<and> unique_on cr_garage_key_id rows \<and> unique_on cr_access_key_id rows
     \<and> unique_on (\<lambda>r. (cr_service_instance_id r, cr_name r)) rows"

definition credential_reservation_check :: "credential_reservation_row \<Rightarrow> bool" where
  "credential_reservation_check r \<longleftrightarrow>
     char_length_between 1 128 (cv_name r) \<and> json_is_object (cv_permissions r)"

definition credential_reservations_unique :: "credential_reservation_row list \<Rightarrow> bool" where
  "credential_reservations_unique rows \<longleftrightarrow>
     unique_on cv_credential_id rows \<and> unique_on cv_operation_id rows
     \<and> unique_on (\<lambda>r. (cv_service_instance_id r, cv_name r)) rows"

definition receipt_check :: "receipt_row \<Rightarrow> bool" where
  "receipt_check r \<longleftrightarrow>
     char_length_between 1 128 (re_action r) \<and> length (re_request_hash r) = 32
     \<and> (\<forall>g \<in> set_option (re_generation r). 0 < g)
     \<and> (\<forall>s \<in> set_option (re_response_status r). 100 \<le> s \<and> s \<le> 599)
     \<and> (\<forall>n \<in> set_option (re_response_nonce r). length n = 12)
     \<and> 0 < re_lease_attempt r \<and> re_lease_attempt r \<le> i64_max
     \<and> ((re_state r = ''in_progress'' \<and> re_response_status r = None \<and> re_response_nonce r = None
          \<and> re_response_ciphertext r = None \<and> re_completed_at r = None
          \<and> re_lease_expires_at r \<noteq> None)
        \<or> (re_state r \<in> {''succeeded'', ''failed''} \<and> re_response_status r \<noteq> None
          \<and> re_response_nonce r \<noteq> None \<and> re_response_ciphertext r \<noteq> None
          \<and> re_completed_at r \<noteq> None \<and> re_lease_expires_at r = None))"

definition receipts_unique :: "receipt_row list \<Rightarrow> bool" where
  "receipts_unique rows \<longleftrightarrow> unique_on re_idempotency_key rows \<and> unique_on re_operation_id rows"

definition audit_check :: "audit_row \<Rightarrow> bool" where
  "audit_check r \<longleftrightarrow>
     char_length_between 1 256 (au_request_id (ar_event r))
     \<and> char_length_between 1 128 (au_action (ar_event r))
     \<and> char_length_between 1 64 (au_resource_type (ar_event r))
     \<and> au_outcome (ar_event r) \<in> {''allowed'', ''denied'', ''failed''}
     \<and> json_is_object (au_details (ar_event r))"

definition usage_check :: "usage_row \<Rightarrow> bool" where
  "usage_check r \<longleftrightarrow> 0 \<le> us_bytes_used r \<and> 0 \<le> us_objects_used r"

definition service_exists :: "database \<Rightarrow> uuid \<Rightarrow> uuid \<Rightarrow> uuid \<Rightarrow> bool" where
  "service_exists db sid org prj \<longleftrightarrow>
     list_ex (\<lambda>r. sv_id r = sid \<and> sv_organization_id r = org \<and> sv_project_id r = prj) (services db)"

text \<open>Storing a table: the statement fails if the new rows break a constraint.\<close>

definition checked :: "bool \<Rightarrow> bool \<Rightarrow> bool \<Rightarrow> 'a \<Rightarrow> database \<Rightarrow> sqlx_error + 'a \<times> database" where
  "checked checks unique foreign a db =
     (if \<not> checks then Err OtherDatabaseError
      else if \<not> unique then Err UniqueViolation
      else if \<not> foreign then Err OtherDatabaseError
      else Ok (a, db))"

definition put_services :: "service_row list \<Rightarrow> 'a \<Rightarrow> database \<Rightarrow> sqlx_error + 'a \<times> database" where
  "put_services rows a db =
     checked (list_all service_check rows) (services_unique rows) True a (db\<lparr>services := rows\<rparr>)"

definition put_name_reservations ::
  "name_reservation_row list \<Rightarrow> 'a \<Rightarrow> database \<Rightarrow> sqlx_error + 'a \<times> database" where
  "put_name_reservations rows a db =
     checked (list_all (\<lambda>r. char_length_between 3 63 (nr_bucket_name r)) rows)
       (name_reservations_unique rows) True a (db\<lparr>name_reservations := rows\<rparr>)"

definition put_buckets :: "bucket_row list \<Rightarrow> 'a \<Rightarrow> database \<Rightarrow> sqlx_error + 'a \<times> database" where
  "put_buckets rows a db =
     checked (list_all bucket_check rows) (buckets_unique rows)
       (list_all (\<lambda>r. service_exists db (bk_service_instance_id r) (bk_organization_id r)
          (bk_project_id r)) rows)
       a (db\<lparr>buckets := rows\<rparr>)"

definition put_credentials :: "credential_row list \<Rightarrow> 'a \<Rightarrow> database \<Rightarrow> sqlx_error + 'a \<times> database" where
  "put_credentials rows a db =
     checked (list_all credential_check rows) (credentials_unique rows)
       (list_all (\<lambda>r. service_exists db (cr_service_instance_id r) (cr_organization_id r)
          (cr_project_id r)) rows)
       a (db\<lparr>credentials := rows\<rparr>)"

definition put_credential_reservations ::
  "credential_reservation_row list \<Rightarrow> 'a \<Rightarrow> database \<Rightarrow> sqlx_error + 'a \<times> database" where
  "put_credential_reservations rows a db =
     checked (list_all credential_reservation_check rows) (credential_reservations_unique rows)
       (list_all (\<lambda>r. service_exists db (cv_service_instance_id r) (cv_organization_id r)
          (cv_project_id r)) rows)
       a (db\<lparr>credential_reservations := rows\<rparr>)"

definition put_receipts :: "receipt_row list \<Rightarrow> 'a \<Rightarrow> database \<Rightarrow> sqlx_error + 'a \<times> database" where
  "put_receipts rows a db =
     checked (list_all receipt_check rows) (receipts_unique rows) True a (db\<lparr>receipts := rows\<rparr>)"

definition put_audit_events :: "audit_row list \<Rightarrow> 'a \<Rightarrow> database \<Rightarrow> sqlx_error + 'a \<times> database" where
  "put_audit_events rows a db =
     checked (list_all audit_check rows) (unique_on ar_id rows) True a (db\<lparr>audit_events := rows\<rparr>)"

definition put_usage_snapshots :: "usage_row list \<Rightarrow> 'a \<Rightarrow> database \<Rightarrow> sqlx_error + 'a \<times> database" where
  "put_usage_snapshots rows a db =
     checked (list_all usage_check rows) (unique_on us_service_instance_id rows)
       (list_all (\<lambda>r. service_exists db (us_service_instance_id r) (us_organization_id r)
          (us_project_id r)) rows)
       a (db\<lparr>usage_snapshots := rows\<rparr>)"

section \<open>The schema as an invariant\<close>

definition schema_ok :: "database \<Rightarrow> bool" where
  "schema_ok db \<longleftrightarrow>
     list_all service_check (services db) \<and> services_unique (services db)
     \<and> list_all (\<lambda>r. char_length_between 3 63 (nr_bucket_name r)) (name_reservations db)
     \<and> name_reservations_unique (name_reservations db)
     \<and> list_all bucket_check (buckets db) \<and> buckets_unique (buckets db)
     \<and> list_all credential_check (credentials db) \<and> credentials_unique (credentials db)
     \<and> list_all credential_reservation_check (credential_reservations db)
     \<and> credential_reservations_unique (credential_reservations db)
     \<and> list_all receipt_check (receipts db) \<and> receipts_unique (receipts db)
     \<and> list_all audit_check (audit_events db) \<and> unique_on ar_id (audit_events db)
     \<and> list_all usage_check (usage_snapshots db)
     \<and> unique_on us_service_instance_id (usage_snapshots db)"

lemmas put_defs = put_services_def put_name_reservations_def put_buckets_def put_credentials_def
  put_credential_reservations_def put_receipts_def put_audit_events_def put_usage_snapshots_def

lemma checked_Ok [simp]: "checked c u f a db = Ok (b, db') \<longleftrightarrow> c \<and> u \<and> f \<and> b = a \<and> db' = db"
  by (auto simp: checked_def)

lemma checked_Unique: "c \<Longrightarrow> \<not> u \<Longrightarrow> checked c u f a db = Err UniqueViolation"
  by (simp add: checked_def)

lemma schema_ok_empty [simp]: "schema_ok empty_database"
  by (simp add: schema_ok_def empty_database_def services_unique_def name_reservations_unique_def
      buckets_unique_def credentials_unique_def credential_reservations_unique_def
      receipts_unique_def unique_on_def)

lemma schema_ok_put:
  assumes "schema_ok db"
  shows "put_services rs1 a1 db = Ok (b1, db1) \<Longrightarrow> schema_ok db1"
    and "put_name_reservations rs2 a2 db = Ok (b2, db2) \<Longrightarrow> schema_ok db2"
    and "put_buckets rs3 a3 db = Ok (b3, db3) \<Longrightarrow> schema_ok db3"
    and "put_credentials rs4 a4 db = Ok (b4, db4) \<Longrightarrow> schema_ok db4"
    and "put_credential_reservations rs5 a5 db = Ok (b5, db5) \<Longrightarrow> schema_ok db5"
    and "put_receipts rs6 a6 db = Ok (b6, db6) \<Longrightarrow> schema_ok db6"
    and "put_audit_events rs7 a7 db = Ok (b7, db7) \<Longrightarrow> schema_ok db7"
    and "put_usage_snapshots rs8 a8 db = Ok (b8, db8) \<Longrightarrow> schema_ok db8"
  using assms by (simp_all add: put_defs schema_ok_def)

lemma schema_okD:
  assumes "schema_ok db"
  shows "unique_on sv_id (services db)"
    and "unique_on nr_bucket_name (name_reservations db)"
    and "unique_on nr_service_instance_id (name_reservations db)"
    and "unique_on bk_service_instance_id (buckets db)"
    and "unique_on bk_bucket_name (buckets db)"
    and "unique_on cr_id (credentials db)"
    and "unique_on cv_credential_id (credential_reservations db)"
    and "unique_on cv_operation_id (credential_reservations db)"
    and "unique_on re_idempotency_key (receipts db)"
    and "unique_on re_operation_id (receipts db)"
    and "unique_on us_service_instance_id (usage_snapshots db)"
    and "r \<in> set (receipts db) \<Longrightarrow> receipt_check r"
    and "s \<in> set (services db) \<Longrightarrow> service_check s"
    and "b \<in> set (buckets db) \<Longrightarrow> bucket_check b"
    and "c \<in> set (credentials db) \<Longrightarrow> credential_check c"
  using assms
  by (simp_all add: schema_ok_def services_unique_def name_reservations_unique_def
      buckets_unique_def credentials_unique_def credential_reservations_unique_def
      receipts_unique_def list_all_iff)

end
