(* ===== verification/Pg_Transaction.thy ===== *)
theory Pg_Transaction
  imports Pg_Tables
begin

text \<open>
  Transactions of the store. A body is a state transformer over the working copy of the database
  that may fail (\<open>?\<close> on a statement or on a check); \<open>in_transaction\<close> is \<open>pool.begin()\<close>, the
  body and \<open>transaction.commit()\<close>: a failing body is rolled back when the transaction is dropped.
  The environment fixes what the code does not decide: the clocks of the server, the identifiers
  drawn by \<open>Uuid::now_v7\<close>, the random nonce, which statement loses its connection, and whether
  a commit whose acknowledgement was lost had been applied. Locks are recorded in the order in which
  they are requested; a transaction holds them to its end, so operations of the same service or
  idempotency key run one after the other and each is modelled as one atomic step.
\<close>

section \<open>Environment and state\<close>

record pg_env =
  pg_now :: timestamp
  pg_clock :: "nat \<Rightarrow> timestamp"  \<comment> \<open>\<open>clock_timestamp()\<close> at the given statement\<close>
  pg_new_operation_id :: uuid
  pg_new_credential_id :: uuid
  pg_new_audit_id :: uuid
  pg_nonce :: "bytes option"
  pg_fault :: "nat \<Rightarrow> bool"
  pg_commit_lost :: bool

datatype pg_lock =
    OperationLock uuid
  | OrganizationCredentialsLock uuid
  | ServiceLock uuid
  | ReceiptRowLock uuid
  | ServiceRowLock uuid
  | BucketRowLock uuid
  | CredentialRowLock uuid
  | CredentialReservationRowLock uuid

record tx_state =
  tx_db :: database
  tx_locks :: "pg_lock list"
  tx_stmts :: nat

type_synonym 'a tx = "pg_env \<Rightarrow> tx_state \<Rightarrow> (store_error + 'a) \<times> tx_state"
type_synonym 'a statement = "pg_env \<Rightarrow> nat \<Rightarrow> database \<Rightarrow> sqlx_error + 'a \<times> database"
type_synonym 'a store_op = "pg_env \<Rightarrow> database \<Rightarrow> (store_error + 'a) \<times> database"

section \<open>Combinators\<close>

definition tx_return :: "'a \<Rightarrow> 'a tx" where
  "tx_return a = (\<lambda>env s. (Ok a, s))"

definition tx_throw :: "store_error \<Rightarrow> 'a tx" where
  "tx_throw e = (\<lambda>env s. (Err e, s))"

definition tx_bind :: "'a tx \<Rightarrow> ('a \<Rightarrow> 'b tx) \<Rightarrow> 'b tx" where
  "tx_bind m f = (\<lambda>env s. case m env s of (Err e, s') \<Rightarrow> (Err e, s') | (Ok a, s') \<Rightarrow> f a env s')"

definition tx_lift :: "store_error + 'a \<Rightarrow> 'a tx" where
  "tx_lift r = (\<lambda>env s. (r, s))"

text \<open>A body that reads the identifiers or the nonce of the environment.\<close>

definition tx_with_env :: "(pg_env \<Rightarrow> 'a tx) \<Rightarrow> 'a tx" where
  "tx_with_env f = (\<lambda>env s. f env env s)"

definition tx_stmt :: "(sqlx_error \<Rightarrow> store_error) \<Rightarrow> 'a statement \<Rightarrow> 'a tx" where
  "tx_stmt conv q = (\<lambda>env s.
     let n = tx_stmts s; s' = s\<lparr>tx_stmts := Suc n\<rparr>
     in if pg_fault env n then (Err (conv ConnectionLost), s')
        else case q env n (tx_db s) of
          Err e \<Rightarrow> (Err (conv e), s')
        | Ok (a, db) \<Rightarrow> (Ok a, s'\<lparr>tx_db := db\<rparr>))"

definition tx_execute :: "'a statement \<Rightarrow> 'a tx" where
  "tx_execute q = tx_stmt Database q"

definition map_database_error :: "sqlx_error \<Rightarrow> store_error" where
  "map_database_error e =
     (case e of UniqueViolation \<Rightarrow> Conflict ''resource already exists'' | _ \<Rightarrow> Database e)"

definition tx_execute_mapped :: "'a statement \<Rightarrow> 'a tx" where
  "tx_execute_mapped q = tx_stmt map_database_error q"

definition tx_query :: "(database \<Rightarrow> 'a) \<Rightarrow> 'a tx" where
  "tx_query q = tx_stmt Database (\<lambda>env n db. Ok (q db, db))"

definition tx_log_locks :: "pg_lock list \<Rightarrow> unit tx" where
  "tx_log_locks ls = (\<lambda>env s. (Ok (), s\<lparr>tx_locks := tx_locks s @ ls\<rparr>))"

text \<open>A \<open>SELECT ... FOR UPDATE\<close> locks the rows it returns.\<close>

definition tx_query_for_update :: "(database \<Rightarrow> 'a) \<Rightarrow> ('a \<Rightarrow> pg_lock list) \<Rightarrow> 'a tx" where
  "tx_query_for_update q locks =
     tx_bind (tx_query q) (\<lambda>a. tx_bind (tx_log_locks (locks a)) (\<lambda>_. tx_return a))"

definition advisory_lock :: "pg_lock \<Rightarrow> unit tx" where
  "advisory_lock l = tx_bind (tx_log_locks [l]) (\<lambda>_. tx_query (\<lambda>_. ()))"

definition lock_service :: "uuid \<Rightarrow> unit tx" where
  "lock_service service_instance_id = advisory_lock (ServiceLock service_instance_id)"

definition tx_initial :: "database \<Rightarrow> tx_state" where
  "tx_initial db = \<lparr>tx_db = db, tx_locks = [], tx_stmts = 1\<rparr>"

definition in_transaction :: "'a tx \<Rightarrow> 'a store_op" where
  "in_transaction body = (\<lambda>env db.
     if pg_fault env 0 then (Err (Database ConnectionLost), db)
     else case body env (tx_initial db) of
       (Err e, _) \<Rightarrow> (Err e, db)
     | (Ok a, s) \<Rightarrow>
         if pg_fault env (tx_stmts s)
         then (Err (Database ConnectionLost), if pg_commit_lost env then tx_db s else db)
         else (Ok a, tx_db s))"

text \<open>Checks made before the transaction begins.\<close>

definition before_transaction :: "store_error + 'a \<Rightarrow> ('a \<Rightarrow> 'b store_op) \<Rightarrow> 'b store_op" where
  "before_transaction r f = (\<lambda>env db. case r of Err e \<Rightarrow> (Err e, db) | Ok a \<Rightarrow> f a env db)"

lemmas tx_eval = tx_return_def tx_throw_def tx_bind_def tx_lift_def tx_with_env_def tx_stmt_def
  tx_execute_def tx_execute_mapped_def tx_query_def tx_log_locks_def tx_query_for_update_def
  advisory_lock_def lock_service_def in_transaction_def before_transaction_def tx_initial_def Let_def

section \<open>Weakest liberal preconditions of bodies\<close>

named_theorems wlp_simps \<open>symbolic execution of transaction bodies\<close>

definition wlp :: "'a tx \<Rightarrow> ('a \<Rightarrow> tx_state \<Rightarrow> bool) \<Rightarrow> pg_env \<Rightarrow> tx_state \<Rightarrow> bool" where
  "wlp m Q env s = (case m env s of (Err _, _) \<Rightarrow> True | (Ok a, s') \<Rightarrow> Q a s')"

lemma wlp_return [wlp_simps]: "wlp (tx_return a) Q env s \<longleftrightarrow> Q a s"
  by (simp add: wlp_def tx_return_def)

lemma wlp_throw [wlp_simps]: "wlp (tx_throw e) Q env s"
  by (simp add: wlp_def tx_throw_def)

lemma wlp_bind [wlp_simps]: "wlp (tx_bind m f) Q env s \<longleftrightarrow> wlp m (\<lambda>a. wlp (f a) Q env) env s"
  by (simp add: wlp_def tx_bind_def split: prod.splits sum.splits)

lemma wlp_lift [wlp_simps]: "wlp (tx_lift r) Q env s \<longleftrightarrow> (\<forall>a. r = Ok a \<longrightarrow> Q a s)"
  by (cases r) (simp_all add: wlp_def tx_lift_def)

lemma wlp_with_env [wlp_simps]: "wlp (tx_with_env f) Q env s \<longleftrightarrow> wlp (f env) Q env s"
  by (simp add: wlp_def tx_with_env_def)

lemma wlp_stmt [wlp_simps]:
  "wlp (tx_stmt conv q) Q env s \<longleftrightarrow>
     (\<not> pg_fault env (tx_stmts s) \<longrightarrow>
        (\<forall>a db. q env (tx_stmts s) (tx_db s) = Ok (a, db)
           \<longrightarrow> Q a (s\<lparr>tx_stmts := Suc (tx_stmts s), tx_db := db\<rparr>)))"
  by (auto simp: wlp_def tx_stmt_def Let_def split: sum.splits)

lemma wlp_execute [wlp_simps]: "wlp (tx_execute q) = wlp (tx_stmt Database q)"
  by (simp add: tx_execute_def)

lemma wlp_execute_mapped [wlp_simps]:
  "wlp (tx_execute_mapped q) = wlp (tx_stmt map_database_error q)"
  by (simp add: tx_execute_mapped_def)

lemma wlp_query [wlp_simps]:
  "wlp (tx_query q) Q env s \<longleftrightarrow>
     (\<not> pg_fault env (tx_stmts s) \<longrightarrow> Q (q (tx_db s)) (s\<lparr>tx_stmts := Suc (tx_stmts s)\<rparr>))"
  by (simp add: tx_query_def wlp_simps)

lemma wlp_log_locks [wlp_simps]:
  "wlp (tx_log_locks ls) Q env s \<longleftrightarrow> Q () (s\<lparr>tx_locks := tx_locks s @ ls\<rparr>)"
  by (simp add: wlp_def tx_log_locks_def)

lemma wlp_if [wlp_simps]:
  "wlp (if b then m else m') Q env s \<longleftrightarrow> (b \<longrightarrow> wlp m Q env s) \<and> (\<not> b \<longrightarrow> wlp m' Q env s)"
  by simp

lemma wlp_option [wlp_simps]:
  "wlp (case x of None \<Rightarrow> m | Some a \<Rightarrow> f a) Q env s \<longleftrightarrow>
     (x = None \<longrightarrow> wlp m Q env s) \<and> (\<forall>a. x = Some a \<longrightarrow> wlp (f a) Q env s)"
  by (cases x) simp_all

lemma wlp_bindI: "wlp m (\<lambda>a. wlp (f a) Q env) env s \<Longrightarrow> wlp (tx_bind m f) Q env s"
  by (simp add: wlp_bind)

lemma wlp_returnI: "Q a s \<Longrightarrow> wlp (tx_return a) Q env s"
  by (simp add: wlp_return)

lemma wlp_liftI: "(\<And>a. r = Ok a \<Longrightarrow> Q a s) \<Longrightarrow> wlp (tx_lift r) Q env s"
  by (simp add: wlp_lift)

lemma wlp_with_envI: "wlp (f env) Q env s \<Longrightarrow> wlp (tx_with_env f) Q env s"
  by (simp add: wlp_with_env)

lemma wlp_ifI:
  "(b \<Longrightarrow> wlp m Q env s) \<Longrightarrow> (\<not> b \<Longrightarrow> wlp m' Q env s) \<Longrightarrow> wlp (if b then m else m') Q env s"
  by simp

lemma wlp_optionI:
  "(x = None \<Longrightarrow> wlp m Q env s) \<Longrightarrow> (\<And>a. x = Some a \<Longrightarrow> wlp (f a) Q env s) \<Longrightarrow>
     wlp (case x of None \<Rightarrow> m | Some a \<Rightarrow> f a) Q env s"
  by (cases x) simp_all

lemma wlp_prodI:
  "(\<And>a b. p = (a, b) \<Longrightarrow> wlp (f a b) Q env s) \<Longrightarrow> wlp (case p of (a, b) \<Rightarrow> f a b) Q env s"
  by (cases p) simp

lemmas wlp_control = wlp_bindI wlp_returnI wlp_throw wlp_liftI wlp_with_envI wlp_ifI wlp_optionI wlp_prodI

lemma wlp_trivial: "wlp m (\<lambda>_ _. True) env s"
  by (simp add: wlp_def split: prod.splits sum.splits)

lemma wlp_const: "P \<Longrightarrow> wlp m (\<lambda>_ _. P) env s"
  by (simp add: wlp_def split: prod.splits sum.splits)

lemma wlp_mono: "wlp m Q env s \<Longrightarrow> (\<And>a s'. Q a s' \<Longrightarrow> R a s') \<Longrightarrow> wlp m R env s"
  by (auto simp: wlp_def split: sum.splits)

lemma wlp_conj: "wlp m Q env s \<Longrightarrow> wlp m R env s \<Longrightarrow> wlp m (\<lambda>a s'. Q a s' \<and> R a s') env s"
  by (auto simp: wlp_def split: sum.splits)

lemma wlp_Ok: "wlp m Q env s \<Longrightarrow> m env s = (Ok a, s') \<Longrightarrow> Q a s'"
  by (simp add: wlp_def)

section \<open>Transactions are all or nothing\<close>

text \<open>
  What holds of the working copy when the body ends holds of the database when it changed: the body
  ran to its end and the commit was acknowledged, or was applied with its acknowledgement lost.
\<close>

lemma in_transaction_cases:
  assumes "in_transaction body env db = (r, db')" and "wlp body Q env (tx_initial db)"
  obtains e where "r = Err e" "db' = db"
  | a s where "r = Ok a" "db' = tx_db s" "Q a s"
  | a s where "r = Err (Database ConnectionLost)" "pg_commit_lost env" "db' = tx_db s" "Q a s"
proof (cases "pg_fault env 0")
  case True
  with assms(1) that(1) show ?thesis by (auto simp: in_transaction_def)
next
  case False
  obtain x s where b: "body env (tx_initial db) = (x, s)" by fastforce
  show ?thesis
  proof (cases x)
    case (Inl e)
    with False b assms(1) that(1) show ?thesis by (auto simp: in_transaction_def)
  next
    case (Inr a)
    with b have "body env (tx_initial db) = (Ok a, s)" by simp
    with assms(2) have Q: "Q a s" by (rule wlp_Ok)
    from False b Inr assms(1) have
      "(r, db') = (if pg_fault env (tx_stmts s)
         then (Err (Database ConnectionLost), if pg_commit_lost env then tx_db s else db)
         else (Ok a, tx_db s))"
      by (simp add: in_transaction_def)
    with Q that show ?thesis by (auto split: if_splits)
  qed
qed

lemma in_transaction_Ok:
  assumes "in_transaction body env db = (Ok a, db')" and "wlp body Q env (tx_initial db)"
  shows "\<exists>s. db' = tx_db s \<and> Q a s"
  by (rule in_transaction_cases [OF assms]) auto

lemma in_transaction_effect:
  assumes "in_transaction body env db = (r, db')" and "wlp body (\<lambda>a s. E a (tx_db s)) env (tx_initial db)"
  shows "(db' = db \<and> \<not> is_ok r) \<or> (\<exists>a. E a db' \<and> (r = Ok a \<or> r = Err (Database ConnectionLost)))"
  by (rule in_transaction_cases [OF assms]) auto

lemma in_transaction_Err:
  assumes "in_transaction body env db = (Err e, db')"
  shows "db' = db \<or> (e = Database ConnectionLost \<and> pg_commit_lost env)"
  using assms by (rule in_transaction_cases [where Q = "\<lambda>_ _. True"]) (auto simp: wlp_def split: sum.splits)

text \<open>A body that fails in its first check does so whatever follows, and nothing is stored.\<close>

lemma in_transaction_throw:
  assumes "\<not> pg_fault env 0" and "body env (tx_initial db) = (Err e, s)"
  shows "in_transaction body env db = (Err e, db)"
  using assms by (simp add: in_transaction_def)

lemma in_transaction_done:
  assumes "\<not> pg_fault env 0" and "body env (tx_initial db) = (Ok a, s)" and "\<not> pg_fault env (tx_stmts s)"
  shows "in_transaction body env db = (Ok a, tx_db s)"
  using assms by (simp add: in_transaction_def)

lemma tx_initial_simps [simp]:
  "tx_db (tx_initial db) = db" "tx_locks (tx_initial db) = []" "tx_stmts (tx_initial db) = 1"
  by (simp_all add: tx_initial_def)

lemma before_transaction_Ok [simp]: "before_transaction (Ok a) f = f a"
  by (simp add: before_transaction_def)

lemma before_transaction_Err [simp]: "before_transaction (Err e) f env db = (Err e, db)"
  by (simp add: before_transaction_def)

lemma before_transaction_cases:
  assumes "before_transaction r f env db = (x, db')"
  obtains e where "r = Err e" "x = Err e" "db' = db" | a where "r = Ok a" "f a env db = (x, db')"
  using assms by (cases r) auto

end
