(* ===== verification/Receipts.thy ===== *)
theory Receipts
  imports Pg_Transaction
begin

text \<open>
  Operation receipts (\<open>src/crates/syouyu-store/src/lib.rs\<close>): an idempotency key owns one receipt,
  in progress under a lease of 120 seconds or finished with an encrypted response. Claiming,
  reserving, requiring, renewing and finishing a receipt, the audit record written with it, and the
  contract every operation that presents an operation identifier keeps: an identifier that no longer
  owns the receipt changes nothing.
\<close>

section \<open>The store\<close>

text \<open>
  \<open>PgStore\<close> with the third-party functions it calls: AES-256-GCM, the JSON text codec, and the
  derived JSON codecs of a specification and of permissions.
\<close>

record pg_store =
  ps_receipt_cipher :: receipt_cipher
  ps_credential_limits :: credential_limits
  ps_aead_encrypt :: aead
  ps_aead_decrypt :: aead
  ps_json_to_vec :: "json \<Rightarrow> bytes option"
  ps_json_from_slice :: "bytes \<Rightarrow> json option"
  ps_spec_to_value :: "syouyu_spec \<Rightarrow> json option"
  ps_spec_from_value :: "json \<Rightarrow> syouyu_spec option"
  ps_permissions_to_value :: "bucket_permissions \<Rightarrow> json option"
  ps_permissions_from_value :: "json \<Rightarrow> bucket_permissions option"

definition from_pool :: "pg_store \<Rightarrow> bytes \<Rightarrow> credential_limits \<Rightarrow> store_error + pg_store" where
  "from_pool libraries receipt_encryption_key credential_limits =
     try_bind (cipher_new receipt_encryption_key) (\<lambda>cipher.
     try_bind (limits_validate credential_limits) (\<lambda>limits.
     Ok (libraries\<lparr>ps_receipt_cipher := cipher, ps_credential_limits := limits\<rparr>)))"

definition to_i64 :: "u64 \<Rightarrow> string \<Rightarrow> store_error + i64" where
  "to_i64 value field = ok_or (i64_try_from_u64 value) (InvalidNumericValue field)"

definition from_i64 :: "i64 \<Rightarrow> string \<Rightarrow> store_error + u64" where
  "from_i64 value field = ok_or (u64_try_from_i64 value) (CorruptData field)"

definition ensure_scope :: "operation_request \<Rightarrow> uuid \<Rightarrow> uuid \<Rightarrow> store_error + unit" where
  "ensure_scope operation organization_id project_id =
     (if op_organization_id operation \<noteq> organization_id \<or> op_project_id operation \<noteq> project_id
      then Err (Conflict ''service instance scope does not match authenticated principal'')
      else Ok ())"

section \<open>Receipts\<close>

definition OPERATION_LEASE_SECONDS :: i64 where "OPERATION_LEASE_SECONDS = 120"

definition lease_until :: "timestamp \<Rightarrow> timestamp" where
  "lease_until t = t + OPERATION_LEASE_SECONDS * 1000000"

definition receipt_matches :: "receipt_row \<Rightarrow> operation_request \<Rightarrow> bool" where
  "receipt_matches r operation \<longleftrightarrow>
     re_organization_id r = op_organization_id operation
     \<and> re_project_id r = op_project_id operation
     \<and> re_service_instance_id r = op_service_instance_id operation
     \<and> re_principal_id r = op_principal_id operation
     \<and> re_action r = op_action operation
     \<and> re_generation r = op_generation operation
     \<and> re_request_hash r = op_request_hash operation"

definition receipt_of :: "database \<Rightarrow> uuid \<Rightarrow> receipt_row option" where
  "receipt_of db key = find (\<lambda>r. re_idempotency_key r = key) (receipts db)"

definition lock_receipt_row :: "uuid \<Rightarrow> receipt_row option tx" where
  "lock_receipt_row key =
     tx_query_for_update (\<lambda>db. receipt_of db key)
       (\<lambda>r. if r = None then [] else [ReceiptRowLock key])"

datatype receipt_claim =
    ClaimNew
  | TakenOver uuid
  | Prepared "unit prepare"

text \<open>\<open>map_context\<close>: a claim is never an \<open>Execute\<close>; the source panics there.\<close>

fun map_context :: "unit prepare \<Rightarrow> 'c prepare" where
  "map_context (Replay response) = Replay response"
| "map_context (InProgress operation_id) = InProgress operation_id"
| "map_context (Execute operation_id context) = undefined"

definition decode_receipt :: "pg_store \<Rightarrow> receipt_row \<Rightarrow> store_error + stored_http_response" where
  "decode_receipt st row =
     try_bind (ok_or (Option.bind (re_response_status row) u16_try_from_i32)
       (CorruptData ''operation response status'')) (\<lambda>status.
     try_bind (ok_or (re_response_nonce row) (CorruptData ''operation response nonce'')) (\<lambda>nonce.
     try_bind (ok_or (re_response_ciphertext row)
       (CorruptData ''operation response ciphertext'')) (\<lambda>ciphertext.
     try_bind (cipher_decrypt (ps_aead_decrypt st) (ps_receipt_cipher st)
       (re_idempotency_key row) (re_operation_id row) nonce ciphertext) (\<lambda>plaintext.
     try_bind (ok_or (ps_json_from_slice st plaintext) (CorruptData ''operation response JSON'')) (\<lambda>body.
     Ok \<lparr>sh_status = status, sh_body = body, sh_failed = (re_state row = ''failed'')\<rparr>)))))"

definition take_over_receipt :: "uuid \<Rightarrow> uuid \<Rightarrow> uuid \<Rightarrow> nat statement" where
  "take_over_receipt key new_id old_id env n db =
     (let due = (\<lambda>r. re_idempotency_key r = key \<and> re_operation_id r = old_id
                   \<and> re_state r = ''in_progress''
                   \<and> (case re_lease_expires_at r of None \<Rightarrow> False | Some t \<Rightarrow> t \<le> pg_clock env n))
      in put_receipts
           (update_rows due (\<lambda>r. r\<lparr>re_operation_id := new_id,
              re_lease_attempt := re_lease_attempt r + 1,
              re_lease_expires_at := Some (lease_until (pg_clock env n)),
              re_updated_at := pg_now env\<rparr>) (receipts db))
           (count_rows due (receipts db)) db)"

definition move_credential_reservation :: "uuid \<Rightarrow> uuid \<Rightarrow> nat statement" where
  "move_credential_reservation old_id new_id env n db =
     (let moved = (\<lambda>v. cv_operation_id v = old_id)
      in put_credential_reservations
           (update_rows moved (\<lambda>v. v\<lparr>cv_operation_id := new_id\<rparr>) (credential_reservations db))
           (count_rows moved (credential_reservations db)) db)"

definition claim_existing_receipt :: "pg_store \<Rightarrow> operation_request \<Rightarrow> receipt_claim tx" where
  "claim_existing_receipt st operation =
     tx_bind (lock_receipt_row (op_idempotency_key operation)) (\<lambda>found.
     case found of
       None \<Rightarrow> tx_return ClaimNew
     | Some row \<Rightarrow>
         if \<not> receipt_matches row operation then tx_throw IdempotencyConflict
         else if re_state row = ''in_progress'' then
           (if re_lease_expires_at row = None
            then tx_throw (CorruptData ''operation receipt lease'')
            else tx_with_env (\<lambda>env. let operation_id = pg_new_operation_id env in
              tx_bind (tx_execute (take_over_receipt (op_idempotency_key operation)
                         operation_id (re_operation_id row))) (\<lambda>claimed.
              if claimed = 0 then tx_return (Prepared (InProgress (re_operation_id row)))
              else tx_bind (tx_execute (move_credential_reservation (re_operation_id row)
                              operation_id)) (\<lambda>_.
                   tx_return (TakenOver operation_id)))))
         else tx_bind (tx_lift (decode_receipt st row)) (\<lambda>response.
              tx_return (Prepared (Replay response))))"

definition new_receipt :: "operation_request \<Rightarrow> uuid \<Rightarrow> timestamp \<Rightarrow> timestamp \<Rightarrow> receipt_row" where
  "new_receipt operation operation_id now clock =
     \<lparr>re_idempotency_key = op_idempotency_key operation, re_operation_id = operation_id,
      re_organization_id = op_organization_id operation, re_project_id = op_project_id operation,
      re_service_instance_id = op_service_instance_id operation,
      re_principal_id = op_principal_id operation, re_action = op_action operation,
      re_generation = op_generation operation, re_request_hash = op_request_hash operation,
      re_state = ''in_progress'', re_lease_attempt = 1,
      re_lease_expires_at = Some (lease_until clock), re_response_status = None,
      re_response_nonce = None, re_response_ciphertext = None, re_created_at = now,
      re_completed_at = None, re_updated_at = now\<rparr>"

definition reserve_receipt :: "operation_request \<Rightarrow> uuid tx" where
  "reserve_receipt operation =
     tx_with_env (\<lambda>env. let operation_id = pg_new_operation_id env in
     tx_bind (tx_execute_mapped (\<lambda>env n db. put_receipts
       (receipts db @ [new_receipt operation operation_id (pg_now env) (pg_clock env n)]) () db)) (\<lambda>_.
     tx_return operation_id))"

definition claimed_or_reserve :: "uuid option \<Rightarrow> operation_request \<Rightarrow> uuid tx" where
  "claimed_or_reserve claimed operation =
     (case claimed of Some operation_id \<Rightarrow> tx_return operation_id
      | None \<Rightarrow> reserve_receipt operation)"

definition require_in_progress_receipt :: "operation_request \<Rightarrow> uuid \<Rightarrow> unit tx" where
  "require_in_progress_receipt operation operation_id =
     tx_bind (lock_receipt_row (op_idempotency_key operation)) (\<lambda>found.
     case found of
       None \<Rightarrow> tx_throw (CorruptData ''operation receipt'')
     | Some row \<Rightarrow>
         if \<not> receipt_matches row operation then tx_throw IdempotencyConflict
         else if re_operation_id row \<noteq> operation_id
         then tx_throw (OperationLeaseLost (re_operation_id row))
         else if re_state row \<noteq> ''in_progress''
         then tx_throw (Conflict ''operation is already complete'')
         else tx_return ())"

text \<open>Ties in \<open>created_at\<close>, which SQL leaves open, go to the row inserted first.\<close>

definition reject_parallel_operation :: "uuid \<Rightarrow> uuid \<Rightarrow> unit tx" where
  "reject_parallel_operation service_instance_id idempotency_key =
     tx_bind (tx_query (\<lambda>db.
       sort_key re_created_at (filter (\<lambda>r. re_service_instance_id r = service_instance_id
         \<and> re_state r = ''in_progress'' \<and> re_idempotency_key r \<noteq> idempotency_key) (receipts db)))) (\<lambda>rows.
     case rows of [] \<Rightarrow> tx_return ()
     | row # _ \<Rightarrow> tx_throw (OperationInProgress (re_operation_id row)))"

definition finished :: "stored_http_response \<Rightarrow> bytes \<Rightarrow> bytes \<Rightarrow> timestamp \<Rightarrow> receipt_row \<Rightarrow> receipt_row" where
  "finished response nonce ciphertext now r =
     r\<lparr>re_state := (if sh_failed response then ''failed'' else ''succeeded''),
       re_response_status := Some (uint (sh_status response)),
       re_response_nonce := Some nonce, re_response_ciphertext := Some ciphertext,
       re_completed_at := Some now, re_lease_expires_at := None, re_updated_at := now\<rparr>"

definition holds_receipt :: "uuid \<Rightarrow> uuid \<Rightarrow> receipt_row \<Rightarrow> bool" where
  "holds_receipt key operation_id r \<longleftrightarrow>
     re_idempotency_key r = key \<and> re_operation_id r = operation_id \<and> re_state r = ''in_progress''"

definition finish_receipt ::
  "pg_store \<Rightarrow> operation_request \<Rightarrow> uuid \<Rightarrow> stored_http_response \<Rightarrow> unit tx" where
  "finish_receipt st operation operation_id response =
     tx_bind (lock_receipt_row (op_idempotency_key operation)) (\<lambda>found.
     tx_bind (tx_lift (ok_or found (CorruptData ''operation receipt''))) (\<lambda>row.
     if \<not> receipt_matches row operation then tx_throw IdempotencyConflict
     else if re_operation_id row \<noteq> operation_id
     then tx_throw (OperationLeaseLost (re_operation_id row))
     else if re_state row \<noteq> ''in_progress'' then
       tx_bind (tx_lift (decode_receipt st row)) (\<lambda>stored.
       if stored = response then tx_return ()
       else tx_throw (Conflict ''operation receipt already has a different result''))
     else
       tx_bind (tx_lift (ok_or (ps_json_to_vec st (sh_body response))
         (CorruptData ''operation response serialization''))) (\<lambda>plaintext.
       tx_with_env (\<lambda>env.
       tx_bind (tx_lift (cipher_encrypt (ps_aead_encrypt st) (ps_receipt_cipher st) (pg_nonce env)
         (op_idempotency_key operation) operation_id plaintext)) (\<lambda>(nonce, ciphertext).
       tx_bind (tx_execute (\<lambda>env n db.
         let held = holds_receipt (op_idempotency_key operation) operation_id
         in put_receipts
              (update_rows held (finished response nonce ciphertext (pg_now env)) (receipts db))
              (count_rows held (receipts db)) db)) (\<lambda>updated.
       if updated \<noteq> 1 then tx_throw (OperationLeaseLost (re_operation_id row))
       else tx_return ()))))))"

definition insert_audit :: "audit_event \<Rightarrow> unit tx" where
  "insert_audit audit =
     (if au_request_id audit = [] \<or> length (au_request_id audit) > 256
         \<or> au_action audit = [] \<or> length (au_action audit) > 128
         \<or> au_resource_type audit = [] \<or> length (au_resource_type audit) > 64
         \<or> au_outcome audit \<notin> {''allowed'', ''denied'', ''failed''}
         \<or> \<not> json_is_object (au_details audit)
      then tx_throw (Validation ''audit event is invalid'')
      else tx_execute (\<lambda>env n db. put_audit_events
        (audit_events db @ [\<lparr>ar_id = pg_new_audit_id env, ar_event = audit,
           ar_created_at = pg_now env\<rparr>]) () db))"

section \<open>Operations on receipts alone\<close>

definition renew_operation_body :: "operation_request \<Rightarrow> uuid \<Rightarrow> unit tx" where
  "renew_operation_body operation operation_id =
     tx_bind (advisory_lock (OperationLock (op_idempotency_key operation))) (\<lambda>_.
     tx_bind (require_in_progress_receipt operation operation_id) (\<lambda>_.
     tx_bind (tx_execute (\<lambda>env n db.
       let held = holds_receipt (op_idempotency_key operation) operation_id
       in put_receipts
            (update_rows held (\<lambda>r. r\<lparr>re_lease_expires_at := Some (lease_until (pg_clock env n)),
               re_updated_at := pg_now env\<rparr>) (receipts db))
            (count_rows held (receipts db)) db)) (\<lambda>renewed.
     if renewed \<noteq> 1 then tx_throw (OperationLeaseLost operation_id)
     else tx_return ())))"

definition renew_operation :: "operation_request \<Rightarrow> uuid \<Rightarrow> unit store_op" where
  "renew_operation operation operation_id =
     before_transaction (operation_validate operation) (\<lambda>_.
     in_transaction (renew_operation_body operation operation_id))"

definition fail_operation_body ::
  "pg_store \<Rightarrow> operation_request \<Rightarrow> uuid \<Rightarrow> stored_http_response \<Rightarrow> audit_event \<Rightarrow> unit tx" where
  "fail_operation_body st operation operation_id response audit =
     tx_bind (advisory_lock (OrganizationCredentialsLock (op_organization_id operation))) (\<lambda>_.
     tx_bind (lock_service (op_service_instance_id operation)) (\<lambda>_.
     tx_bind (require_in_progress_receipt operation operation_id) (\<lambda>_.
     tx_bind (finish_receipt st operation operation_id response) (\<lambda>_.
     tx_bind (tx_execute (\<lambda>env n db. put_credential_reservations
       (delete_rows (\<lambda>v. cv_operation_id v = operation_id) (credential_reservations db)) () db)) (\<lambda>_.
     tx_bind (tx_execute (\<lambda>env n db. put_name_reservations
       (delete_rows (\<lambda>r. nr_service_instance_id r = op_service_instance_id operation
          \<and> \<not> list_ex (\<lambda>b. bk_service_instance_id b = nr_service_instance_id r
                         \<and> bk_bucket_name b = nr_bucket_name r) (buckets db))
          (name_reservations db)) () db)) (\<lambda>_.
     insert_audit audit))))))"

definition fail_operation ::
  "pg_store \<Rightarrow> operation_request \<Rightarrow> uuid \<Rightarrow> stored_http_response \<Rightarrow> audit_event \<Rightarrow> unit store_op" where
  "fail_operation st operation operation_id response audit =
     before_transaction (if \<not> sh_failed response
       then Err (Validation ''failed operation response must be marked failed'') else Ok ())
     (\<lambda>_. in_transaction (fail_operation_body st operation operation_id response audit))"

definition record_audit :: "audit_event \<Rightarrow> unit store_op" where
  "record_audit audit = in_transaction (insert_audit audit)"

section \<open>The common beginning of the prepare operations\<close>

text \<open>
  Each \<open>prepare_*\<close> locks its idempotency key, claims the receipt, and returns at once (committing)
  when the claim is already answered; otherwise it goes on with the claimed operation, if any.
\<close>

definition with_claim ::
  "pg_store \<Rightarrow> operation_request \<Rightarrow> (uuid option \<Rightarrow> 'c prepare tx) \<Rightarrow> 'c prepare tx" where
  "with_claim st operation body =
     tx_bind (advisory_lock (OperationLock (op_idempotency_key operation))) (\<lambda>_.
     tx_bind (claim_existing_receipt st operation) (\<lambda>claim.
     case claim of
       ClaimNew \<Rightarrow> body None
     | TakenOver operation_id \<Rightarrow> body (Some operation_id)
     | Prepared prepared \<Rightarrow> tx_return (map_context prepared)))"

end
