(* ===== verification/Receipt_Contracts.thy ===== *)
theory Receipt_Contracts
  imports Receipts
begin

text \<open>
  What the receipts promise to the operations built on them. The first part executes the receipt
  statements symbolically. The second states the two contracts as locales: an operation that presents
  an operation identifier is fenced by the receipt, and an operation that starts from an idempotency
  key is answered by the receipt when there is one. The store operations interpret them.
\<close>

section \<open>Symbolic execution\<close>

definition holder :: "database \<Rightarrow> operation_request \<Rightarrow> uuid \<Rightarrow> bool" where
  "holder db operation operation_id \<longleftrightarrow>
     (\<exists>row. receipt_of db (op_idempotency_key operation) = Some row
        \<and> receipt_matches row operation \<and> re_operation_id row = operation_id
        \<and> re_state row = ''in_progress'')"

definition no_faults :: "pg_env \<Rightarrow> bool" where
  "no_faults env \<longleftrightarrow> pg_fault env = (\<lambda>_. False)"

lemma no_faultsD [simp]: "no_faults env \<Longrightarrow> \<not> pg_fault env n"
  by (simp add: no_faults_def)

lemma receipt_of_Some: "receipt_of db key = Some r \<Longrightarrow> r \<in> set (receipts db) \<and> re_idempotency_key r = key"
  unfolding receipt_of_def by (drule find_Some_in) simp

lemma receipt_of_in:
  "schema_ok db \<Longrightarrow> r \<in> set (receipts db) \<Longrightarrow> receipt_of db (re_idempotency_key r) = Some r"
  unfolding receipt_of_def by (rule unique_on_find) (simp_all add: schema_okD)

lemma receipt_of_None: "receipt_of db key = None \<longleftrightarrow> (\<forall>r \<in> set (receipts db). re_idempotency_key r \<noteq> key)"
  by (auto simp: receipt_of_def find_None_iff)

lemma receipt_of_cong: "receipts db = receipts db' \<Longrightarrow> receipt_of db = receipt_of db'"
  by (simp add: receipt_of_def fun_eq_iff)

lemma holder_cong: "receipts db = receipts db' \<Longrightarrow> holder db = holder db'"
  by (simp add: holder_def fun_eq_iff receipt_of_cong [of db db'])

lemma wlp_query_for_update [wlp_simps]:
  "wlp (tx_query_for_update q locks) Q env s \<longleftrightarrow>
     (\<not> pg_fault env (tx_stmts s) \<longrightarrow>
        Q (q (tx_db s)) (s\<lparr>tx_stmts := Suc (tx_stmts s), tx_locks := tx_locks s @ locks (q (tx_db s))\<rparr>))"
  by (simp add: tx_query_for_update_def wlp_simps)

lemma wlp_lock_receipt_row [wlp_simps]:
  "wlp (lock_receipt_row key) Q env s \<longleftrightarrow>
     (\<not> pg_fault env (tx_stmts s) \<longrightarrow>
        Q (receipt_of (tx_db s) key) (s\<lparr>tx_stmts := Suc (tx_stmts s),
          tx_locks := tx_locks s @ (if receipt_of (tx_db s) key = None then [] else [ReceiptRowLock key])\<rparr>))"
  by (simp add: lock_receipt_row_def wlp_simps)

lemma wlp_advisory_lock [wlp_simps]:
  "wlp (advisory_lock l) Q env s \<longleftrightarrow>
     (\<not> pg_fault env (tx_stmts s) \<longrightarrow>
        Q () (s\<lparr>tx_locks := tx_locks s @ [l], tx_stmts := Suc (tx_stmts s)\<rparr>))"
  by (simp add: advisory_lock_def wlp_simps)

lemma wlp_lock_service [wlp_simps]: "wlp (lock_service sid) = wlp (advisory_lock (ServiceLock sid))"
  by (simp add: lock_service_def)

text \<open>
  Rules for the steps: the postcondition is asked for in every state whose database is as the step
  leaves it, so that counters and lock logs stay out of the component proofs.
\<close>

lemma wlp_step_query:
  assumes "\<And>s'. tx_db s' = tx_db s \<Longrightarrow> Q (q (tx_db s)) s'"
  shows "wlp (tx_query q) Q env s" and "wlp (tx_query_for_update q locks) Q env s"
  using assms by (simp_all add: wlp_simps)

lemma wlp_step_lock:
  assumes "\<And>s'. tx_db s' = tx_db s \<Longrightarrow> Q () s'"
  shows "wlp (advisory_lock l) Q env s" and "wlp (lock_service sid) Q env s"
  using assms by (simp_all add: wlp_simps)

lemma wlp_step_execute:
  assumes "\<And>a s' n. q env n (tx_db s) = Ok (a, tx_db s') \<Longrightarrow> Q a s'"
  shows "wlp (tx_execute q) Q env s" and "wlp (tx_execute_mapped q) Q env s"
  using assms by (simp_all add: wlp_simps)

lemma wlp_require:
  assumes "\<And>s'. tx_db s' = tx_db s \<Longrightarrow> holder (tx_db s) operation operation_id \<Longrightarrow> Q () s'"
  shows "wlp (require_in_progress_receipt operation operation_id) Q env s"
  using assms by (auto simp: require_in_progress_receipt_def holder_def wlp_simps split: option.splits)

lemma wlp_reject_parallel:
  assumes "\<And>s'. tx_db s' = tx_db s \<Longrightarrow>
     (\<forall>r \<in> set (receipts (tx_db s)). re_service_instance_id r = sid \<and> re_state r = ''in_progress''
        \<longrightarrow> re_idempotency_key r = key) \<Longrightarrow> Q () s'"
  shows "wlp (reject_parallel_operation sid key) Q env s"
proof -
  let ?f = "filter (\<lambda>r. re_service_instance_id r = sid \<and> re_state r = ''in_progress''
         \<and> re_idempotency_key r \<noteq> key) (receipts (tx_db s))"
  show ?thesis
    unfolding reject_parallel_operation_def wlp_bind
  proof (rule wlp_step_query)
    fix s' :: tx_state assume s': "tx_db s' = tx_db s"
    show "wlp (case sort_key re_created_at ?f of [] \<Rightarrow> tx_return ()
        | row # _ \<Rightarrow> tx_throw (OperationInProgress (re_operation_id row))) Q env s'"
    proof (cases "sort_key re_created_at ?f")
      case Nil
      then have "set ?f = {}" using set_sort [of re_created_at ?f] by simp
      then have "?f = []" by simp
      then have "\<forall>r \<in> set (receipts (tx_db s)). re_service_instance_id r = sid
          \<and> re_state r = ''in_progress'' \<longrightarrow> re_idempotency_key r = key"
        unfolding filter_empty_conv by blast
      with Nil assms [OF s'] show ?thesis by (simp add: wlp_return)
    qed (simp add: wlp_throw)
  qed
qed

lemmas wlp_steps = wlp_control wlp_step_lock wlp_step_query wlp_step_execute wlp_require wlp_reject_parallel

definition audit_row_of :: "pg_env \<Rightarrow> audit_event \<Rightarrow> audit_row" where
  "audit_row_of env audit = \<lparr>ar_id = pg_new_audit_id env, ar_event = audit, ar_created_at = pg_now env\<rparr>"

lemma wlp_insert_audit:
  assumes "\<And>s'. put_audit_events (audit_events (tx_db s) @ [audit_row_of env audit]) () (tx_db s)
             = Ok ((), tx_db s') \<Longrightarrow> Q () s'"
  shows "wlp (insert_audit audit) Q env s"
  using assms by (simp add: insert_audit_def audit_row_of_def wlp_simps)

lemma count_receipt_holder:
  assumes "receipts_unique (receipts db)"
    and "receipt_of db key = Some row" "re_operation_id row = operation_id" "re_state row = ''in_progress''"
  shows "count_rows (holds_receipt key operation_id) (receipts db) = 1"
proof (rule count_rows_unique_1)
  show "unique_on re_idempotency_key (receipts db)" using assms(1) by (simp add: receipts_unique_def)
  show "row \<in> set (receipts db)" using assms(2) by (simp add: receipt_of_Some)
  show "holds_receipt key operation_id row"
    using receipt_of_Some [OF assms(2)] assms(3,4) by (simp add: holds_receipt_def)
  show "re_idempotency_key r = key" if "holds_receipt key operation_id r" for r
    using that by (simp add: holds_receipt_def)
qed

definition sealed :: "pg_store \<Rightarrow> pg_env \<Rightarrow> operation_request \<Rightarrow> uuid \<Rightarrow> stored_http_response
    \<Rightarrow> bytes \<Rightarrow> bytes \<Rightarrow> bool" where
  "sealed st env operation operation_id response nonce ciphertext \<longleftrightarrow>
     (\<exists>p. ps_json_to_vec st (sh_body response) = Some p
        \<and> cipher_encrypt (ps_aead_encrypt st) (ps_receipt_cipher st) (pg_nonce env)
            (op_idempotency_key operation) operation_id p = Ok (nonce, ciphertext))"

definition finish_rows :: "pg_env \<Rightarrow> operation_request \<Rightarrow> uuid \<Rightarrow> stored_http_response
    \<Rightarrow> bytes \<Rightarrow> bytes \<Rightarrow> receipt_row list \<Rightarrow> receipt_row list" where
  "finish_rows env operation operation_id response nonce ciphertext =
     update_rows (holds_receipt (op_idempotency_key operation) operation_id)
       (finished response nonce ciphertext (pg_now env))"

lemma wlp_finish:
  assumes "holder (tx_db s) operation operation_id"
    and "\<And>s' nonce ciphertext k. sealed st env operation operation_id response nonce ciphertext \<Longrightarrow>
       put_receipts (finish_rows env operation operation_id response nonce ciphertext
          (receipts (tx_db s))) k (tx_db s) = Ok (k, tx_db s') \<Longrightarrow> Q () s'"
  shows "wlp (finish_receipt st operation operation_id response) Q env s"
proof -
  from assms(1) obtain row where r: "receipt_of (tx_db s) (op_idempotency_key operation) = Some row"
    "receipt_matches row operation" "re_operation_id row = operation_id" "re_state row = ''in_progress''"
    by (auto simp: holder_def)
  show ?thesis
    using r assms(2) unfolding finish_receipt_def
    by (auto simp: wlp_simps sealed_def finish_rows_def put_receipts_def Let_def split: prod.splits)
qed

section \<open>Claiming\<close>

definition due :: "pg_env \<Rightarrow> nat \<Rightarrow> receipt_row \<Rightarrow> bool" where
  "due env n r \<longleftrightarrow> (case re_lease_expires_at r of None \<Rightarrow> False | Some t \<Rightarrow> t \<le> pg_clock env n)"

definition renewed_lease :: "pg_env \<Rightarrow> nat \<Rightarrow> receipt_row \<Rightarrow> receipt_row" where
  "renewed_lease env n r = r\<lparr>re_operation_id := pg_new_operation_id env,
     re_lease_attempt := re_lease_attempt r + 1,
     re_lease_expires_at := Some (lease_until (pg_clock env n)), re_updated_at := pg_now env\<rparr>"

definition taken_over :: "pg_env \<Rightarrow> nat \<Rightarrow> receipt_row \<Rightarrow> database \<Rightarrow> database" where
  "taken_over env n row db = db\<lparr>
     receipts := update_rows (\<lambda>r. re_idempotency_key r = re_idempotency_key row)
       (renewed_lease env n) (receipts db),
     credential_reservations := update_rows (\<lambda>v. cv_operation_id v = re_operation_id row)
       (\<lambda>v. v\<lparr>cv_operation_id := pg_new_operation_id env\<rparr>) (credential_reservations db)\<rparr>"

definition claim_effect ::
  "operation_request \<Rightarrow> pg_env \<Rightarrow> database \<Rightarrow> uuid option \<Rightarrow> database \<Rightarrow> bool" where
  "claim_effect operation env db claimed db' \<longleftrightarrow>
     (claimed = None \<and> db' = db \<and> receipt_of db (op_idempotency_key operation) = None)
     \<or> (\<exists>row n. claimed = Some (pg_new_operation_id env)
          \<and> receipt_of db (op_idempotency_key operation) = Some row
          \<and> receipt_matches row operation \<and> re_state row = ''in_progress'' \<and> due env n row
          \<and> db' = taken_over env n row db \<and> schema_ok db')"

lemma update_rows_unique:
  assumes "unique_on k rows" and "row \<in> set rows" and "\<And>r. P r \<Longrightarrow> k r = k row"
  shows "update_rows P f rows = (if P row then update_rows (\<lambda>r. k r = k row) f rows else rows)"
proof (cases "P row")
  case True
  have "(if P r then f r else r) = (if k r = k row then f r else r)" if "r \<in> set rows" for r
  proof (cases "k r = k row")
    case k: True
    with assms(1) that assms(2) have "r = row" by (rule unique_on_same)
    with True k show ?thesis by simp
  next
    case False
    then show ?thesis using assms(3) by auto
  qed
  then have "map (\<lambda>r. if P r then f r else r) rows = map (\<lambda>r. if k r = k row then f r else r) rows"
    by (rule map_cong [OF refl])
  with True show ?thesis by (simp add: update_rows_def)
next
  case False
  have "(if P r then f r else r) = r" if "r \<in> set rows" for r
    using False assms(3) unique_on_same [OF assms(1) that assms(2)] by auto
  then have "map (\<lambda>r. if P r then f r else r) rows = rows" by (rule map_idI)
  with False show ?thesis by (simp add: update_rows_def)
qed

lemma take_over_Ok:
  assumes "schema_ok db" "receipt_of db key = Some row" "re_state row = ''in_progress''"
    and "take_over_receipt key new_id (re_operation_id row) env n db = Ok (c, db')"
    and "new_id = pg_new_operation_id env"
  shows "c = (if due env n row then 1 else 0)
    \<and> db' = (if due env n row then db\<lparr>receipts := update_rows (\<lambda>r. re_idempotency_key r = key)
        (renewed_lease env n) (receipts db)\<rparr> else db)
    \<and> list_all receipt_check (receipts db') \<and> receipts_unique (receipts db')"
proof -
  let ?P = "\<lambda>r. re_idempotency_key r = key \<and> re_operation_id r = re_operation_id row
     \<and> re_state r = ''in_progress'' \<and> due env n r"
  have row: "row \<in> set (receipts db)" "re_idempotency_key row = key"
    using receipt_of_Some [OF assms(2)] by auto
  have u: "unique_on re_idempotency_key (receipts db)" using assms(1) by (rule schema_okD)
  have upd: "update_rows ?P (renewed_lease env n) (receipts db) =
     (if ?P row then update_rows (\<lambda>r. re_idempotency_key r = re_idempotency_key row)
        (renewed_lease env n) (receipts db) else receipts db)"
    by (rule update_rows_unique [OF u row(1)]) (use row in simp)
  have cnt: "count_rows ?P (receipts db) = (if due env n row then 1 else 0)"
  proof (cases "due env n row")
    case True
    then have "?P row" using row assms(3) by simp
    then have "count_rows ?P (receipts db) = 1" by (rule count_rows_unique_1 [OF u row(1)]) simp
    with True show ?thesis by simp
  next
    case False
    have "\<not> ?P r" if "r \<in> set (receipts db)" for r
      using False unique_on_same [OF u that row(1)] row(2) by auto
    then have "count_rows ?P (receipts db) = 0" by (simp add: count_rows_0)
    with False show ?thesis by simp
  qed
  from assms(4,5) have "list_all receipt_check (update_rows ?P (renewed_lease env n) (receipts db))"
    "receipts_unique (update_rows ?P (renewed_lease env n) (receipts db))"
    "c = count_rows ?P (receipts db)" "db' = db\<lparr>receipts := update_rows ?P (renewed_lease env n) (receipts db)\<rparr>"
    by (simp_all add: take_over_receipt_def put_receipts_def Let_def renewed_lease_def [abs_def] due_def)
  with upd cnt row(2) assms(3) show ?thesis by auto
qed

lemma wlp_claim:
  assumes "schema_ok (tx_db s)"
    and new: "\<And>s'. receipt_of (tx_db s) (op_idempotency_key operation) = None \<Longrightarrow>
       tx_db s' = tx_db s \<Longrightarrow> Q ClaimNew s'"
    and over: "\<And>s' row n. claim_effect operation env (tx_db s) (Some (pg_new_operation_id env)) (tx_db s')
       \<Longrightarrow> Q (TakenOver (pg_new_operation_id env)) s'"
    and busy: "\<And>s' row. receipt_of (tx_db s) (op_idempotency_key operation) = Some row \<Longrightarrow>
       receipt_matches row operation \<Longrightarrow> re_state row = ''in_progress'' \<Longrightarrow> tx_db s' = tx_db s \<Longrightarrow>
       Q (Prepared (InProgress (re_operation_id row))) s'"
    and replay: "\<And>s' row response. receipt_of (tx_db s) (op_idempotency_key operation) = Some row \<Longrightarrow>
       receipt_matches row operation \<Longrightarrow> re_state row \<noteq> ''in_progress'' \<Longrightarrow>
       decode_receipt st row = Ok response \<Longrightarrow> tx_db s' = tx_db s \<Longrightarrow>
       Q (Prepared (Replay response)) s'"
  shows "wlp (claim_existing_receipt st operation) Q env s"
proof (cases "receipt_of (tx_db s) (op_idempotency_key operation)")
  case None
  then show ?thesis using new by (simp add: claim_existing_receipt_def wlp_simps)
next
  case (Some row)
  have key: "op_idempotency_key operation = re_idempotency_key row" using receipt_of_Some [OF Some] by simp
  note * = assms(1) Some [unfolded key]
  show ?thesis
  proof (cases "receipt_matches row operation \<and> re_state row = ''in_progress''")
    case True
    have step: "wlp (tx_bind (tx_execute (take_over_receipt (op_idempotency_key operation)
                (pg_new_operation_id env) (re_operation_id row))) (\<lambda>claimed.
              if claimed = 0 then tx_return (Prepared (InProgress (re_operation_id row)))
              else tx_bind (tx_execute (move_credential_reservation (re_operation_id row)
                     (pg_new_operation_id env))) (\<lambda>_.
                   tx_return (TakenOver (pg_new_operation_id env))))) Q env s1"
      if s1: "tx_db s1 = tx_db s" for s1
      unfolding wlp_bind
    proof (rule wlp_step_execute)
      fix c n and s2 :: tx_state
      assume "take_over_receipt (op_idempotency_key operation) (pg_new_operation_id env)
        (re_operation_id row) env n (tx_db s1) = Ok (c, tx_db s2)"
      then have t: "c = (if due env n row then 1 else 0)"
        "tx_db s2 = (if due env n row then (tx_db s)\<lparr>receipts := update_rows
          (\<lambda>r. re_idempotency_key r = re_idempotency_key row) (renewed_lease env n)
          (receipts (tx_db s))\<rparr> else tx_db s)"
        "list_all receipt_check (receipts (tx_db s2)) \<and> receipts_unique (receipts (tx_db s2))"
        using take_over_Ok [OF *] True unfolding s1 key by blast+
      show "wlp (if c = 0 then tx_return (Prepared (InProgress (re_operation_id row)))
              else tx_bind (tx_execute (move_credential_reservation (re_operation_id row)
                     (pg_new_operation_id env))) (\<lambda>_.
                   tx_return (TakenOver (pg_new_operation_id env)))) Q env s2"
      proof (cases "due env n row")
        case False
        with t True Some busy show ?thesis by (simp add: wlp_simps)
      next
        case True': True
        have schema2: "schema_ok (tx_db s2)"
          using t(3) assms(1) unfolding t(2) by (simp add: True' schema_ok_def)
        have "wlp (tx_execute (move_credential_reservation (re_operation_id row) (pg_new_operation_id env)))
           (\<lambda>_. wlp (tx_return (TakenOver (pg_new_operation_id env))) Q env) env s2"
        proof (rule wlp_step_execute)
          fix a n' and s3 :: tx_state
          assume "move_credential_reservation (re_operation_id row) (pg_new_operation_id env) env n'
             (tx_db s2) = Ok (a, tx_db s3)"
          note m = this [unfolded move_credential_reservation_def Let_def]
          have "schema_ok (tx_db s3)" by (rule schema_ok_put(5) [OF schema2 m])
          moreover have "tx_db s3 = taken_over env n row (tx_db s)"
            using m t(2) True' by (simp add: put_credential_reservations_def taken_over_def)
          ultimately have "claim_effect operation env (tx_db s) (Some (pg_new_operation_id env)) (tx_db s3)"
            using Some True True' unfolding claim_effect_def by blast
          then show "wlp (tx_return (TakenOver (pg_new_operation_id env))) Q env s3"
            unfolding wlp_return by (rule over)
        qed
        with t(1) True' show ?thesis by (simp add: wlp_bind)
      qed
    qed
    show ?thesis
      unfolding claim_existing_receipt_def wlp_bind
      unfolding lock_receipt_row_def
      by (rule wlp_step_query) (use True Some step in \<open>auto simp: wlp_simps Let_def\<close>)
  next
    case False
    with Some replay show ?thesis by (auto simp: claim_existing_receipt_def wlp_simps)
  qed
qed

lemma claim_effect_schema: "claim_effect operation env db claimed db' \<Longrightarrow> schema_ok db \<Longrightarrow> schema_ok db'"
  by (auto simp: claim_effect_def)

lemma wlp_with_claim:
  assumes "schema_ok (tx_db s)"
    and body: "\<And>claimed s'. claim_effect operation env (tx_db s) claimed (tx_db s') \<Longrightarrow>
       wlp (body claimed) Q env s'"
    and answered: "\<And>s' p. tx_db s' = tx_db s \<Longrightarrow> (\<And>i c. p \<noteq> Execute i c) \<Longrightarrow> Q p s'"
  shows "wlp (with_claim st operation body) Q env s"
  unfolding with_claim_def wlp_bind
proof (rule wlp_step_lock)
  fix s1 :: tx_state assume s1: "tx_db s1 = tx_db s"
  show "wlp (claim_existing_receipt st operation)
     (\<lambda>c. wlp (case c of ClaimNew \<Rightarrow> body None | TakenOver x \<Rightarrow> body (Some x)
        | Prepared p \<Rightarrow> tx_return (map_context p)) Q env) env s1"
  proof (rule wlp_claim)
    show "schema_ok (tx_db s1)" using assms(1) s1 by simp
  next
    fix s' :: tx_state
    assume "receipt_of (tx_db s1) (op_idempotency_key operation) = None" "tx_db s' = tx_db s1"
    then show "wlp (case ClaimNew of ClaimNew \<Rightarrow> body None | TakenOver x \<Rightarrow> body (Some x)
        | Prepared p \<Rightarrow> tx_return (map_context p)) Q env s'"
      using s1 by (simp add: body claim_effect_def)
  next
    fix s' :: tx_state
    assume "claim_effect operation env (tx_db s1) (Some (pg_new_operation_id env)) (tx_db s')"
    then show "wlp (case TakenOver (pg_new_operation_id env) of ClaimNew \<Rightarrow> body None
        | TakenOver x \<Rightarrow> body (Some x) | Prepared p \<Rightarrow> tx_return (map_context p)) Q env s'"
      using s1 by (simp add: body)
  qed (use s1 answered in \<open>simp_all add: wlp_simps\<close>)
qed

section \<open>Evaluation of the first steps\<close>

lemma tx_bind_run_Ok: "m env s = (Ok a, s') \<Longrightarrow> tx_bind m f env s = f a env s'"
  by (simp add: tx_bind_def)

lemma tx_bind_run_Err: "m env s = (Err e, s') \<Longrightarrow> tx_bind m f env s = (Err e, s')"
  by (simp add: tx_bind_def)

lemma advisory_lock_run:
  "no_faults env \<Longrightarrow> \<exists>s'. advisory_lock l env s = (Ok (), s') \<and> tx_db s' = tx_db s"
  by (simp add: advisory_lock_def tx_bind_def tx_log_locks_def tx_query_def tx_stmt_def Let_def)

lemma lock_receipt_row_run:
  "no_faults env \<Longrightarrow> \<exists>s'. lock_receipt_row key env s = (Ok (receipt_of (tx_db s) key), s') \<and> tx_db s' = tx_db s"
  by (simp add: lock_receipt_row_def tx_query_for_update_def tx_bind_def tx_log_locks_def tx_query_def
      tx_stmt_def tx_return_def Let_def)

lemma after_lock_run:
  assumes "no_faults env" and "\<And>s'. tx_db s' = tx_db s \<Longrightarrow> \<exists>s''. f () env s' = (r, s'') \<and> R s''"
  shows "\<exists>s''. tx_bind (advisory_lock l) f env s = (r, s'') \<and> R s''"
    and "\<exists>s''. tx_bind (lock_service sid) f env s = (r, s'') \<and> R s''"
  using advisory_lock_run [OF assms(1)] assms(2) by (metis lock_service_def tx_bind_run_Ok)+

lemma require_lost_run:
  assumes "no_faults env" and "receipt_of (tx_db s) (op_idempotency_key operation) = Some row"
    and "receipt_matches row operation" and "re_operation_id row \<noteq> operation_id"
  shows "\<exists>s'. tx_bind (require_in_progress_receipt operation operation_id) f env s
     = (Err (OperationLeaseLost (re_operation_id row)), s') \<and> True"
proof -
  obtain s' where "lock_receipt_row (op_idempotency_key operation) env s = (Ok (Some row), s')"
    using lock_receipt_row_run [OF assms(1)] assms(2) by metis
  then have "require_in_progress_receipt operation operation_id env s
     = (Err (OperationLeaseLost (re_operation_id row)), s')"
    using assms(3,4) by (simp add: require_in_progress_receipt_def tx_bind_def tx_throw_def)
  then show ?thesis by (simp add: tx_bind_run_Err)
qed

lemma in_transaction_run_Err:
  "no_faults env \<Longrightarrow> \<exists>s'. body env (tx_initial db) = (Err e, s') \<and> True \<Longrightarrow> in_transaction body env db = (Err e, db)"
  by (auto intro: in_transaction_throw)

lemma in_transaction_run_Ok:
  "no_faults env \<Longrightarrow> \<exists>s'. body env (tx_initial db) = (Ok a, s') \<and> tx_db s' = db' \<Longrightarrow>
     in_transaction body env db = (Ok a, db')"
  by (auto intro: in_transaction_done)

lemma with_claim_run:
  assumes "no_faults env"
    and "\<And>s'. tx_db s' = db \<Longrightarrow> \<exists>s''. claim_existing_receipt st operation env s' = (Ok (Prepared p), s'')
       \<and> tx_db s'' = db"
  shows "in_transaction (with_claim st operation body) env db = (Ok (map_context p), db)"
proof (rule in_transaction_run_Ok [OF assms(1)])
  show "\<exists>s'. with_claim st operation body env (tx_initial db) = (Ok (map_context p), s') \<and> tx_db s' = db"
    unfolding with_claim_def
  proof (rule after_lock_run [OF assms(1)])
    fix s' :: tx_state assume "tx_db s' = tx_db (tx_initial db)"
    then obtain s'' where "claim_existing_receipt st operation env s' = (Ok (Prepared p), s'')" "tx_db s'' = db"
      using assms(2) [of s'] by auto
    then show "\<exists>s''. tx_bind (claim_existing_receipt st operation) (\<lambda>claim. case claim of
       ClaimNew \<Rightarrow> body None | TakenOver operation_id \<Rightarrow> body (Some operation_id)
     | Prepared prepared \<Rightarrow> tx_return (map_context prepared)) env s' = (Ok (map_context p), s'') \<and> tx_db s'' = db"
      by (simp add: tx_bind_run_Ok tx_return_def)
  qed
qed

lemma with_claim_replay:
  assumes "no_faults env" and "receipt_of db (op_idempotency_key operation) = Some row"
    and "receipt_matches row operation" and "re_state row \<noteq> ''in_progress''"
    and "decode_receipt st row = Ok response"
  shows "in_transaction (with_claim st operation body) env db = (Ok (Replay response), db)"
proof -
  have "\<exists>s''. claim_existing_receipt st operation env s' = (Ok (Prepared (Replay response)), s'')
       \<and> tx_db s'' = db" if s': "tx_db s' = db" for s'
  proof -
    obtain s1 where "lock_receipt_row (op_idempotency_key operation) env s' = (Ok (Some row), s1)" "tx_db s1 = db"
      using lock_receipt_row_run [OF assms(1), of "op_idempotency_key operation" s'] assms(2) s' by auto
    then show ?thesis using assms(3-5)
      by (simp add: claim_existing_receipt_def tx_bind_run_Ok)
         (simp add: tx_bind_def tx_lift_def tx_return_def)
  qed
  from with_claim_run [OF assms(1) this] show ?thesis by simp
qed

lemma with_claim_conflict:
  assumes "no_faults env" and "receipt_of db (op_idempotency_key operation) = Some row"
    and "\<not> receipt_matches row operation"
  shows "in_transaction (with_claim st operation body) env db = (Err IdempotencyConflict, db)"
proof (rule in_transaction_run_Err [OF assms(1)])
  show "\<exists>s'. with_claim st operation body env (tx_initial db) = (Err IdempotencyConflict, s') \<and> True"
    unfolding with_claim_def
  proof (rule after_lock_run [OF assms(1)])
    fix s' :: tx_state assume s': "tx_db s' = tx_db (tx_initial db)"
    obtain s1 where "lock_receipt_row (op_idempotency_key operation) env s' = (Ok (Some row), s1)"
      using lock_receipt_row_run [OF assms(1), of "op_idempotency_key operation" s'] assms(2) s' by auto
    with assms(3) have "claim_existing_receipt st operation env s' = (Err IdempotencyConflict, s1)"
      by (simp add: claim_existing_receipt_def tx_bind_run_Ok tx_throw_def)
    then show "\<exists>s''. tx_bind (claim_existing_receipt st operation) (\<lambda>claim. case claim of
       ClaimNew \<Rightarrow> body None | TakenOver operation_id \<Rightarrow> body (Some operation_id)
     | Prepared prepared \<Rightarrow> tx_return (map_context prepared)) env s' = (Err IdempotencyConflict, s'') \<and> True"
      by (simp add: tx_bind_run_Err)
  qed
qed

lemma take_over_not_due:
  assumes "schema_ok db" "receipt_of db key = Some row" "\<not> due env n row"
  shows "take_over_receipt key new_id (re_operation_id row) env n db = Ok (0, db)"
proof -
  have row: "row \<in> set (receipts db)" "re_idempotency_key row = key"
    using receipt_of_Some [OF assms(2)] by auto
  have u: "unique_on re_idempotency_key (receipts db)" using assms(1) by (rule schema_okD)
  let ?P = "\<lambda>r. re_idempotency_key r = key \<and> re_operation_id r = re_operation_id row
     \<and> re_state r = ''in_progress'' \<and> due env n r"
  have none: "\<forall>r \<in> set (receipts db). \<not> ?P r"
  proof
    fix r assume "r \<in> set (receipts db)"
    with unique_on_same [OF u this row(1)] row(2) assms(3) show "\<not> ?P r" by auto
  qed
  have same: "update_rows ?P f (receipts db) = receipts db" for f
    unfolding update_rows_def by (rule map_idI) (use none in auto)
  have cnt: "count_rows ?P (receipts db) = 0" using none by (simp add: count_rows_0)
  show ?thesis
    using assms(1) unfolding take_over_receipt_def Let_def put_receipts_def
    by (simp add: same [unfolded due_def] cnt [unfolded due_def] schema_ok_def checked_def)
qed

lemma receipt_in_progress_lease:
  "receipt_check r \<Longrightarrow> re_state r = ''in_progress'' \<Longrightarrow> re_lease_expires_at r \<noteq> None"
  unfolding receipt_check_def by auto

lemma with_claim_busy:
  assumes "no_faults env" and "schema_ok db" and "receipt_of db (op_idempotency_key operation) = Some row"
    and "receipt_matches row operation" and "re_state row = ''in_progress''" and "\<And>n. \<not> due env n row"
  shows "in_transaction (with_claim st operation body) env db = (Ok (InProgress (re_operation_id row)), db)"
proof -
  obtain t where lease: "re_lease_expires_at row = Some t"
    using schema_okD(12) [OF assms(2)] receipt_of_Some [OF assms(3)] assms(5)
    receipt_in_progress_lease by blast
  have "\<exists>s''. claim_existing_receipt st operation env s'
       = (Ok (Prepared (InProgress (re_operation_id row))), s'') \<and> tx_db s'' = db"
    if s': "tx_db s' = db" for s'
  proof -
    obtain s1 where "lock_receipt_row (op_idempotency_key operation) env s' = (Ok (Some row), s1)" "tx_db s1 = db"
      using lock_receipt_row_run [OF assms(1), of "op_idempotency_key operation" s'] assms(3) s' by auto
    then show ?thesis using assms(4,5) lease assms(1)
      by (simp add: claim_existing_receipt_def tx_bind_run_Ok tx_with_env_def Let_def)
         (simp add: tx_bind_def tx_execute_def tx_stmt_def Let_def tx_return_def
           take_over_not_due [OF assms(2,3,6)])
  qed
  from with_claim_run [OF assms(1) this] show ?thesis by simp
qed

section \<open>Reserving and finishing\<close>

lemma wlp_claimed_or_reserve:
  assumes "\<And>s' n. claimed = None \<Longrightarrow>
       put_receipts (receipts (tx_db s) @ [new_receipt operation (pg_new_operation_id env)
          (pg_now env) (pg_clock env n)]) () (tx_db s) = Ok ((), tx_db s') \<Longrightarrow>
       Q (pg_new_operation_id env) s'"
    and "\<And>i. claimed = Some i \<Longrightarrow> Q i s"
  shows "wlp (claimed_or_reserve claimed operation) Q env s"
proof (cases claimed)
  case None
  then show ?thesis using assms(1)
    by (simp add: claimed_or_reserve_def reserve_receipt_def wlp_simps Let_def)
next
  case (Some i)
  then show ?thesis using assms(2) by (simp add: claimed_or_reserve_def wlp_simps)
qed

lemma wlp_reserve:
  assumes "\<And>s' n. put_receipts (receipts (tx_db s) @ [new_receipt operation (pg_new_operation_id env)
          (pg_now env) (pg_clock env n)]) () (tx_db s) = Ok ((), tx_db s') \<Longrightarrow>
       Q (pg_new_operation_id env) s'"
  shows "wlp (reserve_receipt operation) Q env s"
  using assms by (simp add: reserve_receipt_def wlp_simps Let_def)

lemma finish_rows_row:
  assumes "schema_ok db" and "receipt_of db (op_idempotency_key operation) = Some row"
    and "re_operation_id row = operation_id" and "re_state row = ''in_progress''"
    and "receipts db' = finish_rows env operation operation_id response nonce ciphertext (receipts db)"
  shows "receipt_of db' (op_idempotency_key operation)
     = Some (finished response nonce ciphertext (pg_now env) row)"
proof -
  have "re_idempotency_key row = op_idempotency_key operation" using receipt_of_Some [OF assms(2)] by simp
  then have "holds_receipt (op_idempotency_key operation) operation_id row"
    using assms(3,4) by (simp add: holds_receipt_def)
  with assms(2) show ?thesis
    unfolding receipt_of_def assms(5) finish_rows_def
    by (subst find_update_rows) (simp_all add: finished_def)
qed

text \<open>What the store relies on of the JSON text codec and of AES-256-GCM.\<close>

definition store_codecs_ok :: "pg_store \<Rightarrow> bool" where
  "store_codecs_ok st \<longleftrightarrow>
     aead_correct (ps_aead_encrypt st) (ps_aead_decrypt st)
     \<and> (\<forall>v b. ps_json_to_vec st v = Some b \<longrightarrow> ps_json_from_slice st b = Some v)"

lemma decode_finished:
  assumes "store_codecs_ok st" and "sealed st env operation operation_id response nonce ciphertext"
    and "re_idempotency_key row = op_idempotency_key operation" and "re_operation_id row = operation_id"
    and "length nonce = NONCE_BYTES"
  shows "decode_receipt st (finished response nonce ciphertext now row) = Ok response"
proof -
  from assms(2) obtain p where p: "ps_json_to_vec st (sh_body response) = Some p"
    "cipher_encrypt (ps_aead_encrypt st) (ps_receipt_cipher st) (pg_nonce env)
       (op_idempotency_key operation) operation_id p = Ok (nonce, ciphertext)"
    by (auto simp: sealed_def)
  have "cipher_decrypt (ps_aead_decrypt st) (ps_receipt_cipher st) (op_idempotency_key operation)
      operation_id nonce ciphertext = Ok p"
    using p(2) assms(1,5) unfolding store_codecs_ok_def aead_correct_def
    by (auto simp: cipher_encrypt_Ok cipher_decrypt_def)
  moreover have "ps_json_from_slice st p = Some (sh_body response)"
    using p(1) assms(1) by (simp add: store_codecs_ok_def)
  ultimately show ?thesis using assms(3,4) by (simp add: decode_receipt_def finished_def)
qed

section \<open>Contracts\<close>

text \<open>
  An operation that presents the operation identifier of a receipt. It has an effect only while that
  identifier holds the receipt, and reports the identifier that took the lease over.
\<close>

locale fenced_operation =
  fixes operation :: operation_request
    and operation_id :: uuid
    and accepted :: bool
    and run :: "unit store_op"
  assumes fenced: "run env db = (r, db') \<Longrightarrow> db' \<noteq> db \<or> r = Ok () \<Longrightarrow> holder db operation operation_id"
    and lost: "accepted \<Longrightarrow> no_faults env \<Longrightarrow>
      receipt_of db (op_idempotency_key operation) = Some row \<Longrightarrow> receipt_matches row operation \<Longrightarrow>
      re_operation_id row \<noteq> operation_id \<Longrightarrow>
      run env db = (Err (OperationLeaseLost (re_operation_id row)), db)"
begin

lemma superseded:
  assumes "receipt_of db (op_idempotency_key operation) = Some row" and "re_operation_id row \<noteq> operation_id"
  shows "\<exists>e. run env db = (Err e, db)"
proof -
  obtain r db' where run: "run env db = (r, db')" by fastforce
  have "\<not> holder db operation operation_id" using assms by (simp add: holder_def)
  with fenced [OF run] have "db' = db" "r \<noteq> Ok ()" by auto
  with run show ?thesis by (cases r) simp_all
qed

lemma finished_once:
  assumes "receipt_of db (op_idempotency_key operation) = Some row" and "re_state row \<noteq> ''in_progress''"
  shows "\<exists>e. run env db = (Err e, db)"
proof -
  obtain r db' where run: "run env db = (r, db')" by fastforce
  have "\<not> holder db operation operation_id" using assms by (simp add: holder_def)
  with fenced [OF run] have "db' = db" "r \<noteq> Ok ()" by auto
  with run show ?thesis by (cases r) simp_all
qed

end

text \<open>
  A fenced operation that also finishes the receipt: whenever it has an effect, the receipt carries
  the encrypted response and one audit row is appended.
\<close>

locale completing_operation = fenced_operation +
  fixes st :: pg_store
    and response :: stored_http_response
    and audit :: audit_event
  assumes completes: "run env db = (r, db') \<Longrightarrow> db' \<noteq> db \<or> r = Ok () \<Longrightarrow>
      \<exists>nonce ciphertext. sealed st env operation operation_id response nonce ciphertext
        \<and> receipts db' = finish_rows env operation operation_id response nonce ciphertext (receipts db)
        \<and> audit_events db' = audit_events db @ [audit_row_of env audit]"
    and keeps_schema: "schema_ok db \<Longrightarrow> run env db = (r, db') \<Longrightarrow> schema_ok db'"
begin

lemma stores_response:
  assumes "schema_ok db" and "store_codecs_ok st" and "run env db = (r, db')" and "db' \<noteq> db \<or> r = Ok ()"
  shows "\<exists>row. receipt_of db' (op_idempotency_key operation) = Some row \<and> receipt_matches row operation
     \<and> re_state row \<noteq> ''in_progress'' \<and> decode_receipt st row = Ok response"
proof -
  obtain nonce ciphertext where s: "sealed st env operation operation_id response nonce ciphertext"
    and r: "receipts db' = finish_rows env operation operation_id response nonce ciphertext (receipts db)"
    using completes [OF assms(3,4)] by auto
  obtain row where row: "receipt_of db (op_idempotency_key operation) = Some row"
    "receipt_matches row operation" "re_operation_id row = operation_id" "re_state row = ''in_progress''"
    using fenced [OF assms(3,4)] by (auto simp: holder_def)
  let ?f = "finished response nonce ciphertext (pg_now env) row"
  have f: "receipt_of db' (op_idempotency_key operation) = Some ?f"
    by (rule finish_rows_row [OF assms(1) row(1,3,4) r])
  then have "receipt_check ?f"
    using receipt_of_Some schema_okD(12) [OF keeps_schema [OF assms(1,3)]] by blast
  then have "length nonce = NONCE_BYTES" by (simp add: receipt_check_def finished_def NONCE_BYTES_def)
  with assms(2) s row(3) receipt_of_Some [OF row(1)] have "decode_receipt st ?f = Ok response"
    by (simp add: decode_finished)
  moreover have "receipt_matches ?f operation" using row(2) by (simp add: receipt_matches_def finished_def)
  moreover have "re_state ?f \<noteq> ''in_progress''" by (simp add: finished_def)
  ultimately show ?thesis using f by blast
qed

end

text \<open>
  An operation that starts from an idempotency key: a finished receipt is replayed, a running one is
  reported, a key used for another request is refused, each without an effect; and what is granted to
  run holds the receipt under a new identifier, alone on its service.
\<close>

locale starting_operation =
  fixes st :: pg_store
    and operation :: operation_request
    and accepted :: bool
    and run :: "'c prepare store_op"
  assumes replays: "accepted \<Longrightarrow> no_faults env \<Longrightarrow>
      receipt_of db (op_idempotency_key operation) = Some row \<Longrightarrow> receipt_matches row operation \<Longrightarrow>
      re_state row \<noteq> ''in_progress'' \<Longrightarrow> decode_receipt st row = Ok response \<Longrightarrow>
      run env db = (Ok (Replay response), db)"
    and waits: "accepted \<Longrightarrow> no_faults env \<Longrightarrow> schema_ok db \<Longrightarrow>
      receipt_of db (op_idempotency_key operation) = Some row \<Longrightarrow> receipt_matches row operation \<Longrightarrow>
      re_state row = ''in_progress'' \<Longrightarrow> (\<And>n. \<not> due env n row) \<Longrightarrow>
      run env db = (Ok (InProgress (re_operation_id row)), db)"
    and refuses: "accepted \<Longrightarrow> no_faults env \<Longrightarrow>
      receipt_of db (op_idempotency_key operation) = Some row \<Longrightarrow> \<not> receipt_matches row operation \<Longrightarrow>
      run env db = (Err IdempotencyConflict, db)"
    and grants: "schema_ok db \<Longrightarrow> run env db = (Ok (Execute i context), db') \<Longrightarrow>
      i = pg_new_operation_id env \<and> holder db' operation i
      \<and> (\<forall>r \<in> set (receipts db'). re_service_instance_id r = op_service_instance_id operation
           \<and> re_state r = ''in_progress'' \<longrightarrow> re_idempotency_key r = op_idempotency_key operation)"

text \<open>A cycle of one request: started, completed, and asked for again.\<close>

locale operation_cycle =
  start: starting_operation st operation started prepare +
  finish: completing_operation operation operation_id finishes complete st response audit
  for st operation started prepare operation_id finishes complete response audit
begin

lemma completed_is_replayed:
  assumes "schema_ok db" and "store_codecs_ok st" and "complete env db = (r, db')" and "db' \<noteq> db \<or> r = Ok ()"
    and "started" and "no_faults env'"
  shows "prepare env' db' = (Ok (Replay response), db')"
  using finish.stores_response [OF assms(1-4)] start.replays [OF assms(5,6)] by blast

end

section \<open>Renewing and failing\<close>

text \<open>
  The rules that establish the contracts from the shape of an operation: a check before the
  transaction, locks, and the test of the receipt.
\<close>

lemma fenced_operationI:
  assumes run: "run = before_transaction pre (\<lambda>x. in_transaction (body x))"
    and fenced: "\<And>x env db. wlp (body x) (\<lambda>_ _. holder db operation operation_id) env (tx_initial db)"
    and lost: "\<And>x env db row. no_faults env \<Longrightarrow>
      receipt_of db (op_idempotency_key operation) = Some row \<Longrightarrow> receipt_matches row operation \<Longrightarrow>
      re_operation_id row \<noteq> operation_id \<Longrightarrow>
      \<exists>s. body x env (tx_initial db) = (Err (OperationLeaseLost (re_operation_id row)), s) \<and> True"
  shows "fenced_operation operation operation_id (\<exists>x. pre = Ok x) run"
proof
  fix env db r db'
  assume r: "run env db = (r, db')" and e: "db' \<noteq> db \<or> r = Ok ()"
  show "holder db operation operation_id"
  proof (rule before_transaction_cases [OF r [unfolded run]])
    fix x assume "in_transaction (body x) env db = (r, db')"
    from this fenced show ?thesis by (rule in_transaction_cases) (use e in auto)
  qed (use e in auto)
next
  fix env db row
  assume "\<exists>x. pre = Ok x" and n: "no_faults env"
    and row: "receipt_of db (op_idempotency_key operation) = Some row"
    "receipt_matches row operation" "re_operation_id row \<noteq> operation_id"
  then obtain x where "pre = Ok x" by blast
  moreover have "in_transaction (body x) env db = (Err (OperationLeaseLost (re_operation_id row)), db)"
    using n lost [OF n row] by (rule in_transaction_run_Err)
  ultimately show "run env db = (Err (OperationLeaseLost (re_operation_id row)), db)" by (simp add: run)
qed

lemmas lost_run = after_lock_run require_lost_run

interpretation renew: fenced_operation operation operation_id
    "\<exists>x. operation_validate operation = Ok x" "renew_operation operation operation_id"
  for operation operation_id
  apply (rule fenced_operationI [OF renew_operation_def])
  subgoal unfolding renew_operation_body_def by (intro wlp_steps) simp_all
  subgoal unfolding renew_operation_body_def by (intro lost_run) simp_all
  done

text \<open>What a finishing statement and the audit record leave of the database, and of its schema.\<close>

definition close_receipt :: "pg_env \<Rightarrow> operation_request \<Rightarrow> uuid \<Rightarrow> stored_http_response
    \<Rightarrow> audit_event \<Rightarrow> bytes \<Rightarrow> bytes \<Rightarrow> database \<Rightarrow> database" where
  "close_receipt env operation operation_id response audit nonce ciphertext db =
     db\<lparr>receipts := finish_rows env operation operation_id response nonce ciphertext (receipts db),
        audit_events := audit_events db @ [audit_row_of env audit]\<rparr>"

lemma close_receipt_simps [simp]:
  "services (close_receipt env operation i response audit nonce c db) = services db"
  "name_reservations (close_receipt env operation i response audit nonce c db) = name_reservations db"
  "buckets (close_receipt env operation i response audit nonce c db) = buckets db"
  "credentials (close_receipt env operation i response audit nonce c db) = credentials db"
  "credential_reservations (close_receipt env operation i response audit nonce c db)
     = credential_reservations db"
  "receipts (close_receipt env operation i response audit nonce c db)
     = finish_rows env operation i response nonce c (receipts db)"
  "audit_events (close_receipt env operation i response audit nonce c db)
     = audit_events db @ [audit_row_of env audit]"
  "usage_snapshots (close_receipt env operation i response audit nonce c db) = usage_snapshots db"
  by (simp_all add: close_receipt_def)

lemma wlp_finish_audit:
  assumes "holder (tx_db s) operation operation_id"
    and "\<And>s' nonce ciphertext. sealed st env operation operation_id response nonce ciphertext \<Longrightarrow>
       tx_db s' = close_receipt env operation operation_id response audit nonce ciphertext (tx_db s) \<Longrightarrow>
       (schema_ok (tx_db s) \<Longrightarrow> schema_ok (tx_db s')) \<Longrightarrow> Q () s'"
  shows "wlp (tx_bind (finish_receipt st operation operation_id response) (\<lambda>_. insert_audit audit)) Q env s"
proof (intro wlp_bindI wlp_finish [OF assms(1)] wlp_insert_audit)
  fix s1 s2 :: tx_state and nonce ciphertext and k :: nat
  assume f: "sealed st env operation operation_id response nonce ciphertext"
    "put_receipts (finish_rows env operation operation_id response nonce ciphertext (receipts (tx_db s)))
       k (tx_db s) = Ok (k, tx_db s1)"
    and a: "put_audit_events (audit_events (tx_db s1) @ [audit_row_of env audit]) () (tx_db s1)
       = Ok ((), tx_db s2)"
  show "Q () s2"
  proof (rule assms(2) [OF f(1)])
    show "tx_db s2 = close_receipt env operation operation_id response audit nonce ciphertext (tx_db s)"
      using f(2) a by (simp add: put_receipts_def put_audit_events_def close_receipt_def)
    show "schema_ok (tx_db s2)" if "schema_ok (tx_db s)"
      using that f(2) a by (metis schema_ok_put(6,7))
  qed
qed

definition release_reservations :: "operation_request \<Rightarrow> uuid \<Rightarrow> database \<Rightarrow> database" where
  "release_reservations operation operation_id db = db\<lparr>
     credential_reservations := delete_rows (\<lambda>v. cv_operation_id v = operation_id)
       (credential_reservations db),
     name_reservations := delete_rows (\<lambda>r. nr_service_instance_id r = op_service_instance_id operation
        \<and> \<not> list_ex (\<lambda>b. bk_service_instance_id b = nr_service_instance_id r
                       \<and> bk_bucket_name b = nr_bucket_name r) (buckets db)) (name_reservations db)\<rparr>"

text \<open>The effect of an operation holds whenever it changed the database or reported success.\<close>

lemma changed_effect:
  assumes "before_transaction pre (\<lambda>x. in_transaction (body x)) env db = (r, db')"
    and "db' \<noteq> db \<or> r = Ok a"
    and "\<And>x. pre = Ok x \<Longrightarrow> wlp (body x) (\<lambda>_ s. E (tx_db s)) env (tx_initial db)"
  shows "E db'"
proof (rule before_transaction_cases [OF assms(1)])
  fix x assume x: "pre = Ok x" and run: "in_transaction (body x) env db = (r, db')"
  show ?thesis by (rule in_transaction_cases [OF run assms(3) [OF x]]) (use assms(2) in auto)
qed (use assms(2) in auto)

text \<open>
  The effect of every completing operation: under the held receipt, the operation's own changes
  (leading to \<open>mid\<close>, which has the receipts and the audit trail of before), then the closed receipt.
\<close>

definition closing_effect ::
  "pg_store \<Rightarrow> operation_request \<Rightarrow> uuid \<Rightarrow> stored_http_response \<Rightarrow> audit_event \<Rightarrow> pg_env
     \<Rightarrow> database \<Rightarrow> database \<Rightarrow> database \<Rightarrow> bool" where
  "closing_effect st operation operation_id response audit env db mid db' \<longleftrightarrow>
     holder db operation operation_id \<and> (schema_ok db \<longrightarrow> schema_ok db')
     \<and> receipts mid = receipts db \<and> audit_events mid = audit_events db
     \<and> (\<exists>nonce ciphertext. sealed st env operation operation_id response nonce ciphertext
         \<and> db' = close_receipt env operation operation_id response audit nonce ciphertext mid)"

lemma closing_effectD:
  assumes "closing_effect st operation operation_id response audit env db mid db'"
  shows "holder db operation operation_id"
    and "schema_ok db \<Longrightarrow> schema_ok db'"
    and "services db' = services mid" "buckets db' = buckets mid"
    and "name_reservations db' = name_reservations mid" "credentials db' = credentials mid"
    and "credential_reservations db' = credential_reservations mid"
    and "usage_snapshots db' = usage_snapshots mid"
    and "\<exists>nonce ciphertext. sealed st env operation operation_id response nonce ciphertext
        \<and> receipts db' = finish_rows env operation operation_id response nonce ciphertext (receipts db)
        \<and> audit_events db' = audit_events db @ [audit_row_of env audit]"
proof -
  from assms obtain nonce ciphertext where
    e: "sealed st env operation operation_id response nonce ciphertext"
      "db' = close_receipt env operation operation_id response audit nonce ciphertext mid"
      "receipts mid = receipts db" "audit_events mid = audit_events db"
    by (auto simp: closing_effect_def)
  show "\<exists>nonce ciphertext. sealed st env operation operation_id response nonce ciphertext
        \<and> receipts db' = finish_rows env operation operation_id response nonce ciphertext (receipts db)
        \<and> audit_events db' = audit_events db @ [audit_row_of env audit]"
    using e by (intro exI [of _ nonce] exI [of _ ciphertext]) simp
qed (use assms in \<open>auto simp: closing_effect_def\<close>)

lemma closing_effectI:
  assumes "holder db operation operation_id" and "schema_ok db \<Longrightarrow> schema_ok db'"
    and "receipts mid = receipts db" "audit_events mid = audit_events db"
    and "sealed st env operation operation_id response nonce ciphertext"
    and "db' = close_receipt env operation operation_id response audit nonce ciphertext mid"
  shows "closing_effect st operation operation_id response audit env db mid db'"
  using assms by (auto simp: closing_effect_def)

lemma closing_effect_puts:
  assumes "holder db operation operation_id" and "schema_ok db \<Longrightarrow> schema_ok mid"
    and "receipts mid = receipts db" "audit_events mid = audit_events db"
    and "sealed st env operation operation_id response nonce ciphertext"
    and "put_receipts (finish_rows env operation operation_id response nonce ciphertext (receipts mid))
       k mid = Ok (k, db1)"
    and "put_audit_events (audit_events db1 @ [audit_row_of env audit]) () db1 = Ok ((), db')"
  shows "closing_effect st operation operation_id response audit env db mid db'"
proof (rule closing_effectI [OF assms(1) _ assms(3-5)])
  show "db' = close_receipt env operation operation_id response audit nonce ciphertext mid"
    using assms(6,7) by (simp add: put_receipts_def put_audit_events_def close_receipt_def)
  show "schema_ok db'" if "schema_ok db"
    using schema_ok_put(7) [OF schema_ok_put(6) [OF assms(2) [OF that] assms(6)] assms(7)] .
qed

lemma fail_operation_failed:
  assumes "fail_operation st operation operation_id response audit env db = (r, db')"
    and "db' \<noteq> db \<or> r = Ok ()"
  shows "sh_failed response"
  using assms by (auto simp: fail_operation_def before_transaction_def split: if_splits)

lemma fail_operation_effect:
  assumes "fail_operation st operation operation_id response audit env db = (r, db')"
    and "db' \<noteq> db \<or> r = Ok ()"
  shows "closing_effect st operation operation_id response audit env db
     (release_reservations operation operation_id db) db'"
proof (rule changed_effect [OF assms(1) [unfolded fail_operation_def] assms(2)])
  show "wlp (fail_operation_body st operation operation_id response audit)
     (\<lambda>_ s. closing_effect st operation operation_id response audit env db
        (release_reservations operation operation_id db) (tx_db s)) env (tx_initial db)"
    unfolding fail_operation_body_def
    apply (intro wlp_steps wlp_finish wlp_insert_audit)
    subgoal by simp
    subgoal premises p for s1 s2 s3 s4 nonce ciphertext k a1 s5 n1 a2 s6 n2 s7
    proof -
      note q = p [unfolded put_defs checked_Ok tx_initial_simps]
      have sc: "schema_ok (tx_db s7)" if "schema_ok db"
        using that q by (simp add: schema_ok_def)
      have db7: "tx_db s7 = close_receipt env operation operation_id response audit nonce ciphertext
          (release_reservations operation operation_id db)"
        using q by (simp add: close_receipt_def release_reservations_def)
      show ?thesis
        by (rule closing_effectI [OF _ sc _ _ _ db7]) (use q in \<open>simp_all add: release_reservations_def\<close>)
    qed
    done
qed

lemma completing_operationI:
  assumes run: "run = before_transaction pre (\<lambda>x. in_transaction (body x))"
    and accepted: "accepted \<longleftrightarrow> (\<exists>x. pre = Ok x)"
    and effect: "\<And>env db r db'. run env db = (r, db') \<Longrightarrow> db' \<noteq> db \<or> r = Ok () \<Longrightarrow>
       \<exists>mid. closing_effect st operation operation_id response audit env db mid db'"
    and lost: "\<And>x env db row. no_faults env \<Longrightarrow>
      receipt_of db (op_idempotency_key operation) = Some row \<Longrightarrow> receipt_matches row operation \<Longrightarrow>
      re_operation_id row \<noteq> operation_id \<Longrightarrow>
      \<exists>s. body x env (tx_initial db) = (Err (OperationLeaseLost (re_operation_id row)), s) \<and> True"
  shows "completing_operation operation operation_id accepted run st response audit"
proof (intro completing_operation.intro fenced_operation.intro completing_operation_axioms.intro)
  fix env db row
  assume a: accepted and n: "no_faults env"
    and row: "receipt_of db (op_idempotency_key operation) = Some row"
    "receipt_matches row operation" "re_operation_id row \<noteq> operation_id"
  from a accepted obtain x where "pre = Ok x" by blast
  moreover have "in_transaction (body x) env db = (Err (OperationLeaseLost (re_operation_id row)), db)"
    using n lost [OF n row] by (rule in_transaction_run_Err)
  ultimately show "run env db = (Err (OperationLeaseLost (re_operation_id row)), db)" by (simp add: run)
next
  fix db env db' and r :: "store_error + unit"
  assume "schema_ok db" "run env db = (r, db')"
  then show "schema_ok db'" using effect [of env db r db'] closing_effectD(2) by (cases "db' = db") auto
next
  fix env db db' and r :: "store_error + unit"
  assume "run env db = (r, db')" "db' \<noteq> db \<or> r = Ok ()"
  then obtain mid where "closing_effect st operation operation_id response audit env db mid db'"
    using effect by blast
  then show "holder db operation operation_id"
    and "\<exists>nonce ciphertext. sealed st env operation operation_id response nonce ciphertext
        \<and> receipts db' = finish_rows env operation operation_id response nonce ciphertext (receipts db)
        \<and> audit_events db' = audit_events db @ [audit_row_of env audit]"
    by (rule closing_effectD)+
qed

interpretation fail: completing_operation operation operation_id "sh_failed response"
    "fail_operation st operation operation_id response audit" st response audit
  for st operation operation_id response audit
  by (rule completing_operationI [OF fail_operation_def])
     (simp, blast intro: fail_operation_effect, unfold fail_operation_body_def, intro lost_run, simp_all)

section \<open>Starting\<close>

text \<open>
  The effect of every granted start: the claim (leading to \<open>db1\<close>), the operation's own changes
  (leading to \<open>db2\<close>) made alone on the service, then the new receipt if none was taken over.
\<close>

definition alone :: "database \<Rightarrow> uuid \<Rightarrow> uuid \<Rightarrow> bool" where
  "alone db sid key \<longleftrightarrow> (\<forall>r \<in> set (receipts db).
     re_service_instance_id r = sid \<and> re_state r = ''in_progress'' \<longrightarrow> re_idempotency_key r = key)"

definition reserved :: "uuid option \<Rightarrow> operation_request \<Rightarrow> pg_env \<Rightarrow> database \<Rightarrow> database \<Rightarrow> bool" where
  "reserved claimed operation env db db' \<longleftrightarrow>
     (case claimed of Some _ \<Rightarrow> db' = db
      | None \<Rightarrow> \<exists>n. db' = db\<lparr>receipts := receipts db @ [new_receipt operation
          (pg_new_operation_id env) (pg_now env) (pg_clock env n)]\<rparr>)"

definition receipt_started :: "operation_request \<Rightarrow> pg_env \<Rightarrow> database \<Rightarrow> database \<Rightarrow> bool" where
  "receipt_started operation env db db' \<longleftrightarrow>
     (\<exists>claimed db1 db2. claim_effect operation env db claimed db1
        \<and> alone db1 (op_service_instance_id operation) (op_idempotency_key operation)
        \<and> receipts db2 = receipts db1 \<and> (\<exists>db3. reserved claimed operation env db2 db3 \<and> receipts db' = receipts db3))"

lemma receipt_startedI:
  assumes "claim_effect operation env db claimed db1"
    and "alone db1 (op_service_instance_id operation) (op_idempotency_key operation)"
    and "receipts db2 = receipts db1" and "reserved claimed operation env db2 db3"
    and "receipts db' = receipts db3"
  shows "receipt_started operation env db db'"
  using assms unfolding receipt_started_def by blast

lemma reserved_tables:
  assumes "reserved claimed operation env db db'"
  shows "services db' = services db" "buckets db' = buckets db"
    "name_reservations db' = name_reservations db" "credentials db' = credentials db"
    "credential_reservations db' = credential_reservations db"
    "audit_events db' = audit_events db" "usage_snapshots db' = usage_snapshots db"
  using assms by (auto simp: reserved_def split: option.splits)

lemma taken_over_tables [simp]:
  "services (taken_over env n row db) = services db" "buckets (taken_over env n row db) = buckets db"
  "name_reservations (taken_over env n row db) = name_reservations db"
  "credentials (taken_over env n row db) = credentials db"
  "audit_events (taken_over env n row db) = audit_events db"
  "usage_snapshots (taken_over env n row db) = usage_snapshots db"
  by (simp_all add: taken_over_def)

lemma claim_effect_tables:
  assumes "claim_effect operation env db claimed db'"
  shows "services db' = services db" "buckets db' = buckets db"
    "name_reservations db' = name_reservations db" "credentials db' = credentials db"
    "audit_events db' = audit_events db" "usage_snapshots db' = usage_snapshots db"
  using assms by (auto simp: claim_effect_def)

lemma new_receipt_holder:
  "receipt_matches (new_receipt operation i now clock) operation"
  "re_operation_id (new_receipt operation i now clock) = i"
  "re_state (new_receipt operation i now clock) = ''in_progress''"
  "re_idempotency_key (new_receipt operation i now clock) = op_idempotency_key operation"
  "re_service_instance_id (new_receipt operation i now clock) = op_service_instance_id operation"
  by (simp_all add: new_receipt_def receipt_matches_def)

lemma renewed_lease_simps [simp]:
  "re_idempotency_key (renewed_lease env n r) = re_idempotency_key r"
  "re_operation_id (renewed_lease env n r) = pg_new_operation_id env"
  "re_state (renewed_lease env n r) = re_state r"
  "re_service_instance_id (renewed_lease env n r) = re_service_instance_id r"
  "receipt_matches (renewed_lease env n r) operation = receipt_matches r operation"
  by (simp_all add: renewed_lease_def receipt_matches_def)

lemma receipt_started_holder:
  assumes "receipt_started operation env db db'"
  shows "holder db' operation (pg_new_operation_id env)"
    and "alone db' (op_service_instance_id operation) (op_idempotency_key operation)"
proof -
  let ?key = "op_idempotency_key operation" and ?sid = "op_service_instance_id operation"
  from assms obtain claimed db1 db2 db3 where c: "claim_effect operation env db claimed db1"
    and a: "alone db1 ?sid ?key" and r: "receipts db2 = receipts db1"
      "reserved claimed operation env db2 db3" "receipts db' = receipts db3"
    unfolding receipt_started_def by blast
  have "holder db' operation (pg_new_operation_id env) \<and> alone db' ?sid ?key"
  proof (cases claimed)
    case None
    with c r obtain n where none: "receipt_of db ?key = None" "db1 = db"
      and db': "receipts db' = receipts db @ [new_receipt operation (pg_new_operation_id env)
         (pg_now env) (pg_clock env n)]"
      by (auto simp: claim_effect_def reserved_def)
    have "receipt_of db' ?key = Some (new_receipt operation (pg_new_operation_id env)
         (pg_now env) (pg_clock env n))"
      using none(1) unfolding receipt_of_def db' find_append by (simp add: new_receipt_holder)
    moreover have "alone db' ?sid ?key" using a none(2) db' by (auto simp: alone_def new_receipt_holder)
    ultimately show ?thesis by (auto simp: holder_def new_receipt_holder)
  next
    case (Some i)
    with c obtain row n where row: "receipt_of db ?key = Some row" "receipt_matches row operation"
      "re_state row = ''in_progress''" "db1 = taken_over env n row db"
      by (auto simp: claim_effect_def)
    have db': "receipts db' = receipts (taken_over env n row db)" using Some r row(4) by (simp add: reserved_def)
    have k: "re_idempotency_key row = ?key" using receipt_of_Some [OF row(1)] by simp
    have "receipt_of db' ?key = Some (renewed_lease env n row)"
      using row(1) k unfolding receipt_of_def db' taken_over_def
      by simp (subst find_update_rows, simp_all)
    moreover have "alone db' ?sid ?key" using a row(4) db' by (simp add: alone_def)
    ultimately show ?thesis using row(2,3) by (simp add: holder_def)
  qed
  then show "holder db' operation (pg_new_operation_id env)" "alone db' ?sid ?key" by auto
qed

lemma prepare_effect:
  assumes run: "before_transaction valid (\<lambda>_. in_transaction (with_claim st operation body)) env db = (r, db')"
    and "schema_ok db"
    and body: "\<And>claimed s. claim_effect operation env db claimed (tx_db s) \<Longrightarrow> schema_ok (tx_db s) \<Longrightarrow>
      wlp (body claimed) (\<lambda>p s'. \<exists>i c. p = Execute i c \<and> E i c (tx_db s')) env s"
  shows "(db' = db \<and> (\<forall>i c. r \<noteq> Ok (Execute i c)))
    \<or> (\<exists>i c. E i c db' \<and> (r = Ok (Execute i c) \<or> r = Err (Database ConnectionLost)))"
proof (rule before_transaction_cases [OF run])
  fix x assume t: "in_transaction (with_claim st operation body) env db = (r, db')"
  let ?Q = "\<lambda>p s. (tx_db s = db \<and> (\<forall>i c. p \<noteq> Execute i c)) \<or> (\<exists>i c. p = Execute i c \<and> E i c (tx_db s))"
  have "wlp (with_claim st operation body) ?Q env (tx_initial db)"
  proof (rule wlp_with_claim)
    fix claimed and s :: tx_state
    assume "claim_effect operation env (tx_db (tx_initial db)) claimed (tx_db s)"
    then have "claim_effect operation env db claimed (tx_db s)" "schema_ok (tx_db s)"
      using assms(2) claim_effect_schema by auto
    from body [OF this] show "wlp (body claimed) ?Q env s" by (rule wlp_mono) blast
  qed (use assms(2) in auto)
  with t show ?thesis by (rule in_transaction_cases) auto
qed auto

lemma starting_operationI:
  assumes run: "run = before_transaction valid (\<lambda>_. in_transaction (with_claim st operation body))"
    and accepted: "accepted \<longleftrightarrow> valid = Ok ()"
    and effect: "\<And>env db i c db'. schema_ok db \<Longrightarrow> run env db = (Ok (Execute i c), db') \<Longrightarrow>
       i = pg_new_operation_id env \<and> receipt_started operation env db db'"
  shows "starting_operation st operation accepted run"
proof
  fix env db row
  assume "accepted" "no_faults env" "receipt_of db (op_idempotency_key operation) = Some row"
  note * = this
  show "run env db = (Ok (InProgress (re_operation_id row)), db)"
    if "schema_ok db" "receipt_matches row operation" "re_state row = ''in_progress''" "\<And>n. \<not> due env n row"
    using with_claim_busy [OF *(2) that(1) *(3) that(2-4)] *(1) accepted run by simp
  show "run env db = (Err IdempotencyConflict, db)" if "\<not> receipt_matches row operation"
    using with_claim_conflict * that accepted run by simp
  show "run env db = (Ok (Replay response), db)" if "receipt_matches row operation"
    "re_state row \<noteq> ''in_progress''" "decode_receipt st row = Ok response" for response
    using with_claim_replay * that accepted run by simp
next
  fix env db i c db' assume "schema_ok db" "run env db = (Ok (Execute i c), db')"
  then show "i = pg_new_operation_id env \<and> holder db' operation i
      \<and> (\<forall>r \<in> set (receipts db'). re_service_instance_id r = op_service_instance_id operation
           \<and> re_state r = ''in_progress'' \<longrightarrow> re_idempotency_key r = op_idempotency_key operation)"
    using effect receipt_started_holder unfolding alone_def by blast
qed

end
