(* ===== verification/Store_Service.thy ===== *)
theory Store_Service
  imports Receipt_Contracts
begin

text \<open>
  The service operations of the store (\<open>src/crates/syouyu-store/src/lib.rs\<close>): preparing and
  completing a reconciliation and a deletion, the overview of a service, and the rows they read.
\<close>

section \<open>Rows\<close>

definition service_of :: "database \<Rightarrow> uuid \<Rightarrow> service_row option" where
  "service_of db sid = find (\<lambda>r. sv_id r = sid) (services db)"

definition bucket_of :: "database \<Rightarrow> uuid \<Rightarrow> bucket_row option" where
  "bucket_of db sid = find (\<lambda>r. bk_service_instance_id r = sid) (buckets db)"

definition fetch_service_row :: "uuid \<Rightarrow> bool \<Rightarrow> service_row option tx" where
  "fetch_service_row service_instance_id for_update =
     tx_query_for_update (\<lambda>db. service_of db service_instance_id)
       (\<lambda>r. if for_update \<and> r \<noteq> None then [ServiceRowLock service_instance_id] else [])"

definition bucket_row_try_into_record :: "bucket_row \<Rightarrow> store_error + bucket_record" where
  "bucket_row_try_into_record b =
     try_bind (from_i64 (bk_quota_bytes b) ''bucket quota_bytes'') (\<lambda>quota_bytes.
     try_bind (from_i64 (bk_quota_objects b) ''bucket quota_objects'') (\<lambda>quota_objects.
     try_bind (from_i64 (bk_used_bytes b) ''bucket used_bytes'') (\<lambda>used_bytes.
     try_bind (from_i64 (bk_used_objects b) ''bucket used_objects'') (\<lambda>used_objects.
     Ok \<lparr>br_service_instance_id = bk_service_instance_id b,
         br_organization_id = bk_organization_id b, br_project_id = bk_project_id b,
         br_physical_bucket_id = bk_physical_bucket_id b, br_bucket_name = bk_bucket_name b,
         br_region = bk_region b, br_quota_bytes = quota_bytes, br_quota_objects = quota_objects,
         br_used_bytes = used_bytes, br_used_objects = used_objects,
         br_usage_measured_at = bk_usage_measured_at b\<rparr>))))"

definition fetch_bucket_row :: "uuid \<Rightarrow> bucket_record option tx" where
  "fetch_bucket_row service_instance_id =
     tx_bind (tx_query (\<lambda>db. bucket_of db service_instance_id)) (\<lambda>found.
     case found of None \<Rightarrow> tx_return None
     | Some row \<Rightarrow> tx_bind (tx_lift (bucket_row_try_into_record row)) (\<lambda>b. tx_return (Some b)))"

definition service_row_try_into_record ::
  "pg_store \<Rightarrow> service_row \<Rightarrow> bucket_record \<Rightarrow> store_error + service_record" where
  "service_row_try_into_record st s bucket =
     try_bind (ok_or (ps_spec_from_value st (sv_desired_spec s))
       (CorruptData ''service desired_spec'')) (\<lambda>spec.
     Ok \<lparr>sr_id = sv_id s, sr_organization_id = sv_organization_id s,
         sr_project_id = sv_project_id s, sr_name = sv_name s,
         sr_desired_generation = sv_desired_generation s,
         sr_observed_generation = sv_observed_generation s, sr_phase = sv_phase s,
         sr_operation_id = sv_current_operation_id s, sr_spec = spec, sr_bucket = bucket\<rparr>)"

section \<open>Reconciliation\<close>

text \<open>
  \<open>ON CONFLICT (bucket_name) DO UPDATE ... WHERE\<close>: a row of another service is left alone and
  counts as not affected. The unique service column is not an arbiter of the conflict.
\<close>

definition insert_name_reservation :: "string \<Rightarrow> uuid \<Rightarrow> nat statement" where
  "insert_name_reservation bucket_name service_instance_id env n db =
     (case find (\<lambda>r. nr_bucket_name r = bucket_name) (name_reservations db) of
        Some r \<Rightarrow> Ok (if nr_service_instance_id r = service_instance_id then 1 else 0, db)
      | None \<Rightarrow> put_name_reservations (name_reservations db @
          [\<lparr>nr_bucket_name = bucket_name, nr_service_instance_id = service_instance_id,
            nr_created_at = pg_now env\<rparr>]) 1 db)"

definition reserve_bucket_name :: "string \<Rightarrow> uuid \<Rightarrow> unit tx" where
  "reserve_bucket_name bucket_name service_instance_id =
     tx_bind (tx_execute (insert_name_reservation bucket_name service_instance_id)) (\<lambda>affected.
     if affected \<noteq> 1 then tx_throw BucketNameUnavailable else tx_return ())"

text \<open>
  The state of an existing service is checked; the result is the physical bucket and whether the
  generation was applied before.
\<close>

definition check_existing_service ::
  "pg_store \<Rightarrow> reconcile_command \<Rightarrow> service_row option \<Rightarrow> (string option \<times> bool) tx" where
  "check_existing_service st command found =
     (let operation = rc_operation command in
      case found of
        None \<Rightarrow> tx_return (None, False)
      | Some existing \<Rightarrow>
          tx_bind (tx_lift (ensure_scope operation (sv_organization_id existing)
            (sv_project_id existing))) (\<lambda>_.
          if sv_phase existing = ''deleted''
          then tx_throw (Conflict ''service instance has already been deleted'')
          else if rc_generation command < sv_desired_generation existing
          then tx_throw (StaleGeneration (sv_desired_generation existing) (rc_generation command))
          else tx_bind (fetch_bucket_row (op_service_instance_id operation)) (\<lambda>bucket.
          tx_bind (tx_lift (ok_or bucket (CorruptData ''service bucket''))) (\<lambda>existing_bucket.
          if br_bucket_name existing_bucket \<noteq> sp_bucket_name (rc_spec command)
          then tx_throw (Conflict ''bucket_name is immutable after service creation'')
          else if rc_generation command = sv_desired_generation existing then
            tx_bind (tx_lift (ok_or (ps_spec_from_value st (sv_desired_spec existing))
              (CorruptData ''service desired_spec''))) (\<lambda>current_spec.
            if sv_name existing \<noteq> rc_name command \<or> current_spec \<noteq> rc_spec command
            then tx_throw (Conflict ''generation was reused with different desired state'')
            else if sv_phase existing \<noteq> ''ready''
                 \<or> sv_observed_generation existing \<noteq> rc_generation command
            then tx_throw (OperationInProgress (sv_current_operation_id existing))
            else tx_return (br_physical_bucket_id existing_bucket, True))
          else tx_return (br_physical_bucket_id existing_bucket, False)))))"

definition reconcile_bucket :: "reconcile_command \<Rightarrow> string option \<Rightarrow> bucket_record" where
  "reconcile_bucket command physical_bucket_id =
     (let operation = rc_operation command; spec = rc_spec command in
      \<lparr>br_service_instance_id = op_service_instance_id operation,
       br_organization_id = op_organization_id operation, br_project_id = op_project_id operation,
       br_physical_bucket_id = physical_bucket_id, br_bucket_name = sp_bucket_name spec,
       br_region = sp_region spec, br_quota_bytes = sp_quota_bytes spec,
       br_quota_objects = sp_quota_objects spec, br_used_bytes = 0, br_used_objects = 0,
       br_usage_measured_at = None\<rparr>)"

definition prepare_reconcile_body ::
  "pg_store \<Rightarrow> reconcile_command \<Rightarrow> uuid option \<Rightarrow> reconcile_context prepare tx" where
  "prepare_reconcile_body st command claimed =
     (let operation = rc_operation command; sid = op_service_instance_id operation in
      tx_bind (lock_service sid) (\<lambda>_.
      tx_bind (reject_parallel_operation sid (op_idempotency_key operation)) (\<lambda>_.
      tx_bind (fetch_service_row sid True) (\<lambda>existing.
      tx_bind (check_existing_service st command existing) (\<lambda>(physical_bucket_id, previously_applied).
      tx_bind (reserve_bucket_name (sp_bucket_name (rc_spec command)) sid) (\<lambda>_.
      tx_bind (claimed_or_reserve claimed operation) (\<lambda>operation_id.
      tx_return (Execute operation_id
        \<lparr>rx_bucket = reconcile_bucket command physical_bucket_id,
         rx_previously_applied = previously_applied\<rparr>))))))))"

definition prepare_reconcile :: "pg_store \<Rightarrow> reconcile_command \<Rightarrow> reconcile_context prepare store_op" where
  "prepare_reconcile st command =
     before_transaction (reconcile_validate command) (\<lambda>_.
     in_transaction (with_claim st (rc_operation command) (prepare_reconcile_body st command)))"

text \<open>
  The upsert of the service row. A conflict on the primary key updates the row if it has the same
  scope, is not deleted and is not ahead; a new row starts with the column defaults.
\<close>

definition upsert_service :: "reconcile_command \<Rightarrow> json \<Rightarrow> uuid \<Rightarrow> nat statement" where
  "upsert_service command spec operation_id env n db =
     (let operation = rc_operation command; sid = op_service_instance_id operation;
          target = (\<lambda>r. sv_id r = sid \<and> sv_organization_id r = op_organization_id operation
            \<and> sv_project_id r = op_project_id operation
            \<and> sv_desired_generation r \<le> rc_generation command \<and> sv_phase r \<noteq> ''deleted'')
      in if list_ex (\<lambda>r. sv_id r = sid) (services db)
         then put_services (update_rows target (\<lambda>r. r\<lparr>sv_name := rc_name command,
                sv_desired_generation := rc_generation command, sv_desired_spec := spec,
                sv_observed_generation := rc_generation command, sv_phase := ''ready'',
                sv_current_operation_id := operation_id, sv_last_error := None,
                sv_updated_at := pg_now env, sv_deleted_at := None\<rparr>) (services db))
                (count_rows target (services db)) db
         else put_services (services db @
                [\<lparr>sv_id = sid, sv_organization_id = op_organization_id operation,
                  sv_project_id = op_project_id operation, sv_name = rc_name command,
                  sv_desired_generation = rc_generation command, sv_desired_spec = spec,
                  sv_observed_generation = rc_generation command, sv_phase = ''ready'',
                  sv_current_operation_id = operation_id, sv_last_error = None,
                  sv_created_at = pg_now env, sv_updated_at = pg_now env,
                  sv_deleted_at = None\<rparr>]) 1 db)"

definition upsert_bucket :: "reconcile_command \<Rightarrow> string \<Rightarrow> i64 \<Rightarrow> i64 \<Rightarrow> unit statement" where
  "upsert_bucket command physical_bucket_id quota_bytes quota_objects env n db =
     (let operation = rc_operation command; sid = op_service_instance_id operation;
          spec = rc_spec command; target = (\<lambda>b. bk_service_instance_id b = sid)
      in if list_ex target (buckets db)
         then put_buckets (update_rows target (\<lambda>b. b\<lparr>bk_physical_bucket_id := Some physical_bucket_id,
                bk_bucket_name := sp_bucket_name spec, bk_region := sp_region spec,
                bk_quota_bytes := quota_bytes, bk_quota_objects := quota_objects,
                bk_updated_at := pg_now env\<rparr>) (buckets db)) () db
         else put_buckets (buckets db @
                [\<lparr>bk_service_instance_id = sid, bk_organization_id = op_organization_id operation,
                  bk_project_id = op_project_id operation,
                  bk_physical_bucket_id = Some physical_bucket_id,
                  bk_bucket_name = sp_bucket_name spec, bk_region = sp_region spec,
                  bk_quota_bytes = quota_bytes, bk_quota_objects = quota_objects,
                  bk_used_bytes = 0, bk_used_objects = 0, bk_usage_measured_at = None,
                  bk_created_at = pg_now env, bk_updated_at = pg_now env\<rparr>]) () db)"

definition complete_reconcile_inputs ::
  "pg_store \<Rightarrow> reconcile_command \<Rightarrow> string \<Rightarrow> store_error + json \<times> i64 \<times> i64" where
  "complete_reconcile_inputs st command physical_bucket_id =
     (if physical_bucket_id = [] \<or> length physical_bucket_id > 256
      then Err (Validation ''physical bucket ID is invalid'')
      else try_bind (ok_or (ps_spec_to_value st (rc_spec command))
             (CorruptData ''service desired_spec serialization'')) (\<lambda>spec.
           try_bind (to_i64 (sp_quota_bytes (rc_spec command)) ''quota_bytes'') (\<lambda>quota_bytes.
           try_bind (to_i64 (sp_quota_objects (rc_spec command)) ''quota_objects'') (\<lambda>quota_objects.
           Ok (spec, quota_bytes, quota_objects)))))"

definition complete_reconcile_body ::
  "pg_store \<Rightarrow> reconcile_command \<Rightarrow> uuid \<Rightarrow> string \<Rightarrow> stored_http_response \<Rightarrow> audit_event
     \<Rightarrow> json \<times> i64 \<times> i64 \<Rightarrow> unit tx" where
  "complete_reconcile_body st command operation_id physical_bucket_id response audit =
     (\<lambda>(spec, quota_bytes, quota_objects).
     let operation = rc_operation command; sid = op_service_instance_id operation in
     tx_bind (lock_service sid) (\<lambda>_.
     tx_bind (require_in_progress_receipt operation operation_id) (\<lambda>_.
     tx_bind (tx_execute_mapped (upsert_service command spec operation_id)) (\<lambda>service_update.
     if service_update \<noteq> 1
     then tx_throw (Conflict ''service changed while reconciliation was in progress'')
     else
     tx_bind (tx_execute_mapped (upsert_bucket command physical_bucket_id quota_bytes quota_objects)) (\<lambda>_.
     tx_bind (tx_execute (\<lambda>env n db. put_name_reservations
       (delete_rows (\<lambda>r. nr_service_instance_id r = sid
          \<and> nr_bucket_name r \<noteq> sp_bucket_name (rc_spec command)) (name_reservations db)) () db)) (\<lambda>_.
     tx_bind (finish_receipt st operation operation_id response) (\<lambda>_.
     insert_audit audit)))))))"

definition complete_reconcile ::
  "pg_store \<Rightarrow> reconcile_command \<Rightarrow> uuid \<Rightarrow> string \<Rightarrow> stored_http_response \<Rightarrow> audit_event \<Rightarrow> unit store_op" where
  "complete_reconcile st command operation_id physical_bucket_id response audit =
     before_transaction (complete_reconcile_inputs st command physical_bucket_id) (\<lambda>inputs.
     in_transaction
       (complete_reconcile_body st command operation_id physical_bucket_id response audit inputs))"

section \<open>Deletion\<close>

definition active_key_ids :: "database \<Rightarrow> uuid \<Rightarrow> string list" where
  "active_key_ids db sid =
     map cr_garage_key_id (sort_key cr_created_at (sort_key cr_id
       (filter (\<lambda>c. cr_service_instance_id c = sid \<and> cr_status c = ''active'') (credentials db))))"

definition prepare_delete_body ::
  "delete_command \<Rightarrow> uuid option \<Rightarrow> delete_context prepare tx" where
  "prepare_delete_body command claimed =
     (let operation = dc_operation command; sid = op_service_instance_id operation in
      tx_bind (advisory_lock (OrganizationCredentialsLock (op_organization_id operation))) (\<lambda>_.
      tx_bind (lock_service sid) (\<lambda>_.
      tx_bind (reject_parallel_operation sid (op_idempotency_key operation)) (\<lambda>_.
      tx_bind (fetch_service_row sid True) (\<lambda>found.
      tx_bind (tx_lift (ok_or found NotFound)) (\<lambda>service.
      tx_bind (tx_lift (ensure_scope operation (sv_organization_id service)
        (sv_project_id service))) (\<lambda>_.
      if sv_phase service = ''deleted'' then tx_throw NotFound
      else tx_bind (tx_lift (ok_or (i64_checked_add (sv_desired_generation service) 1)
             (Configuration ''service generation overflow''))) (\<lambda>expected_generation.
      if dc_generation command < expected_generation
      then tx_throw (StaleGeneration (sv_desired_generation service) (dc_generation command))
      else if dc_generation command \<noteq> expected_generation
      then tx_throw (Conflict ''delete generation must immediately follow desired generation'')
      else tx_bind (fetch_bucket_row sid) (\<lambda>found_bucket.
      tx_bind (tx_lift (ok_or found_bucket (CorruptData ''service bucket''))) (\<lambda>bucket.
      if br_physical_bucket_id bucket = None then tx_throw (CorruptData ''physical bucket ID'')
      else tx_bind (tx_query (\<lambda>db. active_key_ids db sid)) (\<lambda>garage_key_ids.
      tx_bind (claimed_or_reserve claimed operation) (\<lambda>operation_id.
      tx_return (Execute operation_id
        \<lparr>dx_bucket = bucket, dx_garage_key_ids = garage_key_ids\<rparr>)))))))))))))"

definition prepare_delete :: "pg_store \<Rightarrow> delete_command \<Rightarrow> delete_context prepare store_op" where
  "prepare_delete st command =
     before_transaction (delete_validate command) (\<lambda>_.
     in_transaction (with_claim st (dc_operation command) (prepare_delete_body command)))"

definition revoke_row :: "timestamp \<Rightarrow> uuid \<Rightarrow> credential_row \<Rightarrow> credential_row" where
  "revoke_row now principal_id c =
     c\<lparr>cr_status := ''revoked'',
       cr_revoked_at := (case cr_revoked_at c of None \<Rightarrow> Some now | Some t \<Rightarrow> Some t),
       cr_revoked_by := (case cr_revoked_by c of None \<Rightarrow> Some principal_id | Some p \<Rightarrow> Some p)\<rparr>"

definition mark_deleted :: "delete_command \<Rightarrow> uuid \<Rightarrow> nat statement" where
  "mark_deleted command operation_id env n db =
     (let operation = dc_operation command;
          target = (\<lambda>r. sv_id r = op_service_instance_id operation
            \<and> sv_organization_id r = op_organization_id operation
            \<and> sv_project_id r = op_project_id operation \<and> sv_phase r \<noteq> ''deleted'')
      in put_services (update_rows target (\<lambda>r. r\<lparr>sv_desired_generation := dc_generation command,
           sv_observed_generation := dc_generation command, sv_phase := ''deleted'',
           sv_current_operation_id := operation_id, sv_last_error := None,
           sv_deleted_at := Some (pg_now env), sv_updated_at := pg_now env\<rparr>) (services db))
           (count_rows target (services db)) db)"

definition complete_delete_body ::
  "pg_store \<Rightarrow> delete_command \<Rightarrow> uuid \<Rightarrow> stored_http_response \<Rightarrow> audit_event \<Rightarrow> unit tx" where
  "complete_delete_body st command operation_id response audit =
     (let operation = dc_operation command; sid = op_service_instance_id operation in
     tx_bind (lock_service sid) (\<lambda>_.
     tx_bind (require_in_progress_receipt operation operation_id) (\<lambda>_.
     tx_bind (tx_execute (\<lambda>env n db. put_credentials
       (update_rows (\<lambda>c. cr_service_instance_id c = sid \<and> cr_status c = ''active'')
          (revoke_row (pg_now env) (op_principal_id operation)) (credentials db)) () db)) (\<lambda>_.
     tx_bind (tx_execute (mark_deleted command operation_id)) (\<lambda>updated.
     if updated \<noteq> 1 then tx_throw (Conflict ''service changed while deletion was in progress'')
     else
     tx_bind (tx_execute (\<lambda>env n db. put_name_reservations
       (delete_rows (\<lambda>r. nr_service_instance_id r = sid) (name_reservations db)) () db)) (\<lambda>_.
     tx_bind (finish_receipt st operation operation_id response) (\<lambda>_.
     insert_audit audit)))))))"

definition complete_delete ::
  "pg_store \<Rightarrow> delete_command \<Rightarrow> uuid \<Rightarrow> stored_http_response \<Rightarrow> audit_event \<Rightarrow> unit store_op" where
  "complete_delete st command operation_id response audit =
     in_transaction (complete_delete_body st command operation_id response audit)"

section \<open>Overview\<close>

definition service_overview :: "pg_store \<Rightarrow> uuid \<Rightarrow> uuid \<Rightarrow> uuid \<Rightarrow> service_record store_op" where
  "service_overview st organization_id project_id service_instance_id =
     in_transaction (
     tx_bind (fetch_service_row service_instance_id False) (\<lambda>found.
     tx_bind (tx_lift (ok_or found NotFound)) (\<lambda>service.
     if sv_organization_id service \<noteq> organization_id \<or> sv_project_id service \<noteq> project_id
     then tx_throw NotFound
     else if sv_phase service = ''deleted'' then tx_throw NotFound
     else tx_bind (fetch_bucket_row service_instance_id) (\<lambda>found_bucket.
     tx_bind (tx_lift (ok_or found_bucket (CorruptData ''service bucket''))) (\<lambda>bucket.
     tx_lift (service_row_try_into_record st service bucket))))))"

definition ready_bucket_in_transaction :: "operation_request \<Rightarrow> bucket_record tx" where
  "ready_bucket_in_transaction operation =
     tx_bind (fetch_service_row (op_service_instance_id operation) True) (\<lambda>found.
     tx_bind (tx_lift (ok_or found NotFound)) (\<lambda>service.
     tx_bind (tx_lift (ensure_scope operation (sv_organization_id service)
       (sv_project_id service))) (\<lambda>_.
     if sv_phase service \<noteq> ''ready''
        \<or> sv_observed_generation service \<noteq> sv_desired_generation service
     then tx_throw ServiceNotReady
     else tx_bind (fetch_bucket_row (op_service_instance_id operation)) (\<lambda>found_bucket.
     tx_bind (tx_lift (ok_or found_bucket (CorruptData ''ready service bucket''))) (\<lambda>bucket.
     if br_physical_bucket_id bucket = None then tx_throw (CorruptData ''physical bucket ID'')
     else tx_return bucket)))))"

section \<open>Rows read by the operations\<close>

lemma service_of_Some: "service_of db sid = Some s \<Longrightarrow> s \<in> set (services db) \<and> sv_id s = sid"
  unfolding service_of_def by (drule find_Some_in) simp

lemma bucket_of_Some: "bucket_of db sid = Some b \<Longrightarrow> b \<in> set (buckets db) \<and> bk_service_instance_id b = sid"
  unfolding bucket_of_def by (drule find_Some_in) simp

lemma bucket_record_Ok:
  assumes "bucket_row_try_into_record b = Ok r"
  shows "br_bucket_name r = bk_bucket_name b" "br_physical_bucket_id r = bk_physical_bucket_id b"
    "br_service_instance_id r = bk_service_instance_id b"
    "br_organization_id r = bk_organization_id b" "br_project_id r = bk_project_id b"
  using assms by (auto simp: bucket_row_try_into_record_def try_bind_Ok)

lemma ensure_scope_Ok [simp]:
  "ensure_scope operation org prj = Ok () \<longleftrightarrow>
     op_organization_id operation = org \<and> op_project_id operation = prj"
  by (simp add: ensure_scope_def)

lemma wlp_fetch_service:
  assumes "\<And>s'. tx_db s' = tx_db s \<Longrightarrow> Q (service_of (tx_db s) sid) s'"
  shows "wlp (fetch_service_row sid u) Q env s"
  unfolding fetch_service_row_def by (intro wlp_steps assms)

lemma wlp_fetch_bucket:
  assumes "\<And>s'. tx_db s' = tx_db s \<Longrightarrow> bucket_of (tx_db s) sid = None \<Longrightarrow> Q None s'"
    and "\<And>s' b r. tx_db s' = tx_db s \<Longrightarrow> bucket_of (tx_db s) sid = Some b \<Longrightarrow>
      bucket_row_try_into_record b = Ok r \<Longrightarrow> Q (Some r) s'"
  shows "wlp (fetch_bucket_row sid) Q env s"
  unfolding fetch_bucket_row_def by (intro wlp_steps) (use assms in auto)

definition in_scope :: "operation_request \<Rightarrow> service_row \<Rightarrow> bool" where
  "in_scope operation s \<longleftrightarrow> sv_organization_id s = op_organization_id operation
     \<and> sv_project_id s = op_project_id operation"

section \<open>Effects\<close>

definition existing_ok :: "reconcile_command \<Rightarrow> database \<Rightarrow> string option \<Rightarrow> bool" where
  "existing_ok command db physical \<longleftrightarrow>
     (\<forall>s. service_of db (op_service_instance_id (rc_operation command)) = Some s \<longrightarrow>
        in_scope (rc_operation command) s \<and> sv_phase s \<noteq> ''deleted''
        \<and> sv_desired_generation s \<le> rc_generation command
        \<and> (\<exists>b. bucket_of db (op_service_instance_id (rc_operation command)) = Some b
             \<and> bk_bucket_name b = sp_bucket_name (rc_spec command)
             \<and> bk_physical_bucket_id b = physical))"

lemma wlp_check_existing:
  assumes "found = service_of (tx_db s) (op_service_instance_id (rc_operation command))"
    and "\<And>s' physical applied. tx_db s' = tx_db s \<Longrightarrow> existing_ok command (tx_db s) physical \<Longrightarrow>
      Q (physical, applied) s'"
  shows "wlp (check_existing_service st command found) Q env s"
  unfolding check_existing_service_def Let_def
  apply (intro wlp_steps wlp_fetch_bucket)
  using assms
  by (auto simp: existing_ok_def in_scope_def not_less bucket_record_Ok)

lemma wlp_reserve_name:
  assumes "\<And>s' n. insert_name_reservation name sid env n (tx_db s) = Ok (1, tx_db s') \<Longrightarrow> Q () s'"
  shows "wlp (reserve_bucket_name name sid) Q env s"
  unfolding reserve_bucket_name_def
  apply (intro wlp_steps)
  subgoal for a s' n using assms [of n s'] by (cases "a = 1") simp_all
  done

definition prepare_reconcile_effect ::
  "reconcile_command \<Rightarrow> pg_env \<Rightarrow> database \<Rightarrow> uuid \<Rightarrow> reconcile_context \<Rightarrow> database \<Rightarrow> bool" where
  "prepare_reconcile_effect command env db i context db' \<longleftrightarrow>
     i = pg_new_operation_id env \<and> schema_ok db'
     \<and> (\<exists>claimed db1 db2 n physical. claim_effect (rc_operation command) env db claimed db1
         \<and> alone db1 (op_service_instance_id (rc_operation command)) (op_idempotency_key (rc_operation command))
         \<and> existing_ok command db1 physical
         \<and> rx_bucket context = reconcile_bucket command physical
         \<and> insert_name_reservation (sp_bucket_name (rc_spec command))
             (op_service_instance_id (rc_operation command)) env n db1 = Ok (1, db2)
         \<and> reserved claimed (rc_operation command) env db2 db')"

lemma insert_name_reservation_Ok:
  assumes "insert_name_reservation name sid env n db = Ok (1, db')"
  shows "receipts db' = receipts db \<and> audit_events db' = audit_events db \<and> services db' = services db
       \<and> buckets db' = buckets db \<and> credentials db' = credentials db
       \<and> credential_reservations db' = credential_reservations db \<and> usage_snapshots db' = usage_snapshots db"
    and "schema_ok db \<Longrightarrow> schema_ok db'"
    and "find (\<lambda>r. nr_bucket_name r = name) (name_reservations db') \<noteq> None"
    and "\<And>r. find (\<lambda>r. nr_bucket_name r = name) (name_reservations db') = Some r \<Longrightarrow> nr_service_instance_id r = sid"
    and "\<And>r. r \<in> set (name_reservations db) \<Longrightarrow> r \<in> set (name_reservations db')"
    and "\<And>r. r \<in> set (name_reservations db') \<Longrightarrow>
       r \<in> set (name_reservations db) \<or> nr_bucket_name r = name \<and> nr_service_instance_id r = sid"
  using assms
  by (auto simp: insert_name_reservation_def put_name_reservations_def schema_ok_def find_append
      split: option.splits if_splits)

lemma claimed_reserved:
  assumes "claim_effect operation env db claimed db1" and "schema_ok (tx_db s)"
    and "\<And>s'. reserved claimed operation env (tx_db s) (tx_db s') \<Longrightarrow> schema_ok (tx_db s') \<Longrightarrow>
       Q (pg_new_operation_id env) s'"
  shows "wlp (claimed_or_reserve claimed operation) Q env s"
proof (rule wlp_claimed_or_reserve)
  fix s' :: tx_state and n
  assume c: "claimed = None" and p: "put_receipts (receipts (tx_db s) @ [new_receipt operation
     (pg_new_operation_id env) (pg_now env) (pg_clock env n)]) () (tx_db s) = Ok ((), tx_db s')"
  show "Q (pg_new_operation_id env) s'"
  proof (rule assms(3))
    show "schema_ok (tx_db s')" using assms(2) p by (rule schema_ok_put)
    show "reserved claimed operation env (tx_db s) (tx_db s')"
      using c p by (auto simp: reserved_def put_receipts_def)
  qed
next
  fix i assume c: "claimed = Some i"
  with assms(1) have "i = pg_new_operation_id env" by (auto simp: claim_effect_def)
  with c assms(2,3) show "Q i s" by (simp add: reserved_def)
qed

lemma prepare_reconcile_effect:
  assumes "prepare_reconcile st command env db = (r, db')" and "schema_ok db"
  shows "(db' = db \<and> (\<forall>i c. r \<noteq> Ok (Execute i c)))
    \<or> (\<exists>i c. prepare_reconcile_effect command env db i c db'
         \<and> (r = Ok (Execute i c) \<or> r = Err (Database ConnectionLost)))"
proof (rule prepare_effect [OF assms(1) [unfolded prepare_reconcile_def] assms(2)])
  fix claimed and s :: tx_state
  assume c: "claim_effect (rc_operation command) env db claimed (tx_db s)" and sc: "schema_ok (tx_db s)"
  show "wlp (prepare_reconcile_body st command claimed)
     (\<lambda>p s'. \<exists>i c. p = Execute i c \<and> prepare_reconcile_effect command env db i c (tx_db s')) env s"
    unfolding prepare_reconcile_body_def Let_def
    apply (intro wlp_steps wlp_fetch_service wlp_check_existing wlp_reserve_name claimed_reserved [OF c])
    subgoal by simp
    subgoal using sc insert_name_reservation_Ok(2) by simp
    subgoal premises p for s1 s2 s3 s4 physical applied pb pa s5 n s6
      unfolding prepare_reconcile_effect_def
      using p c by (intro exI conjI) (auto simp: alone_def)
    done
qed

definition delete_ready :: "delete_command \<Rightarrow> database \<Rightarrow> bool" where
  "delete_ready command db \<longleftrightarrow>
     (\<exists>s. service_of db (op_service_instance_id (dc_operation command)) = Some s
        \<and> in_scope (dc_operation command) s \<and> sv_phase s \<noteq> ''deleted''
        \<and> dc_generation command = sv_desired_generation s + 1)"

definition prepare_delete_effect ::
  "delete_command \<Rightarrow> pg_env \<Rightarrow> database \<Rightarrow> uuid \<Rightarrow> delete_context \<Rightarrow> database \<Rightarrow> bool" where
  "prepare_delete_effect command env db i context db' \<longleftrightarrow>
     i = pg_new_operation_id env \<and> schema_ok db'
     \<and> (\<exists>claimed db1. claim_effect (dc_operation command) env db claimed db1
         \<and> alone db1 (op_service_instance_id (dc_operation command)) (op_idempotency_key (dc_operation command))
         \<and> delete_ready command db1
         \<and> dx_garage_key_ids context = active_key_ids db1 (op_service_instance_id (dc_operation command))
         \<and> (\<exists>b. bucket_of db1 (op_service_instance_id (dc_operation command)) = Some b
              \<and> bucket_row_try_into_record b = Ok (dx_bucket context)
              \<and> bk_physical_bucket_id b \<noteq> None)
         \<and> reserved claimed (dc_operation command) env db1 db')"

lemma prepare_delete_effect:
  assumes "prepare_delete st command env db = (r, db')" and "schema_ok db"
  shows "(db' = db \<and> (\<forall>i c. r \<noteq> Ok (Execute i c)))
    \<or> (\<exists>i c. prepare_delete_effect command env db i c db'
         \<and> (r = Ok (Execute i c) \<or> r = Err (Database ConnectionLost)))"
proof (rule prepare_effect [OF assms(1) [unfolded prepare_delete_def] assms(2)])
  fix claimed and s :: tx_state
  assume c: "claim_effect (dc_operation command) env db claimed (tx_db s)" and sc: "schema_ok (tx_db s)"
  show "wlp (prepare_delete_body command claimed)
     (\<lambda>p s'. \<exists>i c. p = Execute i c \<and> prepare_delete_effect command env db i c (tx_db s')) env s"
    unfolding prepare_delete_body_def Let_def
    apply (intro wlp_steps wlp_fetch_service wlp_fetch_bucket claimed_reserved [OF c])
    subgoal by simp
    subgoal by simp
    subgoal using sc by simp
    subgoal premises p
    proof -
      have ready: "delete_ready command (tx_db s)"
        using p by (auto simp: delete_ready_def in_scope_def)
      show ?thesis
        unfolding prepare_delete_effect_def
        by (intro exI conjI) (use p c ready in \<open>auto simp: alone_def bucket_record_Ok\<close>)
    qed
    done
qed

definition reconciled ::
  "pg_store \<Rightarrow> reconcile_command \<Rightarrow> uuid \<Rightarrow> string \<Rightarrow> pg_env \<Rightarrow> database \<Rightarrow> database \<Rightarrow> bool" where
  "reconciled st command operation_id physical env db mid \<longleftrightarrow>
     (\<exists>spec quota_bytes quota_objects n m db1 db2.
        complete_reconcile_inputs st command physical = Ok (spec, quota_bytes, quota_objects)
        \<and> upsert_service command spec operation_id env n db = Ok (1, db1)
        \<and> upsert_bucket command physical quota_bytes quota_objects env m db1 = Ok ((), db2)
        \<and> mid = db2\<lparr>name_reservations := delete_rows
            (\<lambda>r. nr_service_instance_id r = op_service_instance_id (rc_operation command)
               \<and> nr_bucket_name r \<noteq> sp_bucket_name (rc_spec command)) (name_reservations db2)\<rparr>)"

lemma upsert_service_Ok:
  assumes "upsert_service command spec i env n db = Ok (c, db')"
  shows "receipts db' = receipts db \<and> audit_events db' = audit_events db \<and> buckets db' = buckets db
       \<and> name_reservations db' = name_reservations db \<and> credentials db' = credentials db
       \<and> credential_reservations db' = credential_reservations db \<and> usage_snapshots db' = usage_snapshots db"
    and "schema_ok db \<Longrightarrow> schema_ok db'"
  using assms by (auto simp: upsert_service_def put_services_def schema_ok_def Let_def split: if_splits)

lemma upsert_bucket_Ok:
  assumes "upsert_bucket command physical qb qo env n db = Ok (c, db')"
  shows "receipts db' = receipts db \<and> audit_events db' = audit_events db \<and> services db' = services db
       \<and> name_reservations db' = name_reservations db \<and> credentials db' = credentials db
       \<and> credential_reservations db' = credential_reservations db \<and> usage_snapshots db' = usage_snapshots db"
    and "schema_ok db \<Longrightarrow> schema_ok db'"
  using assms by (auto simp: upsert_bucket_def put_buckets_def schema_ok_def Let_def split: if_splits)

lemma schema_ok_close:
  assumes "schema_ok mid" and "list_all receipt_check rs" "receipts_unique rs"
    "list_all audit_check as" "unique_on ar_id as"
  shows "schema_ok (mid\<lparr>receipts := rs, audit_events := as\<rparr>)"
  using assms by (simp add: schema_ok_def)

lemma holder_same_receipts: "holder db operation i \<Longrightarrow> receipts db' = receipts db \<Longrightarrow> holder db' operation i"
  using holder_cong [of db' db] by simp

lemma complete_reconcile_effect:
  assumes "complete_reconcile st command i physical response audit env db = (r, db')"
    and "db' \<noteq> db \<or> r = Ok ()"
  shows "\<exists>mid. reconciled st command i physical env db mid
    \<and> closing_effect st (rc_operation command) i response audit env db mid db'"
proof (rule changed_effect [OF assms(1) [unfolded complete_reconcile_def] assms(2)])
  fix inputs assume inputs: "complete_reconcile_inputs st command physical = Ok inputs"
  show "wlp (complete_reconcile_body st command i physical response audit inputs)
     (\<lambda>_ s. \<exists>mid. reconciled st command i physical env db mid
        \<and> closing_effect st (rc_operation command) i response audit env db mid (tx_db s)) env (tx_initial db)"
    unfolding complete_reconcile_body_def Let_def
    apply (intro wlp_steps wlp_finish wlp_insert_audit)
    subgoal premises p for spec b qb qo s1 s2 k1 s3 n1 k2 s4 n2 k3 s5 n3
      using p(5) upsert_service_Ok(1) [OF p(6)] upsert_bucket_Ok(1) [OF p(8)] p(3,4,9)
      by (intro holder_same_receipts [OF p(5)]) (simp add: put_name_reservations_def)
    subgoal premises p for spec b qb qo s1 s2 k1 s3 n1 k2 s4 n2 k3 s5 n3 s6 nonce ciphertext k s7
    proof -
      have db: "tx_db s2 = db" using p(3,4) by simp
      have m: "reconciled st command i physical env db (tx_db s5)"
        unfolding reconciled_def
        by (intro exI [of _ "tx_db s3"] exI [of _ "tx_db s4"] exI conjI)
           (use p inputs db in \<open>auto simp: put_name_reservations_def\<close>)
      have t: "receipts (tx_db s5) = receipts db" "audit_events (tx_db s5) = audit_events db"
        using upsert_service_Ok(1) [OF p(6)] upsert_bucket_Ok(1) [OF p(8)] p(9) db
        by (simp_all add: put_name_reservations_def)
      have sc: "schema_ok (tx_db s5)" if "schema_ok db"
        using that db schema_ok_put(2) [OF _ p(9)] upsert_service_Ok(2) [OF p(6)] upsert_bucket_Ok(2) [OF p(8)]
        by simp
      have h: "holder db (rc_operation command) i" using p(3,5) by simp
      show ?thesis using m closing_effect_puts [OF h sc t p(10-12)] by blast
    qed
    done
qed

definition service_deleted :: "delete_command \<Rightarrow> uuid \<Rightarrow> pg_env \<Rightarrow> database \<Rightarrow> database" where
  "service_deleted command operation_id env db =
     (let operation = dc_operation command; sid = op_service_instance_id operation in
      db\<lparr>credentials := update_rows (\<lambda>c. cr_service_instance_id c = sid \<and> cr_status c = ''active'')
           (revoke_row (pg_now env) (op_principal_id operation)) (credentials db),
         services := update_rows (\<lambda>r. sv_id r = sid \<and> sv_organization_id r = op_organization_id operation
             \<and> sv_project_id r = op_project_id operation \<and> sv_phase r \<noteq> ''deleted'')
           (\<lambda>r. r\<lparr>sv_desired_generation := dc_generation command,
             sv_observed_generation := dc_generation command, sv_phase := ''deleted'',
             sv_current_operation_id := operation_id, sv_last_error := None,
             sv_deleted_at := Some (pg_now env), sv_updated_at := pg_now env\<rparr>) (services db),
         name_reservations := delete_rows (\<lambda>r. nr_service_instance_id r = sid) (name_reservations db)\<rparr>)"

lemma complete_delete_effect:
  assumes "complete_delete st command i response audit env db = (r, db')" and "db' \<noteq> db \<or> r = Ok ()"
  shows "closing_effect st (dc_operation command) i response audit env db
     (service_deleted command i env db) db'
    \<and> count_rows (\<lambda>r. sv_id r = op_service_instance_id (dc_operation command)
        \<and> sv_organization_id r = op_organization_id (dc_operation command)
        \<and> sv_project_id r = op_project_id (dc_operation command) \<and> sv_phase r \<noteq> ''deleted'')
        (services db) = 1"
proof -
  have "before_transaction (Ok ()) (\<lambda>_. in_transaction
      (complete_delete_body st command i response audit)) env db = (r, db')"
    using assms(1) by (simp add: complete_delete_def)
  then show ?thesis
  proof (rule changed_effect [OF _ assms(2)])
    show "wlp (complete_delete_body st command i response audit) (\<lambda>_ s.
      closing_effect st (dc_operation command) i response audit env db
         (service_deleted command i env db) (tx_db s)
      \<and> count_rows (\<lambda>r. sv_id r = op_service_instance_id (dc_operation command)
        \<and> sv_organization_id r = op_organization_id (dc_operation command)
        \<and> sv_project_id r = op_project_id (dc_operation command) \<and> sv_phase r \<noteq> ''deleted'')
        (services db) = 1) env (tx_initial db)"
      unfolding complete_delete_body_def Let_def
      apply (intro wlp_steps wlp_finish wlp_insert_audit)
      subgoal premises p for s1 s2 k1 s3 n1 k2 s4 n2 k3 s5 n3
        by (rule holder_same_receipts [OF p(3)])
           (use p in \<open>simp add: put_defs mark_deleted_def Let_def\<close>)
      subgoal premises p for s1 s2 k1 s3 n1 k2 s4 n2 k3 s5 n3 nonce ciphertext k s6 s7
      proof -
        note q = p(4-7) [unfolded put_defs mark_deleted_def Let_def checked_Ok]
        have mid: "tx_db s5 = service_deleted command i env db"
          using q p(1,2) by (simp add: service_deleted_def Let_def)
        have sc: "schema_ok (tx_db s5)" if "schema_ok db"
          using that q p(1,2) by (simp add: schema_ok_def)
        have t: "receipts (tx_db s5) = receipts db" "audit_events (tx_db s5) = audit_events db"
          using mid by (simp_all add: service_deleted_def Let_def)
        have h: "holder db (dc_operation command) i" using p(1,3) by simp
        show ?thesis
          using closing_effect_puts [OF h sc t p(8-10)] q p(1,2) unfolding mid by simp
      qed
      done
  qed
qed

section \<open>The contracts\<close>

interpretation reconcile_start: starting_operation st "rc_operation command"
    "reconcile_validate command = Ok ()" "prepare_reconcile st command" for st command
proof (rule starting_operationI [OF prepare_reconcile_def refl])
  fix env db i c db'
  assume "schema_ok db" "prepare_reconcile st command env db = (Ok (Execute i c), db')"
  then have "prepare_reconcile_effect command env db i c db'"
    using prepare_reconcile_effect by blast
  then show "i = pg_new_operation_id env \<and> receipt_started (rc_operation command) env db db'"
    unfolding prepare_reconcile_effect_def
    by (metis insert_name_reservation_Ok(1) receipt_startedI)
qed

interpretation delete_start: starting_operation st "dc_operation command"
    "delete_validate command = Ok ()" "prepare_delete st command" for st command
proof (rule starting_operationI [OF prepare_delete_def refl])
  fix env db i c db'
  assume "schema_ok db" "prepare_delete st command env db = (Ok (Execute i c), db')"
  then have "prepare_delete_effect command env db i c db'"
    using prepare_delete_effect by blast
  then show "i = pg_new_operation_id env \<and> receipt_started (dc_operation command) env db db'"
    unfolding prepare_delete_effect_def by (metis receipt_startedI)
qed

interpretation reconcile_finish: completing_operation "rc_operation command" i
    "\<exists>x. complete_reconcile_inputs st command physical = Ok x"
    "complete_reconcile st command i physical response audit" st response audit
  for st command i physical response audit
  apply (rule completing_operationI [OF complete_reconcile_def refl])
  subgoal using complete_reconcile_effect by blast
  subgoal for x unfolding complete_reconcile_body_def Let_def
    by (cases x; hypsubst; unfold prod.case; intro lost_run; simp)
  done

lemma complete_delete_as_checked:
  "complete_delete st command i response audit =
     before_transaction (Ok ()) (\<lambda>_. in_transaction (complete_delete_body st command i response audit))"
  by (simp add: complete_delete_def)

interpretation delete_finish: completing_operation "dc_operation command" i True
    "complete_delete st command i response audit" st response audit
  for st command i response audit
  apply (rule completing_operationI [OF complete_delete_as_checked])
  subgoal by simp
  subgoal using complete_delete_effect by blast
  subgoal unfolding complete_delete_body_def Let_def by (intro lost_run) simp_all
  done

interpretation reconcile_cycle: operation_cycle st "rc_operation command" "reconcile_validate command = Ok ()"
    "prepare_reconcile st command" i "\<exists>x. complete_reconcile_inputs st command physical = Ok x"
    "complete_reconcile st command i physical response audit" response audit
  for st command i physical response audit
  by unfold_locales

interpretation delete_cycle: operation_cycle st "dc_operation command" "delete_validate command = Ok ()"
    "prepare_delete st command" i True "complete_delete st command i response audit" response audit
  for st command i response audit
  by unfold_locales

end
