(* ===== verification/Store_Credentials.thy ===== *)
theory Store_Credentials
  imports Store_Service
begin

text \<open>
  The credential and usage operations of the store (\<open>src/crates/syouyu-store/src/lib.rs\<close>):
  preparing and completing the creation and the revocation of a credential under the limits per
  bucket and per organization, listing credentials and recording usage.
\<close>

section \<open>Creation\<close>

definition reservation_matches ::
  "pg_store \<Rightarrow> credential_reservation_row \<Rightarrow> create_credential_command \<Rightarrow> bool" where
  "reservation_matches st v command \<longleftrightarrow>
     cv_service_instance_id v = op_service_instance_id (cc_operation command)
     \<and> cv_organization_id v = op_organization_id (cc_operation command)
     \<and> cv_project_id v = op_project_id (cc_operation command)
     \<and> cv_name v = cc_name command
     \<and> ps_permissions_from_value st (cv_permissions v) = Some (cc_permissions command)"

definition reservation_of :: "database \<Rightarrow> uuid \<Rightarrow> credential_reservation_row option" where
  "reservation_of db operation_id =
     find (\<lambda>v. cv_operation_id v = operation_id) (credential_reservations db)"

definition name_in_use :: "database \<Rightarrow> uuid \<Rightarrow> string \<Rightarrow> bool" where
  "name_in_use db sid name \<longleftrightarrow>
     list_ex (\<lambda>c. cr_service_instance_id c = sid \<and> cr_name c = name) (credentials db)
     \<or> list_ex (\<lambda>v. cv_service_instance_id v = sid \<and> cv_name v = name) (credential_reservations db)"

definition bucket_credentials :: "database \<Rightarrow> uuid \<Rightarrow> nat" where
  "bucket_credentials db sid =
     count_rows (\<lambda>c. cr_service_instance_id c = sid \<and> cr_status c = ''active'') (credentials db)
     + count_rows (\<lambda>v. cv_service_instance_id v = sid) (credential_reservations db)"

definition organization_credentials :: "database \<Rightarrow> uuid \<Rightarrow> nat" where
  "organization_credentials db org =
     count_rows (\<lambda>c. cr_organization_id c = org \<and> cr_status c = ''active'') (credentials db)
     + count_rows (\<lambda>v. cv_organization_id v = org) (credential_reservations db)"

definition new_reservation ::
  "create_credential_command \<Rightarrow> uuid \<Rightarrow> uuid \<Rightarrow> json \<Rightarrow> timestamp \<Rightarrow> credential_reservation_row" where
  "new_reservation command credential_id operation_id permissions now =
     \<lparr>cv_credential_id = credential_id, cv_operation_id = operation_id,
      cv_service_instance_id = op_service_instance_id (cc_operation command),
      cv_organization_id = op_organization_id (cc_operation command),
      cv_project_id = op_project_id (cc_operation command),
      cv_name = cc_name command, cv_permissions = permissions, cv_created_at = now\<rparr>"

definition resume_create_credential ::
  "pg_store \<Rightarrow> create_credential_command \<Rightarrow> bucket_record \<Rightarrow> uuid \<Rightarrow> create_credential_context prepare tx" where
  "resume_create_credential st command bucket operation_id =
     (let operation = cc_operation command in
      tx_bind (reject_parallel_operation (op_service_instance_id operation)
        (op_idempotency_key operation)) (\<lambda>_.
      tx_bind (tx_query_for_update (\<lambda>db. reservation_of db operation_id)
        (\<lambda>v. if v = None then [] else [CredentialReservationRowLock operation_id])) (\<lambda>found.
      tx_bind (tx_lift (ok_or found (CorruptData ''credential reservation''))) (\<lambda>reservation.
      if \<not> reservation_matches st reservation command
      then tx_throw (CorruptData ''credential reservation'')
      else tx_return (Execute operation_id
             \<lparr>cx_bucket = bucket, cx_credential_id = cv_credential_id reservation\<rparr>)))))"

definition reserve_credential ::
  "pg_store \<Rightarrow> create_credential_command \<Rightarrow> bucket_record \<Rightarrow> create_credential_context prepare tx" where
  "reserve_credential st command bucket =
     (let operation = cc_operation command; sid = op_service_instance_id operation;
          max_per_bucket = min (cl_max_credentials_per_bucket (cc_credential_limits command))
            (cl_max_credentials_per_bucket (ps_credential_limits st));
          max_total = min (cl_max_total_credentials (cc_credential_limits command))
            (cl_max_total_credentials (ps_credential_limits st)) in
      tx_bind (tx_query (\<lambda>db. name_in_use db sid (cc_name command))) (\<lambda>duplicate.
      if duplicate then tx_throw (Conflict ''credential name already exists for this service'')
      else tx_bind (tx_query (\<lambda>db. bucket_credentials db sid)) (\<lambda>per_bucket.
      if per_bucket \<ge> unat max_per_bucket
      then tx_throw (CredentialLimitExceeded ''bucket'' max_per_bucket)
      else tx_bind (tx_query (\<lambda>db. organization_credentials db (op_organization_id operation))) (\<lambda>total.
      if total \<ge> unat max_total
      then tx_throw (CredentialLimitExceeded ''organization'' max_total)
      else tx_bind (reject_parallel_operation sid (op_idempotency_key operation)) (\<lambda>_.
      tx_bind (reserve_receipt operation) (\<lambda>operation_id.
      tx_with_env (\<lambda>env. let credential_id = pg_new_credential_id env in
      tx_bind (tx_lift (ok_or (ps_permissions_to_value st (cc_permissions command))
        (CorruptData ''credential permissions serialization''))) (\<lambda>permissions.
      tx_bind (tx_execute_mapped (\<lambda>env n db. put_credential_reservations
        (credential_reservations db @
           [new_reservation command credential_id operation_id permissions (pg_now env)]) () db)) (\<lambda>_.
      tx_return (Execute operation_id
        \<lparr>cx_bucket = bucket, cx_credential_id = credential_id\<rparr>))))))))))"

definition prepare_create_credential_body ::
  "pg_store \<Rightarrow> create_credential_command \<Rightarrow> uuid option \<Rightarrow> create_credential_context prepare tx" where
  "prepare_create_credential_body st command claimed =
     (let operation = cc_operation command in
      tx_bind (advisory_lock (OrganizationCredentialsLock (op_organization_id operation))) (\<lambda>_.
      tx_bind (lock_service (op_service_instance_id operation)) (\<lambda>_.
      tx_bind (ready_bucket_in_transaction operation) (\<lambda>bucket.
      case claimed of
        Some operation_id \<Rightarrow> resume_create_credential st command bucket operation_id
      | None \<Rightarrow> reserve_credential st command bucket))))"

definition prepare_create_credential ::
  "pg_store \<Rightarrow> create_credential_command \<Rightarrow> create_credential_context prepare store_op" where
  "prepare_create_credential st command =
     before_transaction (create_credential_validate command) (\<lambda>_.
     in_transaction (with_claim st (cc_operation command) (prepare_create_credential_body st command)))"

definition credential_inputs ::
  "pg_store \<Rightarrow> create_credential_command \<Rightarrow> new_credential \<Rightarrow> store_error + json" where
  "credential_inputs st command credential =
     (if uuid_is_nil (nc_id credential) \<or> nc_garage_key_id credential = []
         \<or> nc_access_key_id credential = [] \<or> nc_name credential \<noteq> cc_name command
         \<or> nc_permissions credential \<noteq> cc_permissions command
      then Err (Validation ''created credential metadata is invalid'')
      else ok_or (ps_permissions_to_value st (nc_permissions credential))
             (CorruptData ''credential permissions serialization''))"

definition credential_row_of ::
  "operation_request \<Rightarrow> new_credential \<Rightarrow> json \<Rightarrow> timestamp \<Rightarrow> credential_row" where
  "credential_row_of operation credential permissions now =
     \<lparr>cr_id = nc_id credential, cr_service_instance_id = op_service_instance_id operation,
      cr_organization_id = op_organization_id operation, cr_project_id = op_project_id operation,
      cr_principal_id = op_principal_id operation, cr_name = nc_name credential,
      cr_garage_key_id = nc_garage_key_id credential,
      cr_access_key_id = nc_access_key_id credential, cr_permissions = permissions,
      cr_secret_key_fingerprint = nc_secret_key_fingerprint credential, cr_status = ''active'',
      cr_created_at = now, cr_revoked_at = None, cr_revoked_by = None\<rparr>"

definition complete_create_credential_body ::
  "pg_store \<Rightarrow> create_credential_command \<Rightarrow> uuid \<Rightarrow> new_credential \<Rightarrow> stored_http_response \<Rightarrow> audit_event
     \<Rightarrow> json \<Rightarrow> unit tx" where
  "complete_create_credential_body st command operation_id credential response audit permissions =
     (let operation = cc_operation command; sid = op_service_instance_id operation in
     tx_bind (advisory_lock (OrganizationCredentialsLock (op_organization_id operation))) (\<lambda>_.
     tx_bind (lock_service sid) (\<lambda>_.
     tx_bind (require_in_progress_receipt operation operation_id) (\<lambda>_.
     tx_bind (tx_query (\<lambda>db. list_ex (\<lambda>v. cv_credential_id v = nc_id credential
       \<and> cv_operation_id v = operation_id \<and> cv_service_instance_id v = sid
       \<and> cv_name v = cc_name command) (credential_reservations db))) (\<lambda>reserved.
     if \<not> reserved then tx_throw (CorruptData ''credential reservation'')
     else
     tx_bind (tx_execute_mapped (\<lambda>env n db. put_credentials
       (credentials db @ [credential_row_of operation credential permissions (pg_now env)]) () db)) (\<lambda>_.
     tx_bind (tx_execute (\<lambda>env n db. put_credential_reservations
       (delete_rows (\<lambda>v. cv_credential_id v = nc_id credential \<and> cv_operation_id v = operation_id)
          (credential_reservations db)) () db)) (\<lambda>_.
     tx_bind (finish_receipt st operation operation_id response) (\<lambda>_.
     insert_audit audit))))))))"

definition complete_create_credential ::
  "pg_store \<Rightarrow> create_credential_command \<Rightarrow> uuid \<Rightarrow> new_credential \<Rightarrow> stored_http_response \<Rightarrow> audit_event
     \<Rightarrow> unit store_op" where
  "complete_create_credential st command operation_id credential response audit =
     before_transaction (credential_inputs st command credential) (\<lambda>permissions.
     in_transaction
       (complete_create_credential_body st command operation_id credential response audit permissions))"

section \<open>Revocation\<close>

definition credential_of :: "database \<Rightarrow> uuid \<Rightarrow> uuid \<Rightarrow> credential_row option" where
  "credential_of db credential_id sid =
     find (\<lambda>c. cr_id c = credential_id \<and> cr_service_instance_id c = sid) (credentials db)"

definition prepare_revoke_credential_body ::
  "revoke_credential_command \<Rightarrow> uuid option \<Rightarrow> revoke_credential_context prepare tx" where
  "prepare_revoke_credential_body command claimed =
     (let operation = vc_operation command; sid = op_service_instance_id operation in
      tx_bind (lock_service sid) (\<lambda>_.
      tx_bind (reject_parallel_operation sid (op_idempotency_key operation)) (\<lambda>_.
      tx_bind (ready_bucket_in_transaction operation) (\<lambda>_.
      tx_bind (tx_query_for_update (\<lambda>db. credential_of db (vc_credential_id command) sid)
        (\<lambda>c. if c = None then [] else [CredentialRowLock (vc_credential_id command)])) (\<lambda>found.
      tx_bind (tx_lift (ok_or found NotFound)) (\<lambda>row.
      tx_bind (claimed_or_reserve claimed operation) (\<lambda>operation_id.
      tx_return (Execute operation_id
        \<lparr>vx_garage_key_id = cr_garage_key_id row,
         vx_already_revoked = (cr_status row = ''revoked'')\<rparr>))))))))"

definition prepare_revoke_credential ::
  "pg_store \<Rightarrow> revoke_credential_command \<Rightarrow> revoke_credential_context prepare store_op" where
  "prepare_revoke_credential st command =
     before_transaction (operation_validate (vc_operation command)) (\<lambda>_.
     in_transaction (with_claim st (vc_operation command) (prepare_revoke_credential_body command)))"

definition complete_revoke_credential_body ::
  "pg_store \<Rightarrow> revoke_credential_command \<Rightarrow> uuid \<Rightarrow> stored_http_response \<Rightarrow> audit_event \<Rightarrow> unit tx" where
  "complete_revoke_credential_body st command operation_id response audit =
     (let operation = vc_operation command; sid = op_service_instance_id operation;
         target = (\<lambda>c. cr_id c = vc_credential_id command \<and> cr_service_instance_id c = sid) in
     tx_bind (lock_service sid) (\<lambda>_.
     tx_bind (require_in_progress_receipt operation operation_id) (\<lambda>_.
     tx_bind (tx_execute (\<lambda>env n db. put_credentials
       (update_rows target (revoke_row (pg_now env) (op_principal_id operation)) (credentials db))
       (count_rows target (credentials db)) db)) (\<lambda>updated.
     if updated \<noteq> 1 then tx_throw NotFound
     else
     tx_bind (finish_receipt st operation operation_id response) (\<lambda>_.
     insert_audit audit)))))"

definition complete_revoke_credential ::
  "pg_store \<Rightarrow> revoke_credential_command \<Rightarrow> uuid \<Rightarrow> stored_http_response \<Rightarrow> audit_event \<Rightarrow> unit store_op" where
  "complete_revoke_credential st command operation_id response audit =
     in_transaction (complete_revoke_credential_body st command operation_id response audit)"

section \<open>Listing and usage\<close>

definition credential_row_try_into_record :: "pg_store \<Rightarrow> credential_row \<Rightarrow> store_error + credential_record" where
  "credential_row_try_into_record st c =
     try_bind (ok_or (ps_permissions_from_value st (cr_permissions c))
       (CorruptData ''credential permissions'')) (\<lambda>permissions.
     Ok \<lparr>ce_id = cr_id c, ce_service_instance_id = cr_service_instance_id c, ce_name = cr_name c,
         ce_access_key_id = cr_access_key_id c, ce_permissions = permissions,
         ce_status = cr_status c, ce_created_at = cr_created_at c,
         ce_revoked_at = cr_revoked_at c\<rparr>)"

text \<open>
  The listing runs its two statements on the pool, outside a transaction; both read, so running them
  on one state is what a single client sees.
\<close>

definition list_credentials :: "pg_store \<Rightarrow> uuid \<Rightarrow> uuid \<Rightarrow> uuid \<Rightarrow> credential_record list store_op" where
  "list_credentials st organization_id project_id service_instance_id = (\<lambda>env db.
     if pg_fault env 0 then (Err (Database ConnectionLost), db)
     else if \<not> list_ex (\<lambda>r. sv_id r = service_instance_id \<and> sv_organization_id r = organization_id
               \<and> sv_project_id r = project_id \<and> sv_phase r \<noteq> ''deleted'') (services db)
     then (Err NotFound, db)
     else if pg_fault env 1 then (Err (Database ConnectionLost), db)
     else (collect_results (map (credential_row_try_into_record st)
             (rev (sort_key cr_created_at (sort_key cr_id
                (filter (\<lambda>c. cr_service_instance_id c = service_instance_id) (credentials db)))))), db))"

definition upsert_usage :: "uuid \<Rightarrow> uuid \<Rightarrow> uuid \<Rightarrow> i64 \<Rightarrow> i64 \<Rightarrow> timestamp \<Rightarrow> unit statement" where
  "upsert_usage organization_id project_id sid bytes objects measured_at env n db =
     (let target = (\<lambda>u. us_service_instance_id u = sid \<and> us_measured_at u \<le> measured_at)
      in if list_ex (\<lambda>u. us_service_instance_id u = sid) (usage_snapshots db)
         then put_usage_snapshots (update_rows target (\<lambda>u. u\<lparr>us_bytes_used := bytes,
                us_objects_used := objects, us_measured_at := measured_at,
                us_recorded_at := pg_now env\<rparr>) (usage_snapshots db)) () db
         else put_usage_snapshots (usage_snapshots db @
                [\<lparr>us_service_instance_id = sid, us_organization_id = organization_id,
                  us_project_id = project_id, us_bytes_used = bytes, us_objects_used = objects,
                  us_measured_at = measured_at, us_recorded_at = pg_now env\<rparr>]) () db)"

definition store_usage :: "uuid \<Rightarrow> uuid \<Rightarrow> uuid \<Rightarrow> i64 \<Rightarrow> i64 \<Rightarrow> timestamp \<Rightarrow> bucket_row tx" where
  "store_usage organization_id project_id sid bytes objects measured_at =
     tx_bind (tx_query_for_update (\<lambda>db. find (\<lambda>b. bk_service_instance_id b = sid
         \<and> bk_organization_id b = organization_id \<and> bk_project_id b = project_id) (buckets db))
       (\<lambda>b. if b = None then [] else [BucketRowLock sid])) (\<lambda>found.
     tx_bind (tx_lift (ok_or found NotFound)) (\<lambda>bucket.
     tx_bind (tx_execute (\<lambda>env n db. put_buckets
       (update_rows (\<lambda>b. bk_service_instance_id b = sid) (\<lambda>b. b\<lparr>bk_used_bytes := bytes,
          bk_used_objects := objects, bk_usage_measured_at := Some measured_at,
          bk_updated_at := pg_now env\<rparr>) (buckets db)) () db)) (\<lambda>_.
     tx_bind (tx_execute (upsert_usage organization_id project_id sid bytes objects measured_at)) (\<lambda>_.
     tx_return bucket))))"

text \<open>The quotas are converted after the commit: this operation may fail with its effect stored.\<close>

definition usage_record_of :: "bucket_row \<Rightarrow> u64 \<Rightarrow> u64 \<Rightarrow> timestamp \<Rightarrow> uuid \<Rightarrow> store_error + usage_record" where
  "usage_record_of bucket bytes_used objects_used measured_at sid =
     try_bind (from_i64 (bk_quota_bytes bucket) ''bucket quota_bytes'') (\<lambda>quota_bytes.
     try_bind (from_i64 (bk_quota_objects bucket) ''bucket quota_objects'') (\<lambda>quota_objects.
     Ok \<lparr>ur_service_instance_id = sid, ur_bytes_used = bytes_used, ur_objects_used = objects_used,
         ur_quota_bytes = quota_bytes, ur_quota_objects = quota_objects,
         ur_measured_at = measured_at\<rparr>))"

definition record_usage ::
  "uuid \<Rightarrow> uuid \<Rightarrow> uuid \<Rightarrow> u64 \<Rightarrow> u64 \<Rightarrow> timestamp \<Rightarrow> usage_record store_op" where
  "record_usage organization_id project_id service_instance_id bytes_used objects_used measured_at =
     before_transaction (try_bind (to_i64 bytes_used ''bytes_used'') (\<lambda>bytes.
       try_bind (to_i64 objects_used ''objects_used'') (\<lambda>objects. Ok (bytes, objects))))
     (\<lambda>(bytes, objects) env db.
       let (result, db') = in_transaction (store_usage organization_id project_id
             service_instance_id bytes objects measured_at) env db
       in (try_bind result (\<lambda>bucket.
             usage_record_of bucket bytes_used objects_used measured_at service_instance_id), db'))"

section \<open>Effects\<close>

definition service_ready :: "operation_request \<Rightarrow> database \<Rightarrow> bool" where
  "service_ready operation db \<longleftrightarrow>
     (\<exists>s. service_of db (op_service_instance_id operation) = Some s \<and> in_scope operation s
        \<and> sv_phase s = ''ready'' \<and> sv_observed_generation s = sv_desired_generation s)
     \<and> (\<exists>b. bucket_of db (op_service_instance_id operation) = Some b \<and> bk_physical_bucket_id b \<noteq> None)"

lemma wlp_ready_bucket:
  assumes "\<And>s' r. tx_db s' = tx_db s \<Longrightarrow> service_ready operation (tx_db s) \<Longrightarrow> Q r s'"
  shows "wlp (ready_bucket_in_transaction operation) Q env s"
  unfolding ready_bucket_in_transaction_def
  apply (intro wlp_steps wlp_fetch_service wlp_fetch_bucket)
  subgoal by simp
  subgoal premises p
    by (rule assms) (use p in \<open>auto simp: service_ready_def in_scope_def bucket_record_Ok\<close>)
  done

definition max_per_bucket :: "pg_store \<Rightarrow> create_credential_command \<Rightarrow> u32" where
  "max_per_bucket st command = min (cl_max_credentials_per_bucket (cc_credential_limits command))
     (cl_max_credentials_per_bucket (ps_credential_limits st))"

definition max_total :: "pg_store \<Rightarrow> create_credential_command \<Rightarrow> u32" where
  "max_total st command = min (cl_max_total_credentials (cc_credential_limits command))
     (cl_max_total_credentials (ps_credential_limits st))"

text \<open>A new reservation is made below both limits, under a name that is free.\<close>

definition credential_reserved ::
  "pg_store \<Rightarrow> create_credential_command \<Rightarrow> pg_env \<Rightarrow> database \<Rightarrow> database \<Rightarrow> bool" where
  "credential_reserved st command env db db' \<longleftrightarrow>
     (let operation = cc_operation command; sid = op_service_instance_id operation in
      \<not> name_in_use db sid (cc_name command)
      \<and> bucket_credentials db sid < unat (max_per_bucket st command)
      \<and> organization_credentials db (op_organization_id operation) < unat (max_total st command)
      \<and> (\<exists>n permissions. ps_permissions_to_value st (cc_permissions command) = Some permissions
          \<and> db' = db\<lparr>receipts := receipts db @ [new_receipt operation (pg_new_operation_id env)
                (pg_now env) (pg_clock env n)],
              credential_reservations := credential_reservations db @
                [new_reservation command (pg_new_credential_id env) (pg_new_operation_id env)
                   permissions (pg_now env)]\<rparr>))"

definition prepare_create_credential_effect ::
  "pg_store \<Rightarrow> create_credential_command \<Rightarrow> pg_env \<Rightarrow> database \<Rightarrow> uuid \<Rightarrow> create_credential_context
     \<Rightarrow> database \<Rightarrow> bool" where
  "prepare_create_credential_effect st command env db i context db' \<longleftrightarrow>
     (let operation = cc_operation command in
      i = pg_new_operation_id env \<and> schema_ok db'
      \<and> (\<exists>claimed db1. claim_effect operation env db claimed db1
          \<and> alone db1 (op_service_instance_id operation) (op_idempotency_key operation)
          \<and> service_ready operation db1
          \<and> (case claimed of
               Some _ \<Rightarrow> db' = db1 \<and> (\<exists>v. reservation_of db1 i = Some v \<and> reservation_matches st v command
                 \<and> cx_credential_id context = cv_credential_id v)
             | None \<Rightarrow> credential_reserved st command env db1 db'
                 \<and> cx_credential_id context = pg_new_credential_id env)))"

lemma wlp_resume_create:
  assumes "\<And>s' v. tx_db s' = tx_db s \<Longrightarrow> reservation_of (tx_db s) i = Some v \<Longrightarrow>
      alone (tx_db s) (op_service_instance_id (cc_operation command))
        (op_idempotency_key (cc_operation command)) \<Longrightarrow>
      reservation_matches st v command \<Longrightarrow>
      Q (Execute i \<lparr>cx_bucket = bucket, cx_credential_id = cv_credential_id v\<rparr>) s'"
  shows "wlp (resume_create_credential st command bucket i) Q env s"
  unfolding resume_create_credential_def Let_def
  apply (intro wlp_steps)
  subgoal premises p by (rule assms) (use p in \<open>auto simp: alone_def\<close>)
  done

lemma wlp_reserve_credential:
  assumes "schema_ok (tx_db s)"
    and "\<And>s'. credential_reserved st command env (tx_db s) (tx_db s') \<Longrightarrow> schema_ok (tx_db s') \<Longrightarrow>
      alone (tx_db s) (op_service_instance_id (cc_operation command))
        (op_idempotency_key (cc_operation command)) \<Longrightarrow>
      Q (Execute (pg_new_operation_id env)
        \<lparr>cx_bucket = bucket, cx_credential_id = pg_new_credential_id env\<rparr>) s'"
  shows "wlp (reserve_credential st command bucket) Q env s"
  unfolding reserve_credential_def Let_def
  apply (intro wlp_steps wlp_reserve)
  subgoal premises p for s1 s2 s3 s4 s5 n permissions k s6 m
  proof (rule assms(2))
    have e: "tx_db s4 = tx_db s" using p by simp
    show "schema_ok (tx_db s6)"
      using schema_ok_put(5) [OF schema_ok_put(6) [OF _ p(9)] p(11)] assms(1) e by simp
    show "alone (tx_db s) (op_service_instance_id (cc_operation command))
        (op_idempotency_key (cc_operation command))" using p by (simp add: alone_def)
    show "credential_reserved st command env (tx_db s) (tx_db s6)"
      using p unfolding credential_reserved_def Let_def max_per_bucket_def max_total_def put_defs checked_Ok
      by (intro conjI exI) auto
  qed
  done

lemma prepare_create_credential_effect:
  assumes "prepare_create_credential st command env db = (r, db')" and "schema_ok db"
  shows "(db' = db \<and> (\<forall>i c. r \<noteq> Ok (Execute i c)))
    \<or> (\<exists>i c. prepare_create_credential_effect st command env db i c db'
         \<and> (r = Ok (Execute i c) \<or> r = Err (Database ConnectionLost)))"
proof (rule prepare_effect [OF assms(1) [unfolded prepare_create_credential_def] assms(2)])
  fix claimed and s :: tx_state
  assume c: "claim_effect (cc_operation command) env db claimed (tx_db s)" and sc: "schema_ok (tx_db s)"
  show "wlp (prepare_create_credential_body st command claimed)
     (\<lambda>p s'. \<exists>i c. p = Execute i c \<and> prepare_create_credential_effect st command env db i c (tx_db s')) env s"
    unfolding prepare_create_credential_body_def Let_def
    apply (intro wlp_steps wlp_ready_bucket wlp_resume_create wlp_reserve_credential)
    subgoal using sc by simp
    subgoal premises p for s1 s2 s3 bucket s4
    proof -
      have "prepare_create_credential_effect st command env db (pg_new_operation_id env)
          \<lparr>cx_bucket = bucket, cx_credential_id = pg_new_credential_id env\<rparr> (tx_db s4)"
        unfolding prepare_create_credential_effect_def Let_def
        by (intro conjI exI [of _ claimed] exI [of _ "tx_db s"]) (use p c in simp_all)
      then show ?thesis by blast
    qed
    subgoal premises p for s1 s2 s3 bucket i s4 v
    proof -
      have i: "i = pg_new_operation_id env" using c p(5) by (auto simp: claim_effect_def)
      have "prepare_create_credential_effect st command env db i
          \<lparr>cx_bucket = bucket, cx_credential_id = cv_credential_id v\<rparr> (tx_db s4)"
        unfolding prepare_create_credential_effect_def Let_def
        by (intro conjI exI [of _ claimed] exI [of _ "tx_db s"]) (use p c i sc in simp_all)
      then show ?thesis by blast
    qed
    done
qed

definition credential_created ::
  "create_credential_command \<Rightarrow> uuid \<Rightarrow> new_credential \<Rightarrow> json \<Rightarrow> pg_env \<Rightarrow> database \<Rightarrow> database" where
  "credential_created command i credential permissions env db =
     db\<lparr>credentials := credentials db @
          [credential_row_of (cc_operation command) credential permissions (pg_now env)],
        credential_reservations := delete_rows
          (\<lambda>v. cv_credential_id v = nc_id credential \<and> cv_operation_id v = i) (credential_reservations db)\<rparr>"

definition complete_create_credential_effect ::
  "pg_store \<Rightarrow> create_credential_command \<Rightarrow> uuid \<Rightarrow> new_credential \<Rightarrow> stored_http_response
     \<Rightarrow> audit_event \<Rightarrow> pg_env \<Rightarrow> database \<Rightarrow> database \<Rightarrow> bool" where
  "complete_create_credential_effect st command i credential response audit env db db' \<longleftrightarrow>
     (\<exists>permissions. credential_inputs st command credential = Ok permissions
        \<and> (\<exists>v \<in> set (credential_reservations db). cv_credential_id v = nc_id credential
            \<and> cv_operation_id v = i
            \<and> cv_service_instance_id v = op_service_instance_id (cc_operation command)
            \<and> cv_name v = cc_name command)
        \<and> closing_effect st (cc_operation command) i response audit env db
            (credential_created command i credential permissions env db) db')"

lemma complete_create_credential_effect:
  assumes "complete_create_credential st command i credential response audit env db = (r, db')"
    and "db' \<noteq> db \<or> r = Ok ()"
  shows "complete_create_credential_effect st command i credential response audit env db db'"
proof (rule changed_effect [OF assms(1) [unfolded complete_create_credential_def] assms(2)])
  fix permissions assume perms: "credential_inputs st command credential = Ok permissions"
  show "wlp (complete_create_credential_body st command i credential response audit permissions)
     (\<lambda>_ s. complete_create_credential_effect st command i credential response audit env db (tx_db s))
     env (tx_initial db)"
    unfolding complete_create_credential_body_def Let_def
    apply (intro wlp_steps wlp_finish wlp_insert_audit)
    subgoal premises p for s1 s2 s3 s4 k1 s5 n1 k2 s6 n2
      by (rule holder_same_receipts [OF p(4)]) (use p in \<open>simp add: put_defs\<close>)
    subgoal premises p for s1 s2 s3 s4 k1 s5 n1 k2 s6 n2 nonce ciphertext k s7 s8
    proof -
      note q = p(7,8) [unfolded put_defs checked_Ok]
      have db: "tx_db s4 = db" "tx_db s3 = db" using p by simp_all
      have mid: "tx_db s6 = credential_created command i credential permissions env db"
        using q db by (simp add: credential_created_def)
      have sc: "schema_ok (tx_db s6)" if "schema_ok db"
        using schema_ok_put(5) [OF schema_ok_put(4) [OF _ p(7)] p(8)] that db by simp
      have t: "receipts (tx_db s6) = receipts db" "audit_events (tx_db s6) = audit_events db"
        using mid by (simp_all add: credential_created_def)
      have h: "holder db (cc_operation command) i" using p(1,2,4) by simp
      show ?thesis
        using perms p(6) db closing_effect_puts [OF h sc t p(9-11)]
        unfolding complete_create_credential_effect_def mid by (auto simp: list_ex_iff)
    qed
    done
qed

definition prepare_revoke_credential_effect ::
  "revoke_credential_command \<Rightarrow> pg_env \<Rightarrow> database \<Rightarrow> uuid \<Rightarrow> revoke_credential_context \<Rightarrow> database \<Rightarrow> bool" where
  "prepare_revoke_credential_effect command env db i context db' \<longleftrightarrow>
     (let operation = vc_operation command; sid = op_service_instance_id operation in
      i = pg_new_operation_id env \<and> schema_ok db'
      \<and> (\<exists>claimed db1 c. claim_effect operation env db claimed db1
          \<and> alone db1 sid (op_idempotency_key operation) \<and> service_ready operation db1
          \<and> credential_of db1 (vc_credential_id command) sid = Some c
          \<and> vx_garage_key_id context = cr_garage_key_id c
          \<and> vx_already_revoked context = (cr_status c = ''revoked'')
          \<and> reserved claimed operation env db1 db'))"

lemma prepare_revoke_credential_effect:
  assumes "prepare_revoke_credential st command env db = (r, db')" and "schema_ok db"
  shows "(db' = db \<and> (\<forall>i c. r \<noteq> Ok (Execute i c)))
    \<or> (\<exists>i c. prepare_revoke_credential_effect command env db i c db'
         \<and> (r = Ok (Execute i c) \<or> r = Err (Database ConnectionLost)))"
proof (rule prepare_effect [OF assms(1) [unfolded prepare_revoke_credential_def] assms(2)])
  fix claimed and s :: tx_state
  assume c: "claim_effect (vc_operation command) env db claimed (tx_db s)" and sc: "schema_ok (tx_db s)"
  show "wlp (prepare_revoke_credential_body command claimed)
     (\<lambda>p s'. \<exists>i c. p = Execute i c \<and> prepare_revoke_credential_effect command env db i c (tx_db s')) env s"
    unfolding prepare_revoke_credential_body_def Let_def
    apply (intro wlp_steps wlp_ready_bucket claimed_reserved [OF c])
    subgoal using sc by simp
    subgoal premises p
      unfolding prepare_revoke_credential_effect_def Let_def
      by (intro exI conjI) (use p c in \<open>auto simp: alone_def\<close>)
    done
qed

definition credential_revoked :: "revoke_credential_command \<Rightarrow> pg_env \<Rightarrow> database \<Rightarrow> database" where
  "credential_revoked command env db =
     db\<lparr>credentials := update_rows (\<lambda>c. cr_id c = vc_credential_id command
          \<and> cr_service_instance_id c = op_service_instance_id (vc_operation command))
        (revoke_row (pg_now env) (op_principal_id (vc_operation command))) (credentials db)\<rparr>"

lemma complete_revoke_credential_effect:
  assumes "complete_revoke_credential st command i response audit env db = (r, db')"
    and "db' \<noteq> db \<or> r = Ok ()"
  shows "closing_effect st (vc_operation command) i response audit env db
     (credential_revoked command env db) db'"
proof -
  have "before_transaction (Ok ()) (\<lambda>_. in_transaction
      (complete_revoke_credential_body st command i response audit)) env db = (r, db')"
    using assms(1) by (simp add: complete_revoke_credential_def)
  then show ?thesis
  proof (rule changed_effect [OF _ assms(2)])
    show "wlp (complete_revoke_credential_body st command i response audit) (\<lambda>_ s.
      closing_effect st (vc_operation command) i response audit env db
         (credential_revoked command env db) (tx_db s)) env (tx_initial db)"
      unfolding complete_revoke_credential_body_def Let_def
      apply (intro wlp_steps wlp_finish wlp_insert_audit)
      subgoal premises p for s1 s2 k1 s3 n1
        by (rule holder_same_receipts [OF p(3)]) (use p in \<open>simp add: put_defs\<close>)
      subgoal premises p for s1 s2 k1 s3 n1 nonce ciphertext k s4 s5
      proof -
        have mid: "tx_db s3 = credential_revoked command env db"
          using p(1,2,4) by (simp add: credential_revoked_def put_defs)
        have sc: "schema_ok (tx_db s3)" if "schema_ok db"
          using schema_ok_put(4) [OF _ p(4)] that p(1,2) by simp
        have t: "receipts (tx_db s3) = receipts db" "audit_events (tx_db s3) = audit_events db"
          using mid by (simp_all add: credential_revoked_def)
        have h: "holder db (vc_operation command) i" using p(1,3) by simp
        show ?thesis using closing_effect_puts [OF h sc t p(6-8)] unfolding mid .
      qed
      done
  qed
qed

section \<open>The contracts\<close>

lemma create_receipt_started:
  assumes "prepare_create_credential_effect st command env db i c db'"
  shows "i = pg_new_operation_id env \<and> receipt_started (cc_operation command) env db db'"
proof -
  from assms obtain claimed db1 where i: "i = pg_new_operation_id env"
    and c: "claim_effect (cc_operation command) env db claimed db1"
      "alone db1 (op_service_instance_id (cc_operation command)) (op_idempotency_key (cc_operation command))"
    and d: "case claimed of Some _ \<Rightarrow> receipts db' = receipts db1
       | None \<Rightarrow> credential_reserved st command env db1 db'"
    unfolding prepare_create_credential_effect_def Let_def by (auto split: option.splits)
  have "\<exists>db3. reserved claimed (cc_operation command) env db1 db3 \<and> receipts db' = receipts db3"
  proof (cases claimed)
    case None
    with d obtain n where "receipts db' = receipts db1 @ [new_receipt (cc_operation command)
        (pg_new_operation_id env) (pg_now env) (pg_clock env n)]"
      by (auto simp: credential_reserved_def Let_def)
    with None show ?thesis
      by (intro exI [of _ "db1\<lparr>receipts := receipts db'\<rparr>"]) (auto simp: reserved_def)
  qed (use d in \<open>auto simp: reserved_def\<close>)
  with i c show ?thesis using receipt_startedI by blast
qed

interpretation create_start: starting_operation st "cc_operation command"
    "create_credential_validate command = Ok ()" "prepare_create_credential st command" for st command
proof (rule starting_operationI [OF prepare_create_credential_def refl])
  fix env db i c db'
  assume "schema_ok db" "prepare_create_credential st command env db = (Ok (Execute i c), db')"
  then have "prepare_create_credential_effect st command env db i c db'"
    using prepare_create_credential_effect by blast
  then show "i = pg_new_operation_id env \<and> receipt_started (cc_operation command) env db db'"
    by (rule create_receipt_started)
qed

interpretation revoke_start: starting_operation st "vc_operation command"
    "operation_validate (vc_operation command) = Ok ()" "prepare_revoke_credential st command" for st command
proof (rule starting_operationI [OF prepare_revoke_credential_def refl])
  fix env db i c db'
  assume "schema_ok db" "prepare_revoke_credential st command env db = (Ok (Execute i c), db')"
  then have "prepare_revoke_credential_effect command env db i c db'"
    using prepare_revoke_credential_effect by blast
  then show "i = pg_new_operation_id env \<and> receipt_started (vc_operation command) env db db'"
    unfolding prepare_revoke_credential_effect_def Let_def by (metis receipt_startedI)
qed

interpretation create_finish: completing_operation "cc_operation command" i
    "\<exists>x. credential_inputs st command credential = Ok x"
    "complete_create_credential st command i credential response audit" st response audit
  for st command i credential response audit
  apply (rule completing_operationI [OF complete_create_credential_def refl])
  subgoal using complete_create_credential_effect unfolding complete_create_credential_effect_def by blast
  subgoal unfolding complete_create_credential_body_def Let_def by (intro lost_run) simp_all
  done

lemma complete_revoke_as_checked:
  "complete_revoke_credential st command i response audit =
     before_transaction (Ok ()) (\<lambda>_. in_transaction
       (complete_revoke_credential_body st command i response audit))"
  by (simp add: complete_revoke_credential_def)

interpretation revoke_finish: completing_operation "vc_operation command" i True
    "complete_revoke_credential st command i response audit" st response audit
  for st command i response audit
  apply (rule completing_operationI [OF complete_revoke_as_checked])
  subgoal by simp
  subgoal using complete_revoke_credential_effect by blast
  subgoal unfolding complete_revoke_credential_body_def Let_def by (intro lost_run) simp_all
  done

interpretation create_cycle: operation_cycle st "cc_operation command"
    "create_credential_validate command = Ok ()" "prepare_create_credential st command" i
    "\<exists>x. credential_inputs st command credential = Ok x"
    "complete_create_credential st command i credential response audit" response audit
  for st command i credential response audit
  by unfold_locales

interpretation revoke_cycle: operation_cycle st "vc_operation command"
    "operation_validate (vc_operation command) = Ok ()" "prepare_revoke_credential st command" i True
    "complete_revoke_credential st command i response audit" response audit
  for st command i response audit
  by unfold_locales

text \<open>A failed operation is answered with its stored failure in the same way.\<close>

interpretation reconcile_failure: operation_cycle st "rc_operation command"
    "reconcile_validate command = Ok ()" "prepare_reconcile st command" i "sh_failed response"
    "fail_operation st (rc_operation command) i response audit" response audit
  for st command i response audit
  by unfold_locales

interpretation create_failure: operation_cycle st "cc_operation command"
    "create_credential_validate command = Ok ()" "prepare_create_credential st command" i
    "sh_failed response" "fail_operation st (cc_operation command) i response audit" response audit
  for st command i response audit
  by unfold_locales

section \<open>Usage\<close>

definition usage_stored :: "uuid \<Rightarrow> i64 \<Rightarrow> i64 \<Rightarrow> timestamp \<Rightarrow> pg_env \<Rightarrow> database \<Rightarrow> database \<Rightarrow> bool" where
  "usage_stored sid bytes objects measured_at env db db' \<longleftrightarrow>
     (\<exists>rows. db' = db\<lparr>buckets := update_rows (\<lambda>b. bk_service_instance_id b = sid)
         (\<lambda>b. b\<lparr>bk_used_bytes := bytes, bk_used_objects := objects,
            bk_usage_measured_at := Some measured_at, bk_updated_at := pg_now env\<rparr>) (buckets db),
         usage_snapshots := rows\<rparr>)"

lemma record_usage_effect:
  assumes "record_usage org prj sid bytes_used objects_used measured_at env db = (r, db')"
  shows "db' = db \<or> (\<exists>bytes objects. usage_stored sid bytes objects measured_at env db db'
     \<and> i64_try_from_u64 bytes_used = Some bytes \<and> i64_try_from_u64 objects_used = Some objects
     \<and> (schema_ok db \<longrightarrow> schema_ok db'))"
proof (rule before_transaction_cases [OF assms [unfolded record_usage_def]])
  fix inputs
  assume i: "try_bind (to_i64 bytes_used ''bytes_used'') (\<lambda>bytes.
       try_bind (to_i64 objects_used ''objects_used'') (\<lambda>objects. Ok (bytes, objects))) = Ok inputs"
    and run: "(case inputs of (bytes, objects) \<Rightarrow> (\<lambda>env db.
       let (result, db') = in_transaction (store_usage org prj sid bytes objects measured_at) env db
       in (try_bind result (\<lambda>bucket. usage_record_of bucket bytes_used objects_used measured_at sid), db')))
       env db = (r, db')"
  obtain bytes objects where b: "inputs = (bytes, objects)" "i64_try_from_u64 bytes_used = Some bytes"
    "i64_try_from_u64 objects_used = Some objects"
    using i by (auto simp: try_bind_Ok to_i64_def)
  obtain x where t: "in_transaction (store_usage org prj sid bytes objects measured_at) env db = (x, db')"
    using run b(1) by (auto split: prod.splits)
  have "wlp (store_usage org prj sid bytes objects measured_at) (\<lambda>_ s.
      usage_stored sid bytes objects measured_at env db (tx_db s) \<and> (schema_ok db \<longrightarrow> schema_ok (tx_db s)))
      env (tx_initial db)"
    unfolding store_usage_def
    apply (intro wlp_steps)
    subgoal premises p for s1 a b s2 n c s3 m
    proof -
      note q = p(3,4) [unfolded upsert_usage_def put_defs Let_def checked_Ok]
      have "usage_stored sid bytes objects measured_at env db (tx_db s3)"
        using q p(1) unfolding usage_stored_def by (auto split: if_splits)
      moreover have "schema_ok (tx_db s3)" if "schema_ok db"
        using that q p(1) by (auto simp: schema_ok_def split: if_splits)
      ultimately show ?thesis by simp
    qed
    done
  from t this have "db' = db \<or> usage_stored sid bytes objects measured_at env db db'
      \<and> (schema_ok db \<longrightarrow> schema_ok db')"
    by (rule in_transaction_cases) auto
  with b(2,3) show ?thesis by blast
qed auto

end
