(* ===== verification/Store_Steps.thy ===== *)
theory Store_Steps
  imports Store_Credentials
begin

text \<open>
  The store as a transition system. A step is one call of a store operation, by any of the
  processes that share the database: preparing an operation with a request of the matching action,
  completing, renewing or failing an operation that a prepare granted, recording usage or an audit
  event. A prepare that returned \<open>Execute\<close> leaves a task, which the process may complete at any
  time, never, or after its lease was taken over. Operation identifiers are fresh (\<open>Uuid::now_v7\<close>).
\<close>

datatype task =
    ReconcileTask reconcile_command uuid
  | DeleteTask delete_command uuid
  | CreateTask create_credential_command uuid uuid  \<comment> \<open>command, operation, credential\<close>
  | RevokeTask revoke_credential_command uuid

fun task_operation :: "task \<Rightarrow> operation_request" where
  "task_operation (ReconcileTask c i) = rc_operation c"
| "task_operation (DeleteTask c i) = dc_operation c"
| "task_operation (CreateTask c i k) = cc_operation c"
| "task_operation (RevokeTask c i) = vc_operation c"

fun task_id :: "task \<Rightarrow> uuid" where
  "task_id (ReconcileTask c i) = i"
| "task_id (DeleteTask c i) = i"
| "task_id (CreateTask c i k) = i"
| "task_id (RevokeTask c i) = i"

fun task_action :: "task \<Rightarrow> string" where
  "task_action (ReconcileTask c i) = PROVIDER_RECONCILE_ACTION"
| "task_action (DeleteTask c i) = PROVIDER_DELETE_ACTION"
| "task_action (CreateTask c i k) = CREDENTIAL_CREATE_ACTION"
| "task_action (RevokeTask c i) = CREDENTIAL_REVOKE_ACTION"

record world =
  w_db :: database
  w_tasks :: "task set"
  w_ids :: "uuid set"

definition granted :: "(uuid \<Rightarrow> 'c \<Rightarrow> task) \<Rightarrow> store_error + 'c prepare \<Rightarrow> task set" where
  "granted mk r = (case r of Ok (Execute i c) \<Rightarrow> {mk i c} | _ \<Rightarrow> {})"

definition started_world :: "world \<Rightarrow> pg_env \<Rightarrow> database \<Rightarrow> task set \<Rightarrow> world" where
  "started_world w env db' ts =
     \<lparr>w_db = db', w_tasks = w_tasks w \<union> ts, w_ids = insert (pg_new_operation_id env) (w_ids w)\<rparr>"

inductive step :: "pg_store \<Rightarrow> world \<Rightarrow> world \<Rightarrow> bool" for st where
  start_reconcile: "prepare_reconcile st c env (w_db w) = (r, db') \<Longrightarrow>
     op_action (rc_operation c) = PROVIDER_RECONCILE_ACTION \<Longrightarrow> pg_new_operation_id env \<notin> w_ids w \<Longrightarrow>
     step st w (started_world w env db' (granted (\<lambda>i _. ReconcileTask c i) r))"
| start_delete: "prepare_delete st d env (w_db w) = (r, db') \<Longrightarrow>
     op_action (dc_operation d) = PROVIDER_DELETE_ACTION \<Longrightarrow> pg_new_operation_id env \<notin> w_ids w \<Longrightarrow>
     step st w (started_world w env db' (granted (\<lambda>i _. DeleteTask d i) r))"
| start_create: "prepare_create_credential st k env (w_db w) = (r, db') \<Longrightarrow>
     op_action (cc_operation k) = CREDENTIAL_CREATE_ACTION \<Longrightarrow> pg_new_operation_id env \<notin> w_ids w \<Longrightarrow>
     step st w (started_world w env db' (granted (\<lambda>i x. CreateTask k i (cx_credential_id x)) r))"
| start_revoke: "prepare_revoke_credential st v env (w_db w) = (r, db') \<Longrightarrow>
     op_action (vc_operation v) = CREDENTIAL_REVOKE_ACTION \<Longrightarrow> pg_new_operation_id env \<notin> w_ids w \<Longrightarrow>
     step st w (started_world w env db' (granted (\<lambda>i _. RevokeTask v i) r))"
| finish_reconcile: "ReconcileTask c i \<in> w_tasks w \<Longrightarrow>
     complete_reconcile st c i physical response audit env (w_db w) = (r, db') \<Longrightarrow>
     step st w (w\<lparr>w_db := db'\<rparr>)"
| finish_delete: "DeleteTask d i \<in> w_tasks w \<Longrightarrow>
     complete_delete st d i response audit env (w_db w) = (r, db') \<Longrightarrow> step st w (w\<lparr>w_db := db'\<rparr>)"
| finish_create: "CreateTask k i credential_id \<in> w_tasks w \<Longrightarrow> nc_id credential = credential_id \<Longrightarrow>
     complete_create_credential st k i credential response audit env (w_db w) = (r, db') \<Longrightarrow>
     step st w (w\<lparr>w_db := db'\<rparr>)"
| finish_revoke: "RevokeTask v i \<in> w_tasks w \<Longrightarrow>
     complete_revoke_credential st v i response audit env (w_db w) = (r, db') \<Longrightarrow>
     step st w (w\<lparr>w_db := db'\<rparr>)"
| fail_task: "t \<in> w_tasks w \<Longrightarrow>
     fail_operation st (task_operation t) (task_id t) response audit env (w_db w) = (r, db') \<Longrightarrow>
     step st w (w\<lparr>w_db := db'\<rparr>)"
| renew_task: "t \<in> w_tasks w \<Longrightarrow>
     renew_operation (task_operation t) (task_id t) env (w_db w) = (r, db') \<Longrightarrow>
     step st w (w\<lparr>w_db := db'\<rparr>)"
| usage: "record_usage org prj sid bytes objects measured_at env (w_db w) = (u, db') \<Longrightarrow>
     step st w (w\<lparr>w_db := db'\<rparr>)"
| audit_event: "record_audit audit env (w_db w) = (r, db') \<Longrightarrow> step st w (w\<lparr>w_db := db'\<rparr>)"

definition initial_world :: world where
  "initial_world = \<lparr>w_db = empty_database, w_tasks = {}, w_ids = {}\<rparr>"

inductive reachable :: "pg_store \<Rightarrow> world \<Rightarrow> bool" for st where
  initial: "reachable st initial_world"
| after_step: "reachable st w \<Longrightarrow> step st w w' \<Longrightarrow> reachable st w'"

section \<open>Steps by their effect\<close>

text \<open>
  Every step either leaves the database alone (and grants nothing), or starts an operation, closes a
  receipt held by a task, or touches only a lease, the usage or the audit trail.
\<close>

fun start_effect :: "pg_store \<Rightarrow> task \<Rightarrow> pg_env \<Rightarrow> database \<Rightarrow> database \<Rightarrow> bool" where
  "start_effect st (ReconcileTask c i) env db db' = (\<exists>x. prepare_reconcile_effect c env db i x db')"
| "start_effect st (DeleteTask c i) env db db' = (\<exists>x. prepare_delete_effect c env db i x db')"
| "start_effect st (CreateTask c i k) env db db' =
     (\<exists>x. prepare_create_credential_effect st c env db i x db' \<and> k = cx_credential_id x)"
| "start_effect st (RevokeTask c i) env db db' = (\<exists>x. prepare_revoke_credential_effect c env db i x db')"

text \<open>The intermediate databases that closing a task may lead to.\<close>

fun close_mid :: "pg_store \<Rightarrow> task \<Rightarrow> pg_env \<Rightarrow> database \<Rightarrow> database \<Rightarrow> bool" where
  "close_mid st (ReconcileTask c i) env db mid = (\<exists>physical. reconciled st c i physical env db mid)"
| "close_mid st (DeleteTask c i) env db mid = (mid = service_deleted c i env db)"
| "close_mid st (CreateTask c i k) env db mid =
     (\<exists>credential permissions. nc_id credential = k
        \<and> credential_inputs st c credential = Ok permissions
        \<and> (\<exists>v \<in> set (credential_reservations db). cv_credential_id v = nc_id credential
            \<and> cv_operation_id v = i
            \<and> cv_service_instance_id v = op_service_instance_id (cc_operation c)
            \<and> cv_name v = cc_name c)
        \<and> mid = credential_created c i credential permissions env db)"
| "close_mid st (RevokeTask c i) env db mid = (mid = credential_revoked c env db)"

definition lease_renewed :: "operation_request \<Rightarrow> uuid \<Rightarrow> pg_env \<Rightarrow> database \<Rightarrow> database \<Rightarrow> bool" where
  "lease_renewed operation i env db db' \<longleftrightarrow>
     (\<exists>n. db' = db\<lparr>receipts := update_rows (holds_receipt (op_idempotency_key operation) i)
        (\<lambda>r. r\<lparr>re_lease_expires_at := Some (lease_until (pg_clock env n)),
           re_updated_at := pg_now env\<rparr>) (receipts db)\<rparr>)"

inductive effect :: "pg_store \<Rightarrow> world \<Rightarrow> world \<Rightarrow> bool" for st where
  no_effect: "w_db w' = w_db w \<Longrightarrow> w_tasks w' = w_tasks w \<Longrightarrow> w_ids w \<subseteq> w_ids w' \<Longrightarrow> effect st w w'"
| start_task: "start_effect st t env (w_db w) db' \<Longrightarrow> op_action (task_operation t) = task_action t \<Longrightarrow>
     task_id t = pg_new_operation_id env \<Longrightarrow> task_id t \<notin> w_ids w \<Longrightarrow> ts \<subseteq> {t} \<Longrightarrow>
     effect st w (started_world w env db' ts)"
| close_task: "t \<in> w_tasks w \<Longrightarrow> close_mid st t env (w_db w) mid \<Longrightarrow>
     closing_effect st (task_operation t) (task_id t) response audit env (w_db w) mid db' \<Longrightarrow>
     effect st w (w\<lparr>w_db := db'\<rparr>)"
| fail_effect: "t \<in> w_tasks w \<Longrightarrow>
     closing_effect st (task_operation t) (task_id t) response audit env (w_db w)
       (release_reservations (task_operation t) (task_id t) (w_db w)) db' \<Longrightarrow> sh_failed response \<Longrightarrow>
     effect st w (w\<lparr>w_db := db'\<rparr>)"
| renew_effect: "t \<in> w_tasks w \<Longrightarrow> lease_renewed (task_operation t) (task_id t) env (w_db w) db' \<Longrightarrow>
     schema_ok db' \<Longrightarrow> effect st w (w\<lparr>w_db := db'\<rparr>)"
| usage_effect: "usage_stored sid bytes objects measured_at env (w_db w) db' \<Longrightarrow> schema_ok db' \<Longrightarrow>
     effect st w (w\<lparr>w_db := db'\<rparr>)"
| audit_effect: "db' = (w_db w)\<lparr>audit_events := audit_events (w_db w) @ [audit_row_of env audit]\<rparr> \<Longrightarrow>
     schema_ok db' \<Longrightarrow> effect st w (w\<lparr>w_db := db'\<rparr>)"

lemma started_no_effect:
  assumes "\<And>i c. r \<noteq> Ok (Execute i c)"
  shows "effect st w (started_world w env (w_db w) (granted mk r))"
proof (rule no_effect)
  have "granted mk r = {}"
    using assms by (auto simp: granted_def split: sum.splits prepare.splits)
  then show "w_tasks (started_world w env (w_db w) (granted mk r)) = w_tasks w"
    by (simp add: started_world_def)
qed (auto simp: started_world_def)

lemma renew_operation_effect:
  assumes "renew_operation operation i env db = (r, db')" and "schema_ok db"
  shows "db' = db \<or> lease_renewed operation i env db db' \<and> schema_ok db'"
proof (cases "db' = db")
  case False
  have "lease_renewed operation i env db db' \<and> schema_ok db'"
  proof (rule changed_effect [OF assms(1) [unfolded renew_operation_def]])
    show "wlp (renew_operation_body operation i)
       (\<lambda>_ s. lease_renewed operation i env db (tx_db s) \<and> schema_ok (tx_db s)) env (tx_initial db)"
      unfolding renew_operation_body_def
      apply (intro wlp_steps)
      subgoal premises p for s1 s2 k s3 n
      proof -
        have db: "tx_db s2 = db" using p by simp
        note q = p(4) [unfolded Let_def db]
        have "lease_renewed operation i env db (tx_db s3)"
          using q unfolding lease_renewed_def by (auto simp: put_defs)
        moreover have "schema_ok (tx_db s3)" by (rule schema_ok_put(6) [OF assms(2) q])
        ultimately show ?thesis by blast
      qed
      done
  qed (use False in simp)
  then show ?thesis by simp
qed simp

lemma record_audit_effect:
  assumes "record_audit audit env db = (r, db')" and "schema_ok db"
  shows "db' = db \<or> db' = db\<lparr>audit_events := audit_events db @ [audit_row_of env audit]\<rparr> \<and> schema_ok db'"
proof -
  have "wlp (insert_audit audit) (\<lambda>_ s. tx_db s = db\<lparr>audit_events := audit_events db @ [audit_row_of env audit]\<rparr>
      \<and> schema_ok (tx_db s)) env (tx_initial db)"
    by (rule wlp_insert_audit) (use assms(2) schema_ok_put(7) in \<open>fastforce simp: put_defs\<close>)
  with assms(1) [unfolded record_audit_def] show ?thesis by (rule in_transaction_cases) auto
qed

lemma step_effect:
  assumes "step st w w'" and "schema_ok (w_db w)"
  shows "effect st w w'"
  using assms
proof cases
  case (start_reconcile c env r db')
  consider "db' = w_db w" "\<And>i c. r \<noteq> Ok (Execute i c)"
    | i x where "prepare_reconcile_effect c env (w_db w) i x db'" "r = Ok (Execute i x) \<or> r = Err (Database ConnectionLost)"
    using prepare_reconcile_effect [OF start_reconcile(2) assms(2)] by blast
  then show ?thesis
  proof cases
    case e: (2 i x)
    from e(2) have "granted (\<lambda>i _. ReconcileTask c i) r \<subseteq> {ReconcileTask c i}" by (auto simp: granted_def)
    moreover have "i = pg_new_operation_id env" using e(1) by (simp add: prepare_reconcile_effect_def)
    ultimately show ?thesis unfolding start_reconcile(1)
      by (intro start_task [where t = "ReconcileTask c i"]) (use e start_reconcile in auto)
  qed (use start_reconcile(1) started_no_effect in blast)
next
  case (start_delete c env r db')
  consider "db' = w_db w" "\<And>i c. r \<noteq> Ok (Execute i c)"
    | i x where "prepare_delete_effect c env (w_db w) i x db'" "r = Ok (Execute i x) \<or> r = Err (Database ConnectionLost)"
    using prepare_delete_effect [OF start_delete(2) assms(2)] by blast
  then show ?thesis
  proof cases
    case e: (2 i x)
    from e(2) have "granted (\<lambda>i _. DeleteTask c i) r \<subseteq> {DeleteTask c i}" by (auto simp: granted_def)
    moreover have "i = pg_new_operation_id env" using e(1) by (simp add: prepare_delete_effect_def)
    ultimately show ?thesis unfolding start_delete(1)
      by (intro start_task [where t = "DeleteTask c i"]) (use e start_delete in auto)
  qed (use start_delete(1) started_no_effect in blast)
next
  case (start_create c env r db')
  consider "db' = w_db w" "\<And>i c. r \<noteq> Ok (Execute i c)"
    | i x where "prepare_create_credential_effect st c env (w_db w) i x db'" "r = Ok (Execute i x) \<or> r = Err (Database ConnectionLost)"
    using prepare_create_credential_effect [OF start_create(2) assms(2)] by blast
  then show ?thesis
  proof cases
    case e: (2 i x)
    from e(2) have "granted (\<lambda>i x. CreateTask c i (cx_credential_id x)) r \<subseteq> {CreateTask c i (cx_credential_id x)}"
      by (auto simp: granted_def)
    moreover have "i = pg_new_operation_id env" using e(1) by (simp add: prepare_create_credential_effect_def Let_def)
    ultimately show ?thesis unfolding start_create(1)
      by (intro start_task [where t = "CreateTask c i (cx_credential_id x)"]) (use e start_create in auto)
  qed (use start_create(1) started_no_effect in blast)
next
  case (start_revoke c env r db')
  consider "db' = w_db w" "\<And>i c. r \<noteq> Ok (Execute i c)"
    | i x where "prepare_revoke_credential_effect c env (w_db w) i x db'" "r = Ok (Execute i x) \<or> r = Err (Database ConnectionLost)"
    using prepare_revoke_credential_effect [OF start_revoke(2) assms(2)] by blast
  then show ?thesis
  proof cases
    case e: (2 i x)
    from e(2) have "granted (\<lambda>i _. RevokeTask c i) r \<subseteq> {RevokeTask c i}" by (auto simp: granted_def)
    moreover have "i = pg_new_operation_id env" using e(1) by (simp add: prepare_revoke_credential_effect_def Let_def)
    ultimately show ?thesis unfolding start_revoke(1)
      by (intro start_task [where t = "RevokeTask c i"]) (use e start_revoke in auto)
  qed (use start_revoke(1) started_no_effect in blast)
next
  case (finish_reconcile c i physical response audit env r db')
  show ?thesis
  proof (cases "db' = w_db w")
    case False
    then obtain mid where "reconciled st c i physical env (w_db w) mid"
      "closing_effect st (rc_operation c) i response audit env (w_db w) mid db'"
      using complete_reconcile_effect [OF finish_reconcile(3)] by blast
    with finish_reconcile(1,2) show ?thesis by (auto intro!: close_task)
  qed (simp add: finish_reconcile(1) no_effect)
next
  case (finish_delete c i response audit env r db')
  show ?thesis
  proof (cases "db' = w_db w")
    case False
    with complete_delete_effect [OF finish_delete(3)] finish_delete(1,2) show ?thesis
      by (auto intro!: close_task)
  qed (simp add: finish_delete(1) no_effect)
next
  case (finish_create c i credential_id credential response audit env r db')
  show ?thesis
  proof (cases "db' = w_db w")
    case False
    then obtain permissions where "credential_inputs st c credential = Ok permissions"
      "\<exists>v \<in> set (credential_reservations (w_db w)). cv_credential_id v = nc_id credential
            \<and> cv_operation_id v = i
            \<and> cv_service_instance_id v = op_service_instance_id (cc_operation c)
            \<and> cv_name v = cc_name c"
      and e: "closing_effect st (cc_operation c) i response audit env (w_db w)
         (credential_created c i credential permissions env (w_db w)) db'"
      using complete_create_credential_effect [OF finish_create(4)]
      unfolding complete_create_credential_effect_def by blast
    then have m: "close_mid st (CreateTask c i credential_id) env (w_db w)
        (credential_created c i credential permissions env (w_db w))"
      using finish_create(3) unfolding close_mid.simps by blast
    show ?thesis unfolding finish_create(1)
      by (rule close_task [OF finish_create(2) m]) (use e in simp)
  qed (simp add: finish_create(1) no_effect)
next
  case (finish_revoke c i response audit env r db')
  show ?thesis
  proof (cases "db' = w_db w")
    case False
    with complete_revoke_credential_effect [OF finish_revoke(3)] finish_revoke(1,2) show ?thesis
      by (auto intro!: close_task)
  qed (simp add: finish_revoke(1) no_effect)
next
  case (fail_task t response audit env r db')
  show ?thesis
  proof (cases "db' = w_db w")
    case False
    with fail_operation_effect [OF fail_task(3)] fail_operation_failed [OF fail_task(3)] fail_task(1,2)
    show ?thesis by (auto intro: fail_effect)
  qed (simp add: fail_task(1) no_effect)
next
  case (renew_task t env r db')
  from renew_operation_effect [OF renew_task(3) assms(2)] renew_task(1,2) show ?thesis
    by (auto intro: renew_effect no_effect)
next
  case (usage org prj sid bytes objects measured_at env u db')
  from record_usage_effect [OF usage(2)] usage(1) assms(2) show ?thesis
    by (auto intro: usage_effect no_effect)
next
  case (audit_event audit env r db')
  from record_audit_effect [OF audit_event(2) assms(2)] audit_event(1) show ?thesis
    by (auto intro: audit_effect no_effect)
qed

end
