(* ===== verification/Store_Invariants.thy ===== *)
theory Store_Invariants
  imports Store_Steps
begin

text \<open>
  Invariants of the reachable states of the store: one operation in progress per service, task and
  receipt identifiers that are never reused, the facts a granted task may rely on until it completes,
  reservations that belong to a running operation, services with their bucket and name, and the
  credential limits. Each is shown to be kept by every effect of a step.
\<close>

section \<open>What changes outside a service\<close>

definition same_but :: "('r \<Rightarrow> 'k) \<Rightarrow> 'k \<Rightarrow> 'r list \<Rightarrow> 'r list \<Rightarrow> bool" where
  "same_but k x xs ys \<longleftrightarrow> (\<forall>r. k r \<noteq> x \<longrightarrow> (r \<in> set ys \<longleftrightarrow> r \<in> set xs))"

lemma same_but_refl [simp]: "same_but k x xs xs"
  by (simp add: same_but_def)

lemma same_but_trans: "same_but k x xs ys \<Longrightarrow> same_but k x ys zs \<Longrightarrow> same_but k x xs zs"
  by (simp add: same_but_def)

lemma same_but_update:
  "(\<And>r. r \<in> set xs \<Longrightarrow> P r \<Longrightarrow> k r = x \<and> k (f r) = x) \<Longrightarrow> same_but k x xs (update_rows P f xs)"
  unfolding same_but_def in_update_rows by (metis (full_types))

lemma same_but_delete: "(\<And>r. r \<in> set xs \<Longrightarrow> P r \<Longrightarrow> k r = x) \<Longrightarrow> same_but k x xs (delete_rows P xs)"
  by (auto simp: same_but_def)

lemma in_update_rowsE:
  assumes "x \<in> set (update_rows P f rows)"
  obtains r where "r \<in> set rows" "P r" "x = f r" | "x \<in> set rows" "\<not> P x"
  using assms unfolding in_update_rows by metis

lemma update_rowsI: "r \<in> set rows \<Longrightarrow> (if P r then f r else r) \<in> set (update_rows P f rows)"
  by (auto simp: update_rows_def)

lemma update_rows_keys:
  assumes "\<And>r. r \<in> set rows \<Longrightarrow> P r \<Longrightarrow> k (f r) = k r"
  shows "k ` set (update_rows P f rows) = k ` set rows"
proof -
  have "map k (update_rows P f rows) = map k rows" using assms by (rule map_update_rows_same)
  then show ?thesis by (metis set_map)
qed

lemma same_but_append: "k r = x \<Longrightarrow> same_but k x xs (xs @ [r])"
  by (auto simp: same_but_def)

definition agree_elsewhere :: "uuid \<Rightarrow> database \<Rightarrow> database \<Rightarrow> bool" where
  "agree_elsewhere sid db db' \<longleftrightarrow>
     same_but sv_id sid (services db) (services db')
     \<and> same_but bk_service_instance_id sid (buckets db) (buckets db')
     \<and> same_but nr_service_instance_id sid (name_reservations db) (name_reservations db')
     \<and> same_but cr_service_instance_id sid (credentials db) (credentials db')
     \<and> same_but cv_service_instance_id sid (credential_reservations db) (credential_reservations db')"

lemma agree_refl [simp]: "agree_elsewhere sid db db"
  by (simp add: agree_elsewhere_def)

lemma agree_trans: "agree_elsewhere sid a b \<Longrightarrow> agree_elsewhere sid b c \<Longrightarrow> agree_elsewhere sid a c"
  unfolding agree_elsewhere_def by (meson same_but_trans)

section \<open>The invariants\<close>

abbreviation in_progress :: "receipt_row \<Rightarrow> bool" where
  "in_progress r \<equiv> re_state r = ''in_progress''"

definition exclusive :: "database \<Rightarrow> bool" where
  "exclusive db \<longleftrightarrow> (\<forall>r1 \<in> set (receipts db). \<forall>r2 \<in> set (receipts db).
     in_progress r1 \<and> in_progress r2 \<and> re_service_instance_id r1 = re_service_instance_id r2
     \<longrightarrow> re_idempotency_key r1 = re_idempotency_key r2)"

definition ids_known :: "world \<Rightarrow> bool" where
  "ids_known w \<longleftrightarrow> (\<forall>r \<in> set (receipts (w_db w)). re_operation_id r \<in> w_ids w)
     \<and> (\<forall>t \<in> w_tasks w. task_id t \<in> w_ids w)"

definition tasks_distinct :: "world \<Rightarrow> bool" where
  "tasks_distinct w \<longleftrightarrow> inj_on task_id (w_tasks w)
     \<and> (\<forall>t \<in> w_tasks w. op_action (task_operation t) = task_action t)"

definition reservations_backed :: "database \<Rightarrow> bool" where
  "reservations_backed db \<longleftrightarrow> (\<forall>v \<in> set (credential_reservations db). \<exists>r \<in> set (receipts db).
     in_progress r \<and> re_operation_id r = cv_operation_id v
     \<and> re_service_instance_id r = cv_service_instance_id v
     \<and> re_organization_id r = cv_organization_id v \<and> re_project_id r = cv_project_id v
     \<and> re_action r = CREDENTIAL_CREATE_ACTION)"

definition has_bucket :: "database \<Rightarrow> service_row \<Rightarrow> bool" where
  "has_bucket db s \<longleftrightarrow> (\<exists>b \<in> set (buckets db). bk_service_instance_id b = sv_id s
     \<and> bk_organization_id b = sv_organization_id s \<and> bk_project_id b = sv_project_id s
     \<and> bk_physical_bucket_id b \<noteq> None
     \<and> (sv_phase s \<noteq> ''deleted'' \<longrightarrow> (\<exists>n \<in> set (name_reservations db).
          nr_service_instance_id n = sv_id s \<and> nr_bucket_name n = bk_bucket_name b)))"

definition services_backed :: "database \<Rightarrow> bool" where
  "services_backed db \<longleftrightarrow>
     (\<forall>b \<in> set (buckets db). \<exists>s \<in> set (services db). sv_id s = bk_service_instance_id b)
     \<and> (\<forall>s \<in> set (services db). has_bucket db s)"

definition deleted_inert :: "database \<Rightarrow> bool" where
  "deleted_inert db \<longleftrightarrow> (\<forall>s \<in> set (services db). sv_phase s = ''deleted'' \<longrightarrow>
     (\<forall>c \<in> set (credentials db). cr_service_instance_id c = sv_id s \<longrightarrow> cr_status c \<noteq> ''active'')
     \<and> (\<forall>v \<in> set (credential_reservations db). cv_service_instance_id v \<noteq> sv_id s)
     \<and> (\<forall>n \<in> set (name_reservations db). nr_service_instance_id n \<noteq> sv_id s))"

lemma deleted_inertD:
  assumes "deleted_inert db" "s \<in> set (services db)" "sv_phase s = ''deleted''"
  shows "c \<in> set (credentials db) \<Longrightarrow> cr_service_instance_id c = sv_id s \<Longrightarrow> cr_status c \<noteq> ''active''"
    and "v \<in> set (credential_reservations db) \<Longrightarrow> cv_service_instance_id v \<noteq> sv_id s"
    and "n \<in> set (name_reservations db) \<Longrightarrow> nr_service_instance_id n \<noteq> sv_id s"
  using assms unfolding deleted_inert_def by blast+

lemma deleted_inertI:
  assumes "\<And>s c. s \<in> set (services db) \<Longrightarrow> sv_phase s = ''deleted'' \<Longrightarrow> c \<in> set (credentials db) \<Longrightarrow>
      cr_service_instance_id c = sv_id s \<Longrightarrow> cr_status c \<noteq> ''active''"
    and "\<And>s v. s \<in> set (services db) \<Longrightarrow> sv_phase s = ''deleted'' \<Longrightarrow>
      v \<in> set (credential_reservations db) \<Longrightarrow> cv_service_instance_id v \<noteq> sv_id s"
    and "\<And>s n. s \<in> set (services db) \<Longrightarrow> sv_phase s = ''deleted'' \<Longrightarrow>
      n \<in> set (name_reservations db) \<Longrightarrow> nr_service_instance_id n \<noteq> sv_id s"
  shows "deleted_inert db"
  using assms unfolding deleted_inert_def by blast

definition within_limits :: "pg_store \<Rightarrow> database \<Rightarrow> bool" where
  "within_limits st db \<longleftrightarrow>
     (\<forall>sid. bucket_credentials db sid \<le> unat (cl_max_credentials_per_bucket (ps_credential_limits st)))
     \<and> (\<forall>org. organization_credentials db org \<le> unat (cl_max_total_credentials (ps_credential_limits st)))"

lemma has_bucket_mono:
  assumes "has_bucket db r" and "sv_id s = sv_id r"
    and "sv_organization_id s = sv_organization_id r" "sv_project_id s = sv_project_id r"
    and "\<And>b. b \<in> set (buckets db) \<Longrightarrow> bk_service_instance_id b = sv_id r \<Longrightarrow> b \<in> set (buckets db')"
    and "sv_phase s \<noteq> ''deleted'' \<Longrightarrow> sv_phase r \<noteq> ''deleted''
       \<and> (\<forall>n \<in> set (name_reservations db). nr_service_instance_id n = sv_id r \<longrightarrow> n \<in> set (name_reservations db'))"
  shows "has_bucket db' s"
proof -
  from assms(1) obtain b where b: "b \<in> set (buckets db)" "bk_service_instance_id b = sv_id r"
    "bk_organization_id b = sv_organization_id r" "bk_project_id b = sv_project_id r"
    "bk_physical_bucket_id b \<noteq> None"
    "sv_phase r \<noteq> ''deleted'' \<longrightarrow> (\<exists>n \<in> set (name_reservations db).
      nr_service_instance_id n = sv_id r \<and> nr_bucket_name n = bk_bucket_name b)"
    unfolding has_bucket_def by blast
  have "b \<in> set (buckets db')" using assms(5) b(1,2) .
  moreover have "\<exists>n \<in> set (name_reservations db'). nr_service_instance_id n = sv_id s
      \<and> nr_bucket_name n = bk_bucket_name b" if "sv_phase s \<noteq> ''deleted''"
    using assms(2) assms(6) [OF that] b(6) by auto
  ultimately show ?thesis using b(2-5) assms(2-4) unfolding has_bucket_def by auto
qed

text \<open>What a task may rely on while it holds its receipt.\<close>

definition service_is :: "database \<Rightarrow> operation_request \<Rightarrow> (service_row \<Rightarrow> bool) \<Rightarrow> bool" where
  "service_is db operation P \<longleftrightarrow> (\<exists>s \<in> set (services db). sv_id s = op_service_instance_id operation
     \<and> in_scope operation s \<and> P s)"

fun task_ready :: "pg_store \<Rightarrow> database \<Rightarrow> task \<Rightarrow> bool" where
  "task_ready st db (ReconcileTask c i) \<longleftrightarrow>
     (\<forall>s \<in> set (services db). sv_id s = op_service_instance_id (rc_operation c) \<longrightarrow>
        in_scope (rc_operation c) s \<and> sv_phase s \<noteq> ''deleted'' \<and> sv_desired_generation s \<le> rc_generation c)
     \<and> (\<forall>b \<in> set (buckets db). bk_service_instance_id b = op_service_instance_id (rc_operation c) \<longrightarrow>
        bk_bucket_name b = sp_bucket_name (rc_spec c))
     \<and> (\<exists>n \<in> set (name_reservations db). nr_service_instance_id n = op_service_instance_id (rc_operation c)
        \<and> nr_bucket_name n = sp_bucket_name (rc_spec c))"
| "task_ready st db (DeleteTask c i) \<longleftrightarrow>
     service_is db (dc_operation c) (\<lambda>s. sv_phase s \<noteq> ''deleted''
        \<and> dc_generation c = sv_desired_generation s + 1)"
| "task_ready st db (CreateTask c i k) \<longleftrightarrow>
     service_is db (cc_operation c) (\<lambda>s. sv_phase s = ''ready'')
     \<and> (\<exists>v \<in> set (credential_reservations db). cv_operation_id v = i \<and> cv_credential_id v = k
         \<and> cv_service_instance_id v = op_service_instance_id (cc_operation c)
         \<and> cv_name v = cc_name c)"
| "task_ready st db (RevokeTask c i) \<longleftrightarrow>
     service_is db (vc_operation c) (\<lambda>s. sv_phase s = ''ready'')
     \<and> (\<exists>r \<in> set (credentials db). cr_id r = vc_credential_id c
         \<and> cr_service_instance_id r = op_service_instance_id (vc_operation c))"

definition live_ready :: "pg_store \<Rightarrow> world \<Rightarrow> bool" where
  "live_ready st w \<longleftrightarrow> (\<forall>t \<in> w_tasks w. holder (w_db w) (task_operation t) (task_id t)
     \<longrightarrow> task_ready st (w_db w) t)"

definition invariant :: "pg_store \<Rightarrow> world \<Rightarrow> bool" where
  "invariant st w \<longleftrightarrow> schema_ok (w_db w) \<and> exclusive (w_db w) \<and> ids_known w \<and> tasks_distinct w
     \<and> reservations_backed (w_db w) \<and> services_backed (w_db w) \<and> deleted_inert (w_db w)
     \<and> within_limits st (w_db w) \<and> live_ready st w"

lemma invariant_initial: "invariant st initial_world"
  by (simp add: invariant_def initial_world_def exclusive_def ids_known_def tasks_distinct_def
      reservations_backed_def services_backed_def deleted_inert_def within_limits_def live_ready_def has_bucket_def
      bucket_credentials_def organization_credentials_def count_rows_def
      schema_ok_empty) (simp add: empty_database_def count_rows_def)

lemma task_ready_frame:
  assumes "task_ready st db t" and "agree_elsewhere sid db db'"
    and "op_service_instance_id (task_operation t) \<noteq> sid"
  shows "task_ready st db' t"
  using assms by (cases t) (auto simp: agree_elsewhere_def same_but_def service_is_def; metis)+

section \<open>Receipts under an effect\<close>

lemma in_finish_rows:
  "r \<in> set (finish_rows env operation i response nonce c rows) \<longleftrightarrow>
     (\<exists>q \<in> set rows. r = (if holds_receipt (op_idempotency_key operation) i q
        then finished response nonce c (pg_now env) q else q))"
  by (simp add: finish_rows_def in_update_rows)

lemma finished_simps [simp]:
  "re_idempotency_key (finished response nonce c now r) = re_idempotency_key r"
  "re_operation_id (finished response nonce c now r) = re_operation_id r"
  "re_service_instance_id (finished response nonce c now r) = re_service_instance_id r"
  "re_organization_id (finished response nonce c now r) = re_organization_id r"
  "re_project_id (finished response nonce c now r) = re_project_id r"
  "re_action (finished response nonce c now r) = re_action r"
  "\<not> in_progress (finished response nonce c now r)"
  by (simp_all add: finished_def)

lemma closing_receipts:
  assumes "closing_effect st operation i response audit env db mid db'"
  shows "r \<in> set (receipts db') \<Longrightarrow> in_progress r \<Longrightarrow>
       r \<in> set (receipts db) \<and> \<not> holds_receipt (op_idempotency_key operation) i r"
    and "q \<in> set (receipts db) \<Longrightarrow> \<not> holds_receipt (op_idempotency_key operation) i q \<Longrightarrow> q \<in> set (receipts db')"
    and "r \<in> set (receipts db') \<Longrightarrow> \<exists>q \<in> set (receipts db). re_operation_id r = re_operation_id q
       \<and> re_idempotency_key r = re_idempotency_key q"
proof -
  obtain nonce c where db': "receipts db' = finish_rows env operation i response nonce c (receipts db)"
    using closing_effectD(9) [OF assms] by blast
  show "r \<in> set (receipts db) \<and> \<not> holds_receipt (op_idempotency_key operation) i r"
    if "r \<in> set (receipts db')" "in_progress r"
    using that unfolding db' in_finish_rows by (metis finished_simps(7))
  show "q \<in> set (receipts db')" if "q \<in> set (receipts db)" "\<not> holds_receipt (op_idempotency_key operation) i q"
    using that unfolding db' in_finish_rows by auto
  show "\<exists>q \<in> set (receipts db). re_operation_id r = re_operation_id q
       \<and> re_idempotency_key r = re_idempotency_key q" if "r \<in> set (receipts db')"
    using that unfolding db' in_finish_rows by (metis finished_simps(1,2))
qed

lemma holder_row:
  assumes "holder db operation i" and "schema_ok db"
  obtains row where "row \<in> set (receipts db)" "re_idempotency_key row = op_idempotency_key operation"
    "receipt_matches row operation" "re_operation_id row = i" "in_progress row"
    "holds_receipt (op_idempotency_key operation) i row"
  using assms receipt_of_Some unfolding holder_def holds_receipt_def by blast

lemma holderI:
  assumes "schema_ok db" "row \<in> set (receipts db)" "re_idempotency_key row = op_idempotency_key operation"
    "receipt_matches row operation" "re_operation_id row = i" "in_progress row"
  shows "holder db operation i"
  using receipt_of_in [OF assms(1,2)] assms(3-6) by (simp add: holder_def)

lemma closing_not_holder:
  assumes c: "closing_effect st operation i response audit env db mid db'" and s: "schema_ok db"
    and e: "exclusive db" and h: "holder db' operation' i'"
  shows "holder db operation' i' \<and> op_service_instance_id operation' \<noteq> op_service_instance_id operation"
proof -
  have s': "schema_ok db'" using closing_effectD(2) [OF c s] .
  from h s' obtain row where row: "row \<in> set (receipts db')" "re_idempotency_key row = op_idempotency_key operation'"
    "receipt_matches row operation'" "re_operation_id row = i'" "in_progress row" by (rule holder_row)
  then have old: "row \<in> set (receipts db)" "\<not> holds_receipt (op_idempotency_key operation) i row"
    using closing_receipts(1) [OF c] by auto
  from closing_effectD(1) [OF c] s obtain held where held: "held \<in> set (receipts db)"
    "re_idempotency_key held = op_idempotency_key operation" "receipt_matches held operation"
    "re_operation_id held = i" "in_progress held" "holds_receipt (op_idempotency_key operation) i held"
    by (rule holder_row)
  have "op_service_instance_id operation' \<noteq> op_service_instance_id operation"
  proof
    assume "op_service_instance_id operation' = op_service_instance_id operation"
    then have "re_service_instance_id row = re_service_instance_id held"
      using row(3) held(3) by (simp add: receipt_matches_def)
    with e old(1) held(1) row(5) held(5) have "re_idempotency_key row = re_idempotency_key held"
      unfolding exclusive_def by blast
    then have "row = held" using unique_on_same [OF schema_okD(9) [OF s] old(1) held(1)] by simp
    with old(2) held(6) show False by simp
  qed
  moreover have "holder db operation' i'" using s old(1) row(2-5) by (rule holderI)
  ultimately show ?thesis by simp
qed

lemma closing_exclusive:
  assumes "closing_effect st operation i response audit env db mid db'" and "exclusive db"
  shows "exclusive db'"
  using assms(2) closing_receipts(1) [OF assms(1)] unfolding exclusive_def by blast

lemma closing_ids:
  assumes "closing_effect st operation i response audit env (w_db w) mid db'" and "ids_known w"
  shows "ids_known (w\<lparr>w_db := db'\<rparr>)"
proof -
  have "re_operation_id r \<in> w_ids w" if r: "r \<in> set (receipts db')" for r
  proof -
    obtain q where "q \<in> set (receipts (w_db w))" "re_operation_id r = re_operation_id q"
      using closing_receipts(3) [OF assms(1) r] by blast
    then show ?thesis using assms(2) by (simp add: ids_known_def)
  qed
  then show ?thesis using assms(2) by (simp add: ids_known_def)
qed

lemma closing_agree:
  assumes "closing_effect st operation i response audit env db mid db'" and "agree_elsewhere sid db mid"
  shows "agree_elsewhere sid db db'"
  using assms closing_effectD(3-7) [OF assms(1)] by (simp add: agree_elsewhere_def)

lemma closing_live:
  assumes c: "closing_effect st operation i response audit env (w_db w) mid db'"
    and a: "agree_elsewhere (op_service_instance_id operation) (w_db w) mid"
    and "schema_ok (w_db w)" "exclusive (w_db w)" "live_ready st w"
  shows "live_ready st (w\<lparr>w_db := db'\<rparr>)"
proof -
  have "task_ready st db' t" if t: "t \<in> w_tasks w" "holder db' (task_operation t) (task_id t)" for t
  proof -
    have h: "holder (w_db w) (task_operation t) (task_id t)"
      "op_service_instance_id (task_operation t) \<noteq> op_service_instance_id operation"
      using closing_not_holder [OF c assms(3,4) t(2)] by auto
    with assms(5) t(1) have "task_ready st (w_db w) t" by (simp add: live_ready_def)
    from this closing_agree [OF c a] h(2) show ?thesis by (rule task_ready_frame)
  qed
  then show ?thesis by (simp add: live_ready_def)
qed

lemma same_operation_receipt:
  assumes "schema_ok db" "r \<in> set (receipts db)" "q \<in> set (receipts db)" "re_operation_id r = re_operation_id q"
  shows "r = q"
  using unique_on_same [OF schema_okD(10) [OF assms(1)] assms(2-4)] .

lemma same_key_receipt:
  assumes "schema_ok db" "r \<in> set (receipts db)" "q \<in> set (receipts db)"
    "re_idempotency_key r = re_idempotency_key q"
  shows "r = q"
  using unique_on_same [OF schema_okD(9) [OF assms(1)] assms(2-4)] .

lemma backed_reservation:
  assumes "holder db operation i" "schema_ok db" "reservations_backed db"
    and "v \<in> set (credential_reservations db)" "cv_operation_id v = i"
  shows "cv_service_instance_id v = op_service_instance_id operation
    \<and> cv_organization_id v = op_organization_id operation \<and> cv_project_id v = op_project_id operation
    \<and> op_action operation = CREDENTIAL_CREATE_ACTION"
proof -
  obtain r where r: "r \<in> set (receipts db)" "re_operation_id r = i"
    "re_service_instance_id r = cv_service_instance_id v" "re_organization_id r = cv_organization_id v"
    "re_project_id r = cv_project_id v" "re_action r = CREDENTIAL_CREATE_ACTION"
    using assms(3-5) unfolding reservations_backed_def by blast
  from assms(1,2) obtain row where row: "row \<in> set (receipts db)" "receipt_matches row operation"
    "re_operation_id row = i" by (rule holder_row)
  have "r = row" by (rule same_operation_receipt [OF assms(2) r(1) row(1)]) (simp add: r(2) row(3))
  with r row(2) show ?thesis by (simp add: receipt_matches_def)
qed

lemma backed_on_service:
  assumes "holder db operation i" "schema_ok db" "exclusive db" "reservations_backed db"
    and "v \<in> set (credential_reservations db)" "cv_service_instance_id v = op_service_instance_id operation"
  shows "cv_operation_id v = i"
proof -
  obtain r where r: "r \<in> set (receipts db)" "in_progress r" "re_operation_id r = cv_operation_id v"
    "re_service_instance_id r = cv_service_instance_id v"
    using assms(4,5) unfolding reservations_backed_def by blast
  from assms(1,2) obtain row where row: "row \<in> set (receipts db)" "receipt_matches row operation"
    "re_operation_id row = i" "in_progress row" by (rule holder_row)
  have "re_service_instance_id r = re_service_instance_id row"
    using r(4) row(2) assms(6) by (simp add: receipt_matches_def)
  with assms(3) r(1,2) row(1,4) have "re_idempotency_key r = re_idempotency_key row"
    unfolding exclusive_def by blast
  then have "r = row" by (rule same_key_receipt [OF assms(2) r(1) row(1)])
  with r(3) row(3) show ?thesis by simp
qed

lemma closing_reservations:
  assumes c: "closing_effect st operation i response audit env db mid db'" and "schema_ok db"
    and "reservations_backed db"
    and "\<And>v. v \<in> set (credential_reservations mid) \<Longrightarrow>
       v \<in> set (credential_reservations db) \<and> cv_operation_id v \<noteq> i"
  shows "reservations_backed db'"
  unfolding reservations_backed_def
proof
  fix v assume "v \<in> set (credential_reservations db')"
  then have v: "v \<in> set (credential_reservations db)" "cv_operation_id v \<noteq> i"
    using closing_effectD(7) [OF c] assms(4) by auto
  then obtain r where r: "r \<in> set (receipts db)" "in_progress r" "re_operation_id r = cv_operation_id v"
    "re_service_instance_id r = cv_service_instance_id v" "re_organization_id r = cv_organization_id v"
    "re_project_id r = cv_project_id v" "re_action r = CREDENTIAL_CREATE_ACTION"
    using assms(3) unfolding reservations_backed_def by blast
  have "\<not> holds_receipt (op_idempotency_key operation) i r" using r(3) v(2) by (simp add: holds_receipt_def)
  with r show "\<exists>r \<in> set (receipts db'). in_progress r \<and> re_operation_id r = cv_operation_id v
     \<and> re_service_instance_id r = cv_service_instance_id v
     \<and> re_organization_id r = cv_organization_id v \<and> re_project_id r = cv_project_id v
     \<and> re_action r = CREDENTIAL_CREATE_ACTION"
    using closing_receipts(2) [OF c] by blast
qed

text \<open>The invariants that do not mention receipts depend on the other tables only.\<close>

lemma tables_cong:
  assumes "services db' = services db" "buckets db' = buckets db" "name_reservations db' = name_reservations db"
    "credentials db' = credentials db" "credential_reservations db' = credential_reservations db"
  shows "services_backed db' = services_backed db" "deleted_inert db' = deleted_inert db"
    "within_limits st db' = within_limits st db"
  using assms by (simp_all add: services_backed_def has_bucket_def deleted_inert_def within_limits_def
      bucket_credentials_def organization_credentials_def)

lemma closing_invariant:
  assumes inv: "invariant st w"
    and c: "closing_effect st operation i response audit env (w_db w) mid db'"
    and a: "agree_elsewhere (op_service_instance_id operation) (w_db w) mid"
    and v: "\<And>v. v \<in> set (credential_reservations mid) \<Longrightarrow>
       v \<in> set (credential_reservations (w_db w)) \<and> cv_operation_id v \<noteq> i"
    and m: "services_backed mid" "deleted_inert mid" "within_limits st mid"
  shows "invariant st (w\<lparr>w_db := db'\<rparr>)"
proof -
  have i: "schema_ok (w_db w)" "exclusive (w_db w)" "ids_known w" "tasks_distinct w"
    "reservations_backed (w_db w)" "live_ready st w" using inv by (simp_all add: invariant_def)
  have "tasks_distinct (w\<lparr>w_db := db'\<rparr>)" using i(4) by (simp add: tasks_distinct_def)
  moreover have "services_backed db'" "deleted_inert db'" "within_limits st db'"
    using m tables_cong [of db' mid] closing_effectD(3-7) [OF c] by simp_all
  ultimately show ?thesis
    using closing_effectD(2) [OF c i(1)] closing_exclusive [OF c i(2)] closing_ids [OF c i(3)]
      closing_reservations [OF c i(1,5) v] closing_live [OF c a i(1,2,6)]
    by (simp add: invariant_def)
qed

section \<open>Closing a deletion, a creation, a revocation, a failure\<close>

lemma revoke_row_simps [simp]:
  "cr_id (revoke_row now p c) = cr_id c" "cr_service_instance_id (revoke_row now p c) = cr_service_instance_id c"
  "cr_organization_id (revoke_row now p c) = cr_organization_id c"
  "cr_status (revoke_row now p c) = ''revoked''" "cr_name (revoke_row now p c) = cr_name c"
  by (simp_all add: revoke_row_def)

lemma count_update_revoked:
  "count_rows (\<lambda>c. K c \<and> cr_status c = ''active'') (update_rows P (revoke_row now p) rows)
     \<le> count_rows (\<lambda>c. K c \<and> cr_status c = ''active'') rows"
  by (rule count_rows_update_le) (auto split: if_splits)

lemma limits_mono:
  assumes "within_limits st db"
    and "\<And>sid. bucket_credentials db' sid \<le> bucket_credentials db sid"
    and "\<And>org. organization_credentials db' org \<le> organization_credentials db org"
  shows "within_limits st db'"
  using assms unfolding within_limits_def by (meson order_trans)

lemma live_task:
  assumes "invariant st w" "t \<in> w_tasks w"
    and "closing_effect st (task_operation t) (task_id t) response audit env (w_db w) mid db'"
  shows "task_ready st (w_db w) t" and "op_action (task_operation t) = task_action t"
  using assms closing_effectD(1) [OF assms(3)]
  by (simp_all add: invariant_def live_ready_def tasks_distinct_def)

lemma no_reservation_of:
  assumes "invariant st w" "t \<in> w_tasks w" "task_action t \<noteq> CREDENTIAL_CREATE_ACTION"
    and "closing_effect st (task_operation t) (task_id t) response audit env (w_db w) mid db'"
    and "v \<in> set (credential_reservations (w_db w))"
  shows "cv_operation_id v \<noteq> task_id t"
    and "cv_service_instance_id v \<noteq> op_service_instance_id (task_operation t)"
proof -
  have h: "holder (w_db w) (task_operation t) (task_id t)" using closing_effectD(1) [OF assms(4)] .
  have i: "schema_ok (w_db w)" "exclusive (w_db w)" "reservations_backed (w_db w)"
    using assms(1) by (simp_all add: invariant_def)
  have "op_action (task_operation t) \<noteq> CREDENTIAL_CREATE_ACTION"
    using live_task(2) [OF assms(1,2,4)] assms(3) by simp
  then show op: "cv_operation_id v \<noteq> task_id t"
    using backed_reservation [OF h i(1,3) assms(5)] by blast
  then show "cv_service_instance_id v \<noteq> op_service_instance_id (task_operation t)"
    using backed_on_service [OF h i assms(5)] by blast
qed

lemma close_delete_invariant:
  assumes inv: "invariant st w" and t: "DeleteTask d i \<in> w_tasks w"
    and c: "closing_effect st (dc_operation d) i response audit env (w_db w) (service_deleted d i env (w_db w)) db'"
  shows "invariant st (w\<lparr>w_db := db'\<rparr>)"
proof (rule closing_invariant [OF inv c])
  let ?db = "w_db w" and ?mid = "service_deleted d i env (w_db w)"
    and ?sid = "op_service_instance_id (dc_operation d)"
  have c': "closing_effect st (task_operation (DeleteTask d i)) (task_id (DeleteTask d i)) response audit
     env ?db ?mid db'" using c by simp
  have i: "services_backed ?db" "deleted_inert ?db" "within_limits st ?db"
    using inv by (simp_all add: invariant_def)
  have nores: "cv_operation_id v \<noteq> i" "cv_service_instance_id v \<noteq> ?sid"
    if "v \<in> set (credential_reservations ?db)" for v
    using no_reservation_of [OF inv t _ c' that] by (simp_all add: action_defs)
  show "agree_elsewhere ?sid ?db ?mid"
    unfolding agree_elsewhere_def service_deleted_def Let_def
    by (auto intro!: same_but_update same_but_delete)
  show "v \<in> set (credential_reservations ?db) \<and> cv_operation_id v \<noteq> i"
    if "v \<in> set (credential_reservations ?mid)" for v
    using that nores by (simp add: service_deleted_def Let_def)
  have only: "in_scope (dc_operation d) r \<and> sv_phase r \<noteq> ''deleted''"
    if "r \<in> set (services ?db)" "sv_id r = ?sid" for r
  proof -
    obtain s where "s \<in> set (services ?db)" "sv_id s = ?sid" "in_scope (dc_operation d) s" "sv_phase s \<noteq> ''deleted''"
      using live_task(1) [OF inv t c'] by (auto simp: service_is_def)
    with that unique_on_same [OF schema_okD(1) [of ?db], of r s] inv show ?thesis
      by (simp add: invariant_def)
  qed
  show "services_backed ?mid"
    unfolding services_backed_def
  proof (intro conjI ballI)
    fix b assume "b \<in> set (buckets ?mid)"
    then obtain s where s: "s \<in> set (services ?db)" "sv_id s = bk_service_instance_id b"
      using i(1) by (auto simp: services_backed_def service_deleted_def Let_def)
    have "sv_id ` set (services ?mid) = sv_id ` set (services ?db)"
      unfolding service_deleted_def Let_def by (simp add: update_rows_keys)
    with s show "\<exists>s \<in> set (services ?mid). sv_id s = bk_service_instance_id b" by (metis imageE imageI)
  next
    fix s assume "s \<in> set (services ?mid)"
    note s' = this [unfolded service_deleted_def Let_def, simplified]
    obtain r where r: "r \<in> set (services ?db)"
      and s: "sv_id r = ?sid \<and> sv_phase s = ''deleted'' \<and> sv_id s = sv_id r
          \<and> sv_organization_id s = sv_organization_id r \<and> sv_project_id s = sv_project_id r
        \<or> s = r \<and> sv_id r \<noteq> ?sid"
      using s' by (rule in_update_rowsE) (use only in \<open>auto simp: in_scope_def\<close>)
    have "has_bucket ?db r" using i(1) r by (simp add: services_backed_def)
    then show "has_bucket ?mid s"
      by (rule has_bucket_mono) (use s in \<open>auto simp: service_deleted_def Let_def\<close>)
  qed
  show "deleted_inert ?mid"
    unfolding deleted_inert_def
  proof (intro ballI impI conjI)
    fix s assume s: "s \<in> set (services ?mid)" "sv_phase s = ''deleted''"
    have old: "sv_id s = ?sid \<or> s \<in> set (services ?db) \<and> sv_phase s = ''deleted''"
      using s by (auto simp: service_deleted_def Let_def in_update_rows split: if_splits)
    show "cr_status x \<noteq> ''active''" if x: "x \<in> set (credentials ?mid)" "cr_service_instance_id x = sv_id s" for x
      using x(1) [unfolded service_deleted_def Let_def, simplified]
      by (rule in_update_rowsE) (use x(2) old i(2) in \<open>auto simp: deleted_inert_def\<close>)
    show "cv_service_instance_id v \<noteq> sv_id s" if "v \<in> set (credential_reservations ?mid)" for v
      using that old i(2) nores(2) unfolding deleted_inert_def by (auto simp: service_deleted_def Let_def)
    show "nr_service_instance_id n \<noteq> sv_id s" if "n \<in> set (name_reservations ?mid)" for n
      using that old i(2) unfolding deleted_inert_def by (auto simp: service_deleted_def Let_def)
  qed
  show "within_limits st ?mid"
    by (rule limits_mono [OF i(3)])
       (simp_all add: bucket_credentials_def organization_credentials_def service_deleted_def Let_def
         count_update_revoked)
qed

lemma close_revoke_invariant:
  assumes inv: "invariant st w" and t: "RevokeTask v i \<in> w_tasks w"
    and c: "closing_effect st (vc_operation v) i response audit env (w_db w) (credential_revoked v env (w_db w)) db'"
  shows "invariant st (w\<lparr>w_db := db'\<rparr>)"
proof (rule closing_invariant [OF inv c])
  let ?db = "w_db w" and ?mid = "credential_revoked v env (w_db w)"
  have c': "closing_effect st (task_operation (RevokeTask v i)) (task_id (RevokeTask v i)) response audit
     env ?db ?mid db'" using c by simp
  have i: "services_backed ?db" "deleted_inert ?db" "within_limits st ?db"
    using inv by (simp_all add: invariant_def)
  show "agree_elsewhere (op_service_instance_id (vc_operation v)) ?db ?mid"
    unfolding agree_elsewhere_def credential_revoked_def by (auto intro!: same_but_update)
  show "x \<in> set (credential_reservations ?db) \<and> cv_operation_id x \<noteq> i"
    if "x \<in> set (credential_reservations ?mid)" for x
    using that no_reservation_of(1) [OF inv t _ c'] by (simp add: credential_revoked_def action_defs)
  show "services_backed ?mid"
    using i(1) by (simp add: services_backed_def has_bucket_def credential_revoked_def)
  show "deleted_inert ?mid"
    using i(2) unfolding deleted_inert_def
    by (auto simp: credential_revoked_def in_update_rows split: if_splits)
  show "within_limits st ?mid"
    by (rule limits_mono [OF i(3)])
       (simp_all add: bucket_credentials_def organization_credentials_def credential_revoked_def count_update_revoked)
qed

lemma fail_invariant:
  assumes inv: "invariant st w" and t: "t \<in> w_tasks w"
    and c: "closing_effect st (task_operation t) (task_id t) response audit env (w_db w)
      (release_reservations (task_operation t) (task_id t) (w_db w)) db'"
  shows "invariant st (w\<lparr>w_db := db'\<rparr>)"
proof (rule closing_invariant [OF inv c])
  let ?db = "w_db w" and ?mid = "release_reservations (task_operation t) (task_id t) (w_db w)"
  have i: "schema_ok ?db" "reservations_backed ?db" "services_backed ?db" "deleted_inert ?db" "within_limits st ?db"
    using inv by (simp_all add: invariant_def)
  show "agree_elsewhere (op_service_instance_id (task_operation t)) ?db ?mid"
    unfolding agree_elsewhere_def release_reservations_def
    using backed_reservation [OF closing_effectD(1) [OF c] i(1,2)] by (auto intro!: same_but_delete)
  show "v \<in> set (credential_reservations ?db) \<and> cv_operation_id v \<noteq> task_id t"
    if "v \<in> set (credential_reservations ?mid)" for v
    using that by (simp add: release_reservations_def)
  have "has_bucket ?mid s" if "has_bucket ?db s" for s
    using that unfolding has_bucket_def release_reservations_def by (fastforce simp: list_ex_iff)
  then show "services_backed ?mid"
    using i(3) by (simp add: services_backed_def release_reservations_def)
  show "deleted_inert ?mid"
    using i(4) unfolding deleted_inert_def by (auto simp: release_reservations_def)
  show "within_limits st ?mid"
    by (rule limits_mono [OF i(5)])
       (simp_all add: bucket_credentials_def organization_credentials_def release_reservations_def count_rows_delete_le)
qed

lemma count_append_one: "count_rows P (xs @ [x]) = count_rows P xs + (if P x then 1 else 0)"
  by simp

lemma count_delete_one:
  assumes "v \<in> set rows" "P v" "Q v"
  shows "count_rows Q (delete_rows P rows) + 1 \<le> count_rows Q rows"
proof -
  have "count_rows Q rows = count_rows Q (delete_rows P rows) + count_rows (\<lambda>r. P r \<and> Q r) rows"
    unfolding count_rows_delete by (induction rows) (auto simp: count_rows_simps)
  moreover have "count_rows (\<lambda>r. P r \<and> Q r) rows \<noteq> 0" using assms by (auto simp: count_rows_0)
  ultimately show ?thesis by simp
qed

lemma close_create_invariant:
  assumes inv: "invariant st w" and t: "CreateTask k i (nc_id credential) \<in> w_tasks w"
    and v: "v \<in> set (credential_reservations (w_db w))" "cv_credential_id v = nc_id credential" "cv_operation_id v = i"
    and c: "closing_effect st (cc_operation k) i response audit env (w_db w)
      (credential_created k i credential permissions env (w_db w)) db'"
  shows "invariant st (w\<lparr>w_db := db'\<rparr>)"
proof (rule closing_invariant [OF inv c])
  let ?db = "w_db w" and ?mid = "credential_created k i credential permissions env (w_db w)"
    and ?op = "cc_operation k" and ?sid = "op_service_instance_id (cc_operation k)"
    and ?P = "\<lambda>v. cv_credential_id v = nc_id credential \<and> cv_operation_id v = i"
  have c': "closing_effect st (task_operation (CreateTask k i (nc_id credential)))
     (task_id (CreateTask k i (nc_id credential))) response audit env ?db ?mid db'" using c by simp
  have i: "schema_ok ?db" "reservations_backed ?db" "services_backed ?db" "deleted_inert ?db" "within_limits st ?db"
    using inv by (simp_all add: invariant_def)
  have backed: "cv_service_instance_id u = ?sid \<and> cv_organization_id u = op_organization_id ?op"
    if "u \<in> set (credential_reservations ?db)" "cv_operation_id u = i" for u
    using backed_reservation [OF closing_effectD(1) [OF c] i(1,2) that] by simp
  show "agree_elsewhere ?sid ?db ?mid"
    unfolding agree_elsewhere_def credential_created_def
    using backed by (auto intro!: same_but_delete same_but_append simp: credential_row_of_def)
  show "u \<in> set (credential_reservations ?db) \<and> cv_operation_id u \<noteq> i"
    if "u \<in> set (credential_reservations ?mid)" for u
    using that v unique_on_same [OF schema_okD(8) [OF i(1)], of u v] by (auto simp: credential_created_def)
  show "services_backed ?mid" using i(3) by (simp add: services_backed_def has_bucket_def credential_created_def)
  obtain s where s: "s \<in> set (services ?db)" "sv_id s = ?sid" "sv_phase s = ''ready''"
    using live_task(1) [OF inv t c'] by (auto simp: service_is_def)
  have alive: "sv_id r \<noteq> ?sid" if "r \<in> set (services ?db)" "sv_phase r = ''deleted''" for r
    using that s unique_on_same [OF schema_okD(1) [OF i(1)], of r s] by auto
  show "deleted_inert ?mid"
    using i(4) alive unfolding deleted_inert_def credential_created_def credential_row_of_def by fastforce
  have one: "count_rows Q (delete_rows ?P (credential_reservations ?db)) + 1
      \<le> count_rows Q (credential_reservations ?db)" if "Q v" for Q
    using v that by (intro count_delete_one) auto
  show "within_limits st ?mid"
  proof (rule limits_mono [OF i(5)])
    show "bucket_credentials ?mid x \<le> bucket_credentials ?db x" for x
      using one [of "\<lambda>v. cv_service_instance_id v = x"] backed [OF v(1,3)]
        count_rows_delete_le [of "\<lambda>v. cv_service_instance_id v = x" ?P "credential_reservations ?db"]
      by (simp add: bucket_credentials_def credential_created_def credential_row_of_def)
    show "organization_credentials ?mid x \<le> organization_credentials ?db x" for x
      using one [of "\<lambda>v. cv_organization_id v = x"] backed [OF v(1,3)]
        count_rows_delete_le [of "\<lambda>v. cv_organization_id v = x" ?P "credential_reservations ?db"]
      by (simp add: organization_credentials_def credential_created_def credential_row_of_def)
  qed
qed

section \<open>Closing a reconciliation\<close>

text \<open>What the two upserts of a reconciliation leave in the tables of services and buckets.\<close>

lemma upsert_service_rows:
  assumes "upsert_service command spec i env n db = Ok (1, db1)" and "schema_ok db"
  obtains s where "s \<in> set (services db1)" "sv_id s = op_service_instance_id (rc_operation command)"
    "in_scope (rc_operation command) s" "sv_phase s = ''ready''" "sv_desired_generation s = rc_generation command"
    "same_but sv_id (op_service_instance_id (rc_operation command)) (services db) (services db1)"
    "sv_id ` set (services db) \<subseteq> sv_id ` set (services db1)"
proof -
  let ?op = "rc_operation command" and ?sid = "op_service_instance_id (rc_operation command)"
  let ?target = "\<lambda>r. sv_id r = ?sid \<and> sv_organization_id r = op_organization_id ?op
     \<and> sv_project_id r = op_project_id ?op
     \<and> sv_desired_generation r \<le> rc_generation command \<and> sv_phase r \<noteq> ''deleted''"
  show ?thesis
  proof (cases "list_ex (\<lambda>r. sv_id r = ?sid) (services db)")
    case True
    let ?f = "\<lambda>r. r\<lparr>sv_name := rc_name command,
                sv_desired_generation := rc_generation command, sv_desired_spec := spec,
                sv_observed_generation := rc_generation command, sv_phase := ''ready'',
                sv_current_operation_id := i, sv_last_error := None,
                sv_updated_at := pg_now env, sv_deleted_at := None\<rparr>"
    from assms(1) True have rows: "services db1 = update_rows ?target ?f (services db)"
      and "count_rows ?target (services db) = 1"
      by (simp_all add: upsert_service_def put_services_def Let_def)
    then have "\<not> (\<forall>r \<in> set (services db). \<not> ?target r)" unfolding count_rows_0 [symmetric] by simp
    then obtain r where r: "r \<in> set (services db)" "?target r" by blast
    have "?f r \<in> set (services db1)" unfolding rows in_update_rows using r by force
    with r show ?thesis
      by (rule_tac that [of "?f r"])
         (auto simp: rows in_scope_def intro!: same_but_update simp: update_rows_keys)
  next
    case False
    then obtain s where rows: "services db1 = services db @ [s]" "sv_id s = ?sid" "in_scope ?op s"
      "sv_phase s = ''ready''" "sv_desired_generation s = rc_generation command"
      using assms(1) by (auto simp: upsert_service_def put_services_def Let_def in_scope_def)
    then show ?thesis by (intro that [of s]) (auto simp: same_but_append)
  qed
qed

lemma upsert_bucket_rows:
  assumes "upsert_bucket command physical qb qo env n db = Ok (c, db1)"
  obtains "same_but bk_service_instance_id (op_service_instance_id (rc_operation command)) (buckets db) (buckets db1)"
    "\<And>b. b \<in> set (buckets db1) \<Longrightarrow> bk_service_instance_id b = op_service_instance_id (rc_operation command) \<Longrightarrow>
       bk_physical_bucket_id b = Some physical \<and> bk_bucket_name b = sp_bucket_name (rc_spec command)"
    "\<exists>b \<in> set (buckets db1). bk_service_instance_id b = op_service_instance_id (rc_operation command)"
    "\<And>b. b \<in> set (buckets db1) \<Longrightarrow> service_exists db (bk_service_instance_id b) (bk_organization_id b) (bk_project_id b)"
proof -
  let ?sid = "op_service_instance_id (rc_operation command)"
  let ?target = "\<lambda>b. bk_service_instance_id b = ?sid"
  have fk: "service_exists db (bk_service_instance_id b) (bk_organization_id b) (bk_project_id b)"
    if "b \<in> set (buckets db1)" for b
    using assms that by (auto simp: upsert_bucket_def put_buckets_def Let_def list_all_iff split: if_splits)
  show ?thesis
  proof (cases "list_ex ?target (buckets db)")
    case True
    let ?f = "\<lambda>b. b\<lparr>bk_physical_bucket_id := Some physical,
                bk_bucket_name := sp_bucket_name (rc_spec command), bk_region := sp_region (rc_spec command),
                bk_quota_bytes := qb, bk_quota_objects := qo, bk_updated_at := pg_now env\<rparr>"
    from assms True have rows: "buckets db1 = update_rows ?target ?f (buckets db)"
      by (simp add: upsert_bucket_def put_buckets_def Let_def)
    obtain b where b: "b \<in> set (buckets db)" "?target b" using True by (auto simp: list_ex_iff)
    then have "?f b \<in> set (buckets db1)" unfolding rows in_update_rows by force
    then have "\<exists>b \<in> set (buckets db1). ?target b" by (rule bexI [rotated]) (use b in simp)
    moreover have "same_but bk_service_instance_id ?sid (buckets db) (buckets db1)"
      unfolding rows by (rule same_but_update) simp
    moreover have "bk_physical_bucket_id b = Some physical \<and> bk_bucket_name b = sp_bucket_name (rc_spec command)"
      if "b \<in> set (buckets db1)" "?target b" for b
      using that(1) unfolding rows by (rule in_update_rowsE) (use that(2) in auto)
    ultimately show ?thesis using that fk by blast
  next
    case False
    then obtain b where rows: "buckets db1 = buckets db @ [b]" "bk_service_instance_id b = ?sid"
      "bk_physical_bucket_id b = Some physical" "bk_bucket_name b = sp_bucket_name (rc_spec command)"
      using assms by (auto simp: upsert_bucket_def put_buckets_def Let_def)
    have "\<And>x. x \<in> set (buckets db) \<Longrightarrow> bk_service_instance_id x \<noteq> ?sid" using False by (auto simp: list_ex_iff)
    with rows fk show ?thesis by (intro that) (auto simp: same_but_append)
  qed
qed

lemma close_reconcile_invariant:
  assumes inv: "invariant st w" and t: "ReconcileTask k i \<in> w_tasks w"
    and m: "reconciled st k i physical env (w_db w) mid"
    and c: "closing_effect st (rc_operation k) i response audit env (w_db w) mid db'"
  shows "invariant st (w\<lparr>w_db := db'\<rparr>)"
proof (rule closing_invariant [OF inv c])
  let ?db = "w_db w" and ?op = "rc_operation k" and ?sid = "op_service_instance_id (rc_operation k)"
    and ?name = "sp_bucket_name (rc_spec k)"
  have c': "closing_effect st (task_operation (ReconcileTask k i)) (task_id (ReconcileTask k i)) response audit
     env ?db mid db'" using c by simp
  note ready = live_task(1) [OF inv t c', unfolded task_ready.simps]
  have i: "schema_ok ?db" "services_backed ?db" "deleted_inert ?db" "within_limits st ?db"
    using inv by (simp_all add: invariant_def)
  from m obtain spec qb qo n1 n2 db1 db2 where u1: "upsert_service k spec i env n1 ?db = Ok (1, db1)"
    and u2: "upsert_bucket k physical qb qo env n2 db1 = Ok ((), db2)"
    and mid: "mid = db2\<lparr>name_reservations := delete_rows (\<lambda>r. nr_service_instance_id r = ?sid
        \<and> nr_bucket_name r \<noteq> ?name) (name_reservations db2)\<rparr>"
    unfolding reconciled_def by blast
  have s1: "schema_ok db1" using upsert_service_Ok(2) [OF u1 i(1)] .
  have tables: "services mid = services db1" "buckets mid = buckets db2" "credentials mid = credentials ?db"
    "credential_reservations mid = credential_reservations ?db"
    "name_reservations mid = delete_rows (\<lambda>r. nr_service_instance_id r = ?sid \<and> nr_bucket_name r \<noteq> ?name)
       (name_reservations ?db)" "buckets db1 = buckets ?db"
    using upsert_service_Ok(1) [OF u1] upsert_bucket_Ok(1) [OF u2] by (simp_all add: mid)
  from u1 i(1) obtain s where s: "s \<in> set (services db1)" "sv_id s = ?sid" "in_scope ?op s"
    "sv_phase s = ''ready''" and ss: "same_but sv_id ?sid (services ?db) (services db1)"
    by (rule upsert_service_rows)
  from u2 have sb: "same_but bk_service_instance_id ?sid (buckets ?db) (buckets db2)"
    and name: "\<And>b. b \<in> set (buckets db2) \<Longrightarrow> bk_service_instance_id b = ?sid \<Longrightarrow>
       bk_physical_bucket_id b = Some physical \<and> bk_bucket_name b = ?name"
    and ex: "\<exists>b \<in> set (buckets db2). bk_service_instance_id b = ?sid"
    and fk: "\<And>b. b \<in> set (buckets db2) \<Longrightarrow>
       service_exists db1 (bk_service_instance_id b) (bk_organization_id b) (bk_project_id b)"
    unfolding tables(6) [symmetric] by (blast elim: upsert_bucket_rows)+
  have only: "r = s" if "r \<in> set (services db1)" "sv_id r = ?sid" for r
    using unique_on_same [OF schema_okD(1) [OF s1] that(1) s(1)] that(2) s(2) by simp
  have notdel: "sv_phase r \<noteq> ''deleted''" if "r \<in> set (services ?db)" "sv_id r = ?sid" for r
    using ready that by blast
  show "agree_elsewhere ?sid ?db mid"
    unfolding agree_elsewhere_def tables using ss sb by (auto intro: same_but_delete)
  show "v \<in> set (credential_reservations ?db) \<and> cv_operation_id v \<noteq> i"
    if "v \<in> set (credential_reservations mid)" for v
    using that no_reservation_of(1) [OF inv t _ c'] by (simp add: tables action_defs)
  have elsewhere: "r \<in> set (services ?db) \<and> sv_id r \<noteq> ?sid"
    if "r \<in> set (services db1)" "r \<noteq> s" for r
    using only [OF that(1)] that ss unfolding same_but_def by blast
  show "deleted_inert mid"
    unfolding deleted_inert_def
  proof (intro ballI impI)
    fix r assume "r \<in> set (services mid)" and d: "sv_phase r = ''deleted''"
    then have "r \<in> set (services db1)" "r \<noteq> s" using s(4) by (auto simp: tables)
    then have "r \<in> set (services ?db)" using elsewhere by blast
    with d i(3) show "(\<forall>c \<in> set (credentials mid). cr_service_instance_id c = sv_id r \<longrightarrow> cr_status c \<noteq> ''active'')
       \<and> (\<forall>v \<in> set (credential_reservations mid). cv_service_instance_id v \<noteq> sv_id r)
       \<and> (\<forall>n \<in> set (name_reservations mid). nr_service_instance_id n \<noteq> sv_id r)"
      by (simp add: deleted_inert_def tables)
  qed
  have reserved: "\<exists>n \<in> set (name_reservations mid). nr_service_instance_id n = ?sid \<and> nr_bucket_name n = ?name"
    using ready by (auto simp: tables)
  show "services_backed mid"
    unfolding services_backed_def
  proof (intro conjI ballI)
    fix b assume "b \<in> set (buckets mid)"
    then show "\<exists>s \<in> set (services mid). sv_id s = bk_service_instance_id b"
      using fk by (auto simp: service_exists_def list_ex_iff tables)
  next
    fix r assume r: "r \<in> set (services mid)"
    show "has_bucket mid r"
    proof (cases "r = s")
      case True
      obtain b where b: "b \<in> set (buckets db2)" "bk_service_instance_id b = ?sid" using ex by blast
      obtain x where x: "x \<in> set (services db1)" "sv_id x = ?sid" "sv_organization_id x = bk_organization_id b"
        "sv_project_id x = bk_project_id b"
        using fk [OF b(1)] b(2) by (auto simp: service_exists_def list_ex_iff)
      with only have "x = s" by blast
      with True b x name [OF b] reserved s(2) show ?thesis
        unfolding has_bucket_def tables(2) by (intro bexI [of _ b]) auto
    next
      case False
      then have old: "r \<in> set (services ?db)" "sv_id r \<noteq> ?sid" using r elsewhere by (auto simp: tables)
      then have "has_bucket ?db r" using i(2) by (simp add: services_backed_def)
      then show ?thesis
        by (rule has_bucket_mono) (use old(2) sb in \<open>auto simp: tables same_but_def\<close>)
    qed
  qed
  show "within_limits st mid"
    using i(4) by (simp add: within_limits_def bucket_credentials_def organization_credentials_def tables)
qed

section \<open>Starting\<close>

text \<open>The receipts after a start: the one granted, and otherwise those of before.\<close>

lemma started_receipts:
  assumes e: "receipt_started operation env db db'" and s: "schema_ok db"
    and r: "r \<in> set (receipts db')"
  shows "r \<in> set (receipts db) \<and> re_idempotency_key r \<noteq> op_idempotency_key operation
    \<or> re_idempotency_key r = op_idempotency_key operation \<and> re_operation_id r = pg_new_operation_id env
      \<and> receipt_matches r operation \<and> in_progress r"
proof -
  from e obtain claimed db1 db2 db3 where c: "claim_effect operation env db claimed db1"
    and q: "receipts db2 = receipts db1" "reserved claimed operation env db2 db3" "receipts db' = receipts db3"
    unfolding receipt_started_def by blast
  show ?thesis
  proof (cases claimed)
    case None
    with c q obtain n where "receipt_of db (op_idempotency_key operation) = None"
      and db': "receipts db' = receipts db @ [new_receipt operation (pg_new_operation_id env)
         (pg_now env) (pg_clock env n)]"
      by (auto simp: claim_effect_def reserved_def)
    with r show ?thesis by (auto simp: receipt_of_None new_receipt_holder)
  next
    case (Some i)
    with c obtain row n where row: "receipt_of db (op_idempotency_key operation) = Some row"
      "receipt_matches row operation" "in_progress row" "db1 = taken_over env n row db"
      by (auto simp: claim_effect_def)
    have k: "row \<in> set (receipts db)" "re_idempotency_key row = op_idempotency_key operation"
      using receipt_of_Some [OF row(1)] by auto
    have "r \<in> set (update_rows (\<lambda>r. re_idempotency_key r = re_idempotency_key row)
       (renewed_lease env n) (receipts db))"
      using r Some q row(4) by (simp add: reserved_def taken_over_def)
    then show ?thesis
    proof (rule in_update_rowsE)
      fix x assume x: "x \<in> set (receipts db)" "re_idempotency_key x = re_idempotency_key row" "r = renewed_lease env n x"
      then have "x = row" using same_key_receipt [OF s _ k(1)] by blast
      with x row k show ?thesis by simp
    qed (use k in auto)
  qed
qed

lemma started_keeps:
  assumes e: "receipt_started operation env db db'" and r: "r \<in> set (receipts db)"
    and k: "re_idempotency_key r \<noteq> op_idempotency_key operation"
  shows "r \<in> set (receipts db')"
proof -
  from e obtain claimed db1 db2 db3 where c: "claim_effect operation env db claimed db1"
    and q: "receipts db2 = receipts db1" "reserved claimed operation env db2 db3" "receipts db' = receipts db3"
    unfolding receipt_started_def by blast
  have "r \<in> set (receipts db1)"
    using c
  proof (unfold claim_effect_def, elim disjE exE conjE)
    fix row n assume row: "receipt_of db (op_idempotency_key operation) = Some row" "db1 = taken_over env n row db"
    then have "re_idempotency_key row = op_idempotency_key operation" using receipt_of_Some by blast
    with row(2) r k show ?thesis by (auto simp: taken_over_def in_update_rows intro!: bexI [of _ r])
  qed (use r in simp)
  with q show ?thesis by (auto simp: reserved_def split: option.splits)
qed

lemma started_exclusive:
  assumes "receipt_started operation env db db'" and "schema_ok db" and "exclusive db"
  shows "exclusive db'"
proof -
  have a: "alone db' (op_service_instance_id operation) (op_idempotency_key operation)"
    using receipt_started_holder(2) [OF assms(1)] .
  show ?thesis
    unfolding exclusive_def
  proof (intro ballI impI, elim conjE)
    fix r1 r2 assume r: "r1 \<in> set (receipts db')" "r2 \<in> set (receipts db')" "in_progress r1" "in_progress r2"
      "re_service_instance_id r1 = re_service_instance_id r2"
    show "re_idempotency_key r1 = re_idempotency_key r2"
    proof (cases "re_service_instance_id r1 = op_service_instance_id operation")
      case True
      with a r show ?thesis by (simp add: alone_def)
    next
      case False
      then have "r1 \<in> set (receipts db)" "r2 \<in> set (receipts db)"
        using started_receipts [OF assms(1,2) r(1)] started_receipts [OF assms(1,2) r(2)] r(5)
        by (auto simp: receipt_matches_def)
      with assms(3) r show ?thesis unfolding exclusive_def by blast
    qed
  qed
qed

lemma started_ids:
  assumes "receipt_started operation env (w_db w) db'" "schema_ok (w_db w)" "ids_known w"
    and "\<And>t. t \<in> ts \<Longrightarrow> task_id t = pg_new_operation_id env"
  shows "ids_known (started_world w env db' ts)"
  using assms(3,4) started_receipts [OF assms(1,2)] by (auto simp: ids_known_def started_world_def)

lemma started_not_holder:
  assumes e: "receipt_started operation env db db'" and s: "schema_ok db" "schema_ok db'"
    and h: "holder db' operation' i'" and "i' \<noteq> pg_new_operation_id env"
  shows "holder db operation' i' \<and> op_service_instance_id operation' \<noteq> op_service_instance_id operation"
proof -
  from h s(2) obtain row where row: "row \<in> set (receipts db')" "re_idempotency_key row = op_idempotency_key operation'"
    "receipt_matches row operation'" "re_operation_id row = i'" "in_progress row" by (rule holder_row)
  with started_receipts [OF e s(1) row(1)] assms(5)
  have old: "row \<in> set (receipts db)" "re_idempotency_key row \<noteq> op_idempotency_key operation" by auto
  then have "holder db operation' i'" using holderI [OF s(1) old(1) row(2-5)] by simp
  moreover have "op_service_instance_id operation' \<noteq> op_service_instance_id operation"
    using receipt_started_holder(2) [OF e] row old(2) by (auto simp: alone_def receipt_matches_def)
  ultimately show ?thesis by simp
qed

lemma started_reservations:
  assumes e: "receipt_started operation env db db'" and s: "schema_ok db" and b: "reservations_backed db"
    and v: "\<And>v. v \<in> set (credential_reservations db') \<Longrightarrow>
      (v \<in> set (credential_reservations db)
        \<and> (\<forall>row. receipt_of db (op_idempotency_key operation) = Some row \<longrightarrow> cv_operation_id v \<noteq> re_operation_id row))
      \<or> (cv_operation_id v = pg_new_operation_id env
          \<and> cv_service_instance_id v = op_service_instance_id operation
          \<and> cv_organization_id v = op_organization_id operation \<and> cv_project_id v = op_project_id operation
          \<and> op_action operation = CREDENTIAL_CREATE_ACTION)"
    and s': "schema_ok db'"
  shows "reservations_backed db'"
  unfolding reservations_backed_def
proof
  fix v assume "v \<in> set (credential_reservations db')"
  from v [OF this] show "\<exists>r \<in> set (receipts db'). in_progress r \<and> re_operation_id r = cv_operation_id v
     \<and> re_service_instance_id r = cv_service_instance_id v
     \<and> re_organization_id r = cv_organization_id v \<and> re_project_id r = cv_project_id v
     \<and> re_action r = CREDENTIAL_CREATE_ACTION"
  proof (elim disjE conjE)
    assume "v \<in> set (credential_reservations db)"
      and n: "\<forall>row. receipt_of db (op_idempotency_key operation) = Some row \<longrightarrow> cv_operation_id v \<noteq> re_operation_id row"
    then obtain r where r: "r \<in> set (receipts db)" "in_progress r" "re_operation_id r = cv_operation_id v"
      "re_service_instance_id r = cv_service_instance_id v" "re_organization_id r = cv_organization_id v"
      "re_project_id r = cv_project_id v" "re_action r = CREDENTIAL_CREATE_ACTION"
      using b unfolding reservations_backed_def by blast
    have "re_idempotency_key r \<noteq> op_idempotency_key operation" using n r(3) receipt_of_in [OF s r(1)] by auto
    with r started_keeps [OF e r(1)] show ?thesis by blast
  next
    assume v': "cv_operation_id v = pg_new_operation_id env"
      "cv_service_instance_id v = op_service_instance_id operation"
      "cv_organization_id v = op_organization_id operation" "cv_project_id v = op_project_id operation"
      "op_action operation = CREDENTIAL_CREATE_ACTION"
    from receipt_started_holder(1) [OF e] s' obtain row where "row \<in> set (receipts db')"
      "receipt_matches row operation" "re_operation_id row = pg_new_operation_id env" "in_progress row"
      by (rule holder_row)
    with v' show ?thesis by (auto simp: receipt_matches_def intro!: bexI [of _ row])
  qed
qed

lemma started_invariant:
  assumes inv: "invariant st w" and e: "receipt_started (task_operation t) env (w_db w) db'"
    and s': "schema_ok db'" and t: "task_id t = pg_new_operation_id env" "task_id t \<notin> w_ids w"
      "op_action (task_operation t) = task_action t" "ts \<subseteq> {t}"
    and a: "agree_elsewhere (op_service_instance_id (task_operation t)) (w_db w) db'"
    and ready: "task_ready st db' t"
    and m: "reservations_backed db'" "services_backed db'" "deleted_inert db'" "within_limits st db'"
  shows "invariant st (started_world w env db' ts)"
proof -
  let ?w' = "started_world w env db' ts"
  have w': "w_db ?w' = db'" "w_tasks ?w' = w_tasks w \<union> ts" by (simp_all add: started_world_def)
  have i: "schema_ok (w_db w)" "exclusive (w_db w)" "ids_known w" "tasks_distinct w" "live_ready st w"
    using inv by (simp_all add: invariant_def)
  have old: "task_id u \<noteq> pg_new_operation_id env" if "u \<in> w_tasks w" for u
    using that i(3) t(1,2) by (auto simp: ids_known_def)
  have "task_id t \<notin> task_id ` (w_tasks w - {t})"
  proof
    assume "task_id t \<in> task_id ` (w_tasks w - {t})"
    then obtain u where "u \<in> w_tasks w - {t}" "task_id t = task_id u" by (rule imageE)
    with old [of u] t(1) show False by simp
  qed
  then have "inj_on task_id (insert t (w_tasks w))"
    using i(4) by (simp add: tasks_distinct_def)
  then have "inj_on task_id (w_tasks w \<union> ts)" by (rule inj_on_subset) (use t(4) in auto)
  then have "tasks_distinct ?w'" using i(4) t unfolding tasks_distinct_def w' by auto
  moreover have "ids_known ?w'" by (rule started_ids [OF e i(1,3)]) (use t in auto)
  moreover have "live_ready st ?w'"
    unfolding live_ready_def w'
  proof (intro ballI impI)
    fix u assume u: "u \<in> w_tasks w \<union> ts" "holder db' (task_operation u) (task_id u)"
    show "task_ready st db' u"
    proof (cases "u \<in> w_tasks w")
      case True
      have h: "holder (w_db w) (task_operation u) (task_id u)"
        "op_service_instance_id (task_operation u) \<noteq> op_service_instance_id (task_operation t)"
        using started_not_holder [OF e i(1) s' u(2) old [OF True]] by auto
      with i(5) True have "task_ready st (w_db w) u" by (simp add: live_ready_def)
      from this a h(2) show ?thesis by (rule task_ready_frame)
    qed (use u t(4) ready in auto)
  qed
  ultimately show ?thesis
    using s' started_exclusive [OF e i(1,2)] m by (simp add: invariant_def w')
qed

text \<open>A claim moves the reservation of the operation it takes over, if there is one.\<close>

lemma taken_over_backed:
  assumes "receipt_of db (op_idempotency_key operation) = Some row" "receipt_matches row operation"
    and "in_progress row" "schema_ok db" "reservations_backed db"
    and "v \<in> set (credential_reservations db)" "cv_operation_id v = re_operation_id row"
  shows "cv_service_instance_id v = op_service_instance_id operation
    \<and> cv_organization_id v = op_organization_id operation \<and> cv_project_id v = op_project_id operation
    \<and> op_action operation = CREDENTIAL_CREATE_ACTION"
  using assms(1-3) by (intro backed_reservation [OF _ assms(4-7)]) (simp add: holder_def)

lemma claim_reservations:
  assumes c: "claim_effect operation env db claimed db1" and s: "schema_ok db" and b: "reservations_backed db"
    and v: "v \<in> set (credential_reservations db1)"
  shows "(v \<in> set (credential_reservations db)
        \<and> (\<forall>row. receipt_of db (op_idempotency_key operation) = Some row \<longrightarrow> cv_operation_id v \<noteq> re_operation_id row))
      \<or> (cv_operation_id v = pg_new_operation_id env
          \<and> cv_service_instance_id v = op_service_instance_id operation
          \<and> cv_organization_id v = op_organization_id operation \<and> cv_project_id v = op_project_id operation
          \<and> op_action operation = CREDENTIAL_CREATE_ACTION)"
  using c
proof (unfold claim_effect_def, elim disjE exE conjE)
  fix row n assume row: "receipt_of db (op_idempotency_key operation) = Some row"
    "receipt_matches row operation" "in_progress row" and db1: "db1 = taken_over env n row db"
  have "v \<in> set (update_rows (\<lambda>v. cv_operation_id v = re_operation_id row)
       (\<lambda>v. v\<lparr>cv_operation_id := pg_new_operation_id env\<rparr>) (credential_reservations db))"
    using v db1 by (simp add: taken_over_def)
  then show ?thesis
    by (rule in_update_rowsE) (use row taken_over_backed [OF row s b] in auto)
qed (use v in simp)

lemma claim_agree:
  assumes "claim_effect operation env db claimed db1" "schema_ok db" "reservations_backed db"
  shows "agree_elsewhere (op_service_instance_id operation) db db1"
  using assms(1)
proof (unfold claim_effect_def, elim disjE exE conjE)
  fix row n assume row: "receipt_of db (op_idempotency_key operation) = Some row"
    "receipt_matches row operation" "in_progress row" "db1 = taken_over env n row db"
  then show ?thesis
    using taken_over_backed [OF row(1-3) assms(2,3)]
    by (auto simp: agree_elsewhere_def taken_over_def intro!: same_but_update)
qed simp

lemma claim_counts:
  assumes "claim_effect operation env db claimed db1"
  shows "bucket_credentials db1 sid = bucket_credentials db sid"
    and "organization_credentials db1 org = organization_credentials db org"
  using assms
  by (auto simp: claim_effect_def bucket_credentials_def organization_credentials_def taken_over_def
      intro!: count_rows_update_same)

lemma claim_inert:
  assumes "claim_effect operation env db claimed db1" "deleted_inert db"
  shows "deleted_inert db1"
proof -
  have keys: "cv_service_instance_id ` set (credential_reservations db1)
      = cv_service_instance_id ` set (credential_reservations db)"
    using assms(1) unfolding claim_effect_def taken_over_def
    by (elim disjE exE conjE) (simp_all add: update_rows_keys)
  have "cv_service_instance_id v \<noteq> sv_id s"
    if "s \<in> set (services db)" "sv_phase s = ''deleted''" "v \<in> set (credential_reservations db1)" for s v
  proof -
    have "cv_service_instance_id v \<in> cv_service_instance_id ` set (credential_reservations db)"
      using that(3) keys by blast
    then show ?thesis by (rule imageE) (use deleted_inertD(2) [OF assms(2) that(1,2)] in simp)
  qed
  with assms(2) claim_effect_tables [OF assms(1)] show ?thesis unfolding deleted_inert_def by auto
qed

lemma limits_cong:
  assumes "within_limits st db" "\<And>sid. bucket_credentials db' sid = bucket_credentials db sid"
    "\<And>org. organization_credentials db' org = organization_credentials db org"
  shows "within_limits st db'"
  using assms by (simp add: within_limits_def)

text \<open>A start that changes nothing but receipts and moved reservations.\<close>

lemma plain_start_invariant:
  assumes inv: "invariant st w" and c: "claim_effect (task_operation t) env (w_db w) claimed db1"
    and alone: "alone db1 (op_service_instance_id (task_operation t)) (op_idempotency_key (task_operation t))"
    and res: "reserved claimed (task_operation t) env db1 db'" and s': "schema_ok db'"
    and t: "task_id t = pg_new_operation_id env" "task_id t \<notin> w_ids w"
      "op_action (task_operation t) = task_action t" "ts \<subseteq> {t}"
    and ready: "task_ready st db' t"
  shows "invariant st (started_world w env db' ts)"
proof (rule started_invariant [OF inv _ s' t])
  have i: "schema_ok (w_db w)" "reservations_backed (w_db w)" "services_backed (w_db w)" "deleted_inert (w_db w)"
    "within_limits st (w_db w)" using inv by (simp_all add: invariant_def)
  note tables = reserved_tables [OF res]
  show e: "receipt_started (task_operation t) env (w_db w) db'"
    using receipt_startedI [OF c alone refl res refl] .
  show "agree_elsewhere (op_service_instance_id (task_operation t)) (w_db w) db'"
    using claim_agree [OF c i(1,2)] tables by (simp add: agree_elsewhere_def)
  show "reservations_backed db'"
    by (rule started_reservations [OF e i(1,2) _ s']) (use claim_reservations [OF c i(1,2)] tables in simp)
  show "services_backed db'"
    using i(3) claim_effect_tables [OF c] tables by (simp add: services_backed_def has_bucket_def)
  show "deleted_inert db'" using claim_inert [OF c i(4)] tables_cong(2) [of db' db1] tables by simp
  show "within_limits st db'"
    by (rule limits_cong [OF i(5)])
       (use claim_counts [OF c] tables in \<open>simp_all add: bucket_credentials_def organization_credentials_def\<close>)
qed (rule ready)

lemma service_of_in: "schema_ok db \<Longrightarrow> s \<in> set (services db) \<Longrightarrow> service_of db (sv_id s) = Some s"
  unfolding service_of_def by (rule unique_on_find) (simp_all add: schema_okD)

lemma bucket_of_in: "schema_ok db \<Longrightarrow> b \<in> set (buckets db) \<Longrightarrow> bucket_of db (bk_service_instance_id b) = Some b"
  unfolding bucket_of_def by (rule unique_on_find) (simp_all add: schema_okD)

lemma start_delete_invariant:
  assumes inv: "invariant st w" and e: "prepare_delete_effect d env (w_db w) i x db'"
    and t: "i \<notin> w_ids w" "op_action (dc_operation d) = PROVIDER_DELETE_ACTION" "ts \<subseteq> {DeleteTask d i}"
  shows "invariant st (started_world w env db' ts)"
proof -
  from e obtain claimed db1 where c: "claim_effect (dc_operation d) env (w_db w) claimed db1"
    "alone db1 (op_service_instance_id (dc_operation d)) (op_idempotency_key (dc_operation d))"
    "delete_ready d db1" "reserved claimed (dc_operation d) env db1 db'" "schema_ok db'"
    "i = pg_new_operation_id env"
    unfolding prepare_delete_effect_def by blast
  have "task_ready st db' (DeleteTask d i)"
    using c(3) reserved_tables [OF c(4)] service_of_Some
    by (auto simp: service_is_def delete_ready_def)
  with plain_start_invariant [of st w "DeleteTask d i" env claimed db1 db' ts] inv c t
  show ?thesis by simp
qed

lemma service_ready_is:
  assumes "service_ready operation db" "services db' = services db"
  shows "service_is db' operation (\<lambda>s. sv_phase s = ''ready'')"
  using assms service_of_Some by (auto simp: service_ready_def service_is_def)

lemma start_revoke_invariant:
  assumes inv: "invariant st w" and e: "prepare_revoke_credential_effect v env (w_db w) i x db'"
    and t: "i \<notin> w_ids w" "op_action (vc_operation v) = CREDENTIAL_REVOKE_ACTION" "ts \<subseteq> {RevokeTask v i}"
  shows "invariant st (started_world w env db' ts)"
proof -
  from e obtain claimed db1 c where c: "claim_effect (vc_operation v) env (w_db w) claimed db1"
    "alone db1 (op_service_instance_id (vc_operation v)) (op_idempotency_key (vc_operation v))"
    "service_ready (vc_operation v) db1" "reserved claimed (vc_operation v) env db1 db'" "schema_ok db'"
    "i = pg_new_operation_id env"
    "credential_of db1 (vc_credential_id v) (op_service_instance_id (vc_operation v)) = Some c"
    unfolding prepare_revoke_credential_effect_def Let_def by blast
  have "task_ready st db' (RevokeTask v i)"
    using service_ready_is [OF c(3) reserved_tables(1) [OF c(4)]] reserved_tables(4) [OF c(4)]
      find_Some_in [OF c(7) [unfolded credential_of_def]] by auto
  with plain_start_invariant [of st w "RevokeTask v i" env claimed db1 db' ts] inv c t
  show ?thesis by simp
qed

lemma start_reconcile_invariant:
  assumes inv: "invariant st w" and e: "prepare_reconcile_effect k env (w_db w) i x db'"
    and t: "i \<notin> w_ids w" "op_action (rc_operation k) = PROVIDER_RECONCILE_ACTION" "ts \<subseteq> {ReconcileTask k i}"
  shows "invariant st (started_world w env db' ts)"
proof -
  let ?db = "w_db w" and ?op = "rc_operation k" and ?sid = "op_service_instance_id (rc_operation k)"
    and ?name = "sp_bucket_name (rc_spec k)"
  from e obtain claimed db1 db2 n physical where c: "claim_effect ?op env ?db claimed db1"
    "alone db1 ?sid (op_idempotency_key ?op)" "existing_ok k db1 physical"
    "insert_name_reservation ?name ?sid env n db1 = Ok (1, db2)" "reserved claimed ?op env db2 db'"
    "schema_ok db'" "i = pg_new_operation_id env"
    unfolding prepare_reconcile_effect_def by blast
  have i: "schema_ok ?db" "reservations_backed ?db" "services_backed ?db" "deleted_inert ?db" "within_limits st ?db"
    using inv by (simp_all add: invariant_def)
  have s1: "schema_ok db1" using claim_effect_schema [OF c(1) i(1)] .
  note names = insert_name_reservation_Ok [OF c(4)]
  note old = claim_effect_tables [OF c(1)]
  have tables: "services db' = services ?db" "buckets db' = buckets ?db" "credentials db' = credentials ?db"
    "credential_reservations db' = credential_reservations db1" "name_reservations db' = name_reservations db2"
    using reserved_tables [OF c(5)] names(1) old by simp_all
  have started: "receipt_started ?op env ?db db'"
    using receipt_startedI [OF c(1,2) _ c(5) refl] names(1) by simp
  have exist: "in_scope ?op s \<and> sv_phase s \<noteq> ''deleted'' \<and> sv_desired_generation s \<le> rc_generation k
      \<and> (\<exists>b. bucket_of db1 ?sid = Some b \<and> bk_bucket_name b = ?name)"
    if "s \<in> set (services ?db)" "sv_id s = ?sid" for s
    using c(3) service_of_in [OF s1, of s] that old(1) unfolding existing_ok_def by auto
  have named: "bk_bucket_name b = ?name" if b: "b \<in> set (buckets ?db)" "bk_service_instance_id b = ?sid" for b
  proof -
    obtain s where "s \<in> set (services ?db)" "sv_id s = ?sid"
      using i(3) b unfolding services_backed_def by auto
    with exist [of s] bucket_of_in [OF s1, of b] b old(2) show ?thesis by auto
  qed
  obtain m where m: "m \<in> set (name_reservations db2)" "nr_service_instance_id m = ?sid" "nr_bucket_name m = ?name"
    using names(3,4) find_Some_in by fastforce
  have ready: "task_ready st db' (ReconcileTask k i)" using exist named m by (auto simp: tables)
  show ?thesis
  proof (rule started_invariant [where t = "ReconcileTask k i", OF inv])
    show "receipt_started (task_operation (ReconcileTask k i)) env ?db db'" using started by simp
    have "same_but nr_service_instance_id ?sid (name_reservations ?db) (name_reservations db2)"
      using names(5,6) old(3) unfolding same_but_def by auto
    then show "agree_elsewhere (op_service_instance_id (task_operation (ReconcileTask k i))) ?db db'"
      using claim_agree [OF c(1) i(1,2)] by (simp add: agree_elsewhere_def tables)
    show "reservations_backed db'"
      by (rule started_reservations [OF started i(1,2) _ c(6)]) (use claim_reservations [OF c(1) i(1,2)] tables in simp)
    have "has_bucket db' s" if "has_bucket ?db s" for s
      using that by (rule has_bucket_mono) (use names(5) old(3) in \<open>auto simp: tables\<close>)
    then show "services_backed db'" using i(3) by (simp add: services_backed_def tables)
    have inert: "deleted_inert db1" by (rule claim_inert [OF c(1) i(4)])
    show "deleted_inert db'"
    proof (rule deleted_inertI)
      fix s n assume s: "s \<in> set (services db')" "sv_phase s = ''deleted''" and n: "n \<in> set (name_reservations db')"
      have "sv_id s \<noteq> ?sid" using exist [of s] s tables by auto
      then show "nr_service_instance_id n \<noteq> sv_id s"
        using names(6) [of n] n deleted_inertD(3) [OF inert, of s n] s tables old by auto
    qed (use deleted_inertD(1,2) [OF inert] tables old in auto)
    show "within_limits st db'"
      by (rule limits_cong [OF i(5)])
         (use claim_counts [OF c(1)] tables old in \<open>simp_all add: bucket_credentials_def organization_credentials_def\<close>)
  qed (use c t ready in simp_all)
qed

lemma start_create_invariant:
  assumes inv: "invariant st w" and e: "prepare_create_credential_effect st k env (w_db w) i x db'"
    and t: "i \<notin> w_ids w" "op_action (cc_operation k) = CREDENTIAL_CREATE_ACTION"
      "ts \<subseteq> {CreateTask k i (cx_credential_id x)}"
  shows "invariant st (started_world w env db' ts)"
proof -
  let ?db = "w_db w" and ?op = "cc_operation k" and ?sid = "op_service_instance_id (cc_operation k)"
  from e obtain claimed db1 where c: "claim_effect ?op env ?db claimed db1"
    "alone db1 ?sid (op_idempotency_key ?op)" "service_ready ?op db1" "schema_ok db'" "i = pg_new_operation_id env"
    and d: "case claimed of
       Some _ \<Rightarrow> db' = db1 \<and> (\<exists>v. reservation_of db1 i = Some v \<and> reservation_matches st v k
         \<and> cx_credential_id x = cv_credential_id v)
     | None \<Rightarrow> credential_reserved st k env db1 db' \<and> cx_credential_id x = pg_new_credential_id env"
    unfolding prepare_create_credential_effect_def Let_def by blast
  show ?thesis
  proof (cases claimed)
    case (Some j)
    with d obtain v where v: "db' = db1" "reservation_of db1 i = Some v" "reservation_matches st v k"
      "cx_credential_id x = cv_credential_id v" by auto
    have "task_ready st db' (CreateTask k i (cx_credential_id x))"
      using service_ready_is [OF c(3)] v find_Some_in [OF v(2) [unfolded reservation_of_def]]
      by (auto simp: reservation_matches_def)
    moreover have "reserved claimed ?op env db1 db'" using Some v(1) by (simp add: reserved_def)
    ultimately show ?thesis
      using plain_start_invariant [of st w "CreateTask k i (cx_credential_id x)" env claimed db1 db' ts] inv c t
      by simp
  next
    case None
    then have db1: "db1 = ?db" using c(1) by (simp add: claim_effect_def)
    from None d obtain n permissions where new: "db' = ?db\<lparr>receipts := receipts ?db @ [new_receipt ?op
           (pg_new_operation_id env) (pg_now env) (pg_clock env n)],
         credential_reservations := credential_reservations ?db @
           [new_reservation k (pg_new_credential_id env) (pg_new_operation_id env) permissions (pg_now env)]\<rparr>"
      and room: "bucket_credentials ?db ?sid < unat (max_per_bucket st k)"
        "organization_credentials ?db (op_organization_id ?op) < unat (max_total st k)"
      and x: "cx_credential_id x = pg_new_credential_id env"
      unfolding credential_reserved_def Let_def db1 by auto
    have i: "schema_ok ?db" "reservations_backed ?db" "services_backed ?db" "deleted_inert ?db" "within_limits st ?db"
      using inv by (simp_all add: invariant_def)
    have none: "receipt_of ?db (op_idempotency_key ?op) = None" using None c(1) by (simp add: claim_effect_def)
    have "reserved claimed ?op env ?db (?db\<lparr>receipts := receipts db'\<rparr>)"
      using None new by (auto simp: reserved_def)
    then have started: "receipt_started ?op env ?db db'"
      using receipt_startedI [OF c(1,2) _ _ , of ?db] db1 by simp
    have alive: "sv_id s \<noteq> ?sid" if "s \<in> set (services ?db)" "sv_phase s = ''deleted''" for s
      using c(3) service_of_in [OF i(1) that(1)] that(2) unfolding db1 service_ready_def by auto
    show ?thesis
    proof (rule started_invariant [where t = "CreateTask k i (cx_credential_id x)", OF inv])
      show "receipt_started (task_operation (CreateTask k i (cx_credential_id x))) env ?db db'"
        using started by simp
      show "agree_elsewhere (op_service_instance_id (task_operation (CreateTask k i (cx_credential_id x)))) ?db db'"
        by (simp add: agree_elsewhere_def new new_reservation_def same_but_append)
      show "reservations_backed db'"
        by (rule started_reservations [OF started i(1,2) _ c(4)])
           (use none t in \<open>auto simp: new new_reservation_def\<close>)
      show "services_backed db'" using i(3) by (simp add: services_backed_def has_bucket_def new)
      show "deleted_inert db'"
      proof (rule deleted_inertI)
        fix s v assume s: "s \<in> set (services db')" "sv_phase s = ''deleted''"
          and v: "v \<in> set (credential_reservations db')"
        show "cv_service_instance_id v \<noteq> sv_id s"
          using s v alive [of s] deleted_inertD(2) [OF i(4), of s v] by (auto simp: new new_reservation_def)
      qed (use deleted_inertD [OF i(4)] in \<open>simp_all add: new\<close>)
      have "unat (max_per_bucket st k) \<le> unat (cl_max_credentials_per_bucket (ps_credential_limits st))"
        "unat (max_total st k) \<le> unat (cl_max_total_credentials (ps_credential_limits st))"
        by (simp_all add: max_per_bucket_def max_total_def word_le_nat_alt [symmetric])
      with i(5) room show "within_limits st db'"
        unfolding within_limits_def new
        by (auto simp: bucket_credentials_def organization_credentials_def new_reservation_def)
      show "task_ready st db' (CreateTask k i (cx_credential_id x))"
        using service_ready_is [OF c(3), of db'] c(5) x by (simp add: db1 new new_reservation_def)
    qed (use c t in simp_all)
  qed
qed

section \<open>Every step keeps the invariants\<close>

lemma holder_same_but_lease:
  assumes "receipts db' = update_rows (holds_receipt key i) f (receipts db)"
    and "\<And>r. re_idempotency_key (f r) = re_idempotency_key r \<and> re_operation_id (f r) = re_operation_id r
       \<and> re_state (f r) = re_state r \<and> (\<forall>operation. receipt_matches (f r) operation = receipt_matches r operation)"
  shows "holder db' operation j = holder db operation j"
proof -
  have "receipt_of db' k = map_option (\<lambda>r. if holds_receipt key i r then f r else r) (receipt_of db k)" for k
    unfolding receipt_of_def assms(1) by (rule find_update_rows) (use assms(2) in simp)
  then show ?thesis
    using assms(2) by (cases "receipt_of db (op_idempotency_key operation)") (auto simp: holder_def)
qed

lemma renew_invariant:
  assumes inv: "invariant st w" and l: "lease_renewed operation i env (w_db w) db'" and s: "schema_ok db'"
  shows "invariant st (w\<lparr>w_db := db'\<rparr>)"
proof -
  let ?key = "op_idempotency_key operation"
  from l obtain n where db': "db' = (w_db w)\<lparr>receipts := update_rows (holds_receipt ?key i)
      (\<lambda>r. r\<lparr>re_lease_expires_at := Some (lease_until (pg_clock env n)), re_updated_at := pg_now env\<rparr>)
      (receipts (w_db w))\<rparr>"
    unfolding lease_renewed_def by blast
  have old: "\<exists>q \<in> set (receipts (w_db w)). re_idempotency_key q = re_idempotency_key r
      \<and> re_operation_id q = re_operation_id r \<and> re_state q = re_state r
      \<and> re_service_instance_id q = re_service_instance_id r" if r: "r \<in> set (receipts db')" for r
    using r unfolding db' by simp (erule in_update_rowsE; force)
  have new: "\<exists>r \<in> set (receipts db'). re_idempotency_key r = re_idempotency_key q
      \<and> re_operation_id r = re_operation_id q \<and> re_state r = re_state q
      \<and> re_service_instance_id r = re_service_instance_id q \<and> re_organization_id r = re_organization_id q
      \<and> re_project_id r = re_project_id q \<and> re_action r = re_action q" if q: "q \<in> set (receipts (w_db w))" for q
    unfolding db' by simp (rule bexI [OF _ update_rowsI [OF q]], simp)
  have f: "receipt_matches (r\<lparr>re_lease_expires_at := a, re_updated_at := b\<rparr>) o' = receipt_matches r o'" for r a b o'
    by (simp add: receipt_matches_def)
  have h: "holder db' o' j = holder (w_db w) o' j" for o' j
  proof (rule holder_same_but_lease)
    show "receipts db' = update_rows (holds_receipt ?key i)
       (\<lambda>r. r\<lparr>re_lease_expires_at := Some (lease_until (pg_clock env n)), re_updated_at := pg_now env\<rparr>)
       (receipts (w_db w))" by (simp add: db')
  qed (simp add: f)
  have tables: "services db' = services (w_db w)" "buckets db' = buckets (w_db w)"
    "name_reservations db' = name_reservations (w_db w)" "credentials db' = credentials (w_db w)"
    "credential_reservations db' = credential_reservations (w_db w)" by (simp_all add: db')
  have ready: "task_ready st db' t = task_ready st (w_db w) t" for t
    by (cases t) (simp_all add: service_is_def tables)
  have i: "exclusive (w_db w)" "ids_known w" "reservations_backed (w_db w)"
    using inv by (simp_all add: invariant_def)
  have "exclusive db'" using i(1) old unfolding exclusive_def by metis
  moreover have "ids_known (w\<lparr>w_db := db'\<rparr>)" using i(2) old unfolding ids_known_def by simp metis
  moreover have "reservations_backed db'" using i(3) new unfolding reservations_backed_def tables by metis
  ultimately show ?thesis
    using inv s tables_cong [OF tables] by (simp add: invariant_def tasks_distinct_def live_ready_def h ready)
qed

lemma usage_invariant:
  assumes inv: "invariant st w" and u: "usage_stored sid bytes objects at env (w_db w) db'" and s: "schema_ok db'"
  shows "invariant st (w\<lparr>w_db := db'\<rparr>)"
proof -
  let ?f = "\<lambda>b. b\<lparr>bk_used_bytes := bytes, bk_used_objects := objects,
            bk_usage_measured_at := Some at, bk_updated_at := pg_now env\<rparr>"
  from u obtain rows where db': "db' = (w_db w)\<lparr>buckets := update_rows (\<lambda>b. bk_service_instance_id b = sid) ?f
      (buckets (w_db w)), usage_snapshots := rows\<rparr>"
    unfolding usage_stored_def by blast
  have same: "receipts db' = receipts (w_db w)" "services db' = services (w_db w)"
    "name_reservations db' = name_reservations (w_db w)" "credentials db' = credentials (w_db w)"
    "credential_reservations db' = credential_reservations (w_db w)" by (simp_all add: db')
  have old: "\<exists>c \<in> set (buckets (w_db w)). bk_service_instance_id c = bk_service_instance_id b
      \<and> bk_bucket_name c = bk_bucket_name b" if b: "b \<in> set (buckets db')" for b
    using b unfolding db' by simp (erule in_update_rowsE; force)
  have new: "\<exists>b \<in> set (buckets db'). bk_service_instance_id b = bk_service_instance_id c
      \<and> bk_organization_id b = bk_organization_id c \<and> bk_project_id b = bk_project_id c
      \<and> bk_physical_bucket_id b = bk_physical_bucket_id c \<and> bk_bucket_name b = bk_bucket_name c"
    if c: "c \<in> set (buckets (w_db w))" for c
    unfolding db' by simp (rule bexI [OF _ update_rowsI [OF c]], simp)
  have "has_bucket db' x" if "has_bucket (w_db w) x" for x
    using that new unfolding has_bucket_def same by metis
  then have "services_backed db'"
    using inv old unfolding invariant_def services_backed_def same by metis
  moreover have ready: "task_ready st db' t" if "task_ready st (w_db w) t" for t
  proof (cases t)
    case (ReconcileTask c i)
    with that old show ?thesis unfolding ReconcileTask task_ready.simps same by metis
  qed (use that in \<open>simp_all add: service_is_def same\<close>)
  have h: "holder db' = holder (w_db w)" using same(1) by (rule holder_cong)
  have "live_ready st (w\<lparr>w_db := db'\<rparr>)"
    using inv ready by (simp add: invariant_def live_ready_def h)
  moreover have "exclusive db' = exclusive (w_db w)" "reservations_backed db' = reservations_backed (w_db w)"
    "ids_known (w\<lparr>w_db := db'\<rparr>) = ids_known w" "tasks_distinct (w\<lparr>w_db := db'\<rparr>) = tasks_distinct w"
    "deleted_inert db' = deleted_inert (w_db w)" "within_limits st db' = within_limits st (w_db w)"
    by (simp_all add: exclusive_def reservations_backed_def ids_known_def tasks_distinct_def deleted_inert_def
        within_limits_def bucket_credentials_def organization_credentials_def same)
  ultimately show ?thesis using inv s by (simp add: invariant_def)
qed

lemma audit_invariant:
  assumes inv: "invariant st w" and db': "db' = (w_db w)\<lparr>audit_events := rows\<rparr>" and s: "schema_ok db'"
  shows "invariant st (w\<lparr>w_db := db'\<rparr>)"
proof -
  have h: "holder db' = holder (w_db w)" by (rule holder_cong) (simp add: db')
  have tables: "services db' = services (w_db w)" "buckets db' = buckets (w_db w)"
    "name_reservations db' = name_reservations (w_db w)" "credentials db' = credentials (w_db w)"
    "credential_reservations db' = credential_reservations (w_db w)" by (simp_all add: db')
  have rc: "receipts db' = receipts (w_db w)" by (simp add: db')
  have ready: "task_ready st db' t = task_ready st (w_db w) t" for t
    by (cases t) (simp_all add: service_is_def tables)
  have "exclusive db' = exclusive (w_db w)" "reservations_backed db' = reservations_backed (w_db w)"
    "ids_known (w\<lparr>w_db := db'\<rparr>) = ids_known w" "tasks_distinct (w\<lparr>w_db := db'\<rparr>) = tasks_distinct w"
    "live_ready st (w\<lparr>w_db := db'\<rparr>) = live_ready st w"
    by (simp_all add: exclusive_def reservations_backed_def ids_known_def tasks_distinct_def live_ready_def
        rc tables(5) h ready)
  then show ?thesis using inv s tables_cong [OF tables] by (simp add: invariant_def)
qed

lemma effect_invariant:
  assumes "effect st w w'" and inv: "invariant st w"
  shows "invariant st w'"
  using assms(1)
proof cases
  case no_effect
  then show ?thesis
    using inv by (auto simp: invariant_def ids_known_def tasks_distinct_def live_ready_def)
next
  case (start_task t env db' ts)
  show ?thesis
  proof (cases t)
    case (ReconcileTask c i)
    with start_task inv start_reconcile_invariant show ?thesis by auto
  next
    case (DeleteTask c i)
    with start_task inv start_delete_invariant show ?thesis by auto
  next
    case (CreateTask c i k)
    with start_task inv start_create_invariant show ?thesis by auto
  next
    case (RevokeTask c i)
    with start_task inv start_revoke_invariant show ?thesis by auto
  qed
next
  case (close_task t env mid response audit db')
  show ?thesis
  proof (cases t)
    case (ReconcileTask c i)
    with close_task inv close_reconcile_invariant show ?thesis by auto
  next
    case (DeleteTask c i)
    with close_task inv close_delete_invariant show ?thesis by auto
  next
    case (CreateTask c i k)
    with close_task inv close_create_invariant show ?thesis by auto
  next
    case (RevokeTask c i)
    with close_task inv close_revoke_invariant show ?thesis by auto
  qed
next
  case (fail_effect t response audit env db')
  with inv fail_invariant show ?thesis by auto
next
  case (renew_effect t env db')
  with inv renew_invariant show ?thesis by auto
next
  case (usage_effect sid bytes objects measured_at env db')
  with inv usage_invariant show ?thesis by auto
next
  case (audit_effect db' env audit)
  with inv audit_invariant show ?thesis by auto
qed

lemma reachable_invariant: "reachable st w \<Longrightarrow> invariant st w"
proof (induction rule: reachable.induct)
  case initial
  show ?case by (rule invariant_initial)
next
  case (after_step w w')
  then have "effect st w w'" by (intro step_effect) (simp_all add: invariant_def)
  with after_step show ?case by (auto intro: effect_invariant)
qed

lemmas reachableD = reachable_invariant [unfolded invariant_def, THEN conjunct1]

end
