(* ===== verification/Store_Examples.thy ===== *)
theory Store_Examples
  imports Store_Steps
begin

text \<open>
  A concrete store, environment and commands, and a run of the operations on them: a service is
  reconciled, a credential created, the service deleted. The properties of the store are applied to
  the states of this run. The codecs are stand-ins that satisfy the assumed laws.
\<close>

section \<open>The store and the commands\<close>

definition example_spec_json :: json where
  "example_spec_json = JObject [(''bucket_name'', JString ''demo-bucket'')]"

definition example_limits :: credential_limits where
  "example_limits = \<lparr>cl_max_credentials_per_bucket = 2, cl_max_total_credentials = 4\<rparr>"

definition example_store :: pg_store where
  "example_store = \<lparr>ps_receipt_cipher = \<lparr>cipher_key = replicate 32 7\<rparr>,
     ps_credential_limits = example_limits,
     ps_aead_encrypt = tagging_enc, ps_aead_decrypt = tagging_dec,
     ps_json_to_vec = (\<lambda>v. if v = JNull then Some [1] else None),
     ps_json_from_slice = (\<lambda>b. if b = [1] then Some JNull else None),
     ps_spec_to_value = (\<lambda>s. if s = example_spec then Some example_spec_json else None),
     ps_spec_from_value = (\<lambda>v. Some example_spec),
     ps_permissions_to_value = (\<lambda>p. Some (JObject [(''read'', JBool (bp_read p)), (''write'', JBool (bp_write p))])),
     ps_permissions_from_value = (\<lambda>v. case v of
        JObject [(_, JBool r), (_, JBool w)] \<Rightarrow> Some \<lparr>bp_read = r, bp_write = w\<rparr> | _ \<Rightarrow> None)\<rparr>"

definition example_env :: "nat \<Rightarrow> timestamp \<Rightarrow> pg_env" where
  "example_env k t = \<lparr>pg_now = t, pg_clock = (\<lambda>_. t), pg_new_operation_id = word_of_nat (100 + k),
     pg_new_credential_id = word_of_nat (200 + k), pg_new_audit_id = word_of_nat (300 + k),
     pg_nonce = Some (replicate 12 1), pg_fault = (\<lambda>_. False), pg_commit_lost = False\<rparr>"

definition example_operation :: "uuid \<Rightarrow> string \<Rightarrow> i64 option \<Rightarrow> operation_request" where
  "example_operation key action generation = \<lparr>op_idempotency_key = key, op_organization_id = 1,
     op_project_id = 2, op_service_instance_id = 3, op_principal_id = 4, op_action = action,
     op_generation = generation, op_request_hash = replicate 32 9\<rparr>"

definition example_reconcile :: reconcile_command where
  "example_reconcile = \<lparr>rc_operation = example_operation 10 PROVIDER_RECONCILE_ACTION (Some 1),
     rc_name = ''demo'', rc_generation = 1, rc_spec = example_spec\<rparr>"

definition example_create :: create_credential_command where
  "example_create = \<lparr>cc_operation = example_operation 11 CREDENTIAL_CREATE_ACTION None,
     cc_name = ''key'', cc_permissions = \<lparr>bp_read = True, bp_write = False\<rparr>,
     cc_credential_limits = example_limits\<rparr>"

definition example_key :: new_credential where
  "example_key = \<lparr>nc_id = 202, nc_garage_key_id = ''GK1'', nc_access_key_id = ''GK1'',
     nc_secret_key_fingerprint = replicate 32 5, nc_name = ''key'',
     nc_permissions = \<lparr>bp_read = True, bp_write = False\<rparr>\<rparr>"

definition example_revoke :: revoke_credential_command where
  "example_revoke = \<lparr>vc_operation = example_operation 13 CREDENTIAL_REVOKE_ACTION None,
     vc_credential_id = 202\<rparr>"

definition example_delete :: delete_command where
  "example_delete = \<lparr>dc_operation = example_operation 12 PROVIDER_DELETE_ACTION (Some 2),
     dc_generation = 2\<rparr>"

definition example_response :: stored_http_response where
  "example_response = \<lparr>sh_status = 200, sh_body = JNull, sh_failed = False\<rparr>"

definition example_failure :: stored_http_response where
  "example_failure = \<lparr>sh_status = 502, sh_body = JNull, sh_failed = True\<rparr>"

definition example_audit :: audit_event where
  "example_audit = \<lparr>au_organization_id = 1, au_project_id = 2, au_service_instance_id = 3,
     au_principal_id = 4, au_principal_context_id = None, au_request_id = ''r'',
     au_action = ''a'', au_resource_type = ''t'', au_resource_id = None, au_outcome = ''allowed'',
     au_details = JObject []\<rparr>"

lemma example_codecs_ok: "store_codecs_ok example_store"
  unfolding store_codecs_ok_def example_store_def
  by (auto simp: tagging_correct split: if_splits)

lemma example_no_faults [simp]: "no_faults (example_env k t)"
  by (simp add: no_faults_def example_env_def)

section \<open>A run\<close>

definition example_open :: "uuid \<Rightarrow> uuid \<Rightarrow> string \<Rightarrow> i64 option \<Rightarrow> timestamp \<Rightarrow> receipt_row" where
  "example_open key i action generation t = new_receipt (example_operation key action generation) i t t"

definition example_closed :: "8 word \<Rightarrow> 8 word \<Rightarrow> timestamp \<Rightarrow> receipt_row \<Rightarrow> receipt_row" where
  "example_closed key i t r = finished example_response (replicate 12 1)
     (replicate 15 0 @ [key] @ replicate 15 0 @ [i] @ as_bytes ''syouyu-receipt-1'' @ [1]) t r"

definition example_name_row :: name_reservation_row where
  "example_name_row = \<lparr>nr_bucket_name = sp_bucket_name example_spec, nr_service_instance_id = 3, nr_created_at = 0\<rparr>"

definition example_service :: service_row where
  "example_service = \<lparr>sv_id = 3, sv_organization_id = 1, sv_project_id = 2, sv_name = ''demo'',
     sv_desired_generation = 1, sv_desired_spec = example_spec_json, sv_observed_generation = 1,
     sv_phase = ''ready'', sv_current_operation_id = 100, sv_last_error = None, sv_created_at = 5,
     sv_updated_at = 5, sv_deleted_at = None\<rparr>"

definition example_bucket :: bucket_row where
  "example_bucket = \<lparr>bk_service_instance_id = 3, bk_organization_id = 1, bk_project_id = 2,
     bk_physical_bucket_id = Some ''phys'', bk_bucket_name = sp_bucket_name example_spec,
     bk_region = sp_region example_spec, bk_quota_bytes = 10737418240, bk_quota_objects = 1000000,
     bk_used_bytes = 0, bk_used_objects = 0, bk_usage_measured_at = None, bk_created_at = 5, bk_updated_at = 5\<rparr>"

definition example_reservation :: credential_reservation_row where
  "example_reservation = \<lparr>cv_credential_id = 202, cv_operation_id = 102, cv_service_instance_id = 3,
     cv_organization_id = 1, cv_project_id = 2, cv_name = ''key'',
     cv_permissions = JObject [(''read'', JBool True), (''write'', JBool False)], cv_created_at = 10\<rparr>"

definition example_credential :: credential_row where
  "example_credential = credential_row_of (cc_operation example_create) example_key
     (JObject [(''read'', JBool True), (''write'', JBool False)]) 15"

definition example_audit_row :: "uuid \<Rightarrow> timestamp \<Rightarrow> audit_row" where
  "example_audit_row i t = \<lparr>ar_id = i, ar_event = example_audit, ar_created_at = t\<rparr>"

definition example_started :: database where
  "example_started = empty_database\<lparr>name_reservations := [example_name_row],
     receipts := [example_open 10 100 PROVIDER_RECONCILE_ACTION (Some 1) 0]\<rparr>"

definition example_ready :: database where
  "example_ready = example_started\<lparr>services := [example_service], buckets := [example_bucket],
     receipts := [example_closed 10 100 5 (example_open 10 100 PROVIDER_RECONCILE_ACTION (Some 1) 0)],
     audit_events := [example_audit_row 301 5]\<rparr>"

definition example_key_started :: database where
  "example_key_started = example_ready\<lparr>credential_reservations := [example_reservation],
     receipts := receipts example_ready @ [example_open 11 102 CREDENTIAL_CREATE_ACTION None 10]\<rparr>"

definition example_key_ready :: database where
  "example_key_ready = example_ready\<lparr>credentials := [example_credential],
     receipts := receipts example_ready @
       [example_closed 11 102 15 (example_open 11 102 CREDENTIAL_CREATE_ACTION None 10)],
     audit_events := audit_events example_ready @ [example_audit_row 303 15]\<rparr>"

definition example_delete_started :: database where
  "example_delete_started = example_key_ready\<lparr>receipts := receipts example_key_ready @
     [example_open 12 104 PROVIDER_DELETE_ACTION (Some 2) 20]\<rparr>"

definition example_deleted :: database where
  "example_deleted = example_key_ready\<lparr>
     services := [example_service\<lparr>sv_desired_generation := 2, sv_observed_generation := 2,
       sv_phase := ''deleted'', sv_current_operation_id := 104, sv_updated_at := 25, sv_deleted_at := Some 25\<rparr>],
     name_reservations := [], credentials := [revoke_row 25 4 example_credential],
     receipts := receipts example_key_ready @
       [example_closed 12 104 25 (example_open 12 104 PROVIDER_DELETE_ACTION (Some 2) 20)],
     audit_events := audit_events example_key_ready @ [example_audit_row 305 25]\<rparr>"

definition example_bucket_record :: bucket_record where
  "example_bucket_record = (case bucket_row_try_into_record example_bucket of Ok r \<Rightarrow> r)"

lemma example_prepares:
  "prepare_reconcile example_store example_reconcile (example_env 0 0) empty_database
     = (Ok (Execute 100 \<lparr>rx_bucket = reconcile_bucket example_reconcile None, rx_previously_applied = False\<rparr>),
        example_started)"
  "prepare_create_credential example_store example_create (example_env 2 10) example_ready
     = (Ok (Execute 102 \<lparr>cx_bucket = example_bucket_record, cx_credential_id = 202\<rparr>), example_key_started)"
  "prepare_delete example_store example_delete (example_env 4 20) example_key_ready
     = (Ok (Execute 104 \<lparr>dx_bucket = example_bucket_record, dx_garage_key_ids = [''GK1'']\<rparr>),
        example_delete_started)"
  by code_simp+

lemma example_completes:
  "complete_reconcile example_store example_reconcile 100 ''phys'' example_response example_audit
     (example_env 1 5) example_started = (Ok (), example_ready)"
  "complete_create_credential example_store example_create 102 example_key example_response example_audit
     (example_env 3 15) example_key_started = (Ok (), example_key_ready)"
  "complete_delete example_store example_delete 104 example_response example_audit
     (example_env 5 25) example_delete_started = (Ok (), example_deleted)"
  by code_simp+

section \<open>The states of the run are reachable\<close>

definition world_started :: world where
  "world_started = \<lparr>w_db = example_started, w_tasks = {ReconcileTask example_reconcile 100}, w_ids = {100}\<rparr>"
definition world_ready :: world where
  "world_ready = world_started\<lparr>w_db := example_ready\<rparr>"
definition world_key_started :: world where
  "world_key_started = \<lparr>w_db = example_key_started,
     w_tasks = {CreateTask example_create 102 202, ReconcileTask example_reconcile 100}, w_ids = {102, 100}\<rparr>"
definition world_key_ready :: world where
  "world_key_ready = world_key_started\<lparr>w_db := example_key_ready\<rparr>"
definition world_delete_started :: world where
  "world_delete_started = \<lparr>w_db = example_delete_started, w_tasks = {DeleteTask example_delete 104,
     CreateTask example_create 102 202, ReconcileTask example_reconcile 100}, w_ids = {104, 102, 100}\<rparr>"
definition world_deleted :: world where
  "world_deleted = world_delete_started\<lparr>w_db := example_deleted\<rparr>"

lemmas world_defs = world_started_def world_ready_def world_key_started_def world_key_ready_def
  world_delete_started_def world_deleted_def

lemma example_env_id [simp]: "pg_new_operation_id (example_env k t) = word_of_nat (100 + k)"
  by (simp add: example_env_def)

lemma example_actions [simp]:
  "op_action (rc_operation example_reconcile) = PROVIDER_RECONCILE_ACTION"
  "op_action (cc_operation example_create) = CREDENTIAL_CREATE_ACTION"
  "op_action (dc_operation example_delete) = PROVIDER_DELETE_ACTION"
  by (simp_all add: example_reconcile_def example_create_def example_delete_def example_operation_def)

lemma example_steps:
  "step example_store initial_world world_started"
  "step example_store world_started world_ready"
  "step example_store world_ready world_key_started"
  "step example_store world_key_started world_key_ready"
  "step example_store world_key_ready world_delete_started"
  "step example_store world_delete_started world_deleted"
proof -
  obtain x where p: "prepare_reconcile example_store example_reconcile (example_env 0 0) (w_db initial_world)
     = (Ok (Execute 100 x), example_started)"
    using example_prepares(1) by (simp add: initial_world_def)
  have "world_started = started_world initial_world (example_env 0 0) example_started
     (granted (\<lambda>i _. ReconcileTask example_reconcile i) (Ok (Execute 100 x)))"
    by (simp add: started_world_def granted_def world_started_def initial_world_def)
  then show "step example_store initial_world world_started"
    using start_reconcile [OF p] by (simp add: initial_world_def)
  let ?x = "\<lparr>cx_bucket = example_bucket_record, cx_credential_id = 202\<rparr>"
  have p: "prepare_create_credential example_store example_create (example_env 2 10) (w_db world_ready)
     = (Ok (Execute 102 ?x), example_key_started)"
    using example_prepares(2) by (auto simp: world_ready_def)
  have "world_key_started = started_world world_ready (example_env 2 10) example_key_started
     (granted (\<lambda>i x. CreateTask example_create i (cx_credential_id x)) (Ok (Execute 102 ?x)))"
    by (simp add: started_world_def granted_def world_defs)
  then show "step example_store world_ready world_key_started"
    using start_create [OF p] by (simp add: world_defs)
  obtain x where p: "prepare_delete example_store example_delete (example_env 4 20) (w_db world_key_ready)
     = (Ok (Execute 104 x), example_delete_started)"
    using example_prepares(3) by (simp add: world_key_ready_def)
  have "world_delete_started = started_world world_key_ready (example_env 4 20) example_delete_started
     (granted (\<lambda>i _. DeleteTask example_delete i) (Ok (Execute 104 x)))"
    by (simp add: started_world_def granted_def world_defs)
  then show "step example_store world_key_ready world_delete_started"
    using start_delete [OF p] by (simp add: world_defs)
  show "step example_store world_started world_ready"
    unfolding world_ready_def
    by (rule finish_reconcile) (use example_completes(1) in \<open>auto simp: world_started_def\<close>)
  show "step example_store world_key_started world_key_ready"
    unfolding world_key_ready_def
    by (rule finish_create [where credential = example_key])
       (use example_completes(2) in \<open>auto simp: world_key_started_def example_key_def\<close>)
  show "step example_store world_delete_started world_deleted"
    unfolding world_deleted_def
    by (rule finish_delete) (use example_completes(3) in \<open>auto simp: world_delete_started_def\<close>)
qed

lemma example_reachable:
  "reachable example_store world_started" "reachable example_store world_ready"
  "reachable example_store world_key_started" "reachable example_store world_key_ready"
  "reachable example_store world_delete_started" "reachable example_store world_deleted"
proof -
  show 1: "reachable example_store world_started" by (rule after_step [OF initial example_steps(1)])
  show 2: "reachable example_store world_ready" by (rule after_step [OF 1 example_steps(2)])
  show 3: "reachable example_store world_key_started" by (rule after_step [OF 2 example_steps(3)])
  show 4: "reachable example_store world_key_ready" by (rule after_step [OF 3 example_steps(4)])
  show 5: "reachable example_store world_delete_started" by (rule after_step [OF 4 example_steps(5)])
  show "reachable example_store world_deleted" by (rule after_step [OF 5 example_steps(6)])
qed

end
