(* ===== verification/Store_Safety.thy ===== *)
theory Store_Safety
  imports Store_Invariants Store_Examples
begin

text \<open>
  Safety of the store: what holds in every reachable state and what never changes along a run, with
  the tenant isolation of its operations. Each property is applied to the states of the example run.
\<close>

section \<open>Rows under a step\<close>

lemma closing_services:
  assumes "close_mid st t env db mid" and "s \<in> set (services db)" and "schema_ok db"
  shows "\<exists>s' \<in> set (services mid). sv_id s' = sv_id s
     \<and> (sv_phase s = ''deleted'' \<longrightarrow> s' = s)
     \<and> (sv_desired_generation s \<le> sv_desired_generation s'
         \<or> (\<exists>d i. t = DeleteTask d i \<and> sv_id s = op_service_instance_id (dc_operation d)
              \<and> sv_desired_generation s' = dc_generation d))"
proof (cases t)
  case (ReconcileTask c i)
  with assms(1) obtain spec n db1 physical qb qo m db2 where u: "upsert_service c spec i env n db = Ok (1, db1)"
    and "upsert_bucket c physical qb qo env m db1 = Ok ((), db2)" "services mid = services db2"
    by (auto simp: reconciled_def)
  then have mid: "services mid = services db1" using upsert_bucket_Ok(1) by metis
  show ?thesis
  proof (cases "list_ex (\<lambda>r. sv_id r = op_service_instance_id (rc_operation c)) (services db)")
    case True
    then show ?thesis
      using u assms(2) unfolding mid
      by (simp add: upsert_service_def put_services_def Let_def)
         (rule bexI [OF _ update_rowsI [OF assms(2)]], simp)
  next
    case False
    with u assms(2) have "s \<in> set (services mid)"
      unfolding mid by (auto simp: upsert_service_def put_services_def Let_def)
    then show ?thesis by auto
  qed
next
  case (DeleteTask d i)
  with assms(1) have mid: "mid = service_deleted d i env db" by simp
  show ?thesis
    unfolding mid service_deleted_def Let_def
    by simp (rule bexI [OF _ update_rowsI [OF assms(2)]], use DeleteTask in simp)
next
  case (CreateTask c i k)
  with assms(1,2) show ?thesis by (auto simp: credential_created_def)
next
  case (RevokeTask c i)
  with assms(1,2) show ?thesis by (auto simp: credential_revoked_def)
qed

lemma start_services:
  assumes "start_effect st t env db db'"
  shows "services db' = services db" "buckets db' = buckets db" "audit_events db' = audit_events db"
    "credentials db' = credentials db"
proof -
  have "services db' = services db \<and> buckets db' = buckets db \<and> audit_events db' = audit_events db
    \<and> credentials db' = credentials db"
  proof (cases t)
    case (ReconcileTask c i)
    with assms obtain claimed db1 db2 n where "claim_effect (rc_operation c) env db claimed db1"
      "insert_name_reservation (sp_bucket_name (rc_spec c)) (op_service_instance_id (rc_operation c)) env n db1 = Ok (1, db2)"
      "reserved claimed (rc_operation c) env db2 db'"
      by (auto simp: prepare_reconcile_effect_def)
    then show ?thesis
      using claim_effect_tables insert_name_reservation_Ok(1) reserved_tables by metis
  next
    case (DeleteTask c i)
    with assms obtain claimed db1 where "claim_effect (dc_operation c) env db claimed db1"
      "reserved claimed (dc_operation c) env db1 db'"
      by (auto simp: prepare_delete_effect_def)
    then show ?thesis using claim_effect_tables reserved_tables by metis
  next
    case (CreateTask c i k)
    with assms obtain claimed db1 where c: "claim_effect (cc_operation c) env db claimed db1"
      and "db' = db1 \<or> credential_reserved st c env db1 db'"
      by (auto simp: prepare_create_credential_effect_def Let_def split: option.splits)
    then have "services db' = services db1 \<and> buckets db' = buckets db1 \<and> audit_events db' = audit_events db1
        \<and> credentials db' = credentials db1"
      by (auto simp: credential_reserved_def Let_def)
    with claim_effect_tables [OF c] show ?thesis by simp
  next
    case (RevokeTask c i)
    with assms obtain claimed db1 where "claim_effect (vc_operation c) env db claimed db1"
      "reserved claimed (vc_operation c) env db1 db'"
      by (auto simp: prepare_revoke_credential_effect_def Let_def)
    then show ?thesis using claim_effect_tables reserved_tables by metis
  qed
  then show "services db' = services db" "buckets db' = buckets db" "audit_events db' = audit_events db"
    "credentials db' = credentials db" by auto
qed

lemma step_services:
  assumes "reachable st w" and "step st w w'" and s: "s \<in> set (services (w_db w))"
  shows "\<exists>s' \<in> set (services (w_db w')). sv_id s' = sv_id s
     \<and> (sv_phase s = ''deleted'' \<longrightarrow> s' = s) \<and> sv_desired_generation s \<le> sv_desired_generation s'"
proof -
  have inv: "invariant st w" using assms(1) by (rule reachable_invariant)
  then have schema: "schema_ok (w_db w)" by (simp add: invariant_def)
  from step_effect [OF assms(2) schema] show ?thesis
  proof cases
    case (close_task t env mid response audit db')
    obtain s' where s': "s' \<in> set (services mid)" "sv_id s' = sv_id s" "sv_phase s = ''deleted'' \<longrightarrow> s' = s"
      "sv_desired_generation s \<le> sv_desired_generation s'
         \<or> (\<exists>d i. t = DeleteTask d i \<and> sv_id s = op_service_instance_id (dc_operation d)
              \<and> sv_desired_generation s' = dc_generation d)"
      using closing_services [OF close_task(3) s schema] by blast
    have "sv_desired_generation s \<le> sv_desired_generation s'"
      using s'(4)
    proof (elim disjE exE conjE)
      fix d i assume t: "t = DeleteTask d i" "sv_id s = op_service_instance_id (dc_operation d)"
        "sv_desired_generation s' = dc_generation d"
      obtain r where "r \<in> set (services (w_db w))" "sv_id r = op_service_instance_id (dc_operation d)"
        "dc_generation d = sv_desired_generation r + 1"
        using live_task(1) [OF inv close_task(2,4)] by (auto simp: t(1) service_is_def)
      moreover from this t(2) have "r = s" using unique_on_same [OF schema_okD(1) [OF schema]] s by metis
      ultimately show ?thesis using t(3) by simp
    qed
    with s' close_task(1) closing_effectD(3) [OF close_task(4)] show ?thesis by auto
  next
    case (start_task t env db' ts)
    with s start_services show ?thesis by (auto simp: started_world_def)
  next
    case (fail_effect t response audit env db')
    with s closing_effectD(3) [OF fail_effect(3)] show ?thesis by (auto simp: release_reservations_def)
  qed (use s in \<open>auto simp: lease_renewed_def usage_stored_def\<close>)
qed

section \<open>Runs\<close>

abbreviation store_run :: "pg_store \<Rightarrow> world \<Rightarrow> world \<Rightarrow> bool" where
  "store_run st \<equiv> (step st)\<^sup>*\<^sup>*"

lemma run_induct:
  assumes "store_run st w w'" and "reachable st w" and "P w"
    and "\<And>v v'. reachable st v \<Longrightarrow> step st v v' \<Longrightarrow> P v \<Longrightarrow> P v'"
  shows "P w'"
proof -
  from assms(1) have "reachable st w' \<and> P w'"
    by (induction rule: rtranclp_induct) (use assms in \<open>auto intro: after_step\<close>)
  then show ?thesis by simp
qed

lemma example_run:
  "store_run example_store world_started world_deleted" "store_run example_store world_ready world_deleted"
  "store_run example_store world_started world_key_ready"
  using example_steps by (meson rtranclp.rtrancl_refl rtranclp.rtrancl_into_rtrancl)+

text \<open>
  C1: at every moment of every run, at most one operation is in progress on a service: two receipts
  of the same service that are both in progress are the same receipt, whichever processes call the
  store and whenever leases expire.
\<close>
theorem one_operation_per_service:
  assumes "reachable st w" and "r1 \<in> set (receipts (w_db w))" and "r2 \<in> set (receipts (w_db w))"
    and "re_state r1 = ''in_progress''" and "re_state r2 = ''in_progress''"
    and "re_service_instance_id r1 = re_service_instance_id r2"
  shows "r1 = r2"
proof -
  have inv: "invariant st w" using assms(1) by (rule reachable_invariant)
  then have "exclusive (w_db w)" and s: "schema_ok (w_db w)" by (simp_all add: invariant_def)
  then have "re_idempotency_key r1 = re_idempotency_key r2"
    using assms unfolding exclusive_def by blast
  with unique_on_same [OF schema_okD(9) [OF s] assms(2,3)] show ?thesis by simp
qed

theorem one_operation_per_service_witness:
  "{r \<in> set (receipts (w_db world_key_started)). re_state r = ''in_progress'' \<and> re_service_instance_id r = 3}
     = {example_open 11 102 CREDENTIAL_CREATE_ACTION None 10}"
proof -
  let ?r = "example_open 11 102 CREDENTIAL_CREATE_ACTION None 10"
  have r: "re_state ?r = ''in_progress''" "re_service_instance_id ?r = 3" by code_simp+
  have i: "?r \<in> set (receipts (w_db world_key_started))"
    by (simp add: world_key_started_def example_key_started_def)
  show ?thesis
  proof (intro equalityI subsetI)
    fix r assume "r \<in> {r \<in> set (receipts (w_db world_key_started)).
      re_state r = ''in_progress'' \<and> re_service_instance_id r = 3}"
    then have "r \<in> set (receipts (w_db world_key_started))" "re_state r = ''in_progress''"
      "re_service_instance_id r = re_service_instance_id ?r" unfolding r(2) by blast+
    then have "r = ?r" by (intro one_operation_per_service [OF example_reachable(3) _ i _ r(1)])
    then show "r \<in> {?r}" by (rule ssubst) (rule singletonI)
  next
    fix r assume "r \<in> {?r}"
    then have "r = ?r" by (rule singletonD)
    show "r \<in> {r \<in> set (receipts (w_db world_key_started)).
      re_state r = ''in_progress'' \<and> re_service_instance_id r = 3}"
      unfolding \<open>r = ?r\<close> mem_Collect_eq using i r by (intro conjI)
  qed
qed

text \<open>
  C14: along every run a service row never disappears, its desired generation never decreases, and a
  row in phase \<open>deleted\<close> is never changed again: deletion is final.
\<close>
theorem generations_never_decrease:
  assumes "reachable st w" and "store_run st w w'" and "s \<in> set (services (w_db w))"
  shows "\<exists>s' \<in> set (services (w_db w')). sv_id s' = sv_id s
     \<and> sv_desired_generation s \<le> sv_desired_generation s' \<and> (sv_phase s = ''deleted'' \<longrightarrow> s' = s)"
proof (rule run_induct [OF assms(2,1)])
  fix v v' assume r: "reachable st v" "step st v v'"
    and "\<exists>s' \<in> set (services (w_db v)). sv_id s' = sv_id s
     \<and> sv_desired_generation s \<le> sv_desired_generation s' \<and> (sv_phase s = ''deleted'' \<longrightarrow> s' = s)"
  then obtain s' where s': "s' \<in> set (services (w_db v))" "sv_id s' = sv_id s"
    "sv_desired_generation s \<le> sv_desired_generation s'" "sv_phase s = ''deleted'' \<longrightarrow> s' = s"
    by blast
  obtain s2 where s2: "s2 \<in> set (services (w_db v'))" "sv_id s2 = sv_id s'"
    "sv_phase s' = ''deleted'' \<longrightarrow> s2 = s'" "sv_desired_generation s' \<le> sv_desired_generation s2"
    using step_services [OF r s'(1)] by blast
  show "\<exists>s' \<in> set (services (w_db v')). sv_id s' = sv_id s
     \<and> sv_desired_generation s \<le> sv_desired_generation s' \<and> (sv_phase s = ''deleted'' \<longrightarrow> s' = s)"
    by (rule bexI [OF _ s2(1)]) (use s2(2-4) s'(2-4) in simp)
qed (use assms(3) in auto)

theorem generations_never_decrease_witness:
  "\<exists>s' \<in> set (services (w_db world_deleted)). sv_id s' = 3 \<and> 1 \<le> sv_desired_generation s'"
  using generations_never_decrease [OF example_reachable(2) example_run(2), of example_service]
  by (auto simp: world_ready_def example_ready_def example_service_def)

section \<open>Tables that only grow\<close>

lemma step_audit:
  assumes "step st w w'" and "schema_ok (w_db w)"
  shows "\<exists>new. audit_events (w_db w') = audit_events (w_db w) @ new"
  using step_effect [OF assms]
proof cases
  case (start_task t env db' ts)
  with start_services(3) show ?thesis by (auto simp: started_world_def)
next
  case (close_task t env mid response audit db')
  with closing_effectD(9) [OF close_task(4)] show ?thesis by auto
next
  case (fail_effect t response audit env db')
  with closing_effectD(9) [OF fail_effect(3)] show ?thesis by auto
qed (auto simp: lease_renewed_def usage_stored_def)

lemma closing_finished:
  assumes "closing_effect st operation i response audit env db mid db'"
    and "r \<in> set (receipts db)" and "re_state r \<noteq> ''in_progress''"
  shows "r \<in> set (receipts db')"
  using closing_receipts(2) [OF assms(1,2)] assms(3) by (simp add: holds_receipt_def)

lemma start_receipt_started:
  assumes "start_effect st t env db db'"
  shows "receipt_started (task_operation t) env db db'"
proof (cases t)
  case (ReconcileTask c i)
  with assms obtain claimed db1 db2 n where c: "claim_effect (rc_operation c) env db claimed db1"
      "alone db1 (op_service_instance_id (rc_operation c)) (op_idempotency_key (rc_operation c))"
      "insert_name_reservation (sp_bucket_name (rc_spec c)) (op_service_instance_id (rc_operation c)) env n db1
         = Ok (1, db2)" "reserved claimed (rc_operation c) env db2 db'"
    by (auto simp: prepare_reconcile_effect_def)
  with ReconcileTask receipt_startedI [OF c(1,2) _ c(4) refl] insert_name_reservation_Ok(1) [OF c(3)]
  show ?thesis by simp
next
  case (DeleteTask c i)
  with assms show ?thesis by (auto simp: prepare_delete_effect_def intro: receipt_startedI)
next
  case (CreateTask c i k)
  with assms show ?thesis using create_receipt_started by auto
next
  case (RevokeTask c i)
  with assms show ?thesis by (auto simp: prepare_revoke_credential_effect_def Let_def intro: receipt_startedI)
qed

lemma step_finished:
  assumes "reachable st w" and "step st w w'" and r: "r \<in> set (receipts (w_db w))"
    and f: "re_state r \<noteq> ''in_progress''"
  shows "r \<in> set (receipts (w_db w'))"
proof -
  have s: "schema_ok (w_db w)" using assms(1) by (rule reachableD)
  from step_effect [OF assms(2) s] show ?thesis
  proof cases
    case (start_task t env db' ts)
    have e: "receipt_started (task_operation t) env (w_db w) db'"
      using start_receipt_started [OF start_task(2)] .
    have "re_idempotency_key r \<noteq> op_idempotency_key (task_operation t)"
    proof
      assume k: "re_idempotency_key r = op_idempotency_key (task_operation t)"
      then have row: "receipt_of (w_db w) (op_idempotency_key (task_operation t)) = Some r"
        using receipt_of_in [OF s r] by simp
      from e obtain claimed db1 where "claim_effect (task_operation t) env (w_db w) claimed db1"
        unfolding receipt_started_def by blast
      with row f show False by (auto simp: claim_effect_def)
    qed
    from started_keeps [OF e r this] show ?thesis by (simp add: start_task(1) started_world_def)
  next
    case (close_task t env mid response audit db')
    with closing_finished [OF close_task(4) r f] show ?thesis by simp
  next
    case (fail_effect t response audit env db')
    with closing_finished [OF fail_effect(3) r f] show ?thesis by simp
  next
    case (renew_effect t env db')
    then obtain n where "receipts db' = update_rows (holds_receipt (op_idempotency_key (task_operation t)) (task_id t))
        (\<lambda>r. r\<lparr>re_lease_expires_at := Some (lease_until (pg_clock env n)), re_updated_at := pg_now env\<rparr>)
        (receipts (w_db w))"
      by (auto simp: lease_renewed_def)
    moreover have "\<not> holds_receipt (op_idempotency_key (task_operation t)) (task_id t) r"
      using f by (simp add: holds_receipt_def)
    ultimately show ?thesis using update_rowsI [OF r] renew_effect(1) by (metis (no_types, lifting) world.select_convs(1) world.surjective world.update_convs(1))
  qed (use r in \<open>auto simp: usage_stored_def\<close>)
qed

text \<open>
  C21: a finished receipt is permanent: along every run a receipt that is not in progress stays in the
  table exactly as it is, so the response it stores is the one every later request is answered with.
\<close>
theorem finished_receipts_are_permanent:
  assumes "reachable st w" and "store_run st w w'" and "r \<in> set (receipts (w_db w))"
    and "re_state r \<noteq> ''in_progress''"
  shows "r \<in> set (receipts (w_db w'))"
  by (rule run_induct [OF assms(2,1)]) (use assms(3,4) step_finished in blast)+

theorem finished_receipts_are_permanent_witness:
  "example_closed 10 100 5 (example_open 10 100 PROVIDER_RECONCILE_ACTION (Some 1) 0)
     \<in> set (receipts (w_db world_deleted))"
proof (rule finished_receipts_are_permanent [OF example_reachable(2) example_run(2)])
  show "example_closed 10 100 5 (example_open 10 100 PROVIDER_RECONCILE_ACTION (Some 1) 0)
     \<in> set (receipts (w_db world_ready))" by (simp add: world_ready_def example_ready_def)
qed code_simp

text \<open>
  C24: the audit trail is append-only: along every run the recorded events stay, in their order, at the
  front of the table.
\<close>
theorem audit_trail_append_only:
  assumes "reachable st w" and "store_run st w w'"
  shows "\<exists>new. audit_events (w_db w') = audit_events (w_db w) @ new"
proof (rule run_induct [OF assms(2,1)])
  fix v v' assume "reachable st v" "step st v v'"
    and "\<exists>new. audit_events (w_db v) = audit_events (w_db w) @ new"
  with step_audit reachableD show "\<exists>new. audit_events (w_db v') = audit_events (w_db w) @ new"
    by (metis append_assoc)
qed simp

theorem audit_trail_append_only_witness:
  "\<exists>new. audit_events (w_db world_deleted) = example_audit_row 301 5 # new"
  using audit_trail_append_only [OF example_reachable(2) example_run(2)]
  by (simp add: world_ready_def example_ready_def)

section \<open>Buckets\<close>

lemma closing_buckets:
  assumes "close_mid st t env db mid" and b: "b \<in> set (buckets db)" and "task_ready st db t"
  shows "\<exists>b' \<in> set (buckets mid). bk_service_instance_id b' = bk_service_instance_id b
     \<and> bk_bucket_name b' = bk_bucket_name b"
proof (cases t)
  case (ReconcileTask c i)
  let ?sid = "op_service_instance_id (rc_operation c)"
  from assms(1) ReconcileTask obtain spec n db1 physical qb qo m db2
    where u: "upsert_service c spec i env n db = Ok (1, db1)"
      and ub: "upsert_bucket c physical qb qo env m db1 = Ok ((), db2)" and mid: "buckets mid = buckets db2"
    by (auto simp: reconciled_def)
  have b1: "b \<in> set (buckets db1)" using upsert_service_Ok(1) [OF u] b by simp
  obtain same: "same_but bk_service_instance_id ?sid (buckets db1) (buckets db2)"
    and named: "\<And>b. b \<in> set (buckets db2) \<Longrightarrow> bk_service_instance_id b = ?sid \<Longrightarrow>
      bk_physical_bucket_id b = Some physical \<and> bk_bucket_name b = sp_bucket_name (rc_spec c)"
    and own: "\<exists>b \<in> set (buckets db2). bk_service_instance_id b = ?sid"
    using ub by (rule upsert_bucket_rows) blast
  show ?thesis
  proof (cases "bk_service_instance_id b = ?sid")
    case True
    with assms(3) ReconcileTask b have "bk_bucket_name b = sp_bucket_name (rc_spec c)" by simp
    with True named own mid show ?thesis by metis
  next
    case False
    with same b1 have "b \<in> set (buckets mid)" by (simp add: same_but_def mid)
    then show ?thesis by blast
  qed
next
  case (DeleteTask c i)
  with assms(1) b show ?thesis by (auto simp: service_deleted_def Let_def)
next
  case (CreateTask c i k)
  with assms(1) b show ?thesis by (auto simp: credential_created_def)
next
  case (RevokeTask c i)
  with assms(1) b show ?thesis by (auto simp: credential_revoked_def)
qed

lemma step_buckets:
  assumes "reachable st w" and "step st w w'" and b: "b \<in> set (buckets (w_db w))"
  shows "\<exists>b' \<in> set (buckets (w_db w')). bk_service_instance_id b' = bk_service_instance_id b
     \<and> bk_bucket_name b' = bk_bucket_name b"
proof -
  have inv: "invariant st w" using assms(1) by (rule reachable_invariant)
  then have s: "schema_ok (w_db w)" by (simp add: invariant_def)
  from step_effect [OF assms(2) s] show ?thesis
  proof cases
    case (start_task t env db' ts)
    with b start_services(2) [OF start_task(2)] show ?thesis by (auto simp: started_world_def)
  next
    case (close_task t env mid response audit db')
    from closing_buckets [OF close_task(3) b live_task(1) [OF inv close_task(2,4)]]
      closing_effectD(4) [OF close_task(4)] close_task(1) show ?thesis by simp
  next
    case (fail_effect t response audit env db')
    with b closing_effectD(4) [OF fail_effect(3)] show ?thesis by (auto simp: release_reservations_def)
  next
    case (usage_effect sid bytes objects measured_at env db')
    then obtain f where "buckets db' = update_rows (\<lambda>b. bk_service_instance_id b = sid) f (buckets (w_db w))"
      "\<And>b. bk_service_instance_id (f b) = bk_service_instance_id b" "\<And>b. bk_bucket_name (f b) = bk_bucket_name b"
      by (auto simp: usage_stored_def)
    with update_rowsI [OF b, of "\<lambda>b. bk_service_instance_id b = sid" f] usage_effect(1) show ?thesis
      by (auto split: if_splits)
  qed (use b in \<open>auto simp: lease_renewed_def\<close>)
qed

lemma run_buckets:
  assumes "reachable st w" and "store_run st w w'" and "b \<in> set (buckets (w_db w))"
  shows "\<exists>b' \<in> set (buckets (w_db w')). bk_service_instance_id b' = bk_service_instance_id b
     \<and> bk_bucket_name b' = bk_bucket_name b"
proof (rule run_induct [OF assms(2,1)])
  fix v v' assume r: "reachable st v" "step st v v'"
    and "\<exists>b' \<in> set (buckets (w_db v)). bk_service_instance_id b' = bk_service_instance_id b
     \<and> bk_bucket_name b' = bk_bucket_name b"
  then obtain b1 where b1: "b1 \<in> set (buckets (w_db v))"
    "bk_service_instance_id b1 = bk_service_instance_id b" "bk_bucket_name b1 = bk_bucket_name b" by blast
  from step_buckets [OF r b1(1)] b1(2,3)
  show "\<exists>b' \<in> set (buckets (w_db v')). bk_service_instance_id b' = bk_service_instance_id b
     \<and> bk_bucket_name b' = bk_bucket_name b" by simp
qed (use assms(3) in blast)

text \<open>
  C20: the bucket of a service keeps its name: along every run a bucket row stays with its service and
  its name, so a reconciliation cannot rename a bucket, whatever specifications it is called with.
\<close>
theorem bucket_name_immutable:
  assumes "reachable st w" and "store_run st w w'" and "b \<in> set (buckets (w_db w))"
  shows "\<exists>b' \<in> set (buckets (w_db w')). bk_service_instance_id b' = bk_service_instance_id b
     \<and> bk_bucket_name b' = bk_bucket_name b"
  using assms by (rule run_buckets)

theorem bucket_name_immutable_witness:
  "\<exists>b' \<in> set (buckets (w_db world_deleted)). bk_service_instance_id b' = 3
     \<and> bk_bucket_name b' = sp_bucket_name example_spec"
  using bucket_name_immutable [OF example_reachable(2) example_run(2), of example_bucket]
  by (simp add: world_ready_def example_ready_def example_bucket_def)

section \<open>Credentials\<close>

text \<open>
  C10: the credential limits of the store hold in every reachable state: for every bucket and for every
  organization, the active credentials and the reservations for credentials being created together
  never exceed the configured limits, however many requests and processes compete.
\<close>
theorem credential_limits_hold:
  assumes "reachable st w"
  shows "bucket_credentials (w_db w) sid \<le> unat (cl_max_credentials_per_bucket (ps_credential_limits st))
     \<and> organization_credentials (w_db w) org \<le> unat (cl_max_total_credentials (ps_credential_limits st))"
  using reachable_invariant [OF assms] by (simp add: invariant_def within_limits_def)

theorem credential_limits_hold_witness:
  "bucket_credentials (w_db world_key_started) 3 = 1
     \<and> bucket_credentials (w_db world_key_started) 3
         \<le> unat (cl_max_credentials_per_bucket (ps_credential_limits example_store))"
proof
  show "bucket_credentials (w_db world_key_started) 3 = 1" by code_simp
  show "bucket_credentials (w_db world_key_started) 3
         \<le> unat (cl_max_credentials_per_bucket (ps_credential_limits example_store))"
    using credential_limits_hold [OF example_reachable(3)] by blast
qed

text \<open>
  C22: no reservation leaks: in every reachable state each credential reservation belongs to a receipt
  of a credential creation of its service and scope that is still in progress, so completing, failing
  or taking over that operation releases or inherits it.
\<close>
theorem reservations_belong_to_running_creations:
  assumes "reachable st w" and "v \<in> set (credential_reservations (w_db w))"
  shows "\<exists>r \<in> set (receipts (w_db w)). re_state r = ''in_progress'' \<and> re_action r = CREDENTIAL_CREATE_ACTION
     \<and> re_operation_id r = cv_operation_id v \<and> re_service_instance_id r = cv_service_instance_id v
     \<and> re_organization_id r = cv_organization_id v \<and> re_project_id r = cv_project_id v"
  using reachable_invariant [OF assms(1)] assms(2)
  unfolding invariant_def reservations_backed_def by blast

theorem reservations_belong_to_running_creations_witness:
  "\<exists>r \<in> set (receipts (w_db world_key_started)). re_state r = ''in_progress'' \<and> re_operation_id r = 102"
  using reservations_belong_to_running_creations [OF example_reachable(3), of example_reservation]
  by (auto simp: world_key_started_def example_key_started_def example_reservation_def)

text \<open>
  C23: a deleted service leaves nothing usable behind: in every reachable state it has no active
  credential, no reservation for a credential being created and no reserved bucket name.
\<close>
theorem deleted_services_are_inert:
  assumes "reachable st w" and "s \<in> set (services (w_db w))" and "sv_phase s = ''deleted''"
  shows "bucket_credentials (w_db w) (sv_id s) = 0
     \<and> (\<forall>n \<in> set (name_reservations (w_db w)). nr_service_instance_id n \<noteq> sv_id s)"
proof -
  have i: "deleted_inert (w_db w)" using reachable_invariant [OF assms(1)] by (simp add: invariant_def)
  show ?thesis
    using deleted_inertD [OF i assms(2,3)] by (auto simp: bucket_credentials_def count_rows_0)
qed

theorem deleted_services_are_inert_witness: "bucket_credentials (w_db world_deleted) 3 = 0"
proof -
  have "example_service\<lparr>sv_desired_generation := 2, sv_observed_generation := 2, sv_phase := ''deleted'',
      sv_current_operation_id := 104, sv_updated_at := 25, sv_deleted_at := Some 25\<rparr>
    \<in> set (services (w_db world_deleted))" by (simp add: world_deleted_def example_deleted_def)
  from deleted_services_are_inert [OF example_reachable(6) this] show ?thesis
    by (simp add: example_service_def)
qed

section \<open>Tenants\<close>

lemma claimed_service:
  assumes "claim_effect operation env db claimed db1"
  shows "service_of db1 = service_of db"
  using claim_effect_tables(1) [OF assms] by (simp add: service_of_def fun_eq_iff)

text \<open>
  C16: tenants are isolated: for a service that belongs to another organization or project, none of the
  four operations is granted and none changes the database, whatever receipts exist and whatever else
  the commands contain.
\<close>
theorem other_tenants_are_refused:
  assumes "schema_ok db" and "s \<in> set (services db)" and "sv_id s = op_service_instance_id operation"
    and "\<not> in_scope operation s"
    and "rc_operation c = operation" and "dc_operation d = operation"
    and "cc_operation k = operation" and "vc_operation v = operation"
  shows "snd (prepare_reconcile st c env db) = db \<and> (\<forall>i x. fst (prepare_reconcile st c env db) \<noteq> Ok (Execute i x))
     \<and> snd (prepare_delete st d env db) = db \<and> (\<forall>i x. fst (prepare_delete st d env db) \<noteq> Ok (Execute i x))
     \<and> snd (prepare_create_credential st k env db) = db
     \<and> (\<forall>i x. fst (prepare_create_credential st k env db) \<noteq> Ok (Execute i x))
     \<and> snd (prepare_revoke_credential st v env db) = db
     \<and> (\<forall>i x. fst (prepare_revoke_credential st v env db) \<noteq> Ok (Execute i x))"
proof -
  have s: "service_of db (op_service_instance_id operation) = Some s"
    using service_of_in [OF assms(1,2)] assms(3) by simp
  have "\<not> prepare_reconcile_effect c env db i x db'" for i x db'
    using s assms(4) claimed_service by (auto simp: prepare_reconcile_effect_def assms(5) existing_ok_def; metis)
  then have "snd (prepare_reconcile st c env db) = db \<and> (\<forall>i x. fst (prepare_reconcile st c env db) \<noteq> Ok (Execute i x))"
    using prepare_reconcile_effect [OF surjective_pairing assms(1)] by blast
  moreover have "\<not> prepare_delete_effect d env db i x db'" for i x db'
    using s assms(4) claimed_service by (auto simp: prepare_delete_effect_def assms(6) delete_ready_def; metis option.inject)
  then have "snd (prepare_delete st d env db) = db \<and> (\<forall>i x. fst (prepare_delete st d env db) \<noteq> Ok (Execute i x))"
    using prepare_delete_effect [OF surjective_pairing assms(1)] by blast
  moreover have "\<not> prepare_create_credential_effect st k env db i x db'" for i x db'
    using s assms(4) claimed_service
    by (auto simp: prepare_create_credential_effect_def Let_def assms(7) service_ready_def; metis option.inject)
  then have "snd (prepare_create_credential st k env db) = db
     \<and> (\<forall>i x. fst (prepare_create_credential st k env db) \<noteq> Ok (Execute i x))"
    using prepare_create_credential_effect [OF surjective_pairing assms(1)] by blast
  moreover have "\<not> prepare_revoke_credential_effect v env db i x db'" for i x db'
    using s assms(4) claimed_service
    by (auto simp: prepare_revoke_credential_effect_def Let_def assms(8) service_ready_def; metis option.inject)
  then have "snd (prepare_revoke_credential st v env db) = db
     \<and> (\<forall>i x. fst (prepare_revoke_credential st v env db) \<noteq> Ok (Execute i x))"
    using prepare_revoke_credential_effect [OF surjective_pairing assms(1)] by blast
  ultimately show ?thesis by blast
qed

text \<open>Commands of another project for the example service.\<close>

definition example_intruder :: operation_request where
  "example_intruder = (example_operation 20 CREDENTIAL_CREATE_ACTION (Some 2))\<lparr>op_project_id := 9\<rparr>"

theorem other_tenants_are_refused_witness:
  "snd (prepare_create_credential example_store (example_create\<lparr>cc_operation := example_intruder\<rparr>)
     (example_env 9 99) example_ready) = example_ready"
proof -
  have "schema_ok example_ready" by code_simp
  moreover have "example_service \<in> set (services example_ready)" by (simp add: example_ready_def)
  moreover have "sv_id example_service = op_service_instance_id example_intruder"
    "\<not> in_scope example_intruder example_service" by code_simp+
  ultimately show ?thesis
    using other_tenants_are_refused [where operation = example_intruder
        and c = "example_reconcile\<lparr>rc_operation := example_intruder\<rparr>"
        and d = "example_delete\<lparr>dc_operation := example_intruder\<rparr>"
        and k = "example_create\<lparr>cc_operation := example_intruder\<rparr>"
        and v = "example_revoke\<lparr>vc_operation := example_intruder\<rparr>"] by simp
qed

end
