(* ===== verification/Store_Refinement.thy ===== *)
theory Store_Refinement
  imports Store_Safety
begin

text \<open>
  What the store promises, as a small machine: a registry of requests, services and keys. A request is
  begun once per idempotency key and alone on its service, may be taken over by another operation, and
  is answered once, together with its change of a service or key, or with a failure. Every step of the store is a step
  of this registry or leaves it as it is.
\<close>

section \<open>The registry\<close>

datatype request_state =
    Running uuid uuid  \<comment> \<open>service, operation\<close>
  | Answered uuid "store_error + stored_http_response"  \<comment> \<open>service, response\<close>

datatype service_state = Live i64 | Removed i64  \<comment> \<open>generation\<close>

datatype key_state = Usable uuid | Revoked uuid  \<comment> \<open>service\<close>

record registry =
  rg_requests :: "uuid \<rightharpoonup> request_state"
  rg_services :: "uuid \<rightharpoonup> service_state"
  rg_keys :: "uuid \<rightharpoonup> key_state"

definition empty_registry :: registry where
  "empty_registry = \<lparr>rg_requests = Map.empty, rg_services = Map.empty, rg_keys = Map.empty\<rparr>"

definition answered :: "registry \<Rightarrow> uuid \<Rightarrow> uuid \<Rightarrow> stored_http_response \<Rightarrow> registry" where
  "answered g key sid response = g\<lparr>rg_requests := (rg_requests g)(key \<mapsto> Answered sid (Ok response))\<rparr>"

fun revoke_of :: "uuid \<Rightarrow> key_state \<Rightarrow> key_state" where
  "revoke_of sid (Usable s) = (if s = sid then Revoked s else Usable s)"
| "revoke_of sid (Revoked s) = Revoked s"

inductive registry_step :: "registry \<Rightarrow> registry \<Rightarrow> bool" where
  begin_request: "rg_requests g key = None \<Longrightarrow> (\<And>k j. rg_requests g k \<noteq> Some (Running sid j)) \<Longrightarrow>
     registry_step g (g\<lparr>rg_requests := (rg_requests g)(key \<mapsto> Running sid i)\<rparr>)"
| take_over: "rg_requests g key = Some (Running sid j) \<Longrightarrow>
     registry_step g (g\<lparr>rg_requests := (rg_requests g)(key \<mapsto> Running sid i)\<rparr>)"
| provision: "rg_requests g key = Some (Running sid i) \<Longrightarrow>
     (case rg_services g sid of None \<Rightarrow> True | Some (Live m) \<Rightarrow> m \<le> n | Some (Removed _) \<Rightarrow> False) \<Longrightarrow>
     registry_step g ((answered g key sid response)\<lparr>rg_services := (rg_services g)(sid \<mapsto> Live n)\<rparr>)"
| remove: "rg_requests g key = Some (Running sid i) \<Longrightarrow> rg_services g sid = Some (Live n) \<Longrightarrow>
     registry_step g ((answered g key sid response)\<lparr>rg_services := (rg_services g)(sid \<mapsto> Removed (n + 1)),
       rg_keys := (\<lambda>c. map_option (revoke_of sid) (rg_keys g c))\<rparr>)"
| issue: "rg_requests g key = Some (Running sid i) \<Longrightarrow> rg_services g sid = Some (Live n) \<Longrightarrow>
     rg_keys g c = None \<Longrightarrow>
     registry_step g ((answered g key sid response)\<lparr>rg_keys := (rg_keys g)(c \<mapsto> Usable sid)\<rparr>)"
| revoke: "rg_requests g key = Some (Running sid i) \<Longrightarrow> rg_services g sid = Some (Live n) \<Longrightarrow>
     rg_keys g c \<in> {Some (Usable sid), Some (Revoked sid)} \<Longrightarrow>
     registry_step g ((answered g key sid response)\<lparr>rg_keys := (rg_keys g)(c \<mapsto> Revoked sid)\<rparr>)"
| give_up: "rg_requests g key = Some (Running sid i) \<Longrightarrow> sh_failed response \<Longrightarrow> registry_step g (answered g key sid response)"

section \<open>The registry of a database\<close>

definition request_state_of :: "pg_store \<Rightarrow> receipt_row \<Rightarrow> request_state" where
  "request_state_of st r = (if in_progress r then Running (re_service_instance_id r) (re_operation_id r)
     else Answered (re_service_instance_id r) (decode_receipt st r))"

definition service_state_of :: "service_row \<Rightarrow> service_state" where
  "service_state_of s = (if sv_phase s = ''deleted'' then Removed (sv_desired_generation s)
     else Live (sv_desired_generation s))"

definition key_state_of :: "credential_row \<Rightarrow> key_state" where
  "key_state_of c = (if cr_status c = ''active'' then Usable (cr_service_instance_id c)
     else Revoked (cr_service_instance_id c))"

definition key_of :: "database \<Rightarrow> uuid \<Rightarrow> credential_row option" where
  "key_of db c = find (\<lambda>r. cr_id r = c) (credentials db)"

definition registry_of :: "pg_store \<Rightarrow> database \<Rightarrow> registry" where
  "registry_of st db = \<lparr>
     rg_requests = (\<lambda>k. map_option (request_state_of st) (receipt_of db k)),
     rg_services = (\<lambda>sid. map_option service_state_of (service_of db sid)),
     rg_keys = (\<lambda>c. map_option key_state_of (key_of db c))\<rparr>"

lemma registry_of_sel [simp]:
  "rg_requests (registry_of st db) k = map_option (request_state_of st) (receipt_of db k)"
  "rg_services (registry_of st db) sid = map_option service_state_of (service_of db sid)"
  "rg_keys (registry_of st db) c = map_option key_state_of (key_of db c)"
  by (simp_all add: registry_of_def)

lemma registry_eqI:
  assumes "\<And>k. rg_requests g k = rg_requests g' k" "\<And>s. rg_services g s = rg_services g' s"
    "\<And>c. rg_keys g c = rg_keys g' c"
  shows "g = (g' :: registry)"
  using assms by (cases g, cases g') (simp add: fun_eq_iff)

section \<open>Requests\<close>

lemma closing_requests:
  assumes c: "closing_effect st operation i response audit env db mid db'"
    and schema: "schema_ok db" and codecs: "store_codecs_ok st"
  shows "rg_requests (registry_of st db) (op_idempotency_key operation)
      = Some (Running (op_service_instance_id operation) i)"
    and "rg_requests (registry_of st db') k = (if k = op_idempotency_key operation
      then Some (Answered (op_service_instance_id operation) (Ok response)) else rg_requests (registry_of st db) k)"
proof -
  obtain nonce ciphertext where s: "sealed st env operation i response nonce ciphertext"
    and rows: "receipts db' = finish_rows env operation i response nonce ciphertext (receipts db)"
    using closing_effectD(9) [OF c] by blast
  obtain row where row: "receipt_of db (op_idempotency_key operation) = Some row"
    "receipt_matches row operation" "re_operation_id row = i" "in_progress row"
    using closing_effectD(1) [OF c] by (auto simp: holder_def)
  then show "rg_requests (registry_of st db) (op_idempotency_key operation)
      = Some (Running (op_service_instance_id operation) i)"
    by (simp add: request_state_of_def receipt_matches_def)
  let ?f = "finished response nonce ciphertext (pg_now env)"
  have found: "receipt_of db' k = map_option (\<lambda>r. if holds_receipt (op_idempotency_key operation) i r
      then ?f r else r) (receipt_of db k)" for k
    unfolding receipt_of_def rows finish_rows_def by (rule find_update_rows) simp
  have new: "receipt_of db' (op_idempotency_key operation) = Some (?f row)"
    by (rule finish_rows_row [OF schema row(1,3,4) rows])
  then have "receipt_check (?f row)"
    using receipt_of_Some schema_okD(12) [OF closing_effectD(2) [OF c schema]] by blast
  then have "length nonce = NONCE_BYTES" by (simp add: receipt_check_def finished_def NONCE_BYTES_def)
  then have "decode_receipt st (?f row) = Ok response"
    using decode_finished [OF codecs s] row(3) receipt_of_Some [OF row(1)] by simp
  then have answer: "request_state_of st (?f row) = Answered (op_service_instance_id operation) (Ok response)"
    using row(2) by (simp add: request_state_of_def receipt_matches_def)
  show "rg_requests (registry_of st db') k = (if k = op_idempotency_key operation
      then Some (Answered (op_service_instance_id operation) (Ok response)) else rg_requests (registry_of st db) k)"
  proof (cases "k = op_idempotency_key operation")
    case False
    then have "receipt_of db' k = receipt_of db k"
      unfolding found by (cases "receipt_of db k") (auto simp: holds_receipt_def dest: receipt_of_Some)
    with False show ?thesis by simp
  qed (simp add: new answer)
qed

lemma started_requests:
  assumes e: "receipt_started operation env db db'" and schema: "schema_ok db" "schema_ok db'"
  shows "rg_requests (registry_of st db') k = (if k = op_idempotency_key operation
      then Some (Running (op_service_instance_id operation) (pg_new_operation_id env))
      else rg_requests (registry_of st db) k)"
    and "rg_requests (registry_of st db) (op_idempotency_key operation) = None
           \<and> (\<forall>k j. rg_requests (registry_of st db) k \<noteq> Some (Running (op_service_instance_id operation) j))
         \<or> (\<exists>j. rg_requests (registry_of st db) (op_idempotency_key operation)
                = Some (Running (op_service_instance_id operation) j))"
proof -
  have other: "receipt_of db' k = receipt_of db k" if "k \<noteq> op_idempotency_key operation" for k
  proof (cases "receipt_of db' k")
    case (Some r)
    then have "r \<in> set (receipts db)"
      using started_receipts [OF e schema(1)] that by (auto dest: receipt_of_Some)
    with Some show ?thesis using receipt_of_in [OF schema(1)] by (auto dest: receipt_of_Some)
  next
    case None
    have "receipt_of db k = None"
    proof (rule ccontr)
      assume "receipt_of db k \<noteq> None"
      then obtain r where "r \<in> set (receipts db)" "re_idempotency_key r = k" by (auto dest: receipt_of_Some)
      with started_keeps [OF e] that None show False by (auto simp: receipt_of_None)
    qed
    with None show ?thesis by simp
  qed
  from e obtain claimed db1 where claim: "claim_effect operation env db claimed db1"
    and alone: "alone db1 (op_service_instance_id operation) (op_idempotency_key operation)"
    unfolding receipt_started_def by blast
  obtain r where r: "receipt_of db' (op_idempotency_key operation) = Some r"
    "r \<in> set (receipts db')" "re_idempotency_key r = op_idempotency_key operation"
    using receipt_started_holder(1) [OF e] receipt_of_Some unfolding holder_def by metis
  with started_receipts [OF e schema(1) r(2)] have "request_state_of st r
      = Running (op_service_instance_id operation) (pg_new_operation_id env)"
    by (auto simp: request_state_of_def receipt_matches_def)
  with r other show "rg_requests (registry_of st db') k = (if k = op_idempotency_key operation
      then Some (Running (op_service_instance_id operation) (pg_new_operation_id env))
      else rg_requests (registry_of st db) k)"
    by simp
  show "rg_requests (registry_of st db) (op_idempotency_key operation) = None
           \<and> (\<forall>k j. rg_requests (registry_of st db) k \<noteq> Some (Running (op_service_instance_id operation) j))
         \<or> (\<exists>j. rg_requests (registry_of st db) (op_idempotency_key operation)
                = Some (Running (op_service_instance_id operation) j))"
  proof (cases claimed)
    case None
    with claim have "receipt_of db (op_idempotency_key operation) = None" "db1 = db"
      by (auto simp: claim_effect_def)
    with alone show ?thesis
      by (auto simp: alone_def request_state_of_def receipt_of_None dest!: receipt_of_Some split: if_splits)
  next
    case (Some i)
    with claim show ?thesis by (auto simp: claim_effect_def request_state_of_def receipt_matches_def)
  qed
qed

section \<open>Services and keys\<close>

lemma same_but_service:
  assumes "same_but sv_id x (services db) (services db')" "sid \<noteq> x" "schema_ok db" "schema_ok db'"
  shows "service_of db' sid = service_of db sid"
proof (cases "service_of db sid")
  case (Some s)
  then have "s \<in> set (services db')" "sv_id s = sid"
    using assms(1,2) by (auto simp: same_but_def dest: service_of_Some)
  with service_of_in [OF assms(4), of s] Some show ?thesis by simp
next
  case None
  have "service_of db' sid = None"
  proof (rule ccontr)
    assume "service_of db' sid \<noteq> None"
    then obtain s where "s \<in> set (services db)" "sv_id s = sid"
      using assms(1,2) by (auto simp: same_but_def dest: service_of_Some)
    with service_of_in [OF assms(3)] None show False by fastforce
  qed
  with None show ?thesis by simp
qed

lemma service_isE:
  assumes "service_is db operation P" and "schema_ok db"
  obtains s where "service_of db (op_service_instance_id operation) = Some s" "in_scope operation s" "P s"
  using assms service_of_in [OF assms(2)] unfolding service_is_def by metis

lemma ready_service:
  assumes "service_is db operation (\<lambda>s. sv_phase s = ''ready'')" and "schema_ok db"
  shows "\<exists>n. rg_services (registry_of st db) (op_service_instance_id operation) = Some (Live n)"
  using assms by (rule service_isE) (simp add: service_state_of_def)

lemma reconciled_services:
  assumes "reconciled st c i physical env db mid"
    and ready: "task_ready st db (ReconcileTask c i)" and schema: "schema_ok db"
  shows "map_option service_state_of (service_of mid sid) = (if sid = op_service_instance_id (rc_operation c)
      then Some (Live (rc_generation c)) else map_option service_state_of (service_of db sid))"
    and "credentials mid = credentials db"
    and "case map_option service_state_of (service_of db (op_service_instance_id (rc_operation c))) of
      None \<Rightarrow> True | Some (Live m) \<Rightarrow> m \<le> rc_generation c | Some (Removed _) \<Rightarrow> False"
proof -
  let ?sid = "op_service_instance_id (rc_operation c)"
  from assms(1) obtain spec n db1 qb qo m db2 where u: "upsert_service c spec i env n db = Ok (1, db1)"
    and b: "upsert_bucket c physical qb qo env m db1 = Ok ((), db2)" and mid: "services mid = services db2"
      "credentials mid = credentials db2"
    by (auto simp: reconciled_def)
  have rows: "services mid = services db1" using upsert_bucket_Ok(1) [OF b] mid by simp
  show "credentials mid = credentials db"
    using upsert_bucket_Ok(1) [OF b] upsert_service_Ok(1) [OF u] mid by simp
  show "case map_option service_state_of (service_of db ?sid) of
      None \<Rightarrow> True | Some (Live m) \<Rightarrow> m \<le> rc_generation c | Some (Removed _) \<Rightarrow> False"
    using ready by (auto simp: service_state_of_def split: option.split dest!: service_of_Some)
  obtain s where s: "s \<in> set (services db1)" "sv_id s = ?sid" "sv_phase s = ''ready''"
    "sv_desired_generation s = rc_generation c" "same_but sv_id ?sid (services db) (services db1)"
    using u schema by (rule upsert_service_rows) blast
  have "service_of db1 ?sid = Some s" using service_of_in [OF _ s(1)] s(2) upsert_service_Ok(2) [OF u schema] by simp
  moreover have "service_of db1 sid = service_of db sid" if "sid \<noteq> ?sid"
    using same_but_service [OF s(5) that schema] upsert_service_Ok(2) [OF u schema] by blast
  moreover have "service_of mid sid = service_of db1 sid" by (simp add: service_of_def rows)
  ultimately show "map_option service_state_of (service_of mid sid) = (if sid = ?sid
      then Some (Live (rc_generation c)) else map_option service_state_of (service_of db sid))"
    using s(3,4) by (simp add: service_state_of_def)
qed

lemma deleted_services:
  assumes "task_ready st db (DeleteTask d i)" and "schema_ok db"
  shows "\<exists>n. rg_services (registry_of st db) (op_service_instance_id (dc_operation d)) = Some (Live n)
     \<and> (\<forall>sid. map_option service_state_of (service_of (service_deleted d i env db) sid)
         = (if sid = op_service_instance_id (dc_operation d) then Some (Removed (n + 1))
            else map_option service_state_of (service_of db sid)))"
proof -
  let ?op = "dc_operation d"
  obtain s where s: "service_of db (op_service_instance_id ?op) = Some s" "sv_phase s \<noteq> ''deleted''"
    "dc_generation d = sv_desired_generation s + 1" "in_scope ?op s"
    using service_isE [OF assms(1) [unfolded task_ready.simps] assms(2)] by blast
  have "map_option service_state_of (service_of (service_deleted d i env db) sid)
      = (if sid = op_service_instance_id ?op then Some (Removed (sv_desired_generation s + 1))
         else map_option service_state_of (service_of db sid))" for sid
  proof (cases "service_of db sid")
    case None
    with s show ?thesis
      unfolding service_of_def service_deleted_def Let_def by (auto simp: find_update_rows)
  next
    case (Some r)
    then have "sv_id r = sid" using service_of_Some by blast
    with Some s show ?thesis
      unfolding service_of_def service_deleted_def Let_def
      by (auto simp: find_update_rows service_state_of_def in_scope_def)
  qed
  with s show ?thesis by (simp add: service_state_of_def)
qed

lemma revoke_keys:
  "key_of (service_deleted d i env db) c = map_option (\<lambda>r. if cr_service_instance_id r
       = op_service_instance_id (dc_operation d) \<and> cr_status r = ''active''
     then revoke_row (pg_now env) (op_principal_id (dc_operation d)) r else r) (key_of db c)"
  "key_of (credential_revoked v env db) c = map_option (\<lambda>r. if cr_id r = vc_credential_id v
       \<and> cr_service_instance_id r = op_service_instance_id (vc_operation v)
     then revoke_row (pg_now env) (op_principal_id (vc_operation v)) r else r) (key_of db c)"
  unfolding key_of_def service_deleted_def credential_revoked_def Let_def
  by (simp_all add: find_update_rows)

lemma deleted_keys:
  "map_option key_state_of (key_of (service_deleted d i env db) c)
     = map_option (revoke_of (op_service_instance_id (dc_operation d))) (map_option key_state_of (key_of db c))"
  unfolding revoke_keys by (cases "key_of db c") (auto simp: key_state_of_def)

lemma revoked_keys:
  assumes "task_ready st db (RevokeTask v i)" and "schema_ok db"
  shows "rg_keys (registry_of st db) (vc_credential_id v)
       \<in> {Some (Usable (op_service_instance_id (vc_operation v))), Some (Revoked (op_service_instance_id (vc_operation v)))}"
    and "map_option key_state_of (key_of (credential_revoked v env db) c) = (if c = vc_credential_id v
       then Some (Revoked (op_service_instance_id (vc_operation v))) else map_option key_state_of (key_of db c))"
proof -
  obtain r where r: "r \<in> set (credentials db)" "cr_id r = vc_credential_id v"
    "cr_service_instance_id r = op_service_instance_id (vc_operation v)"
    using assms(1) by auto
  have found: "key_of db (vc_credential_id v) = Some r"
    unfolding key_of_def r(2) [symmetric] by (rule unique_on_find [OF schema_okD(6) [OF assms(2)] r(1)])
  with r(3) show "rg_keys (registry_of st db) (vc_credential_id v)
       \<in> {Some (Usable (op_service_instance_id (vc_operation v))), Some (Revoked (op_service_instance_id (vc_operation v)))}"
    by (simp add: key_state_of_def)
  show "map_option key_state_of (key_of (credential_revoked v env db) c) = (if c = vc_credential_id v
       then Some (Revoked (op_service_instance_id (vc_operation v))) else map_option key_state_of (key_of db c))"
  proof (cases "c = vc_credential_id v")
    case True
    with found r show ?thesis unfolding revoke_keys by (simp add: key_state_of_def)
  next
    case False
    then show ?thesis
      unfolding revoke_keys by (cases "key_of db c") (auto simp: key_of_def dest!: find_Some_in)
  qed
qed

lemma created_keys:
  assumes "unique_on cr_id (credentials (credential_created k i credential permissions env db))"
  shows "key_of db (nc_id credential) = None"
    and "map_option key_state_of (key_of (credential_created k i credential permissions env db) c)
      = (if c = nc_id credential then Some (Usable (op_service_instance_id (cc_operation k)))
         else map_option key_state_of (key_of db c))"
proof -
  let ?row = "credential_row_of (cc_operation k) credential permissions (pg_now env)"
  have "unique_on cr_id (credentials db @ [?row])"
    using assms by (simp add: credential_created_def)
  moreover have row: "cr_id ?row = nc_id credential" "key_state_of ?row = Usable (op_service_instance_id (cc_operation k))"
    by (simp_all add: credential_row_of_def key_state_of_def)
  ultimately show new: "key_of db (nc_id credential) = None"
    unfolding key_of_def by (auto simp: unique_on_def find_None_iff image_iff)
  show "map_option key_state_of (key_of (credential_created k i credential permissions env db) c)
      = (if c = nc_id credential then Some (Usable (op_service_instance_id (cc_operation k)))
         else map_option key_state_of (key_of db c))"
    using new row by (cases "key_of db c") (auto simp: key_of_def credential_created_def find_append)
qed

section \<open>Steps\<close>

lemma unchanged_registry:
  assumes "\<And>k. rg_requests (registry_of st db') k = rg_requests (registry_of st db) k"
    and "services db' = services db" "credentials db' = credentials db"
  shows "registry_of st db' = registry_of st db"
  using assms by (intro registry_eqI) (simp_all add: service_of_def key_of_def)

lemma start_registry:
  assumes e: "start_effect st t env db db'" and schema: "schema_ok db" "schema_ok db'"
  shows "registry_step (registry_of st db) (registry_of st db')"
proof -
  let ?op = "task_operation t" and ?g = "registry_of st db"
  let ?g' = "?g\<lparr>rg_requests := (rg_requests ?g)(op_idempotency_key ?op
      \<mapsto> Running (op_service_instance_id ?op) (pg_new_operation_id env))\<rparr>"
  note started = started_requests [OF start_receipt_started [OF e] schema, of st]
  have "registry_of st db' = ?g'"
    using start_services [OF e] started(1) by (intro registry_eqI) (simp_all add: service_of_def key_of_def)
  moreover have "registry_step ?g ?g'" using started(2) by (metis begin_request take_over)
  ultimately show ?thesis by simp
qed

lemma close_registry:
  assumes m: "close_mid st t env db mid" and ready: "task_ready st db t"
    and c: "closing_effect st (task_operation t) (task_id t) response audit env db mid db'"
    and schema: "schema_ok db" and codecs: "store_codecs_ok st"
  shows "registry_step (registry_of st db) (registry_of st db')"
proof -
  let ?g = "registry_of st db" and ?key = "op_idempotency_key (task_operation t)"
    and ?sid = "op_service_instance_id (task_operation t)"
  note held = closing_requests(1) [OF c schema codecs]
  note requests = closing_requests(2) [OF c schema codecs]
  note tables = closing_effectD(3,6) [OF c]
  show ?thesis
  proof (cases t)
    case (ReconcileTask k i)
    then obtain physical where r: "reconciled st k i physical env db mid" using m by auto
    note mid = reconciled_services [OF r _ schema, OF ready [unfolded ReconcileTask]]
    have "registry_of st db' = (answered ?g ?key ?sid response)\<lparr>rg_services := (rg_services ?g)(?sid \<mapsto> Live (rc_generation k))\<rparr>"
      by (rule registry_eqI)
         (use requests mid(1,2) tables ReconcileTask in \<open>simp_all add: answered_def service_of_def key_of_def\<close>)
    with provision [OF held, of "rc_generation k" response] mid(3) ReconcileTask show ?thesis by simp
  next
    case (DeleteTask d i)
    with m have mid: "mid = service_deleted d i env db" by simp
    obtain n where n: "rg_services ?g ?sid = Some (Live n)"
      "map_option service_state_of (service_of mid s) = (if s = ?sid then Some (Removed (n + 1))
            else map_option service_state_of (service_of db s))" for s
      using deleted_services [OF ready [unfolded DeleteTask] schema, of env] unfolding mid DeleteTask task_operation.simps
      by auto
    have "registry_of st db' = (answered ?g ?key ?sid response)\<lparr>rg_services := (rg_services ?g)(?sid \<mapsto> Removed (n + 1)),
       rg_keys := (\<lambda>c. map_option (revoke_of ?sid) (rg_keys ?g c))\<rparr>"
      by (rule registry_eqI)
         (use requests n(2) deleted_keys [of d i env db] tables DeleteTask mid in
           \<open>simp_all add: answered_def service_of_def key_of_def\<close>)
    with remove [OF held n(1), of response] show ?thesis by simp
  next
    case (CreateTask k i cid)
    then obtain credential permissions where new: "nc_id credential = cid"
      "mid = credential_created k i credential permissions env db" using m by auto
    have u: "unique_on cr_id (credentials (credential_created k i credential permissions env db))"
      using schema_okD(6) [OF closing_effectD(2) [OF c schema]] tables(2) new(2) by simp
    obtain n where n: "rg_services ?g ?sid = Some (Live n)"
      using ready CreateTask ready_service [OF _ schema] by fastforce
    have "registry_of st db' = (answered ?g ?key ?sid response)\<lparr>rg_keys := (rg_keys ?g)(cid \<mapsto> Usable ?sid)\<rparr>"
      by (rule registry_eqI)
         (use requests created_keys(2) [OF u] tables CreateTask new in
           \<open>simp_all add: answered_def service_of_def key_of_def credential_created_def\<close>)
    with issue [OF held n, of cid response] created_keys(1) [OF u] new show ?thesis by simp
  next
    case (RevokeTask v i)
    with m have mid: "mid = credential_revoked v env db" by simp
    note keys = revoked_keys [OF ready [unfolded RevokeTask] schema]
    obtain n where n: "rg_services ?g ?sid = Some (Live n)"
      using ready RevokeTask ready_service [OF _ schema] by fastforce
    have "registry_of st db' = (answered ?g ?key ?sid response)\<lparr>rg_keys := (rg_keys ?g)(vc_credential_id v \<mapsto> Revoked ?sid)\<rparr>"
      by (rule registry_eqI)
         (use requests keys(2) tables RevokeTask mid in
           \<open>simp_all add: answered_def service_of_def key_of_def credential_revoked_def\<close>)
    with revoke [OF held n, of "vc_credential_id v" response] keys(1) RevokeTask show ?thesis by simp
  qed
qed

lemma finish_registry:
  assumes c: "closing_effect st (task_operation t) (task_id t) response audit env db
      (release_reservations (task_operation t) (task_id t) db) db'"
    and failed: "sh_failed response" and schema: "schema_ok db" and codecs: "store_codecs_ok st"
  shows "registry_step (registry_of st db) (registry_of st db')"
proof -
  let ?op = "task_operation t"
  have "registry_of st db' = answered (registry_of st db) (op_idempotency_key ?op) (op_service_instance_id ?op) response"
    by (rule registry_eqI)
       (use closing_requests(2) [OF c schema codecs] closing_effectD(3,6) [OF c] in
         \<open>simp_all add: answered_def service_of_def key_of_def release_reservations_def\<close>)
  with give_up [OF closing_requests(1) [OF c schema codecs] failed] show ?thesis by simp
qed

lemma renewed_registry:
  assumes "lease_renewed operation i env db db'"
  shows "registry_of st db' = registry_of st db"
proof (rule unchanged_registry)
  from assms obtain n where rows: "receipts db' = update_rows (holds_receipt (op_idempotency_key operation) i)
        (\<lambda>r. r\<lparr>re_lease_expires_at := Some (lease_until (pg_clock env n)), re_updated_at := pg_now env\<rparr>)
        (receipts db)"
    by (auto simp: lease_renewed_def)
  show "rg_requests (registry_of st db') k = rg_requests (registry_of st db) k" for k
    unfolding registry_of_sel receipt_of_def rows
    by (cases "find (\<lambda>r. re_idempotency_key r = k) (receipts db)")
       (auto simp: find_update_rows request_state_of_def holds_receipt_def)
qed (use assms in \<open>auto simp: lease_renewed_def\<close>)

lemma step_registry:
  assumes "reachable st w" and "store_codecs_ok st" and "step st w w'"
  shows "registry_step\<^sup>=\<^sup>= (registry_of st (w_db w)) (registry_of st (w_db w'))"
proof -
  have inv: "invariant st w" using assms(1) by (rule reachable_invariant)
  then have schema: "schema_ok (w_db w)" by (simp add: invariant_def)
  have "schema_ok (w_db w')" by (rule reachableD [OF after_step [OF assms(1,3)]])
  from step_effect [OF assms(3) schema] this show ?thesis
  proof cases
    case (start_task t env db' ts)
    with start_registry [OF start_task(2) schema] \<open>schema_ok (w_db w')\<close> show ?thesis
      by (simp add: started_world_def)
  next
    case (close_task t env mid response audit db')
    with close_registry [OF close_task(3) live_task(1) [OF inv close_task(2,4)] close_task(4) schema assms(2)]
    show ?thesis by simp
  next
    case (fail_effect t response audit env db')
    with finish_registry [OF fail_effect(3,4) schema assms(2)] show ?thesis by simp
  next
    case (renew_effect t env db')
    with renewed_registry show ?thesis by simp
  next
    case (usage_effect sid bytes objects measured_at env db')
    have "registry_of st db' = registry_of st (w_db w)"
      by (rule unchanged_registry) (use usage_effect(2) in \<open>auto simp: usage_stored_def receipt_of_def\<close>)
    with usage_effect(1) show ?thesis by simp
  next
    case (audit_effect db' env audit)
    have "registry_of st db' = registry_of st (w_db w)"
      by (rule unchanged_registry) (simp_all add: audit_effect(2) receipt_of_def)
    with audit_effect(1) show ?thesis by simp
  qed simp
qed

section \<open>Refinement\<close>

text \<open>
  A concrete system that keeps an invariant and whose steps are steps of an abstract one, or leave its
  state alone: every run is an abstract run, and what abstract steps never undo is never undone.
\<close>

locale simulation =
  fixes cstep :: "'c \<Rightarrow> 'c \<Rightarrow> bool" and astep :: "'a \<Rightarrow> 'a \<Rightarrow> bool" and abs :: "'c \<Rightarrow> 'a"
    and inv :: "'c \<Rightarrow> bool"
  assumes kept: "inv c \<Longrightarrow> cstep c c' \<Longrightarrow> inv c'"
    and simulated: "inv c \<Longrightarrow> cstep c c' \<Longrightarrow> astep\<^sup>=\<^sup>= (abs c) (abs c')"
begin

lemma runs:
  assumes "cstep\<^sup>*\<^sup>* c c'" and "inv c"
  shows "inv c' \<and> astep\<^sup>*\<^sup>* (abs c) (abs c')"
  using assms
proof (induction rule: rtranclp_induct)
  case (step y z)
  then have "inv y" "astep\<^sup>*\<^sup>* (abs c) (abs y)" by auto
  with kept [OF _ step(2)] simulated [OF _ step(2)] show ?case by (auto intro: rtranclp.rtrancl_into_rtrancl)
qed simp

lemma persists:
  assumes "cstep\<^sup>*\<^sup>* c c'" and "inv c" and "P (abs c)" and "\<And>a a'. astep a a' \<Longrightarrow> P a \<Longrightarrow> P a'"
  shows "P (abs c')"
proof -
  have "astep\<^sup>*\<^sup>* (abs c) (abs c')" using runs [OF assms(1,2)] ..
  then show ?thesis by (induction rule: rtranclp_induct) (use assms(3,4) in auto)
qed

end

interpretation store_registry: simulation "step st" registry_step "\<lambda>w. registry_of st (w_db w)"
    "\<lambda>w. reachable st w \<and> store_codecs_ok st" for st
  by unfold_locales (auto intro: after_step dest: step_registry)



lemma revoked_persists:
  assumes "registry_step g g'" and "rg_keys g c = Some (Revoked sid)"
  shows "rg_keys g' c = Some (Revoked sid)"
  using assms by (cases rule: registry_step.cases) (auto simp: answered_def)

text \<open>
  C37: revocation is final: along every run a credential that is not active stays in the table with its
  service and never becomes active again, whatever requests, deletions and takeovers follow.
\<close>
theorem revoked_keys_stay_revoked:
  assumes "reachable st w" and "store_codecs_ok st" and "store_run st w w'"
    and "r \<in> set (credentials (w_db w))" and "cr_status r \<noteq> ''active''"
  shows "\<exists>r' \<in> set (credentials (w_db w')). cr_id r' = cr_id r
     \<and> cr_service_instance_id r' = cr_service_instance_id r \<and> cr_status r' \<noteq> ''active''"
proof -
  let ?P = "\<lambda>g. rg_keys g (cr_id r) = Some (Revoked (cr_service_instance_id r))"
  have "key_of (w_db w) (cr_id r) = Some r"
    unfolding key_of_def by (rule unique_on_find [OF schema_okD(6) [OF reachableD [OF assms(1)]] assms(4)])
  with assms(5) have "?P (registry_of st (w_db w))" by (simp add: key_state_of_def)
  then have "?P (registry_of st (w_db w'))"
    using store_registry.persists [OF assms(3), of ?P] assms(1,2) revoked_persists by blast
  then obtain r' where "key_of (w_db w') (cr_id r) = Some r'"
    "key_state_of r' = Revoked (cr_service_instance_id r)" by auto
  then show ?thesis
    unfolding key_of_def by (auto simp: key_state_of_def split: if_splits dest!: find_Some_in)
qed

text \<open>After the deletion of the example service another process records an event.\<close>

definition world_observed :: world where
  "world_observed = world_deleted\<lparr>w_db := snd (record_audit example_audit (example_env 6 30) (w_db world_deleted))\<rparr>"

theorem revoked_keys_stay_revoked_witness:
  "\<exists>r' \<in> set (credentials (w_db world_observed)). cr_id r' = 202 \<and> cr_status r' \<noteq> ''active''"
proof -
  have "step example_store world_deleted world_observed"
    unfolding world_observed_def by (rule audit_event [OF surjective_pairing])
  then have run: "store_run example_store world_deleted world_observed" by (rule r_into_rtranclp)
  have "revoke_row 25 4 example_credential \<in> set (credentials (w_db world_deleted))"
    by (simp add: world_deleted_def example_deleted_def)
  moreover have "cr_status (revoke_row 25 4 example_credential) \<noteq> ''active''"
    "cr_id (revoke_row 25 4 example_credential) = 202" by code_simp+
  ultimately show ?thesis
    using revoked_keys_stay_revoked [OF example_reachable(6) example_codecs_ok run] by metis
qed

end
