(* ===== verification/Store_Reads.thy ===== *)
theory Store_Reads
  imports Store_Refinement
begin

text \<open>
  What the store reads back. In every reachable state the finished receipts decrypt and decode, the
  specification and the permissions of every row decode, and every service has a bucket row that
  converts. So no operation that starts a request or reads answers that the data is corrupt.
\<close>

section \<open>Errors of corrupt data\<close>

text \<open>The errors for data that cannot be read, but for the texts in a set.\<close>

fun corruption :: "string set \<Rightarrow> store_error \<Rightarrow> bool" where
  "corruption T (CorruptData x) \<longleftrightarrow> x \<notin> T"
| "corruption T (Encryption x) \<longleftrightarrow> True"
| "corruption T _ \<longleftrightarrow> False"

definition corrupt :: "string set \<Rightarrow> store_error + 'a \<Rightarrow> bool" where
  "corrupt T r \<longleftrightarrow> (case r of Err e \<Rightarrow> corruption T e | Ok _ \<Rightarrow> False)"

lemma corrupt_simps [simp]: "corrupt T (Err e) \<longleftrightarrow> corruption T e" "\<not> corrupt T (Ok a)"
  by (simp_all add: corrupt_def)

lemma corrupt_bind: "corrupt T (try_bind r f) \<longleftrightarrow> corrupt T r \<or> (\<exists>a. r = Ok a \<and> corrupt T (f a))"
  by (cases r) auto

lemma corrupt_ok_or [simp]: "corrupt T (ok_or x e) \<longleftrightarrow> x = None \<and> corruption T e"
  by (cases x) (auto simp: ok_or_def)

lemma corrupt_collect: "(\<And>r. r \<in> set rs \<Longrightarrow> \<not> corrupt T r) \<Longrightarrow> \<not> corrupt T (collect_results rs)"
  by (induction rs) (auto simp: corrupt_bind)

text \<open>A body that does not end in such an error, and ends in a state with the given property.\<close>

definition reads :: "string set \<Rightarrow> 'a tx \<Rightarrow> ('a \<Rightarrow> tx_state \<Rightarrow> bool) \<Rightarrow> pg_env \<Rightarrow> tx_state \<Rightarrow> bool" where
  "reads T m Q env s = (case m env s of (Err e, _) \<Rightarrow> \<not> corruption T e | (Ok a, s') \<Rightarrow> Q a s')"

lemma reads_return: "Q a s \<Longrightarrow> reads T (tx_return a) Q env s"
  by (simp add: reads_def tx_return_def)

lemma reads_throw: "\<not> corruption T e \<Longrightarrow> reads T (tx_throw e) Q env s"
  by (simp add: reads_def tx_throw_def)

lemma reads_bind: "reads T m (\<lambda>a. reads T (f a) Q env) env s \<Longrightarrow> reads T (tx_bind m f) Q env s"
  by (simp add: reads_def tx_bind_def split: prod.splits sum.splits)

lemma reads_lift: "\<not> corrupt T r \<Longrightarrow> (\<And>a. r = Ok a \<Longrightarrow> Q a s) \<Longrightarrow> reads T (tx_lift r) Q env s"
  by (cases r) (simp_all add: reads_def tx_lift_def)

lemma reads_with_env: "reads T (f env) Q env s \<Longrightarrow> reads T (tx_with_env f) Q env s"
  by (simp add: reads_def tx_with_env_def)

lemma reads_if:
  "(b \<Longrightarrow> reads T m Q env s) \<Longrightarrow> (\<not> b \<Longrightarrow> reads T m' Q env s) \<Longrightarrow> reads T (if b then m else m') Q env s"
  by simp

lemma reads_option:
  "(x = None \<Longrightarrow> reads T m Q env s) \<Longrightarrow> (\<And>a. x = Some a \<Longrightarrow> reads T (f a) Q env s) \<Longrightarrow>
     reads T (case x of None \<Rightarrow> m | Some a \<Rightarrow> f a) Q env s"
  by (cases x) simp_all

lemma reads_prod:
  "(\<And>a b. p = (a, b) \<Longrightarrow> reads T (f a b) Q env s) \<Longrightarrow> reads T (case p of (a, b) \<Rightarrow> f a b) Q env s"
  by (cases p) simp

lemma reads_query:
  assumes "\<And>s'. tx_db s' = tx_db s \<Longrightarrow> Q (q (tx_db s)) s'"
  shows "reads T (tx_query q) Q env s" and "reads T (tx_query_for_update q locks) Q env s"
  using assms by (simp_all add: reads_def tx_eval split: sum.split)

lemma reads_lock:
  assumes "\<And>s'. tx_db s' = tx_db s \<Longrightarrow> Q () s'"
  shows "reads T (advisory_lock l) Q env s" and "reads T (lock_service sid) Q env s"
  using assms by (simp_all add: reads_def tx_eval)

lemma reads_execute:
  assumes "\<And>a s' n. q env n (tx_db s) = Ok (a, tx_db s') \<Longrightarrow> Q a s'"
  shows "reads T (tx_execute q) Q env s" and "reads T (tx_execute_mapped q) Q env s"
  using assms
  by (auto simp: reads_def tx_eval map_database_error_def split: sum.split sqlx_error.split)

lemma reads_wlp: "reads T m (\<lambda>_ _. True) env s \<Longrightarrow> wlp m Q env s \<Longrightarrow> reads T m Q env s"
  by (simp add: reads_def wlp_def split: prod.splits sum.splits)

lemma reads_mono: "reads T m Q env s \<Longrightarrow> (\<And>a s'. Q a s' \<Longrightarrow> R a s') \<Longrightarrow> reads T m R env s"
  by (auto simp: reads_def split: prod.splits sum.splits)

lemmas reads_steps = reads_bind reads_return reads_throw reads_with_env reads_if reads_option reads_prod
  reads_lock reads_execute

lemma reads_transaction_Ok:
  "reads T body Q env (tx_initial db) \<Longrightarrow> fst (in_transaction body env db) = Ok a \<Longrightarrow> \<exists>s. Q a s"
  by (auto simp: reads_def in_transaction_def split: prod.splits sum.splits if_splits)

lemma reads_transaction:
  "reads T body (\<lambda>_ _. True) env (tx_initial db) \<Longrightarrow> \<not> corrupt T (fst (in_transaction body env db))"
  by (auto simp: reads_def in_transaction_def split: prod.splits sum.splits)

section \<open>What is stored can be read\<close>

text \<open>What the store relies on of the derived JSON conversions of specifications and permissions.\<close>

definition value_codecs_ok :: "pg_store \<Rightarrow> bool" where
  "value_codecs_ok st \<longleftrightarrow>
     (\<forall>spec v. ps_spec_to_value st spec = Some v \<longrightarrow> ps_spec_from_value st v = Some spec)
     \<and> (\<forall>p. \<exists>v. ps_permissions_to_value st p = Some v \<and> ps_permissions_from_value st v = Some p)"

definition receipts_decode :: "pg_store \<Rightarrow> database \<Rightarrow> bool" where
  "receipts_decode st db \<longleftrightarrow> (\<forall>r \<in> set (receipts db). \<not> in_progress r \<longrightarrow> (\<exists>x. decode_receipt st r = Ok x))"

definition specs_decode :: "pg_store \<Rightarrow> database \<Rightarrow> bool" where
  "specs_decode st db \<longleftrightarrow> (\<forall>s \<in> set (services db). \<exists>x. ps_spec_from_value st (sv_desired_spec s) = Some x)"

definition permissions_decode :: "pg_store \<Rightarrow> database \<Rightarrow> bool" where
  "permissions_decode st db \<longleftrightarrow>
     (\<forall>c \<in> set (credentials db). \<exists>x. ps_permissions_from_value st (cr_permissions c) = Some x)"

definition decodable :: "pg_store \<Rightarrow> database \<Rightarrow> bool" where
  "decodable st db \<longleftrightarrow> receipts_decode st db \<and> specs_decode st db \<and> permissions_decode st db"

lemma closing_decodes:
  assumes c: "closing_effect st operation i response audit env db mid db'"
    and schema: "schema_ok db" and codecs: "store_codecs_ok st" and "receipts_decode st db"
  shows "receipts_decode st db'"
  unfolding receipts_decode_def
proof (intro ballI impI)
  fix r assume r: "r \<in> set (receipts db')" "\<not> in_progress r"
  have schema': "schema_ok db'" by (rule closing_effectD(2) [OF c schema])
  let ?k = "re_idempotency_key r"
  have of: "receipt_of db' ?k = Some r" by (rule receipt_of_in [OF schema' r(1)])
  show "\<exists>x. decode_receipt st r = Ok x"
  proof (cases "?k = op_idempotency_key operation")
    case True
    with closing_requests(2) [OF c schema codecs, of ?k] of r(2) show ?thesis
      by (auto simp: request_state_of_def)
  next
    case False
    with closing_requests(2) [OF c schema codecs, of ?k] of r(2)
    obtain q where q: "receipt_of db ?k = Some q" "request_state_of st q = request_state_of st r"
      by (cases "receipt_of db ?k") auto
    with r(2) have same: "\<not> in_progress q" "decode_receipt st q = decode_receipt st r"
      by (auto simp: request_state_of_def split: if_splits)
    have "q \<in> set (receipts db)" using receipt_of_Some [OF q(1)] by simp
    then have "\<exists>x. decode_receipt st q = Ok x"
      by (rule assms(4) [unfolded receipts_decode_def, rule_format]) (rule same(1))
    with same(2) show ?thesis by simp
  qed
qed

lemma close_mid_decodes:
  assumes m: "close_mid st t env db mid" and v: "value_codecs_ok st"
    and d: "specs_decode st db" "permissions_decode st db"
  shows "specs_decode st mid \<and> permissions_decode st mid"
proof (cases t)
  case (ReconcileTask c i)
  with m obtain physical spec qb qo n k db1 db2 where
    inputs: "complete_reconcile_inputs st c physical = Ok (spec, qb, qo)"
    and u: "upsert_service c spec i env n db = Ok (1, db1)"
    and b: "upsert_bucket c physical qb qo env k db1 = Ok ((), db2)"
    and mid: "services mid = services db2" "credentials mid = credentials db2"
    by (auto simp: reconciled_def)
  from inputs have "ps_spec_to_value st (rc_spec c) = Some spec"
    by (auto simp: complete_reconcile_inputs_def try_bind_Ok split: if_splits)
  with v have spec: "ps_spec_from_value st spec = Some (rc_spec c)" by (simp add: value_codecs_ok_def)
  have "services mid = services db1" "credentials mid = credentials db"
    using upsert_bucket_Ok(1) [OF b] upsert_service_Ok(1) [OF u] mid by simp_all
  moreover have "\<exists>x. ps_spec_from_value st (sv_desired_spec s) = Some x" if "s \<in> set (services db1)" for s
    using u that d(1) spec
    by (auto simp: upsert_service_def put_services_def Let_def specs_decode_def in_update_rows split: if_splits)
  ultimately show ?thesis using d(2) by (simp add: specs_decode_def permissions_decode_def)
next
  case (DeleteTask c i)
  with m d show ?thesis
    by (auto simp: service_deleted_def Let_def specs_decode_def permissions_decode_def in_update_rows revoke_row_def
        split: if_splits)
next
  case (CreateTask c i k)
  with m obtain credential permissions where inputs: "credential_inputs st c credential = Ok permissions"
    and mid: "mid = credential_created c i credential permissions env db" by auto
  from inputs have "ps_permissions_to_value st (nc_permissions credential) = Some permissions"
    by (auto simp: credential_inputs_def split: if_splits)
  with v have "ps_permissions_from_value st permissions = Some (nc_permissions credential)"
    unfolding value_codecs_ok_def by (metis option.inject)
  with d show ?thesis
    by (auto simp: mid credential_created_def specs_decode_def permissions_decode_def credential_row_of_def)
next
  case (RevokeTask c i)
  with m d show ?thesis
    by (auto simp: credential_revoked_def specs_decode_def permissions_decode_def in_update_rows revoke_row_def
        split: if_splits)
qed

lemma decodable_tables:
  assumes "decodable st db" "services db' = services db" "credentials db' = credentials db" "receipts_decode st db'"
  shows "decodable st db'"
  using assms by (simp add: decodable_def specs_decode_def permissions_decode_def)

lemma step_decodable:
  assumes "reachable st w" "step st w w'" and codecs: "store_codecs_ok st" "value_codecs_ok st"
    and d: "decodable st (w_db w)"
  shows "decodable st (w_db w')"
proof -
  have schema: "schema_ok (w_db w)" using assms(1) by (rule reachableD)
  have receipts: "receipts_decode st (w_db w)" using d by (simp add: decodable_def)
  from step_effect [OF assms(2) schema] show ?thesis
  proof cases
    case (start_task t env db' ts)
    have "receipts_decode st db'"
      using receipts started_receipts [OF start_receipt_started [OF start_task(2)] schema]
      unfolding receipts_decode_def by blast
    then have "decodable st db'" by (rule decodable_tables [OF d start_services(1,4) [OF start_task(2)]])
    then show ?thesis by (simp add: start_task(1) started_world_def)
  next
    case (close_task t env mid response audit db')
    have "receipts_decode st db'" by (rule closing_decodes [OF close_task(4) schema codecs(1) receipts])
    moreover have "specs_decode st mid \<and> permissions_decode st mid"
      using close_mid_decodes [OF close_task(3) codecs(2)] d by (simp add: decodable_def)
    ultimately show ?thesis
      using closing_effectD(3,6) [OF close_task(4)] close_task(1)
      by (simp add: decodable_def specs_decode_def permissions_decode_def)
  next
    case (fail_effect t response audit env db')
    have "decodable st db'"
      by (rule decodable_tables [OF d]) (use closing_effectD(3,6) [OF fail_effect(3)]
        closing_decodes [OF fail_effect(3) schema codecs(1) receipts] in \<open>simp_all add: release_reservations_def\<close>)
    then show ?thesis by (simp add: fail_effect(1))
  next
    case (renew_effect t env db')
    then have "receipts_decode st db'" "services db' = services (w_db w)" "credentials db' = credentials (w_db w)"
      using receipts
      by (auto simp: lease_renewed_def receipts_decode_def in_update_rows holds_receipt_def split: if_splits)
    then have "decodable st db'" using decodable_tables [OF d] by blast
    then show ?thesis by (simp add: renew_effect(1))
  next
    case (usage_effect sid bytes objects measured_at env db')
    have "decodable st db'"
      by (rule decodable_tables [OF d]) (use usage_effect(2) receipts in
        \<open>auto simp: usage_stored_def receipts_decode_def\<close>)
    then show ?thesis by (simp add: usage_effect(1))
  next
    case (audit_effect db' env audit)
    have "decodable st db'"
      by (rule decodable_tables [OF d]) (use receipts in \<open>simp_all add: audit_effect(2) receipts_decode_def\<close>)
    then show ?thesis by (simp add: audit_effect(1))
  qed (use d in simp)
qed

lemma reachable_decodable:
  assumes "reachable st w" "store_codecs_ok st" "value_codecs_ok st"
  shows "decodable st (w_db w)"
  using assms(1)
proof induction
  case initial
  show ?case by (simp add: initial_world_def decodable_def receipts_decode_def specs_decode_def
      permissions_decode_def empty_database_def)
qed (use assms(2,3) step_decodable in blast)

section \<open>Operations read without finding corrupt data\<close>

text \<open>The rows an operation reads for a service, whatever was claimed and reserved before.\<close>

definition readable :: "pg_store \<Rightarrow> database \<Rightarrow> bool" where
  "readable st db \<longleftrightarrow> (\<forall>sid s. service_of db sid = Some s \<longrightarrow>
     (\<exists>x. ps_spec_from_value st (sv_desired_spec s) = Some x)
     \<and> (\<exists>b r. bucket_of db sid = Some b \<and> bucket_row_try_into_record b = Ok r \<and> br_physical_bucket_id r \<noteq> None))"

lemma readable_cong: "services db' = services db \<Longrightarrow> buckets db' = buckets db \<Longrightarrow> readable st db' \<longleftrightarrow> readable st db"
  by (simp add: readable_def service_of_def bucket_of_def)

lemma bucket_converts:
  assumes "bucket_check b"
  obtains r where "bucket_row_try_into_record b = Ok r"
  using assms by (auto simp: bucket_check_def bucket_row_try_into_record_def from_i64_def u64_try_from_i64_def)

lemma reachable_readable:
  assumes "reachable st w" "store_codecs_ok st" "value_codecs_ok st"
  shows "readable st (w_db w)"
  unfolding readable_def
proof (intro allI impI conjI)
  have inv: "invariant st w" using assms(1) by (rule reachable_invariant)
  have schema: "schema_ok (w_db w)" using assms(1) by (rule reachableD)
  fix sid s assume "service_of (w_db w) sid = Some s"
  then have s: "s \<in> set (services (w_db w))" "sv_id s = sid" by (auto dest: service_of_Some)
  show "\<exists>x. ps_spec_from_value st (sv_desired_spec s) = Some x"
    using reachable_decodable [OF assms] s(1) by (simp add: decodable_def specs_decode_def)
  obtain b where b: "b \<in> set (buckets (w_db w))" "bk_service_instance_id b = sid" "bk_physical_bucket_id b \<noteq> None"
    using inv s unfolding invariant_def services_backed_def has_bucket_def by blast
  obtain r where r: "bucket_row_try_into_record b = Ok r" using schema_okD(14) [OF schema b(1)] by (rule bucket_converts)
  with bucket_of_in [OF schema b(1)] b(2,3) bucket_record_Ok(2) [OF r]
  show "\<exists>b r. bucket_of (w_db w) sid = Some b \<and> bucket_row_try_into_record b = Ok r \<and> br_physical_bucket_id r \<noteq> None"
    by auto
qed

lemma reads_fetch_service:
  assumes "\<And>s'. tx_db s' = tx_db s \<Longrightarrow> Q (service_of (tx_db s) sid) s'"
  shows "reads T (fetch_service_row sid u) Q env s"
  unfolding fetch_service_row_def by (intro reads_steps reads_query assms)

lemma reads_fetch_bucket:
  assumes "readable st (tx_db s)" and "service_of (tx_db s) sid = Some x"
    and "\<And>s' r. tx_db s' = tx_db s \<Longrightarrow> br_physical_bucket_id r \<noteq> None \<Longrightarrow> Q (Some r) s'"
  shows "reads T (fetch_bucket_row sid) Q env s"
proof -
  obtain b r where b: "bucket_of (tx_db s) sid = Some b" "bucket_row_try_into_record b = Ok r"
    "br_physical_bucket_id r \<noteq> None"
    using assms(1,2) unfolding readable_def by blast
  show ?thesis
    unfolding fetch_bucket_row_def
    by (intro reads_steps reads_query reads_lift) (use b assms(3) in auto)
qed

lemma reads_reject_parallel:
  assumes "\<And>s'. tx_db s' = tx_db s \<Longrightarrow> Q () s'"
  shows "reads T (reject_parallel_operation sid key) Q env s"
proof (rule reads_wlp)
  show "reads T (reject_parallel_operation sid key) (\<lambda>_ _. True) env s"
    unfolding reject_parallel_operation_def
    by (intro reads_bind reads_query) (auto intro: reads_steps split: list.split)
qed (use wlp_reject_parallel assms in blast)

lemma reads_claimed_or_reserve: "reads T (claimed_or_reserve claimed operation) (\<lambda>_ _. True) env s"
  unfolding claimed_or_reserve_def reserve_receipt_def Let_def by (intro reads_steps) simp_all

lemma reads_claim:
  assumes "receipts_decode st (tx_db s)" and "schema_ok (tx_db s)"
  shows "reads T (claim_existing_receipt st operation) (\<lambda>_ _. True) env s"
proof -
  have row: "(in_progress r \<longrightarrow> re_lease_expires_at r \<noteq> None) \<and> (\<not> in_progress r \<longrightarrow> (\<exists>x. decode_receipt st r = Ok x))"
    if "receipt_of (tx_db s) key = Some r" for key r
    using that assms(1) schema_okD(12) [OF assms(2), of r]
    by (auto simp: receipts_decode_def receipt_check_def dest!: receipt_of_Some)
  show ?thesis
    unfolding claim_existing_receipt_def lock_receipt_row_def Let_def
    by (intro reads_steps reads_query reads_lift) (auto dest!: row)
qed

lemma reads_with_claim:
  assumes "receipts_decode st db" "schema_ok db" "readable st db"
    and "\<And>claimed s'. readable st (tx_db s') \<Longrightarrow> reads T (body claimed) (\<lambda>_ _. True) env s'"
  shows "\<not> corrupt T (fst (in_transaction (with_claim st operation body) env db))"
proof (rule reads_transaction)
  have "reads T (claim_existing_receipt st operation) (\<lambda>_ s'. readable st (tx_db s')) env s"
    if "tx_db s = db" for s
  proof (rule reads_wlp)
    show "reads T (claim_existing_receipt st operation) (\<lambda>_ _. True) env s"
      by (rule reads_claim) (use that assms in simp_all)
    show "wlp (claim_existing_receipt st operation) (\<lambda>_ s'. readable st (tx_db s')) env s"
    proof (rule wlp_claim)
      show "readable st (tx_db s')"
        if "claim_effect operation env (tx_db s) (Some (pg_new_operation_id env)) (tx_db s')" for s'
        using readable_cong [OF claim_effect_tables(1,2) [OF that]] assms(3) \<open>tx_db s = db\<close> by simp
    qed (use that assms(2,3) in simp_all)
  qed
  note claim = this
  show "reads T (with_claim st operation body) (\<lambda>_ _. True) env (tx_initial db)"
    unfolding with_claim_def
  proof (intro reads_bind reads_lock)
    fix s :: tx_state assume "tx_db s = tx_db (tx_initial db)"
    then have "tx_db s = db" by simp
    then show "reads T (claim_existing_receipt st operation)
       (\<lambda>c. reads T (case c of ClaimNew \<Rightarrow> body None | TakenOver x \<Rightarrow> body (Some x)
          | Prepared p \<Rightarrow> tx_return (map_context p)) (\<lambda>_ _. True) env) env s"
      by (rule reads_mono [OF claim]) (auto intro: assms(4) reads_return split: receipt_claim.split)
  qed
qed

lemma reads_ready_bucket:
  assumes "readable st (tx_db s)" and "\<And>s' r. tx_db s' = tx_db s \<Longrightarrow> Q r s'"
  shows "reads T (ready_bucket_in_transaction operation) Q env s"
  unfolding ready_bucket_in_transaction_def
  by (intro reads_steps reads_fetch_service reads_lift reads_fetch_bucket [where st = st])
     (use assms in \<open>auto simp: ensure_scope_def\<close>)

lemma reads_existing:
  assumes "readable st (tx_db s)" and "found = service_of (tx_db s) (op_service_instance_id (rc_operation command))"
    and "\<And>s' r. tx_db s' = tx_db s \<Longrightarrow> Q r s'"
  shows "reads T (check_existing_service st command found) Q env s"
  unfolding check_existing_service_def Let_def
  apply (intro reads_steps reads_lift reads_fetch_bucket [where st = st])
  using assms by (auto simp: ensure_scope_def readable_def)

lemma validated:
  "\<not> corrupt T (operation_validate operation)" "\<not> corrupt T (reconcile_validate c)" "\<not> corrupt T (delete_validate d)"
  "\<not> corrupt T (create_credential_validate k)"
  by (auto simp: operation_validate_def reconcile_validate_def delete_validate_def create_credential_validate_def
      limits_validate_def corrupt_bind map_err_def split: sum.splits)

lemma corrupt_before:
  "\<not> corrupt T r \<Longrightarrow> (\<And>a. r = Ok a \<Longrightarrow> \<not> corrupt T (fst (f a env db))) \<Longrightarrow> \<not> corrupt T (fst (before_transaction r f env db))"
  by (cases r) auto

lemma reads_reserve_name:
  assumes "\<And>s'. Q () s'"
  shows "reads T (reserve_bucket_name name sid) Q env s"
  unfolding reserve_bucket_name_def by (intro reads_steps) (use assms in simp_all)

lemma reads_bodies:
  assumes "readable st (tx_db s)"
  shows "reads T (prepare_reconcile_body st c claimed) (\<lambda>_ _. True) env s"
    and "reads T (prepare_delete_body d claimed) (\<lambda>_ _. True) env s"
    and "reads T (prepare_revoke_credential_body v claimed) (\<lambda>_ _. True) env s"
  subgoal
    unfolding prepare_reconcile_body_def Let_def
    by (intro reads_bind reads_lock reads_prod reads_reject_parallel reads_fetch_service reads_existing reads_reserve_name
        reads_mono [OF reads_claimed_or_reserve] reads_return)
       (use assms in simp_all)
  subgoal
    unfolding prepare_delete_body_def Let_def
    by (intro reads_steps reads_query reads_reject_parallel reads_fetch_service reads_lift reads_fetch_bucket [where st = st]
        reads_mono [OF reads_claimed_or_reserve])
       (use assms in \<open>auto simp: ensure_scope_def\<close>)
  subgoal
    unfolding prepare_revoke_credential_body_def Let_def
    by (intro reads_bind reads_lock reads_query reads_reject_parallel reads_ready_bucket [where st = st] reads_lift
        reads_mono [OF reads_claimed_or_reserve] reads_return)
       (use assms in auto)
  done

lemma reads_create_body:
  assumes "readable st (tx_db s)" and "value_codecs_ok st"
  shows "reads {''credential reservation''} (prepare_create_credential_body st k claimed) (\<lambda>_ _. True) env s"
proof -
  obtain p where p: "ps_permissions_to_value st (cc_permissions k) = Some p"
    using assms(2) unfolding value_codecs_ok_def by blast
  have "reads {''credential reservation''} (reserve_credential st k bucket) (\<lambda>_ _. True) env s'" for bucket s'
    unfolding reserve_credential_def reserve_receipt_def Let_def
    by (intro reads_steps reads_query reads_reject_parallel reads_lift) (use p in simp_all)
  moreover have "reads {''credential reservation''} (resume_create_credential st k bucket i) (\<lambda>_ _. True) env s'"
    for bucket i s'
    unfolding resume_create_credential_def Let_def
    by (intro reads_steps reads_query reads_reject_parallel reads_lift) simp_all
  ultimately show ?thesis
    unfolding prepare_create_credential_body_def Let_def
    by (intro reads_bind reads_lock reads_ready_bucket [where st = st] reads_option) (use assms(1) in simp_all)
qed

lemma reads_overview:
  assumes "readable st (tx_db s)"
  shows "reads T (tx_bind (fetch_service_row sid False) (\<lambda>found.
     tx_bind (tx_lift (ok_or found NotFound)) (\<lambda>service.
     if sv_organization_id service \<noteq> org \<or> sv_project_id service \<noteq> prj then tx_throw NotFound
     else if sv_phase service = ''deleted'' then tx_throw NotFound
     else tx_bind (fetch_bucket_row sid) (\<lambda>found_bucket.
     tx_bind (tx_lift (ok_or found_bucket (CorruptData ''service bucket''))) (\<lambda>bucket.
     tx_lift (service_row_try_into_record st service bucket)))))) (\<lambda>_ _. True) env s"
  by (intro reads_steps reads_fetch_service reads_lift reads_fetch_bucket [where st = st])
     (use assms in \<open>auto simp: readable_def service_row_try_into_record_def corrupt_bind\<close>)

lemma listing_readable:
  assumes "permissions_decode st db"
  shows "\<not> corrupt T (fst (list_credentials st org prj sid env db))"
proof -
  have "\<not> corrupt T (credential_row_try_into_record st c)" if "c \<in> set (credentials db)" for c
    using assms that by (fastforce simp: permissions_decode_def credential_row_try_into_record_def corrupt_bind)
  then show ?thesis unfolding list_credentials_def by (auto intro!: corrupt_collect)
qed

lemma usage_readable:
  assumes "schema_ok db"
  shows "\<not> corrupt T (fst (record_usage org prj sid bytes objects measured_at env db))"
proof -
  have *: "reads T (store_usage org prj sid b n t) (\<lambda>bucket _. bucket_check bucket) env (tx_initial db)" for b n t
    unfolding store_usage_def
    by (intro reads_steps reads_query reads_lift)
       (auto dest!: find_Some_in intro: schema_okD(14) [OF assms])
  have converts: "\<not> corrupt T (usage_record_of bucket bytes objects measured_at sid)" if "bucket_check bucket" for bucket
    using that by (simp add: usage_record_of_def corrupt_bind bucket_check_def from_i64_def u64_try_from_i64_def)
  have "\<not> corrupt T (fst (in_transaction (store_usage org prj sid b n measured_at) env db))" for b n
    by (rule reads_transaction [OF reads_mono [OF *]]) simp
  moreover have "\<not> corrupt T (usage_record_of bucket bytes objects measured_at sid)"
    if "fst (in_transaction (store_usage org prj sid b n measured_at) env db) = Ok bucket" for b n bucket
    using reads_transaction_Ok [OF * that] converts by blast
  ultimately show ?thesis
    unfolding record_usage_def
    by (intro corrupt_before) (auto simp: corrupt_bind to_i64_def case_prod_beta Let_def)
qed

text \<open>
  C11: what the store wrote it can read: in every reachable state no preparation of an operation, no
  overview, no listing of credentials and no usage record answers that stored data is corrupt or cannot
  be decrypted. A preparation of a credential creation may say so of one thing, the reservation of an
  operation it takes over, when the request has the stored digest but another name or permissions.
\<close>
theorem stored_data_is_readable:
  assumes "reachable st w" and "store_codecs_ok st" and "value_codecs_ok st"
  shows "\<not> corrupt {} (fst (prepare_reconcile st c env (w_db w)))
     \<and> \<not> corrupt {} (fst (prepare_delete st d env (w_db w)))
     \<and> \<not> corrupt {''credential reservation''} (fst (prepare_create_credential st k env (w_db w)))
     \<and> \<not> corrupt {} (fst (prepare_revoke_credential st v env (w_db w)))
     \<and> \<not> corrupt {} (fst (service_overview st org prj sid env (w_db w)))
     \<and> \<not> corrupt {} (fst (list_credentials st org prj sid env (w_db w)))
     \<and> \<not> corrupt {} (fst (record_usage org prj sid bytes objects measured_at env (w_db w)))"
proof (intro conjI)
  have schema: "schema_ok (w_db w)" using assms(1) by (rule reachableD)
  note d = reachable_decodable [OF assms, unfolded decodable_def]
  note claim = reads_with_claim [OF conjunct1 [OF d] schema reachable_readable [OF assms]]
  show "\<not> corrupt {} (fst (prepare_reconcile st c env (w_db w)))"
    unfolding prepare_reconcile_def by (intro corrupt_before validated claim reads_bodies)
  show "\<not> corrupt {} (fst (prepare_delete st d env (w_db w)))"
    unfolding prepare_delete_def by (intro corrupt_before validated claim reads_bodies)
  show "\<not> corrupt {''credential reservation''} (fst (prepare_create_credential st k env (w_db w)))"
    unfolding prepare_create_credential_def by (intro corrupt_before validated claim reads_create_body assms(3))
  show "\<not> corrupt {} (fst (prepare_revoke_credential st v env (w_db w)))"
    unfolding prepare_revoke_credential_def by (intro corrupt_before validated claim reads_bodies)
  show "\<not> corrupt {} (fst (service_overview st org prj sid env (w_db w)))"
    unfolding service_overview_def
    by (rule reads_transaction, rule reads_overview) (simp add: reachable_readable [OF assms])
  show "\<not> corrupt {} (fst (list_credentials st org prj sid env (w_db w)))"
    by (rule listing_readable) (use d in simp)
  show "\<not> corrupt {} (fst (record_usage org prj sid bytes objects measured_at env (w_db w)))"
    by (rule usage_readable [OF schema])
qed

lemma example_value_codecs: "value_codecs_ok example_store"
  unfolding value_codecs_ok_def example_store_def by (auto split: if_splits)

theorem stored_data_is_readable_witness:
  "\<not> corrupt {} (fst (service_overview example_store 1 2 3 (example_env 9 30) (w_db world_key_ready)))
     \<and> \<not> corrupt {} (fst (list_credentials example_store 1 2 3 (example_env 9 30) (w_db world_key_ready)))
     \<and> is_ok (fst (list_credentials example_store 1 2 3 (example_env 9 30) (w_db world_key_ready)))"
proof -
  have "is_ok (fst (list_credentials example_store 1 2 3 (example_env 9 30) (w_db world_key_ready)))"
    unfolding world_key_ready_def by code_simp
  with stored_data_is_readable [OF example_reachable(4) example_codecs_ok example_value_codecs] show ?thesis
    by blast
qed

end
