(* ===== verification/Store_Progress.thy ===== *)
theory Store_Progress
  imports Store_Safety
begin

text \<open>
  Progress of the store: a task that holds its receipt can end it. In every reachable state, and without
  faults of the database, the failure of the operation can be recorded, and a deletion or a revocation
  can be completed, so no service stays blocked by an operation whose process does its work.
\<close>

section \<open>Credentials and reservations of existing services\<close>

definition keys_backed :: "database \<Rightarrow> bool" where
  "keys_backed db \<longleftrightarrow>
     (\<forall>c \<in> set (credentials db). service_exists db (cr_service_instance_id c) (cr_organization_id c) (cr_project_id c))
     \<and> (\<forall>v \<in> set (credential_reservations db).
         service_exists db (cv_service_instance_id v) (cv_organization_id v) (cv_project_id v))"

lemma service_existsI:
  "s \<in> set (services db) \<Longrightarrow> sv_id s = sid \<Longrightarrow> sv_organization_id s = org \<Longrightarrow> sv_project_id s = prj \<Longrightarrow>
     service_exists db sid org prj"
  by (auto simp: service_exists_def list_ex_iff)

lemma service_exists_cong: "services db' = services db \<Longrightarrow> service_exists db' = service_exists db"
  by (simp add: service_exists_def fun_eq_iff)

lemma service_is_exists:
  "service_is db operation P \<Longrightarrow>
     service_exists db (op_service_instance_id operation) (op_organization_id operation) (op_project_id operation)"
  by (auto simp: service_is_def in_scope_def intro: service_existsI)

lemma keys_backed_tables:
  assumes "keys_backed db" "\<And>sid org prj. service_exists db sid org prj \<Longrightarrow> service_exists db' sid org prj"
    "\<And>c'. c' \<in> set (credentials db') \<Longrightarrow> \<exists>c \<in> set (credentials db). cr_service_instance_id c' = cr_service_instance_id c
       \<and> cr_organization_id c' = cr_organization_id c \<and> cr_project_id c' = cr_project_id c"
    "set (credential_reservations db') \<subseteq> set (credential_reservations db)"
  shows "keys_backed db'"
  using assms(1,4) unfolding keys_backed_def by (metis assms(2,3) subsetD)

lemma revoked_scope:
  assumes "c' \<in> set (update_rows P (revoke_row now p) rows)"
  shows "\<exists>c \<in> set rows. cr_service_instance_id c' = cr_service_instance_id c
       \<and> cr_organization_id c' = cr_organization_id c \<and> cr_project_id c' = cr_project_id c"
  using assms by (auto simp: in_update_rows revoke_row_def split: if_splits)

lemma close_mid_services:
  assumes "close_mid st t env db mid" and "service_exists db sid org prj"
  shows "service_exists mid sid org prj"
proof -
  obtain s where s: "s \<in> set (services db)" "sv_id s = sid" "sv_organization_id s = org" "sv_project_id s = prj"
    using assms(2) by (auto simp: service_exists_def list_ex_iff)
  have "\<exists>s' \<in> set (services mid). sv_id s' = sid \<and> sv_organization_id s' = org \<and> sv_project_id s' = prj"
  proof (cases t)
    case (ReconcileTask c i)
    with assms(1) obtain spec n db1 physical qb qo m db2 where u: "upsert_service c spec i env n db = Ok (1, db1)"
      and "upsert_bucket c physical qb qo env m db1 = Ok ((), db2)" "services mid = services db2"
      by (auto simp: reconciled_def)
    then have mid: "services mid = services db1" using upsert_bucket_Ok(1) by metis
    show ?thesis
    proof (cases "list_ex (\<lambda>r. sv_id r = op_service_instance_id (rc_operation c)) (services db)")
      case True
      then show ?thesis
        using u s unfolding mid
        by (simp add: upsert_service_def put_services_def Let_def)
           (rule bexI [OF _ update_rowsI [OF s(1)]], simp)
    next
      case False
      with u s show ?thesis unfolding mid by (auto simp: upsert_service_def put_services_def Let_def)
    qed
  next
    case (DeleteTask d i)
    with assms(1) have mid: "mid = service_deleted d i env db" by simp
    show ?thesis
      unfolding mid service_deleted_def Let_def
      by simp (rule bexI [OF _ update_rowsI [OF s(1)]], use s in simp)
  qed (use assms(1) s in \<open>auto simp: credential_created_def credential_revoked_def\<close>)
  then show ?thesis by (auto intro: service_existsI)
qed

lemma claim_keys:
  assumes "claim_effect operation env db claimed db1" and "keys_backed db"
  shows "keys_backed db1"
  using assms
  by (auto simp: claim_effect_def taken_over_def keys_backed_def service_exists_def in_update_rows split: if_splits)

lemma start_keys:
  assumes "start_effect st t env db db'" and "keys_backed db"
  shows "keys_backed db'"
proof (cases t)
  case (ReconcileTask c i)
  with assms(1) obtain claimed db1 db2 n where "claim_effect (rc_operation c) env db claimed db1"
    and db2: "insert_name_reservation (sp_bucket_name (rc_spec c)) (op_service_instance_id (rc_operation c)) env n db1 = Ok (1, db2)"
    and db': "reserved claimed (rc_operation c) env db2 db'"
    by (auto simp: prepare_reconcile_effect_def)
  then have "keys_backed db1" using claim_keys assms(2) by blast
  then show ?thesis
    using insert_name_reservation_Ok(1) [OF db2] reserved_tables [OF db'] by (simp add: keys_backed_def service_exists_def)
next
  case (DeleteTask c i)
  with assms(1) obtain claimed db1 where "claim_effect (dc_operation c) env db claimed db1"
    and db': "reserved claimed (dc_operation c) env db1 db'"
    by (auto simp: prepare_delete_effect_def)
  then have "keys_backed db1" using claim_keys assms(2) by blast
  then show ?thesis using reserved_tables [OF db'] by (simp add: keys_backed_def service_exists_def)
next
  case (RevokeTask c i)
  with assms(1) obtain claimed db1 where "claim_effect (vc_operation c) env db claimed db1"
    and db': "reserved claimed (vc_operation c) env db1 db'"
    by (auto simp: prepare_revoke_credential_effect_def Let_def)
  then have "keys_backed db1" using claim_keys assms(2) by blast
  then show ?thesis using reserved_tables [OF db'] by (simp add: keys_backed_def service_exists_def)
next
  case (CreateTask c i k)
  with assms(1) obtain claimed db1 where claim: "claim_effect (cc_operation c) env db claimed db1"
    and ready: "service_ready (cc_operation c) db1" and db': "db' = db1 \<or> credential_reserved st c env db1 db'"
    by (auto simp: prepare_create_credential_effect_def Let_def split: option.splits)
  have backed: "keys_backed db1" by (rule claim_keys [OF claim assms(2)])
  have "service_exists db1 (op_service_instance_id (cc_operation c)) (op_organization_id (cc_operation c))
      (op_project_id (cc_operation c))"
    using ready by (auto simp: service_ready_def in_scope_def intro!: service_existsI dest!: service_of_Some)
  with db' backed show ?thesis
    by (auto simp: credential_reserved_def Let_def keys_backed_def service_exists_def new_reservation_def)
qed

lemma close_keys:
  assumes m: "close_mid st t env db mid" and ready: "task_ready st db t" and backed: "keys_backed db"
  shows "keys_backed mid"
proof -
  note exists = close_mid_services [OF m]
  show ?thesis
  proof (cases t)
    case (ReconcileTask c i)
    with m obtain spec n db1 physical qb qo k db2 where "upsert_service c spec i env n db = Ok (1, db1)"
      "upsert_bucket c physical qb qo env k db1 = Ok ((), db2)"
      "credentials mid = credentials db2" "credential_reservations mid = credential_reservations db2"
      by (auto simp: reconciled_def)
    with upsert_service_Ok(1) upsert_bucket_Ok(1) have "credentials mid = credentials db"
      "credential_reservations mid = credential_reservations db" by metis+
    then show ?thesis using keys_backed_tables [OF backed exists] by auto
  next
    case (DeleteTask d i)
    then have mid: "credentials mid = update_rows (\<lambda>c. cr_service_instance_id c = op_service_instance_id (dc_operation d)
          \<and> cr_status c = ''active'') (revoke_row (pg_now env) (op_principal_id (dc_operation d))) (credentials db)"
      "credential_reservations mid = credential_reservations db"
      using m by (simp_all add: service_deleted_def Let_def)
    show ?thesis by (rule keys_backed_tables [OF backed exists]) (use revoked_scope in \<open>auto simp: mid\<close>)
  next
    case (CreateTask c i k)
    with ready have "service_exists db (op_service_instance_id (cc_operation c)) (op_organization_id (cc_operation c))
        (op_project_id (cc_operation c))" by (auto intro: service_is_exists)
    from exists [OF this] CreateTask m backed exists show ?thesis
      by (auto simp: credential_created_def keys_backed_def credential_row_of_def)
  next
    case (RevokeTask c i)
    then have mid: "credentials mid = update_rows (\<lambda>x. cr_id x = vc_credential_id c
          \<and> cr_service_instance_id x = op_service_instance_id (vc_operation c))
          (revoke_row (pg_now env) (op_principal_id (vc_operation c))) (credentials db)"
      "credential_reservations mid = credential_reservations db"
      using m by (simp_all add: credential_revoked_def)
    show ?thesis by (rule keys_backed_tables [OF backed exists]) (use revoked_scope in \<open>auto simp: mid\<close>)
  qed
qed

lemma reachable_keys_backed: "reachable st w \<Longrightarrow> keys_backed (w_db w)"
proof (induction rule: reachable.induct)
  case initial
  show ?case by (simp add: initial_world_def keys_backed_def empty_database_def)
next
  case (after_step w w')
  have inv: "invariant st w" using after_step(1) by (rule reachable_invariant)
  then have schema: "schema_ok (w_db w)" by (simp add: invariant_def)
  from step_effect [OF after_step(2) schema] show ?case
  proof cases
    case (start_task t env db' ts)
    with start_keys [OF start_task(2) after_step(3)] show ?thesis by (simp add: started_world_def)
  next
    case (close_task t env mid response audit db')
    have "keys_backed mid" by (rule close_keys [OF close_task(3) live_task(1) [OF inv close_task(2,4)] after_step(3)])
    with closing_effectD(3,6,7) [OF close_task(4)] close_task(1) show ?thesis
      by (simp add: keys_backed_def service_exists_def)
  next
    case (fail_effect t response audit env db')
    with after_step(3) closing_effectD(3,6,7) [OF fail_effect(3)] show ?thesis
      by (simp add: keys_backed_def service_exists_def release_reservations_def)
  qed (use after_step(3) in \<open>auto simp: lease_renewed_def usage_stored_def keys_backed_def service_exists_def\<close>)
qed

section \<open>Bodies that succeed\<close>

text \<open>Total correctness of a body: it returns, in a state with the given property.\<close>

definition succeeds :: "'a tx \<Rightarrow> ('a \<Rightarrow> tx_state \<Rightarrow> bool) \<Rightarrow> pg_env \<Rightarrow> tx_state \<Rightarrow> bool" where
  "succeeds m Q env s = (case m env s of (Err e, _) \<Rightarrow> False | (Ok a, s') \<Rightarrow> Q a s')"

lemma succeeds_bind: "succeeds m (\<lambda>a. succeeds (f a) Q env) env s \<Longrightarrow> succeeds (tx_bind m f) Q env s"
  by (simp add: succeeds_def tx_bind_def split: prod.splits sum.splits)

lemma succeeds_else: "\<not> b \<Longrightarrow> succeeds m' Q env s \<Longrightarrow> succeeds (if b then m else m') Q env s"
  by simp

lemma succeeds_return: "Q a s \<Longrightarrow> succeeds (tx_return a) Q env s"
  by (simp add: succeeds_def tx_return_def)

lemma succeeds_lift: "r = Ok a \<Longrightarrow> Q a s \<Longrightarrow> succeeds (tx_lift r) Q env s"
  by (simp add: succeeds_def tx_lift_def)

lemma succeeds_query:
  assumes "no_faults env" and "\<And>s'. tx_db s' = tx_db s \<Longrightarrow> Q (q (tx_db s)) s'"
  shows "succeeds (tx_query q) Q env s" and "succeeds (tx_query_for_update q locks) Q env s"
  using assms by (simp_all add: succeeds_def tx_eval)

lemma succeeds_lock:
  assumes "no_faults env" and "\<And>s'. tx_db s' = tx_db s \<Longrightarrow> Q () s'"
  shows "succeeds (advisory_lock l) Q env s" and "succeeds (lock_service sid) Q env s"
  using assms by (simp_all add: succeeds_def tx_eval)

lemma succeeds_execute:
  assumes "no_faults env" and "\<And>n. q env n (tx_db s) = Ok (a, db)" and "\<And>s'. tx_db s' = db \<Longrightarrow> Q a s'"
  shows "succeeds (tx_execute q) Q env s"
  using assms by (simp add: succeeds_def tx_eval)

lemma succeeds_require:
  assumes "no_faults env" and "holder (tx_db s) operation i" and "\<And>s'. tx_db s' = tx_db s \<Longrightarrow> Q () s'"
  shows "succeeds (require_in_progress_receipt operation i) Q env s"
  using assms
  by (auto simp: succeeds_def require_in_progress_receipt_def lock_receipt_row_def holder_def tx_eval)

lemma succeeds_transaction:
  assumes "no_faults env" and "succeeds body Q env (tx_initial db)"
  shows "is_ok (fst (in_transaction body env db))"
  using assms by (auto simp: succeeds_def in_transaction_def split: prod.splits sum.splits)

text \<open>
  A response and an event that can be recorded: the response has a status of HTTP and is encoded and
  sealed, the event satisfies the conditions of its table, and its identifier is new.
\<close>

definition recordable :: "pg_store \<Rightarrow> pg_env \<Rightarrow> database \<Rightarrow> stored_http_response \<Rightarrow> audit_event \<Rightarrow> bool" where
  "recordable st env db response audit \<longleftrightarrow>
     (\<exists>p n. ps_json_to_vec st (sh_body response) = Some p \<and> pg_nonce env = Some n \<and> length n = 12
        \<and> (\<forall>key i. ps_aead_encrypt st (cipher_key (ps_receipt_cipher st)) n (receipt_aad key i) p \<noteq> None))
     \<and> 100 \<le> uint (sh_status response) \<and> uint (sh_status response) \<le> 599
     \<and> au_request_id audit \<noteq> [] \<and> length (au_request_id audit) \<le> 256
     \<and> au_action audit \<noteq> [] \<and> length (au_action audit) \<le> 128
     \<and> au_resource_type audit \<noteq> [] \<and> length (au_resource_type audit) \<le> 64
     \<and> audit_check (audit_row_of env audit)
     \<and> (\<forall>r \<in> set (audit_events db). ar_id r \<noteq> pg_new_audit_id env)"

lemma unique_on_update:
  "unique_on k rows \<Longrightarrow> (\<And>r. r \<in> set rows \<Longrightarrow> P r \<Longrightarrow> k (f r) = k r) \<Longrightarrow> unique_on k (update_rows P f rows)"
  by (simp add: unique_on_def map_update_rows_same)

lemma succeeds_audit:
  assumes "no_faults env" "recordable st env db response audit" "schema_ok (tx_db s)"
    "audit_events (tx_db s) = audit_events db" "\<And>s'. Q () s'"
  shows "succeeds (insert_audit audit) Q env s"
proof -
  have c: "audit_check (audit_row_of env audit)" using assms(2) by (simp add: recordable_def)
  have "put_audit_events (audit_events (tx_db s) @ [audit_row_of env audit]) () (tx_db s)
      = Ok ((), (tx_db s)\<lparr>audit_events := audit_events (tx_db s) @ [audit_row_of env audit]\<rparr>)"
    using assms(2-4) c
    by (auto simp: put_audit_events_def schema_ok_def unique_on_snoc recordable_def audit_row_of_def)
  then show ?thesis
    unfolding insert_audit_def
    using assms(1,2,5) c
    by (auto simp: recordable_def audit_check_def audit_row_of_def intro!: succeeds_execute)
qed

lemma finished_check:
  assumes "receipt_check r" "length nonce = 12" "100 \<le> uint (sh_status response)" "uint (sh_status response) \<le> 599"
  shows "receipt_check (finished response nonce ciphertext now r)"
  using assms by (auto simp: receipt_check_def finished_def)

lemma succeeds_finish:
  assumes "no_faults env" "recordable st env db response audit" "schema_ok (tx_db s)" "holder (tx_db s) operation i"
    and "\<And>s' rows. tx_db s' = (tx_db s)\<lparr>receipts := rows\<rparr> \<Longrightarrow> schema_ok (tx_db s') \<Longrightarrow> Q () s'"
  shows "succeeds (finish_receipt st operation i response) Q env s"
proof -
  obtain row where row: "receipt_of (tx_db s) (op_idempotency_key operation) = Some row"
    "receipt_matches row operation" "re_operation_id row = i" "in_progress row"
    using assms(4) by (auto simp: holder_def)
  obtain p n where p: "ps_json_to_vec st (sh_body response) = Some p" "pg_nonce env = Some n" "length n = 12"
    "\<And>key i. ps_aead_encrypt st (cipher_key (ps_receipt_cipher st)) n (receipt_aad key i) p \<noteq> None"
    and status: "100 \<le> uint (sh_status response)" "uint (sh_status response) \<le> 599"
    using assms(2) unfolding recordable_def by blast
  obtain ciphertext where "ps_aead_encrypt st (cipher_key (ps_receipt_cipher st)) n
      (receipt_aad (op_idempotency_key operation) i) p = Some ciphertext"
    using p(4) by blast
  then have enc: "cipher_encrypt (ps_aead_encrypt st) (ps_receipt_cipher st) (pg_nonce env)
      (op_idempotency_key operation) i p = Ok (n, ciphertext)"
    using p(2) by (simp add: cipher_encrypt_def)
  let ?rows = "update_rows (holds_receipt (op_idempotency_key operation) i)
      (finished response n ciphertext (pg_now env)) (receipts (tx_db s))"
  have checks: "list_all receipt_check (receipts (tx_db s))" "receipts_unique (receipts (tx_db s))"
    using assms(3) by (simp_all add: schema_ok_def)
  have "list_all receipt_check ?rows"
    using checks(1) finished_check [OF _ p(3) status]
    by (auto simp: list_all_iff in_update_rows)
  moreover have "receipts_unique ?rows"
    using checks(2) by (auto simp: receipts_unique_def intro!: unique_on_update)
  moreover have "count_rows (holds_receipt (op_idempotency_key operation) i) (receipts (tx_db s)) = 1"
    by (rule count_receipt_holder [OF checks(2) row(1,3,4)])
  ultimately have put: "put_receipts ?rows (count_rows (holds_receipt (op_idempotency_key operation) i)
      (receipts (tx_db s))) (tx_db s) = Ok (1, (tx_db s)\<lparr>receipts := ?rows\<rparr>)"
    and schema: "schema_ok ((tx_db s)\<lparr>receipts := ?rows\<rparr>)"
    using assms(3) by (simp_all add: put_receipts_def schema_ok_def)
  show ?thesis
    using row p(1) enc put assms(1) assms(5) [of _ ?rows, OF _] schema
    by (simp add: finish_receipt_def lock_receipt_row_def succeeds_def tx_eval)
qed

section \<open>Ending a held operation\<close>

lemma succeeds_delete_reservations:
  assumes "no_faults env" "schema_ok (tx_db s)" "keys_backed (tx_db s)"
    and "\<And>s'. tx_db s' = (tx_db s)\<lparr>credential_reservations := delete_rows P (credential_reservations (tx_db s))\<rparr> \<Longrightarrow>
      schema_ok (tx_db s') \<Longrightarrow> Q () s'"
  shows "succeeds (tx_execute (\<lambda>env n db. put_credential_reservations (delete_rows P (credential_reservations db)) () db)) Q env s"
proof (rule succeeds_execute, rule assms(1))
  show put: "put_credential_reservations (delete_rows P (credential_reservations (tx_db s))) () (tx_db s)
      = Ok ((), (tx_db s)\<lparr>credential_reservations := delete_rows P (credential_reservations (tx_db s))\<rparr>)"
    using assms(2,3)
    by (auto simp: put_credential_reservations_def schema_ok_def keys_backed_def list_all_iff credential_reservations_unique_def)
  show "Q () s'" if "tx_db s' = (tx_db s)\<lparr>credential_reservations := delete_rows P (credential_reservations (tx_db s))\<rparr>" for s'
    by (rule assms(4) [OF that], unfold that, rule schema_ok_put(5) [OF assms(2) put])
qed

lemma succeeds_delete_names:
  assumes "no_faults env" "schema_ok (tx_db s)"
    and "\<And>s'. tx_db s' = (tx_db s)\<lparr>name_reservations := delete_rows (P (tx_db s)) (name_reservations (tx_db s))\<rparr> \<Longrightarrow>
      schema_ok (tx_db s') \<Longrightarrow> Q () s'"
  shows "succeeds (tx_execute (\<lambda>env n db. put_name_reservations (delete_rows (P db) (name_reservations db)) () db)) Q env s"
proof (rule succeeds_execute, rule assms(1))
  show put: "put_name_reservations (delete_rows (P (tx_db s)) (name_reservations (tx_db s))) () (tx_db s)
      = Ok ((), (tx_db s)\<lparr>name_reservations := delete_rows (P (tx_db s)) (name_reservations (tx_db s))\<rparr>)"
    using assms(2)
    by (auto simp: put_name_reservations_def schema_ok_def list_all_iff name_reservations_unique_def)
  show "Q () s'" if "tx_db s' = (tx_db s)\<lparr>name_reservations := delete_rows (P (tx_db s)) (name_reservations (tx_db s))\<rparr>" for s'
    by (rule assms(3) [OF that], unfold that, rule schema_ok_put(2) [OF assms(2) put])
qed

lemma revoked_check: "credential_check r \<Longrightarrow> credential_check (revoke_row now p r)"
  by (auto simp: credential_check_def revoke_row_def split: option.splits)

lemma put_revoked:
  assumes "schema_ok db" "keys_backed db"
  shows "put_credentials (update_rows P (revoke_row now p) (credentials db)) a db
      = Ok (a, db\<lparr>credentials := update_rows P (revoke_row now p) (credentials db)\<rparr>)"
proof -
  have "list_all credential_check (update_rows P (revoke_row now p) (credentials db))"
    using schema_okD(15) [OF assms(1)] revoked_check by (auto simp: list_all_iff in_update_rows)
  moreover have "credentials_unique (update_rows P (revoke_row now p) (credentials db))"
    using assms(1) by (auto simp: schema_ok_def credentials_unique_def revoke_row_def intro!: unique_on_update)
  moreover have "list_all (\<lambda>r. service_exists db (cr_service_instance_id r) (cr_organization_id r) (cr_project_id r))
      (update_rows P (revoke_row now p) (credentials db))"
    using assms(2) by (auto simp: keys_backed_def list_all_iff in_update_rows revoke_row_def)
  ultimately show ?thesis by (simp add: put_credentials_def)
qed

lemma fail_succeeds:
  assumes "no_faults env" "recordable st env db response audit" "schema_ok db" "keys_backed db"
    "holder db operation i" "sh_failed response"
  shows "is_ok (fst (fail_operation st operation i response audit env db))"
proof -
  have "succeeds (fail_operation_body st operation i response audit) (\<lambda>_ _. True) env (tx_initial db)"
    unfolding fail_operation_body_def
    by (intro succeeds_bind succeeds_lock succeeds_require succeeds_finish [OF assms(1,2)] assms(1)
        succeeds_delete_reservations succeeds_delete_names succeeds_audit [OF assms(1,2)])
       (use assms(3-5) in \<open>simp_all add: keys_backed_def service_exists_def\<close>)
  from succeeds_transaction [OF assms(1) this] assms(6) show ?thesis by (simp add: fail_operation_def)
qed

lemma succeeds_revoke:
  assumes "no_faults env" "schema_ok (tx_db s)" "keys_backed (tx_db s)"
    and "\<And>s'. tx_db s' = (tx_db s)\<lparr>credentials := update_rows P (revoke_row (pg_now env) p) (credentials (tx_db s))\<rparr> \<Longrightarrow>
      schema_ok (tx_db s') \<Longrightarrow> Q (a (tx_db s)) s'"
  shows "succeeds (tx_execute (\<lambda>env n db. put_credentials (update_rows P (revoke_row (pg_now env) p) (credentials db)) (a db) db)) Q env s"
proof (rule succeeds_execute, rule assms(1))
  note put = put_revoked [OF assms(2,3), of P "pg_now env" p "a (tx_db s)"]
  show "put_credentials (update_rows P (revoke_row (pg_now env) p) (credentials (tx_db s))) (a (tx_db s)) (tx_db s)
      = Ok (a (tx_db s), (tx_db s)\<lparr>credentials := update_rows P (revoke_row (pg_now env) p) (credentials (tx_db s))\<rparr>)"
    by (rule put)
  show "Q (a (tx_db s)) s'"
    if "tx_db s' = (tx_db s)\<lparr>credentials := update_rows P (revoke_row (pg_now env) p) (credentials (tx_db s))\<rparr>" for s'
    by (rule assms(4) [OF that], unfold that, rule schema_ok_put(4) [OF assms(2) put])
qed

lemma revoke_succeeds:
  assumes "no_faults env" "recordable st env db response audit" "schema_ok db" "keys_backed db"
    "holder db (vc_operation v) i" "task_ready st db (RevokeTask v i)"
  shows "is_ok (fst (complete_revoke_credential st v i response audit env db))"
proof -
  let ?P = "\<lambda>c. cr_id c = vc_credential_id v \<and> cr_service_instance_id c = op_service_instance_id (vc_operation v)"
  obtain r where r: "r \<in> set (credentials db)" "?P r" using assms(6) by auto
  have one: "count_rows ?P (credentials db) = 1"
    by (rule count_rows_unique_1 [where k = cr_id and r = r]) (use schema_okD(6) [OF assms(3)] r in simp_all)
  have "succeeds (complete_revoke_credential_body st v i response audit) (\<lambda>_ _. True) env (tx_initial db)"
    unfolding complete_revoke_credential_body_def Let_def
    by (intro succeeds_bind succeeds_lock succeeds_require succeeds_revoke succeeds_else succeeds_finish [OF assms(1,2)]
        assms(1) succeeds_audit [OF assms(1,2)])
       (use assms(3-5) one in \<open>simp_all add: holder_def receipt_of_def\<close>)
  from succeeds_transaction [OF assms(1) this] show ?thesis by (simp add: complete_revoke_credential_def)
qed

lemma succeeds_mark_deleted:
  assumes "no_faults env" "schema_ok (tx_db s)" "task_ready st (tx_db s) (DeleteTask d i)"
    and "\<And>s' rows. tx_db s' = (tx_db s)\<lparr>services := rows\<rparr> \<Longrightarrow> schema_ok (tx_db s') \<Longrightarrow> Q 1 s'"
  shows "succeeds (tx_execute (mark_deleted d i)) Q env s"
proof (rule succeeds_execute, rule assms(1))
  let ?op = "dc_operation d"
  let ?P = "\<lambda>r. sv_id r = op_service_instance_id ?op \<and> sv_organization_id r = op_organization_id ?op
      \<and> sv_project_id r = op_project_id ?op \<and> sv_phase r \<noteq> ''deleted''"
  let ?f = "\<lambda>r. r\<lparr>sv_desired_generation := dc_generation d, sv_observed_generation := dc_generation d,
      sv_phase := ''deleted'', sv_current_operation_id := i, sv_last_error := None,
      sv_deleted_at := Some (pg_now env), sv_updated_at := pg_now env\<rparr>"
  let ?rows = "update_rows ?P ?f (services (tx_db s))"
  obtain r where r: "r \<in> set (services (tx_db s))" "?P r" "dc_generation d = sv_desired_generation r + 1"
    using assms(3) by (auto simp: service_is_def in_scope_def)
  have "count_rows ?P (services (tx_db s)) = 1"
    by (rule count_rows_unique_1 [where k = sv_id and r = r]) (use schema_okD(1) [OF assms(2)] r in simp_all)
  moreover have "0 < dc_generation d" using schema_okD(13) [OF assms(2) r(1)] r(3) by (simp add: service_check_def)
  then have "service_check x \<Longrightarrow> service_check (?f x)" for x by (simp add: service_check_def)
  then have "list_all service_check ?rows"
    using schema_okD(13) [OF assms(2)] by (auto simp: list_all_iff in_update_rows)
  moreover have "services_unique ?rows"
    using assms(2) by (auto simp: schema_ok_def services_unique_def intro!: unique_on_update)
  ultimately show put: "mark_deleted d i env n (tx_db s) = Ok (1, (tx_db s)\<lparr>services := ?rows\<rparr>)" for n
    by (simp add: mark_deleted_def put_services_def Let_def)
  show "Q 1 s'" if "tx_db s' = (tx_db s)\<lparr>services := ?rows\<rparr>" for s'
  proof (rule assms(4) [OF that], unfold that)
    show "schema_ok ((tx_db s)\<lparr>services := ?rows\<rparr>)"
      using assms(2) put [of 0] by (auto simp: mark_deleted_def put_services_def Let_def schema_ok_def)
  qed
qed

lemma delete_succeeds:
  assumes "no_faults env" "recordable st env db response audit" "schema_ok db" "keys_backed db"
    "holder db (dc_operation d) i" "task_ready st db (DeleteTask d i)"
  shows "is_ok (fst (complete_delete st d i response audit env db))"
proof -
  have "succeeds (complete_delete_body st d i response audit) (\<lambda>_ _. True) env (tx_initial db)"
    unfolding complete_delete_body_def Let_def
    by (intro succeeds_bind succeeds_lock succeeds_require succeeds_revoke succeeds_mark_deleted [where st = st]
        succeeds_delete_names succeeds_else succeeds_finish [OF assms(1,2)] assms(1) succeeds_audit [OF assms(1,2)])
       (use assms(3-6) in \<open>simp_all add: holder_def receipt_of_def service_is_def\<close>)
  from succeeds_transaction [OF assms(1) this] show ?thesis by (simp add: complete_delete_def)
qed

text \<open>
  C13: a held operation can be ended: in every reachable state, a task that still holds its receipt can,
  without faults of the database and with a response and an event that can be recorded, always record
  its failure, and a deletion and a revocation can always be completed. Whatever other processes did
  since the operation was granted, it is never refused.
\<close>
theorem held_operations_can_be_ended:
  assumes "reachable st w" and "t \<in> w_tasks w" and "holder (w_db w) (task_operation t) (task_id t)"
    and "no_faults env" and "recordable st env (w_db w) response audit" and "sh_failed failure"
    and "recordable st env (w_db w) failure audit"
  shows "is_ok (fst (fail_operation st (task_operation t) (task_id t) failure audit env (w_db w)))
     \<and> (case t of
          DeleteTask d i \<Rightarrow> is_ok (fst (complete_delete st d i response audit env (w_db w)))
        | RevokeTask v i \<Rightarrow> is_ok (fst (complete_revoke_credential st v i response audit env (w_db w)))
        | _ \<Rightarrow> True)"
proof -
  have inv: "invariant st w" using assms(1) by (rule reachable_invariant)
  have schema: "schema_ok (w_db w)" and ready: "task_ready st (w_db w) t"
    using inv assms(2,3) by (simp_all add: invariant_def live_ready_def)
  note backed = reachable_keys_backed [OF assms(1)]
  have "is_ok (fst (fail_operation st (task_operation t) (task_id t) failure audit env (w_db w)))"
    by (rule fail_succeeds [OF assms(4,7) schema backed assms(3,6)])
  moreover have "is_ok (fst (complete_delete st d i response audit env (w_db w)))" if "t = DeleteTask d i" for d i
    by (rule delete_succeeds [OF assms(4,5) schema backed]) (use assms(3) ready that in simp_all)
  moreover have "is_ok (fst (complete_revoke_credential st v i response audit env (w_db w)))" if "t = RevokeTask v i" for v i
    by (rule revoke_succeeds [OF assms(4,5) schema backed]) (use assms(3) ready that in simp_all)
  ultimately show ?thesis by (auto split: task.split)
qed

theorem held_operations_can_be_ended_witness:
  "is_ok (fst (fail_operation example_store (dc_operation example_delete) 104 example_failure example_audit
       (example_env 5 25) (w_db world_delete_started)))
   \<and> is_ok (fst (complete_delete example_store example_delete 104 example_response example_audit
       (example_env 5 25) (w_db world_delete_started)))"
proof -
  let ?t = "DeleteTask example_delete 104"
  have t: "?t \<in> w_tasks world_delete_started" by (simp add: world_delete_started_def)
  have "receipt_of example_delete_started 12 = Some (example_open 12 104 PROVIDER_DELETE_ACTION (Some 2) 20)"
    "receipt_matches (example_open 12 104 PROVIDER_DELETE_ACTION (Some 2) 20) (dc_operation example_delete)"
    "re_operation_id (example_open 12 104 PROVIDER_DELETE_ACTION (Some 2) 20) = 104"
    "re_state (example_open 12 104 PROVIDER_DELETE_ACTION (Some 2) 20) = ''in_progress''"
    "op_idempotency_key (dc_operation example_delete) = 12"
    by code_simp+
  then have holder: "holder (w_db world_delete_started) (task_operation ?t) (task_id ?t)"
    by (simp add: holder_def world_delete_started_def)
  have enc: "ps_aead_encrypt example_store k n (receipt_aad key i) p \<noteq> None" for k n key i p
    by (simp add: example_store_def tagging_enc_def length_receipt_aad)
  have event: "audit_check (audit_row_of (example_env 5 25) example_audit)" by code_simp
  have fresh: "map ar_id (audit_events example_delete_started) = [301, 303]" by code_simp
  have ids: "ar_id r \<noteq> 305" if "r \<in> set (audit_events example_delete_started)" for r
  proof
    assume "ar_id r = 305"
    with that have "305 \<in> set (map ar_id (audit_events example_delete_started))" by force
    then show False unfolding fresh by simp
  qed
  have common: "pg_nonce (example_env 5 25) = Some (replicate 12 1)" "pg_new_audit_id (example_env 5 25) = 305"
    "ps_json_to_vec example_store JNull = Some [1]"
    by (simp_all add: example_env_def example_store_def)
  have rec: "recordable example_store (example_env 5 25) (w_db world_delete_started) r example_audit"
    if "sh_body r = JNull" "100 \<le> uint (sh_status r)" "uint (sh_status r) \<le> 599" for r
    unfolding recordable_def using that enc event ids
    by (simp add: common world_delete_started_def) (simp add: example_audit_def)
  have response: "recordable example_store (example_env 5 25) (w_db world_delete_started) example_response example_audit"
    "recordable example_store (example_env 5 25) (w_db world_delete_started) example_failure example_audit"
    by (rule rec; code_simp)+
  have "sh_failed example_failure" by (simp add: example_failure_def)
  from held_operations_can_be_ended [OF example_reachable(5) t holder example_no_faults response(1) this response(2)]
  show ?thesis by simp
qed

end
