(* ===== verification/Store_Conflicts.thy ===== *)
theory Store_Conflicts
  imports Store_Safety
begin

text \<open>
  Two places where the statements of the store disagree with each other. A deleted service releases its
  bucket name but keeps its bucket row, whose name is unique; a usage measurement is compared with the
  snapshot of the service but not with its bucket row.
\<close>

section \<open>Names of deleted buckets\<close>

lemma completed_reconcile_owns_name:
  assumes "complete_reconcile st c i physical response audit env db = (r, db')" and "db' \<noteq> db \<or> r = Ok ()"
    and "b \<in> set (buckets db)" and "bk_bucket_name b = sp_bucket_name (rc_spec c)"
  shows "bk_service_instance_id b = op_service_instance_id (rc_operation c)"
proof (rule ccontr)
  let ?sid = "op_service_instance_id (rc_operation c)"
  assume other: "bk_service_instance_id b \<noteq> ?sid"
  obtain mid where "reconciled st c i physical env db mid" using complete_reconcile_effect [OF assms(1,2)] by blast
  then obtain spec qb qo n m db1 db2 where u: "upsert_service c spec i env n db = Ok (1, db1)"
    and ub: "upsert_bucket c physical qb qo env m db1 = Ok ((), db2)"
    unfolding reconciled_def by blast
  obtain same: "same_but bk_service_instance_id ?sid (buckets db1) (buckets db2)"
    and named: "\<And>x. x \<in> set (buckets db2) \<Longrightarrow> bk_service_instance_id x = ?sid \<Longrightarrow>
      bk_physical_bucket_id x = Some physical \<and> bk_bucket_name x = sp_bucket_name (rc_spec c)"
    and own: "\<exists>x \<in> set (buckets db2). bk_service_instance_id x = ?sid"
    using ub by (rule upsert_bucket_rows) blast
  have "unique_on bk_bucket_name (buckets db2)"
    using ub by (auto simp: upsert_bucket_def put_buckets_def buckets_unique_def Let_def split: if_splits)
  moreover have "b \<in> set (buckets db2)"
    using same other assms(3) upsert_service_Ok(1) [OF u] by (simp add: same_but_def)
  ultimately show False using own named assms(4) other unique_on_same by metis
qed

text \<open>
  C38: a bucket name is never free again: once a bucket row has a name, no reconciliation of another
  service with that name ever completes, in any later state. A deletion releases the reservation of the
  name but keeps the bucket row; the example shows such a reconciliation granted after a deletion.
\<close>
theorem reused_bucket_name_never_completes:
  assumes "reachable st w" and "store_run st w w'" and "b \<in> set (buckets (w_db w))"
    and "bk_bucket_name b = sp_bucket_name (rc_spec c)"
    and "bk_service_instance_id b \<noteq> op_service_instance_id (rc_operation c)"
  shows "\<not> is_ok (fst (complete_reconcile st c i physical response audit env (w_db w')))
     \<and> snd (complete_reconcile st c i physical response audit env (w_db w')) = w_db w'"
proof -
  obtain b' where b': "b' \<in> set (buckets (w_db w'))" "bk_service_instance_id b' = bk_service_instance_id b"
    "bk_bucket_name b' = bk_bucket_name b"
    using run_buckets [OF assms(1-3)] by blast
  obtain r db' where run: "complete_reconcile st c i physical response audit env (w_db w') = (r, db')" by fastforce
  with completed_reconcile_owns_name [OF run _ b'(1)] b' assms(4,5) show ?thesis by auto
qed

text \<open>Another service asks for the bucket name of the deleted example service.\<close>

definition example_reuse :: reconcile_command where
  "example_reuse = example_reconcile\<lparr>rc_operation := (example_operation 20 PROVIDER_RECONCILE_ACTION (Some 1))
     \<lparr>op_service_instance_id := 8\<rparr>, rc_name := ''again''\<rparr>"

theorem reused_bucket_name_never_completes_witness:
  "(case prepare_reconcile example_store example_reuse (example_env 6 30) (w_db world_deleted) of
      (Ok (Execute i ctx), db) \<Rightarrow> \<not> is_ok (fst (complete_reconcile example_store example_reuse i ''phys2''
        example_response example_audit (example_env 7 35) db))
    | _ \<Rightarrow> False)"
proof -
  let ?p = "prepare_reconcile example_store example_reuse (example_env 6 30) (w_db world_deleted)"
  have granted: "(case ?p of (Ok (Execute i ctx), db) \<Rightarrow> True | _ \<Rightarrow> False)"
    unfolding world_deleted_def by code_simp
  let ?w = "started_world world_deleted (example_env 6 30) (snd ?p) (granted (\<lambda>i _. ReconcileTask example_reuse i) (fst ?p))"
  have "step example_store world_deleted ?w"
    by (rule start_reconcile [OF surjective_pairing]) (code_simp, simp add: world_defs example_env_def)
  then have run: "store_run example_store world_deleted ?w" by (rule r_into_rtranclp)
  have b: "example_bucket \<in> set (buckets (w_db world_deleted))" by (simp add: world_deleted_def example_deleted_def example_key_ready_def example_ready_def)
  have "bk_bucket_name example_bucket = sp_bucket_name (rc_spec example_reuse)"
    "bk_service_instance_id example_bucket \<noteq> op_service_instance_id (rc_operation example_reuse)"
    by code_simp+
  note never = reused_bucket_name_never_completes [OF example_reachable(6) run b this]
  have "w_db ?w = snd ?p" by (simp add: started_world_def)
  with never granted show ?thesis by (auto split: prod.splits sum.splits prepare.splits)
qed

section \<open>Late measurements\<close>

lemma late_update:
  assumes "unique_on us_service_instance_id rows" and "u \<in> set rows" and "us_service_instance_id u = sid"
    and "t < us_measured_at u"
  shows "update_rows (\<lambda>x. us_service_instance_id x = sid \<and> us_measured_at x \<le> t) f rows = rows"
  unfolding update_rows_def
proof (rule map_idI)
  fix x assume "x \<in> set rows"
  with assms have "us_service_instance_id x = sid \<Longrightarrow> x = u" using unique_on_same by metis
  with assms(4) show "(if us_service_instance_id x = sid \<and> us_measured_at x \<le> t then f x else x) = x" by auto
qed

lemma wlp_late_usage:
  assumes "schema_ok (tx_db s)" and "u \<in> set (usage_snapshots (tx_db s))" and "us_service_instance_id u = sid"
    and "t < us_measured_at u"
  shows "wlp (store_usage org prj sid bytes objects t) (\<lambda>_ s'. usage_snapshots (tx_db s') = usage_snapshots (tx_db s)
     \<and> buckets (tx_db s') = update_rows (\<lambda>b. bk_service_instance_id b = sid) (\<lambda>b. b\<lparr>bk_used_bytes := bytes,
          bk_used_objects := objects, bk_usage_measured_at := Some t, bk_updated_at := pg_now env\<rparr>) (buckets (tx_db s))
     \<and> (\<exists>b \<in> set (buckets (tx_db s)). bk_service_instance_id b = sid)) env s"
  unfolding store_usage_def
  apply (intro wlp_steps)
  subgoal premises p for s1 bucket k1 s2 n1 k2 s3 n2
  proof -
    have "list_ex (\<lambda>x. us_service_instance_id x = sid) (usage_snapshots (tx_db s2))"
      using assms(2,3) p(1,3) by (auto simp: list_ex_iff put_buckets_def)
    moreover have "unique_on us_service_instance_id (usage_snapshots (tx_db s))" by (rule schema_okD(11) [OF assms(1)])
    moreover have "\<exists>b \<in> set (buckets (tx_db s)). bk_service_instance_id b = sid"
      using p(2) by (auto simp: ok_or_def dest!: find_Some_in split: option.splits)
    ultimately show ?thesis
      using p(1,3,4) late_update [OF _ assms(2-4)]
      by (auto simp: upsert_usage_def Let_def put_buckets_def put_usage_snapshots_def)
  qed
  done

text \<open>
  C39: a late measurement wins in one table and loses in the other: when usage measured before the
  stored snapshot is recorded, the snapshot stays and the bucket row, which the overview reports, is
  overwritten with the older values, so the two disagree.
\<close>
theorem late_usage_splits_the_tables:
  assumes "record_usage org prj sid bytes_used objects_used t env db = (Ok usage, db')" and "schema_ok db"
    and "u \<in> set (usage_snapshots db)" and "us_service_instance_id u = sid" and "t < us_measured_at u"
  shows "usage_snapshots db' = usage_snapshots db
     \<and> (\<exists>b \<in> set (buckets db'). bk_service_instance_id b = sid \<and> bk_used_bytes b = uint bytes_used
          \<and> bk_used_objects b = uint objects_used \<and> bk_usage_measured_at b = Some t)"
proof (rule before_transaction_cases [OF assms(1) [unfolded record_usage_def]])
  fix inputs
  assume i: "try_bind (to_i64 bytes_used ''bytes_used'') (\<lambda>bytes.
       try_bind (to_i64 objects_used ''objects_used'') (\<lambda>objects. Ok (bytes, objects))) = Ok inputs"
    and run: "(case inputs of (bytes, objects) \<Rightarrow> (\<lambda>env db.
       let (result, db') = in_transaction (store_usage org prj sid bytes objects t) env db
       in (try_bind result (\<lambda>bucket. usage_record_of bucket bytes_used objects_used t sid), db')))
       env db = (Ok usage, db')"
  from i have b: "inputs = (uint bytes_used, uint objects_used)"
    by (auto simp: to_i64_def try_bind_Ok i64_try_from_u64_def split: if_splits)
  obtain bucket where "in_transaction (store_usage org prj sid (uint bytes_used) (uint objects_used) t) env db = (Ok bucket, db')"
    using run by (auto simp: b Let_def try_bind_Ok split: prod.splits)
  from in_transaction_Ok [OF this wlp_late_usage [of "tx_initial db", simplified, OF assms(2-5)]]
  obtain x where x: "x \<in> set (buckets db)" "bk_service_instance_id x = sid"
    and db': "usage_snapshots db' = usage_snapshots db"
      "buckets db' = update_rows (\<lambda>b. bk_service_instance_id b = sid) (\<lambda>b. b\<lparr>bk_used_bytes := uint bytes_used,
          bk_used_objects := uint objects_used, bk_usage_measured_at := Some t, bk_updated_at := pg_now env\<rparr>) (buckets db)"
    by auto
  have "x\<lparr>bk_used_bytes := uint bytes_used, bk_used_objects := uint objects_used, bk_usage_measured_at := Some t,
      bk_updated_at := pg_now env\<rparr> \<in> set (buckets db')"
    unfolding db'(2) using update_rowsI [OF x(1), of "\<lambda>b. bk_service_instance_id b = sid"] x(2) by simp
  with db'(1) x(2) show ?thesis by (intro conjI bexI) simp_all
qed auto

text \<open>Two measurements of the example service arrive in the wrong order.\<close>

definition example_measured :: database where
  "example_measured = snd (record_usage 1 2 3 500 5 90 (example_env 8 91) example_ready)"

theorem late_usage_splits_the_tables_witness:
  "usage_snapshots (snd (record_usage 1 2 3 100 1 80 (example_env 9 92) example_measured)) = usage_snapshots example_measured
     \<and> (\<exists>b \<in> set (buckets (snd (record_usage 1 2 3 100 1 80 (example_env 9 92) example_measured))). bk_used_bytes b = 100)"
proof -
  let ?run = "record_usage 1 2 3 100 1 80 (example_env 9 92) example_measured"
  let ?u = "\<lparr>us_service_instance_id = 3, us_organization_id = 1, us_project_id = 2, us_bytes_used = 500,
      us_objects_used = 5, us_measured_at = 90, us_recorded_at = 91\<rparr>"
  have "is_ok (fst ?run)" by code_simp
  then obtain usage where run: "?run = (Ok usage, snd ?run)" by (metis is_ok_iff prod.collapse)
  have "schema_ok example_measured" "?u \<in> set (usage_snapshots example_measured)" by code_simp+
  from late_usage_splits_the_tables [OF run this] show ?thesis by auto
qed

end
