(* ===== verification/Store_Locks.thy ===== *)
theory Store_Locks
  imports Store_Examples
begin

text \<open>
  The order in which the transactions of the store ask for their locks. A transaction keeps its locks
  to its end, so two transactions that ask for the same two locks in opposite orders can wait for each
  other. \<open>logs m P\<close> says which locks a body that returns has asked for.
\<close>

section \<open>Locks of a body\<close>

definition logs :: "'a tx \<Rightarrow> (pg_lock list \<Rightarrow> bool) \<Rightarrow> pg_env \<Rightarrow> tx_state \<Rightarrow> bool" where
  "logs m P env s \<longleftrightarrow> (\<forall>a s'. m env s = (Ok a, s') \<longrightarrow> (\<exists>ls. tx_locks s' = tx_locks s @ ls \<and> P ls))"

abbreviation grows :: "'a tx \<Rightarrow> pg_env \<Rightarrow> tx_state \<Rightarrow> bool" where
  "grows m \<equiv> logs m (\<lambda>_. True)"

lemma logsD: "logs m P env s \<Longrightarrow> m env s = (Ok a, s') \<Longrightarrow> \<exists>ls. tx_locks s' = tx_locks s @ ls \<and> P ls"
  by (simp add: logs_def)

lemma logs_bind:
  assumes "logs m P env s" and "\<And>a s' ls. P ls \<Longrightarrow> logs (f a) (\<lambda>ls'. Q (ls @ ls')) env s'"
  shows "logs (tx_bind m f) Q env s"
  unfolding logs_def
proof (intro allI impI)
  fix b s' assume "tx_bind m f env s = (Ok b, s')"
  then obtain a s1 where m: "m env s = (Ok a, s1)" and f: "f a env s1 = (Ok b, s')"
    by (auto simp: tx_bind_def split: prod.splits sum.splits)
  obtain ls where ls: "tx_locks s1 = tx_locks s @ ls" "P ls" using logsD [OF assms(1) m] by blast
  obtain ls' where "tx_locks s' = tx_locks s1 @ ls'" "Q (ls @ ls')" using logsD [OF assms(2) [OF ls(2)] f] by blast
  with ls(1) show "\<exists>ls. tx_locks s' = tx_locks s @ ls \<and> Q ls" by auto
qed

lemma logs_pure: "P [] \<Longrightarrow> logs (tx_return a) P env s" "logs (tx_throw e) P env s" "P [] \<Longrightarrow> logs (tx_lift r) P env s"
  by (auto simp: logs_def tx_return_def tx_throw_def tx_lift_def)

lemma logs_with_env: "logs (f env) P env s \<Longrightarrow> logs (tx_with_env f) P env s"
  by (simp add: logs_def tx_with_env_def)

lemma logs_if: "(b \<Longrightarrow> logs m P env s) \<Longrightarrow> (\<not> b \<Longrightarrow> logs m' P env s) \<Longrightarrow> logs (if b then m else m') P env s"
  by simp

lemma logs_option:
  "(x = None \<Longrightarrow> logs m P env s) \<Longrightarrow> (\<And>a. x = Some a \<Longrightarrow> logs (f a) P env s) \<Longrightarrow>
     logs (case x of None \<Rightarrow> m | Some a \<Rightarrow> f a) P env s"
  by (cases x) simp_all

lemma logs_prod: "(\<And>a b. p = (a, b) \<Longrightarrow> logs (f a b) P env s) \<Longrightarrow> logs (case p of (a, b) \<Rightarrow> f a b) P env s"
  by (cases p) simp

lemma logs_statement:
  "P [] \<Longrightarrow> logs (tx_query q) P env s" "P [] \<Longrightarrow> logs (tx_execute x) P env s" "P [] \<Longrightarrow> logs (tx_execute_mapped y) P env s"
  by (auto simp: logs_def tx_eval split: sum.splits prod.splits if_splits)

lemma logs_query_for_update: "(\<And>a. P (locks a)) \<Longrightarrow> logs (tx_query_for_update q locks) P env s"
  by (auto simp: logs_def tx_eval split: if_splits)

lemma logs_lock: "P [l] \<Longrightarrow> logs (advisory_lock l) P env s" "P [ServiceLock sid] \<Longrightarrow> logs (lock_service sid) P env s"
  by (auto simp: logs_def tx_eval split: if_splits)

lemmas grows_steps = logs_bind [where P = "\<lambda>_. True"] logs_pure logs_with_env logs_if logs_option logs_prod
  logs_statement logs_query_for_update logs_lock

lemma grows_rows: "grows (fetch_service_row sid u) env s" "grows (fetch_bucket_row sid) env s"
  unfolding fetch_service_row_def fetch_bucket_row_def by (intro grows_steps TrueI)+

lemma grows_reject: "grows (reject_parallel_operation sid key) env s"
proof -
  have "grows (case rows of [] \<Rightarrow> tx_return () | r # _ \<Rightarrow> tx_throw (OperationInProgress (re_operation_id r))) env s" for rows s
    by (cases rows) (auto intro: grows_steps)
  then show ?thesis unfolding reject_parallel_operation_def by (intro grows_steps TrueI)
qed

lemma grows_finish: "grows (finish_receipt st operation i response) env s"
  unfolding finish_receipt_def lock_receipt_row_def Let_def by (intro grows_steps TrueI)

lemma grows_audit: "grows (insert_audit audit) env s"
  unfolding insert_audit_def by (intro grows_steps TrueI)

lemma grows_reserve: "grows (claimed_or_reserve claimed operation) env s"
  unfolding claimed_or_reserve_def reserve_receipt_def Let_def by (intro grows_steps TrueI)

section \<open>Orders\<close>

text \<open>A lock is asked for before another one.\<close>

definition asked_before :: "pg_lock \<Rightarrow> pg_lock \<Rightarrow> pg_lock list \<Rightarrow> bool" where
  "asked_before a b ls \<longleftrightarrow> b \<in> set (tl (dropWhile (\<lambda>l. l \<noteq> a) ls)) \<and> b \<notin> set (takeWhile (\<lambda>l. l \<noteq> a) ls)"

lemma asked_beforeI: "a \<notin> set xs \<Longrightarrow> b \<notin> set xs \<Longrightarrow> b \<in> set ys \<Longrightarrow> asked_before a b (xs @ a # ys)"
  by (auto simp: asked_before_def dropWhile_append takeWhile_append)

lemma require_locks:
  "logs (require_in_progress_receipt operation i) (\<lambda>ls. ls = [ReceiptRowLock (op_idempotency_key operation)]) env s"
  by (auto simp: logs_def require_in_progress_receipt_def lock_receipt_row_def tx_eval split: if_splits option.splits)

lemma claim_locks:
  assumes "receipt_of (tx_db s) (op_idempotency_key operation) \<noteq> None"
  shows "logs (claim_existing_receipt st operation) (\<lambda>ls. \<exists>ls'. ls = ReceiptRowLock (op_idempotency_key operation) # ls') env s"
  unfolding claim_existing_receipt_def
proof (rule logs_bind [where P = "\<lambda>ls. ls = [ReceiptRowLock (op_idempotency_key operation)]"])
  show "logs (lock_receipt_row (op_idempotency_key operation)) (\<lambda>ls. ls = [ReceiptRowLock (op_idempotency_key operation)]) env s"
    using assms by (auto simp: logs_def lock_receipt_row_def tx_eval split: if_splits)
qed (auto simp: Let_def intro!: grows_steps)

text \<open>The end of a held operation: the service is locked before the row of the receipt.\<close>

lemma completion_locks:
  assumes "\<And>s'. grows m env s'"
  shows "logs (tx_bind (lock_service sid) (\<lambda>_. tx_bind (require_in_progress_receipt operation i) (\<lambda>_. m)))
     (\<lambda>ls. \<exists>ls'. ls = ServiceLock sid # ReceiptRowLock (op_idempotency_key operation) # ls') env s"
  by (rule logs_bind [where P = "\<lambda>ls. ls = [ServiceLock sid]", OF logs_lock(2)], simp)
     (rule logs_bind [OF require_locks], use assms in \<open>auto simp: logs_def\<close>)

lemma reconcile_completion_locks:
  "logs (complete_reconcile_body st c i physical response audit inputs)
     (\<lambda>ls. \<exists>ls'. ls = ServiceLock (op_service_instance_id (rc_operation c))
        # ReceiptRowLock (op_idempotency_key (rc_operation c)) # ls') env s"
  unfolding complete_reconcile_body_def Let_def
  by (rule logs_prod, rule logs_prod, rule completion_locks) (intro grows_steps grows_finish grows_audit TrueI)

lemma failure_locks:
  "logs (fail_operation_body st operation i response audit)
     (\<lambda>ls. \<exists>ls'. ls = OrganizationCredentialsLock (op_organization_id operation)
        # ServiceLock (op_service_instance_id operation) # ReceiptRowLock (op_idempotency_key operation) # ls') env s"
  unfolding fail_operation_body_def
  by (rule logs_bind [where P = "\<lambda>ls. ls = [OrganizationCredentialsLock (op_organization_id operation)]", OF logs_lock(1)])
    (simp_all, rule completion_locks, intro grows_steps grows_finish grows_audit TrueI)

text \<open>The takeover of an operation: the row of its receipt is locked before the service.\<close>

lemma claim_not_execute:
  "claim_existing_receipt st operation env s = (Ok (Prepared p), s') \<Longrightarrow> p \<noteq> Execute i c"
  by (auto simp: claim_existing_receipt_def lock_receipt_row_def tx_eval
      split: if_splits option.splits sum.splits prod.splits)

lemma takeover_locks:
  assumes run: "with_claim st operation body env (tx_initial db) = (Ok (Execute i x), s)"
    and old: "receipt_of db (op_idempotency_key operation) \<noteq> None"
    and body: "\<And>claimed s. logs (body claimed) (\<lambda>ls. l \<in> set ls) env s"
  shows "\<exists>xs. tx_locks s = OperationLock (op_idempotency_key operation)
     # ReceiptRowLock (op_idempotency_key operation) # xs \<and> l \<in> set xs"
proof -
  let ?key = "op_idempotency_key operation"
  obtain s1 s2 claim where lock: "advisory_lock (OperationLock ?key) env (tx_initial db) = (Ok (), s1)"
    and claim: "claim_existing_receipt st operation env s1 = (Ok claim, s2)"
    and rest: "(case claim of ClaimNew \<Rightarrow> body None | TakenOver operation_id \<Rightarrow> body (Some operation_id)
      | Prepared prepared \<Rightarrow> tx_return (map_context prepared)) env s2 = (Ok (Execute i x), s)"
    using run unfolding with_claim_def by (auto simp: tx_bind_def split: prod.splits sum.splits)
  from lock have s1: "tx_db s1 = db" "tx_locks s1 = [OperationLock ?key]"
    by (auto simp: tx_eval split: if_splits)
  obtain ls where ls: "tx_locks s2 = OperationLock ?key # ReceiptRowLock ?key # ls"
    using logsD [OF claim_locks claim] old s1 by auto
  have "\<exists>claimed. body claimed env s2 = (Ok (Execute i x), s)"
  proof (cases claim)
    case (Prepared p)
    with rest claim_not_execute [OF claim [unfolded Prepared]] show ?thesis
      by (cases p) (auto simp: tx_return_def)
  qed (use rest in auto)
  then obtain claimed where "body claimed env s2 = (Ok (Execute i x), s)" ..
  from logsD [OF body this] ls show ?thesis by auto
qed

lemma prepare_reconcile_locks:
  "logs (prepare_reconcile_body st c claimed)
     (\<lambda>ls. ServiceLock (op_service_instance_id (rc_operation c)) \<in> set ls) env s"
proof -
  have check: "grows (check_existing_service st c existing) env s'" for existing s'
    unfolding check_existing_service_def Let_def by (intro grows_steps grows_rows TrueI)
  show ?thesis unfolding prepare_reconcile_body_def Let_def
    unfolding reserve_bucket_name_def
    by (rule logs_bind [where P = "\<lambda>ls. ls = [ServiceLock (op_service_instance_id (rc_operation c))]", OF logs_lock(2)])
      (simp_all, intro grows_steps grows_reject grows_rows grows_reserve check TrueI)
qed

section \<open>The cycle\<close>

text \<open>
  C27: A takeover and a late end of the same reconciliation ask for the same two locks in opposite
  orders. A \<open>prepare_reconcile\<close> that finds the receipt of its idempotency key and goes on to execute asks
  for the row lock of that receipt before the lock of the service. \<open>complete_reconcile\<close> and
  \<open>fail_operation\<close> of that operation ask for the lock of the service before the row lock of the
  receipt. The locks are held to the end of the transactions, so a schedule in which each has its
  first lock leaves both waiting; PostgreSQL ends it by aborting one of them.
\<close>
theorem takeover_and_completion_cross_locks:
  assumes "with_claim st (rc_operation c) (prepare_reconcile_body st c) env (tx_initial db) = (Ok (Execute i x), s)"
    and "receipt_of db (op_idempotency_key (rc_operation c)) \<noteq> None"
    and "complete_reconcile_body st c j physical response audit inputs env' (tx_initial db') = (Ok (), t)"
    and "fail_operation_body st (rc_operation c) j failure audit' env'' (tx_initial db'') = (Ok (), u)"
    and "key = ReceiptRowLock (op_idempotency_key (rc_operation c))"
    and "sid = ServiceLock (op_service_instance_id (rc_operation c))"
  shows "asked_before key sid (tx_locks s) \<and> asked_before sid key (tx_locks t) \<and> asked_before sid key (tx_locks u)"
proof (intro conjI)
  obtain xs where "tx_locks s = [OperationLock (op_idempotency_key (rc_operation c))] @ key # xs" "sid \<in> set xs"
    using takeover_locks [OF assms(1,2) prepare_reconcile_locks] assms(5,6) by auto
  then show "asked_before key sid (tx_locks s)"
    using asked_beforeI [of key "[OperationLock (op_idempotency_key (rc_operation c))]"] assms(5,6) by simp
  show "asked_before sid key (tx_locks t)"
    using logsD [OF reconcile_completion_locks assms(3)] assms(5,6)
    by (auto simp: tx_initial_def asked_before_def)
  show "asked_before sid key (tx_locks u)"
    using logsD [OF failure_locks assms(4)] assms(5,6) by (auto simp: tx_initial_def asked_before_def)
qed

text \<open>
  The operation 100 of the started reconciliation is taken over as operation 101 after its lease has
  run out, while its first holder ends it.
\<close>

definition example_takeover :: "(store_error + reconcile_context prepare) \<times> tx_state" where
  "example_takeover = with_claim example_store (rc_operation example_reconcile)
     (prepare_reconcile_body example_store example_reconcile) (example_env 1 1000000000) (tx_initial example_started)"

definition example_late_completion :: "(store_error + unit) \<times> tx_state" where
  "example_late_completion = complete_reconcile_body example_store example_reconcile 100 ''phys'' example_response example_audit
     (example_spec_json, 1, 1) (example_env 1 5) (tx_initial example_started)"

definition example_late_failure :: "(store_error + unit) \<times> tx_state" where
  "example_late_failure = fail_operation_body example_store (rc_operation example_reconcile) 100 example_failure example_audit
     (example_env 1 5) (tx_initial example_started)"

lemma example_lock_runs:
  "fst example_takeover = Ok (Execute 101
     \<lparr>rx_bucket = reconcile_bucket example_reconcile None, rx_previously_applied = False\<rparr>)"
  "fst example_late_completion = Ok ()"
  "fst example_late_failure = Ok ()"
  "receipt_of example_started (op_idempotency_key (rc_operation example_reconcile)) \<noteq> None"
  by code_simp+

lemma run_state: "fst r = a \<Longrightarrow> r = (a, snd r)"
  by (cases r) simp

lemmas example_lock_states = example_lock_runs(1-3) [THEN run_state]

theorem takeover_and_completion_cross_locks_witness:
  "asked_before (ReceiptRowLock 10) (ServiceLock 3) (tx_locks (snd example_takeover))
     \<and> asked_before (ServiceLock 3) (ReceiptRowLock 10) (tx_locks (snd example_late_completion))
     \<and> asked_before (ServiceLock 3) (ReceiptRowLock 10) (tx_locks (snd example_late_failure))"
proof -
  note runs = example_lock_states [THEN trans [rotated]]
  show ?thesis
    by (rule takeover_and_completion_cross_locks [OF
        runs(1) [OF example_takeover_def [symmetric]] example_lock_runs(4)
        runs(2) [OF example_late_completion_def [symmetric]] runs(3) [OF example_late_failure_def [symmetric]]])
      (simp_all add: example_reconcile_def example_operation_def)
qed

end
