(* ===== verification/Store_Idempotency.thy ===== *)
theory Store_Idempotency
  imports Store_Examples
begin

text \<open>
  Idempotency and leases: a finished request is replayed, a running one is waited for or taken over
  after its lease, a process that lost its lease is fenced off, and a key is never reused. The
  properties are facts of the contracts in \<open>Receipt_Contracts\<close>, as interpreted by the operations.
\<close>

section \<open>Idempotent requests\<close>

text \<open>
  A completed reconciliation is idempotent: once \<open>complete_reconcile\<close> returned \<open>Ok\<close>, or had its
  effect while the acknowledgement of the commit was lost, preparing the same command again (same
  idempotency key) replays the stored response and changes nothing, whatever identifiers or clocks
  the second request has.
\<close>
lemma completed_reconcile_replayed:
  assumes "schema_ok db" and "store_codecs_ok st" and "reconcile_validate command = Ok ()"
    and "complete_reconcile st command operation_id physical response audit env db = (r, db')"
    and "r = Ok () \<or> db' \<noteq> db" and "no_faults env'"
  shows "prepare_reconcile st command env' db' = (Ok (Replay response), db')"
  using reconcile_cycle.completed_is_replayed [OF assms(1,2,4) _ assms(3,6)] assms(5) by blast

lemma completed_reconcile_replayed_example:
  "prepare_reconcile example_store example_reconcile (example_env 9 99) example_ready
     = (Ok (Replay example_response), example_ready)"
  by (rule completed_reconcile_replayed [OF _ example_codecs_ok _ example_completes(1) _ example_no_faults];
      code_simp)

text \<open>
  C7: a created credential is delivered again: once \<open>complete_create_credential\<close> returned \<open>Ok\<close> or had
  its effect in a commit whose acknowledgement was lost, preparing the same command again replays the stored response, which carries the secret that is
  stored nowhere else, and no second credential is reserved.
\<close>
theorem completed_create_replayed:
  assumes "schema_ok db" and "store_codecs_ok st" and "create_credential_validate command = Ok ()"
    and "complete_create_credential st command operation_id credential response audit env db = (r, db')"
    and "r = Ok () \<or> db' \<noteq> db" and "no_faults env'"
  shows "prepare_create_credential st command env' db' = (Ok (Replay response), db')"
  using create_cycle.completed_is_replayed [OF assms(1,2,4) _ assms(3,6)] assms(5) by blast

theorem completed_create_replayed_witness:
  "prepare_create_credential example_store example_create (example_env 9 99) example_key_ready
     = (Ok (Replay example_response), example_key_ready)"
  by (rule completed_create_replayed [OF _ example_codecs_ok _ example_completes(2) _ example_no_faults];
      code_simp)

text \<open>
  A completed deletion is idempotent although the service is gone: preparing the same command
  again replays the stored response instead of reporting that the service does not exist.
\<close>
lemma completed_delete_replayed:
  assumes "schema_ok db" and "store_codecs_ok st" and "delete_validate command = Ok ()"
    and "complete_delete st command operation_id response audit env db = (r, db')"
    and "r = Ok () \<or> db' \<noteq> db" and "no_faults env'"
  shows "prepare_delete st command env' db' = (Ok (Replay response), db')"
  using delete_cycle.completed_is_replayed [OF assms(1,2,4) _ assms(3,6)] assms(5) by blast

lemma completed_delete_replayed_example:
  "prepare_delete example_store example_delete (example_env 9 99) example_deleted
     = (Ok (Replay example_response), example_deleted)"
  by (rule completed_delete_replayed [OF _ example_codecs_ok _ example_completes(3) _ example_no_faults];
      code_simp)

text \<open>
  C17: a failure is final for its key: after \<open>fail_operation\<close> recorded a failed response, preparing the
  same credential request again replays the failure; the reservation of the failed attempt is gone.
\<close>
theorem failed_operation_replayed:
  assumes "schema_ok db" and "store_codecs_ok st" and "create_credential_validate command = Ok ()"
    and "fail_operation st (cc_operation command) operation_id response audit env db = (Ok (), db')"
    and "no_faults env'"
  shows "prepare_create_credential st command env' db' = (Ok (Replay response), db')
    \<and> sh_failed response \<and> reservation_of db' operation_id = None"
proof (intro conjI)
  show "prepare_create_credential st command env' db' = (Ok (Replay response), db')"
    using create_failure.completed_is_replayed [OF assms(1,2,4) _ assms(3,5)] by blast
  show "sh_failed response" using fail_operation_failed [OF assms(4)] by simp
  have "credential_reservations db' = credential_reservations
      (release_reservations (cc_operation command) operation_id db)"
    using closing_effectD [OF fail_operation_effect [OF assms(4)]] by simp
  then show "reservation_of db' operation_id = None"
    by (auto simp: reservation_of_def release_reservations_def find_None_iff)
qed

definition example_key_failed :: database where
  "example_key_failed = example_ready\<lparr>
     receipts := receipts example_ready @
       [finished example_failure (replicate 12 1) (replicate 15 0 @ [11] @ replicate 15 0 @ [102]
          @ as_bytes ''syouyu-receipt-1'' @ [1]) 15 (example_open 11 102 CREDENTIAL_CREATE_ACTION None 10)],
     audit_events := audit_events example_ready @ [example_audit_row 303 15]\<rparr>"

lemma example_fails:
  "fail_operation example_store (cc_operation example_create) 102 example_failure example_audit
     (example_env 3 15) example_key_started = (Ok (), example_key_failed)"
  by code_simp

theorem failed_operation_replayed_witness:
  "prepare_create_credential example_store example_create (example_env 9 99) example_key_failed
     = (Ok (Replay example_failure), example_key_failed)"
  by (rule failed_operation_replayed [OF _ example_codecs_ok _ example_fails example_no_faults, THEN conjunct1];
      code_simp)

section \<open>Leases\<close>

lemma granted_row:
  assumes "holder db operation j"
  obtains row where "receipt_of db (op_idempotency_key operation) = Some row"
    "receipt_matches row operation" "re_operation_id row = j"
  using assms by (auto simp: holder_def)

lemma taken_over_row:
  assumes "receipt_of db key = Some row"
  shows "receipt_of (taken_over env n row db) key = Some (renewed_lease env n row)"
  using assms receipt_of_Some [OF assms] unfolding receipt_of_def taken_over_def
  by simp (subst find_update_rows, simp_all)

text \<open>
  C6: a process that lost its lease is fenced off: once a prepare granted the credential request to
  operation \<open>j\<close>, a process that still works as another operation \<open>i\<close> can neither complete, fail nor
  renew it; each call reports the operation that holds the lease and leaves the database unchanged.
\<close>
theorem superseded_process_is_fenced:
  assumes "schema_ok db" and "prepare_create_credential st command env db = (Ok (Execute j context), db')"
    and "i \<noteq> j" and "no_faults env'" and "credential_inputs st command credential = Ok permissions"
    and "sh_failed failure"
  shows "complete_create_credential st command i credential response audit env' db'
           = (Err (OperationLeaseLost j), db')
       \<and> fail_operation st (cc_operation command) i failure audit env' db' = (Err (OperationLeaseLost j), db')
       \<and> renew_operation (cc_operation command) i env' db' = (Err (OperationLeaseLost j), db')"
proof -
  obtain row where row: "receipt_of db' (op_idempotency_key (cc_operation command)) = Some row"
    "receipt_matches row (cc_operation command)" "re_operation_id row = j"
    using create_start.grants [OF assms(1,2)] by (auto elim: granted_row)
  have "create_credential_validate command = Ok ()"
    using assms(2) by (auto simp: prepare_create_credential_def before_transaction_def split: sum.splits)
  then have v: "\<exists>x. operation_validate (cc_operation command) = Ok x" by auto
  have ne: "re_operation_id row \<noteq> i" using row(3) assms(3) by simp
  from assms(5) have p: "\<exists>x. credential_inputs st command credential = Ok x" by blast
  show ?thesis
    using create_finish.lost [OF p assms(4) row(1,2) ne] fail.lost [OF assms(6,4) row(1,2) ne]
      renew.lost [OF v assms(4) row(1,2) ne] row(3) by simp
qed

text \<open>The run in which the lease of the credential request expires and another process takes over.\<close>

definition example_taken_over :: database where
  "example_taken_over = snd (prepare_create_credential example_store example_create
     (example_env 6 200000000) example_key_started)"

lemma example_takes_over:
  "prepare_create_credential example_store example_create (example_env 6 200000000) example_key_started
     = (Ok (Execute 106 \<lparr>cx_bucket = example_bucket_record, cx_credential_id = 202\<rparr>), example_taken_over)"
  unfolding example_taken_over_def prod_eq_iff fst_conv snd_conv by (intro conjI refl, code_simp)

theorem superseded_process_is_fenced_witness:
  "complete_create_credential example_store example_create 102 example_key example_response example_audit
     (example_env 7 200000001) example_taken_over = (Err (OperationLeaseLost 106), example_taken_over)"
proof -
  have "schema_ok example_key_started" by code_simp
  moreover have "(102 :: uuid) \<noteq> 106" by simp
  moreover have "credential_inputs example_store example_create example_key
     = Ok (JObject [(''read'', JBool True), (''write'', JBool False)])" by code_simp
  moreover have "sh_failed example_failure" by (simp add: example_failure_def)
  ultimately show ?thesis
    using superseded_process_is_fenced [OF _ example_takes_over _ example_no_faults] by blast
qed

text \<open>
  C18: while the lease of a receipt has not expired at any clock reading, a repeated request of any of the
  four kinds, validated and run without faults, is told which operation is running, takes nothing over
  and changes nothing.
\<close>
theorem live_lease_is_respected:
  assumes "schema_ok db" and "no_faults env"
    and "receipt_of db (op_idempotency_key operation) = Some row"
    and "receipt_matches row operation" and "re_state row = ''in_progress''"
    and "re_lease_expires_at row = Some expiry" and "\<And>n. pg_clock env n < expiry"
  shows "(rc_operation c = operation \<longrightarrow> reconcile_validate c = Ok () \<longrightarrow>
       prepare_reconcile st c env db = (Ok (InProgress (re_operation_id row)), db))
     \<and> (dc_operation d = operation \<longrightarrow> delete_validate d = Ok () \<longrightarrow>
       prepare_delete st d env db = (Ok (InProgress (re_operation_id row)), db))
     \<and> (cc_operation k = operation \<longrightarrow> create_credential_validate k = Ok () \<longrightarrow>
       prepare_create_credential st k env db = (Ok (InProgress (re_operation_id row)), db))
     \<and> (vc_operation v = operation \<longrightarrow> operation_validate (vc_operation v) = Ok () \<longrightarrow>
       prepare_revoke_credential st v env db = (Ok (InProgress (re_operation_id row)), db))"
proof (intro conjI impI)
  have live: "\<not> due env n row" for n using assms(7) [of n] by (simp add: due_def assms(6))
  note waits = assms(2,1,3-5) live
  show "prepare_reconcile st c env db = (Ok (InProgress (re_operation_id row)), db)"
    if "rc_operation c = operation" "reconcile_validate c = Ok ()"
    using reconcile_start.waits [OF that(2), unfolded that(1), OF waits] .
  show "prepare_delete st d env db = (Ok (InProgress (re_operation_id row)), db)"
    if "dc_operation d = operation" "delete_validate d = Ok ()"
    using delete_start.waits [OF that(2), unfolded that(1), OF waits] .
  show "prepare_create_credential st k env db = (Ok (InProgress (re_operation_id row)), db)"
    if "cc_operation k = operation" "create_credential_validate k = Ok ()"
    using create_start.waits [OF that(2), unfolded that(1), OF waits] .
  show "prepare_revoke_credential st v env db = (Ok (InProgress (re_operation_id row)), db)"
    if "vc_operation v = operation" "operation_validate (vc_operation v) = Ok ()"
    using revoke_start.waits [OF that(2), unfolded that(1), OF waits] .
qed

text \<open>A revocation has been started on the example service.\<close>

definition example_revoke_started :: database where
  "example_revoke_started = snd (prepare_revoke_credential example_store example_revoke
     (example_env 8 30) example_key_ready)"

lemma example_running:
  "schema_ok example_started" "reconcile_validate example_reconcile = Ok ()"
  "receipt_of example_started (op_idempotency_key (rc_operation example_reconcile)) = Some (example_open 10 100 PROVIDER_RECONCILE_ACTION (Some 1) 0)"
  "receipt_matches (example_open 10 100 PROVIDER_RECONCILE_ACTION (Some 1) 0) (rc_operation example_reconcile)"
  "schema_ok example_delete_started" "delete_validate example_delete = Ok ()"
  "receipt_of example_delete_started (op_idempotency_key (dc_operation example_delete)) = Some (example_open 12 104 PROVIDER_DELETE_ACTION (Some 2) 20)"
  "receipt_matches (example_open 12 104 PROVIDER_DELETE_ACTION (Some 2) 20) (dc_operation example_delete)"
  "schema_ok example_key_started" "create_credential_validate example_create = Ok ()"
  "receipt_of example_key_started (op_idempotency_key (cc_operation example_create)) = Some (example_open 11 102 CREDENTIAL_CREATE_ACTION None 10)"
  "receipt_matches (example_open 11 102 CREDENTIAL_CREATE_ACTION None 10) (cc_operation example_create)"
  "schema_ok example_revoke_started" "operation_validate (vc_operation example_revoke) = Ok ()"
  "receipt_of example_revoke_started (op_idempotency_key (vc_operation example_revoke)) = Some (example_open 13 108 CREDENTIAL_REVOKE_ACTION None 30)"
  "receipt_matches (example_open 13 108 CREDENTIAL_REVOKE_ACTION None 30) (vc_operation example_revoke)"
  by code_simp+

lemma example_open_lease:
  "re_state (example_open key i action generation t) = ''in_progress''"
  "re_lease_expires_at (example_open key i action generation t) = Some (t + 120000000)"
  "re_operation_id (example_open key i action generation t) = i"
  by (simp_all add: example_open_def new_receipt_def lease_until_def OPERATION_LEASE_SECONDS_def)

lemma example_clock: "pg_clock (example_env k t) n = t"
  by (simp add: example_env_def)

theorem live_lease_is_respected_witness:
  "prepare_reconcile example_store example_reconcile (example_env 6 119999999) example_started
     = (Ok (InProgress 100), example_started)
   \<and> prepare_delete example_store example_delete (example_env 6 120000019) example_delete_started
     = (Ok (InProgress 104), example_delete_started)
   \<and> prepare_create_credential example_store example_create (example_env 6 120000009) example_key_started
     = (Ok (InProgress 102), example_key_started)
   \<and> prepare_revoke_credential example_store example_revoke (example_env 6 120000029) example_revoke_started
     = (Ok (InProgress 108), example_revoke_started)"
proof -
  note lease = live_lease_is_respected [OF _ example_no_faults _ _ example_open_lease(1,2),
      unfolded example_open_lease(3) example_clock]
  show ?thesis
    using lease [OF example_running(1,3,4), THEN conjunct1, rule_format, OF _ refl example_running(2)]
      lease [OF example_running(5,7,8), THEN conjunct2, THEN conjunct1, rule_format, OF _ refl example_running(6)]
      lease [OF example_running(9,11,12), THEN conjunct2, THEN conjunct2, THEN conjunct1, rule_format,
        OF _ refl example_running(10)]
      lease [OF example_running(13,15,16), THEN conjunct2, THEN conjunct2, THEN conjunct2, rule_format,
        OF _ refl example_running(14)]
    by simp
qed

text \<open>
  C15: an operation is taken over only after its lease expired: if preparing a credential request that
  already has a receipt grants it again, then that receipt was in progress under another identifier
  and its lease was over at a clock reading of the server; the new lease runs for 120 seconds from
  that reading and the attempt is counted.
\<close>
theorem takeover_only_after_expiry:
  assumes "schema_ok db" and "prepare_create_credential st command env db = (Ok (Execute j context), db')"
    and "receipt_of db (op_idempotency_key (cc_operation command)) = Some row"
  shows "\<exists>n expiry row'. re_state row = ''in_progress'' \<and> re_lease_expires_at row = Some expiry
     \<and> expiry \<le> pg_clock env n \<and> receipt_of db' (op_idempotency_key (cc_operation command)) = Some row'
     \<and> re_operation_id row' = j \<and> re_lease_attempt row' = re_lease_attempt row + 1
     \<and> re_lease_expires_at row' = Some (pg_clock env n + 120 * 1000000)"
proof -
  from prepare_create_credential_effect [OF assms(2,1)]
  obtain claimed db1 where c: "claim_effect (cc_operation command) env db claimed db1"
    and j: "j = pg_new_operation_id env" and d: "case claimed of None \<Rightarrow> True | Some _ \<Rightarrow> db' = db1"
    by (auto simp: prepare_create_credential_effect_def Let_def split: option.splits)
  from c assms(3) obtain n where n: "claimed = Some (pg_new_operation_id env)"
    "receipt_matches row (cc_operation command)" "re_state row = ''in_progress''" "due env n row"
    "db1 = taken_over env n row db"
    by (auto simp: claim_effect_def)
  from n(4) obtain expiry where "re_lease_expires_at row = Some expiry" "expiry \<le> pg_clock env n"
    by (auto simp: due_def split: option.splits)
  moreover have "receipt_of db' (op_idempotency_key (cc_operation command)) = Some (renewed_lease env n row)"
    using taken_over_row [OF assms(3)] d n(1,5) by simp
  ultimately show ?thesis using n(3) j
    by (intro exI [of _ n] exI [of _ expiry] exI [of _ "renewed_lease env n row"])
       (simp add: renewed_lease_def lease_until_def OPERATION_LEASE_SECONDS_def)
qed

theorem takeover_only_after_expiry_witness:
  "\<exists>n expiry row'. re_lease_expires_at (example_open 11 102 CREDENTIAL_CREATE_ACTION None 10) = Some expiry
     \<and> expiry \<le> pg_clock (example_env 6 200000000) n \<and> receipt_of example_taken_over 11 = Some row'
     \<and> re_operation_id row' = 106"
proof -
  have "schema_ok example_key_started" by code_simp
  moreover have "op_idempotency_key (cc_operation example_create) = 11" by code_simp
  moreover have "receipt_of example_key_started 11 = Some (example_open 11 102 CREDENTIAL_CREATE_ACTION None 10)"
    by code_simp
  ultimately show ?thesis
    using takeover_only_after_expiry [OF _ example_takes_over] by metis
qed

text \<open>
  C19: an idempotency key identifies one request: if the stored receipt belongs to another scope,
  principal, action, generation or request digest, a validated request of any of the four kinds, run
  without faults, is refused as a conflict and nothing changes, whether that receipt is still in
  progress or finished.
\<close>
theorem key_reuse_is_refused:
  assumes "no_faults env" and "receipt_of db (op_idempotency_key operation) = Some row"
    and "\<not> receipt_matches row operation"
  shows "(rc_operation c = operation \<longrightarrow> reconcile_validate c = Ok () \<longrightarrow>
       prepare_reconcile st c env db = (Err IdempotencyConflict, db))
     \<and> (dc_operation d = operation \<longrightarrow> delete_validate d = Ok () \<longrightarrow>
       prepare_delete st d env db = (Err IdempotencyConflict, db))
     \<and> (cc_operation k = operation \<longrightarrow> create_credential_validate k = Ok () \<longrightarrow>
       prepare_create_credential st k env db = (Err IdempotencyConflict, db))
     \<and> (vc_operation v = operation \<longrightarrow> operation_validate (vc_operation v) = Ok () \<longrightarrow>
       prepare_revoke_credential st v env db = (Err IdempotencyConflict, db))"
proof (intro conjI impI)
  show "prepare_reconcile st c env db = (Err IdempotencyConflict, db)"
    if "rc_operation c = operation" "reconcile_validate c = Ok ()"
    using reconcile_start.refuses [OF that(2), unfolded that(1), OF assms] .
  show "prepare_delete st d env db = (Err IdempotencyConflict, db)"
    if "dc_operation d = operation" "delete_validate d = Ok ()"
    using delete_start.refuses [OF that(2), unfolded that(1), OF assms] .
  show "prepare_create_credential st k env db = (Err IdempotencyConflict, db)"
    if "cc_operation k = operation" "create_credential_validate k = Ok ()"
    using create_start.refuses [OF that(2), unfolded that(1), OF assms] .
  show "prepare_revoke_credential st v env db = (Err IdempotencyConflict, db)"
    if "vc_operation v = operation" "operation_validate (vc_operation v) = Ok ()"
    using revoke_start.refuses [OF that(2), unfolded that(1), OF assms] .
qed

text \<open>The key of the started credential request is used again for other requests.\<close>

definition reused_key :: "operation_request \<Rightarrow> operation_request" where
  "reused_key operation = operation\<lparr>op_idempotency_key := 11, op_request_hash := replicate 32 8\<rparr>"

theorem key_reuse_is_refused_witness:
  "prepare_reconcile example_store (example_reconcile\<lparr>rc_operation := reused_key (rc_operation example_reconcile)\<rparr>)
     (example_env 9 99) example_key_started = (Err IdempotencyConflict, example_key_started)
   \<and> prepare_delete example_store (example_delete\<lparr>dc_operation := reused_key (dc_operation example_delete)\<rparr>)
     (example_env 9 99) example_key_started = (Err IdempotencyConflict, example_key_started)
   \<and> prepare_create_credential example_store (example_create\<lparr>cc_operation := reused_key (cc_operation example_create)\<rparr>)
     (example_env 9 99) example_key_started = (Err IdempotencyConflict, example_key_started)
   \<and> prepare_revoke_credential example_store (example_revoke\<lparr>vc_operation := reused_key (vc_operation example_revoke)\<rparr>)
     (example_env 9 99) example_key_started = (Err IdempotencyConflict, example_key_started)"
proof -
  let ?row = "example_open 11 102 CREDENTIAL_CREATE_ACTION None 10"
  have row: "receipt_of example_key_started (op_idempotency_key (reused_key operation)) = Some ?row"
    "\<not> receipt_matches ?row (reused_key operation)" for operation
    by (simp_all add: reused_key_def receipt_matches_def example_open_def new_receipt_def example_operation_def
        example_key_started_def example_ready_def example_started_def receipt_of_def example_closed_def finished_def)
  have valid: "reconcile_validate (example_reconcile\<lparr>rc_operation := reused_key (rc_operation example_reconcile)\<rparr>) = Ok ()"
    "delete_validate (example_delete\<lparr>dc_operation := reused_key (dc_operation example_delete)\<rparr>) = Ok ()"
    "create_credential_validate (example_create\<lparr>cc_operation := reused_key (cc_operation example_create)\<rparr>) = Ok ()"
    "operation_validate (vc_operation (example_revoke\<lparr>vc_operation := reused_key (vc_operation example_revoke)\<rparr>)) = Ok ()"
    by code_simp+
  note refused = key_reuse_is_refused [OF example_no_faults row]
  show ?thesis
  proof (intro conjI)
    show "prepare_reconcile example_store (example_reconcile\<lparr>rc_operation := reused_key (rc_operation example_reconcile)\<rparr>)
        (example_env 9 99) example_key_started = (Err IdempotencyConflict, example_key_started)"
      by (rule refused [THEN conjunct1, rule_format, OF _ valid(1)]) simp
    show "prepare_delete example_store (example_delete\<lparr>dc_operation := reused_key (dc_operation example_delete)\<rparr>)
        (example_env 9 99) example_key_started = (Err IdempotencyConflict, example_key_started)"
      by (rule refused [THEN conjunct2, THEN conjunct1, rule_format, OF _ valid(2)]) simp
    show "prepare_create_credential example_store (example_create\<lparr>cc_operation := reused_key (cc_operation example_create)\<rparr>)
        (example_env 9 99) example_key_started = (Err IdempotencyConflict, example_key_started)"
      by (rule refused [THEN conjunct2, THEN conjunct2, THEN conjunct1, rule_format, OF _ valid(3)]) simp
    show "prepare_revoke_credential example_store (example_revoke\<lparr>vc_operation := reused_key (vc_operation example_revoke)\<rparr>)
        (example_env 9 99) example_key_started = (Err IdempotencyConflict, example_key_started)"
      by (rule refused [THEN conjunct2, THEN conjunct2, THEN conjunct2, rule_format, OF _ valid(4)]) simp
  qed
qed

end
