(* ===== verification/Repository.thy ===== *)
theory Repository
  imports Store_Steps
begin

text \<open>
  The interface between the handlers and the store (\<open>trait Repository\<close> in
  \<open>src/crates/syouyu-api/src/routes.rs\<close>): a record of the operations a handler may call, and
  \<open>pg_repository\<close>, the implementation by \<open>PgStore\<close>. The locale \<open>replaying_operation\<close> says what the handlers rely on; it is
  interpreted on the four operations of \<open>pg_repository\<close>.
\<close>

section \<open>The operations\<close>

record repository =
  rp_health :: "unit store_op"
  rp_prepare_reconcile :: "reconcile_command \<Rightarrow> reconcile_context prepare store_op"
  rp_complete_reconcile ::
    "reconcile_command \<Rightarrow> uuid \<Rightarrow> string \<Rightarrow> stored_http_response \<Rightarrow> audit_event \<Rightarrow> unit store_op"
  rp_prepare_delete :: "delete_command \<Rightarrow> delete_context prepare store_op"
  rp_complete_delete :: "delete_command \<Rightarrow> uuid \<Rightarrow> stored_http_response \<Rightarrow> audit_event \<Rightarrow> unit store_op"
  rp_prepare_create_credential :: "create_credential_command \<Rightarrow> create_credential_context prepare store_op"
  rp_complete_create_credential ::
    "create_credential_command \<Rightarrow> uuid \<Rightarrow> new_credential \<Rightarrow> stored_http_response \<Rightarrow> audit_event \<Rightarrow> unit store_op"
  rp_prepare_revoke_credential :: "revoke_credential_command \<Rightarrow> revoke_credential_context prepare store_op"
  rp_complete_revoke_credential ::
    "revoke_credential_command \<Rightarrow> uuid \<Rightarrow> stored_http_response \<Rightarrow> audit_event \<Rightarrow> unit store_op"
  rp_renew_operation :: "operation_request \<Rightarrow> uuid \<Rightarrow> unit store_op"
  rp_fail_operation :: "operation_request \<Rightarrow> uuid \<Rightarrow> stored_http_response \<Rightarrow> audit_event \<Rightarrow> unit store_op"
  rp_service_overview :: "uuid \<Rightarrow> uuid \<Rightarrow> uuid \<Rightarrow> service_record store_op"
  rp_list_credentials :: "uuid \<Rightarrow> uuid \<Rightarrow> uuid \<Rightarrow> credential_record list store_op"
  rp_record_usage :: "uuid \<Rightarrow> uuid \<Rightarrow> uuid \<Rightarrow> u64 \<Rightarrow> u64 \<Rightarrow> timestamp \<Rightarrow> usage_record store_op"
  rp_record_audit :: "audit_event \<Rightarrow> unit store_op"

definition store_health :: "unit store_op" where
  "store_health = (\<lambda>env db. if pg_fault env 0 then (Err (Database ConnectionLost), db) else (Ok (), db))"

definition pg_repository :: "pg_store \<Rightarrow> repository" where
  "pg_repository st = \<lparr>
     rp_health = store_health,
     rp_prepare_reconcile = prepare_reconcile st,
     rp_complete_reconcile = complete_reconcile st,
     rp_prepare_delete = prepare_delete st,
     rp_complete_delete = complete_delete st,
     rp_prepare_create_credential = prepare_create_credential st,
     rp_complete_create_credential = complete_create_credential st,
     rp_prepare_revoke_credential = prepare_revoke_credential st,
     rp_complete_revoke_credential = complete_revoke_credential st,
     rp_renew_operation = renew_operation,
     rp_fail_operation = fail_operation st,
     rp_service_overview = service_overview st,
     rp_list_credentials = list_credentials st,
     rp_record_usage = record_usage,
     rp_record_audit = record_audit\<rparr>"

lemma pg_repository_sel [simp]:
  "rp_prepare_reconcile (pg_repository st) = prepare_reconcile st"
  "rp_complete_reconcile (pg_repository st) = complete_reconcile st"
  "rp_prepare_delete (pg_repository st) = prepare_delete st"
  "rp_complete_delete (pg_repository st) = complete_delete st"
  "rp_prepare_create_credential (pg_repository st) = prepare_create_credential st"
  "rp_complete_create_credential (pg_repository st) = complete_create_credential st"
  "rp_prepare_revoke_credential (pg_repository st) = prepare_revoke_credential st"
  "rp_complete_revoke_credential (pg_repository st) = complete_revoke_credential st"
  "rp_renew_operation (pg_repository st) = renew_operation"
  "rp_fail_operation (pg_repository st) = fail_operation st"
  by (simp_all add: pg_repository_def)

section \<open>What the handlers rely on\<close>

text \<open>
  A prepare and the completions that may follow it, for one command: every call keeps the database
  well-formed, and after a completion took effect the prepare replays its response from any
  well-formed database that still has the receipt.
\<close>

locale replaying_operation =
  fixes well_formed :: "database \<Rightarrow> bool" and usable :: bool and key :: uuid
    and prepare :: "'c prepare store_op" and completes :: "stored_http_response \<Rightarrow> unit store_op \<Rightarrow> bool"
  assumes prepare_stable: "well_formed db \<Longrightarrow> prepare env db = (r, db') \<Longrightarrow> well_formed db'"
    and completion_stable: "completes response complete \<Longrightarrow> well_formed db \<Longrightarrow> complete env db = (r', db') \<Longrightarrow> well_formed db'"
    and replays: "usable \<Longrightarrow> completes response complete \<Longrightarrow> well_formed db \<Longrightarrow> complete env db = (Ok (), db1) \<Longrightarrow>
      prepare env0 db0 = (Ok (Execute i c), db0') \<Longrightarrow> no_faults env2 \<Longrightarrow>
      receipt_of db2 key = receipt_of db1 key \<Longrightarrow> prepare env2 db2 = (Ok (Replay response), db2)"

text \<open>The store provides this: a start, and completions that close the receipt.\<close>

lemma replaying_operationI:
  assumes start: "starting_operation st operation started prepare"
    and started: "\<And>env db i c db'. prepare env db = (Ok (Execute i c), db') \<Longrightarrow> started"
    and keeps: "\<And>env db r db'. schema_ok db \<Longrightarrow> prepare env db = (r, db') \<Longrightarrow> schema_ok db'"
    and finish: "\<And>response complete. completes response complete \<Longrightarrow>
      \<exists>i finishes audit. completing_operation operation i finishes complete st response audit"
  shows "replaying_operation schema_ok (store_codecs_ok st) (op_idempotency_key operation) prepare completes"
proof (rule replaying_operation.intro)
  fix response complete db env r db'
  assume "completes response complete" "schema_ok db" "complete env db = (r, db')"
  then show "schema_ok db'" using finish completing_operation.keeps_schema by blast
next
  fix response complete db env db1 env0 db0 i c db0' env2 db2
  assume codecs: "store_codecs_ok st" and "completes response complete" "schema_ok db"
    and run: "complete env db = (Ok (), db1)"
    and granted: "prepare env0 db0 = (Ok (Execute i c), db0')" and calm: "no_faults env2"
    and same: "receipt_of db2 (op_idempotency_key operation) = receipt_of db1 (op_idempotency_key operation)"
  from finish [OF \<open>completes response complete\<close>] obtain j finishes audit
    where "completing_operation operation j finishes complete st response audit" by blast
  from completing_operation.stores_response [OF this \<open>schema_ok db\<close> codecs run] same
  obtain row where "receipt_of db2 (op_idempotency_key operation) = Some row" "receipt_matches row operation"
    "re_state row \<noteq> ''in_progress''" "decode_receipt st row = Ok response" by auto
  then show "prepare env2 db2 = (Ok (Replay response), db2)"
    by (rule starting_operation.replays [OF start started [OF granted] calm])
qed (rule keeps)

lemma prepare_validates:
  "prepare_reconcile st c env db = (Ok (Execute i rx), db') \<Longrightarrow> reconcile_validate c = Ok ()"
  "prepare_delete st d env db = (Ok (Execute i dx), db') \<Longrightarrow> delete_validate d = Ok ()"
  "prepare_create_credential st k env db = (Ok (Execute i cx), db') \<Longrightarrow> create_credential_validate k = Ok ()"
  "prepare_revoke_credential st v env db = (Ok (Execute i vx), db') \<Longrightarrow> operation_validate (vc_operation v) = Ok ()"
  by (auto simp: prepare_reconcile_def prepare_delete_def prepare_create_credential_def
      prepare_revoke_credential_def elim!: before_transaction_cases)

lemma prepare_schema:
  "schema_ok db \<Longrightarrow> prepare_reconcile st c env db = (r1, db') \<Longrightarrow> schema_ok db'"
  "schema_ok db \<Longrightarrow> prepare_delete st d env db = (r2, db') \<Longrightarrow> schema_ok db'"
  "schema_ok db \<Longrightarrow> prepare_create_credential st k env db = (r3, db') \<Longrightarrow> schema_ok db'"
  "schema_ok db \<Longrightarrow> prepare_revoke_credential st v env db = (r4, db') \<Longrightarrow> schema_ok db'"
  by (auto simp: prepare_reconcile_effect_def prepare_delete_effect_def prepare_create_credential_effect_def
      prepare_revoke_credential_effect_def Let_def dest: prepare_reconcile_effect prepare_delete_effect
      prepare_create_credential_effect prepare_revoke_credential_effect)

interpretation pg_reconcile: replaying_operation schema_ok "store_codecs_ok st"
    "op_idempotency_key (rc_operation command)" "rp_prepare_reconcile (pg_repository st) command"
    "\<lambda>response complete. \<exists>i physical audit.
       complete = rp_complete_reconcile (pg_repository st) command i physical response audit"
  for st command
  unfolding pg_repository_sel
  by (rule replaying_operationI [OF reconcile_start.starting_operation_axioms prepare_validates(1) prepare_schema(1)],
      assumption+) (blast intro: reconcile_finish.completing_operation_axioms)

interpretation pg_delete: replaying_operation schema_ok "store_codecs_ok st"
    "op_idempotency_key (dc_operation command)" "rp_prepare_delete (pg_repository st) command"
    "\<lambda>response complete. \<exists>i audit. complete = rp_complete_delete (pg_repository st) command i response audit"
  for st command
  unfolding pg_repository_sel
  by (rule replaying_operationI [OF delete_start.starting_operation_axioms prepare_validates(2) prepare_schema(2)],
      assumption+) (blast intro: delete_finish.completing_operation_axioms)

interpretation pg_create: replaying_operation schema_ok "store_codecs_ok st"
    "op_idempotency_key (cc_operation command)" "rp_prepare_create_credential (pg_repository st) command"
    "\<lambda>response complete. \<exists>i credential audit.
       complete = rp_complete_create_credential (pg_repository st) command i credential response audit"
  for st command
  unfolding pg_repository_sel
  by (rule replaying_operationI [OF create_start.starting_operation_axioms prepare_validates(3) prepare_schema(3)],
      assumption+) (blast intro: create_finish.completing_operation_axioms)

interpretation pg_revoke: replaying_operation schema_ok "store_codecs_ok st"
    "op_idempotency_key (vc_operation command)" "rp_prepare_revoke_credential (pg_repository st) command"
    "\<lambda>response complete. \<exists>i audit. complete = rp_complete_revoke_credential (pg_repository st) command i response audit"
  for st command
  unfolding pg_repository_sel
  by (rule replaying_operationI [OF revoke_start.starting_operation_axioms prepare_validates(4) prepare_schema(4)],
      assumption+) (blast intro: revoke_finish.completing_operation_axioms)

end
