(* ===== verification/Provider_Auth.thy ===== *)
theory Provider_Auth
  imports Store_Models
begin

text \<open>
  Provider tokens (\<open>src/crates/syouyu-auth/src/lib.rs\<close>): verification of an Ed25519 JWT against the
  trusted keys, its command claims and its lifetime, and the binding of the idempotency key to the
  token. The JWT library, the PEM and JSON readers and the UUID text are parameters; the clock is read
  once by the JWT library (reading 0) and once by the code (reading 1).
\<close>

section \<open>Parameters\<close>

datatype jwt_algorithm = EdDSA | OtherAlgorithm

record jwt_header =
  jh_alg :: jwt_algorithm
  jh_kid :: "string option"

record jwt_validation =
  jv_algorithm :: jwt_algorithm
  jv_issuer :: "string list"
  jv_audience :: "string list"
  jv_required_spec_claims :: "string list"
  jv_leeway :: u64
  jv_validate_exp :: bool
  jv_validate_nbf :: bool

record provider_claims =
  pc_issuer :: string
  pc_audience :: string
  pc_subject :: uuid
  pc_organization_id :: uuid
  pc_project_id :: uuid
  pc_service_instance_id :: uuid
  pc_action :: string
  pc_generation :: i64
  pc_jwt_id :: uuid
  pc_issued_at :: i64
  pc_not_before :: i64
  pc_expires_at :: i64

record 'k jwt_library =
  jl_keys_from_str :: "string \<Rightarrow> (string \<times> string) list option"
  jl_from_ed_pem :: "bytes \<Rightarrow> 'k option"
  jl_decode_header :: "string \<Rightarrow> jwt_header option"
  jl_decode :: "'k \<Rightarrow> jwt_validation \<Rightarrow> i64 \<Rightarrow> string \<Rightarrow> provider_claims option"
  jl_uuid_to_string :: "uuid \<Rightarrow> string"

text \<open>
  What is relied on: claims are returned only for a token signed with the key, with an accepted issuer
  and audience, not expired and not before its time, up to the leeway.
\<close>

definition jwt_sound :: "'k jwt_library \<Rightarrow> ('k \<Rightarrow> string \<Rightarrow> provider_claims \<Rightarrow> bool) \<Rightarrow> bool" where
  "jwt_sound lib genuine \<longleftrightarrow> (\<forall>key v now token c. jl_decode lib key v now token = Some c \<longrightarrow>
     genuine key token c \<and> pc_issuer c \<in> set (jv_issuer v) \<and> pc_audience c \<in> set (jv_audience v)
     \<and> (jv_validate_exp v \<longrightarrow> now \<le> pc_expires_at c + uint (jv_leeway v))
     \<and> (jv_validate_nbf v \<longrightarrow> pc_not_before c \<le> now + uint (jv_leeway v)))"

section \<open>The authenticator\<close>

definition PROVIDER_CREDENTIAL_REVOKE_ACTION :: string where
  "PROVIDER_CREDENTIAL_REVOKE_ACTION = ''credential.revoke''"
definition PROVIDER_MAX_TOKEN_TTL_SECONDS :: i64 where "PROVIDER_MAX_TOKEN_TTL_SECONDS = 60"
definition PROVIDER_NOT_BEFORE_OFFSET_SECONDS :: i64 where "PROVIDER_NOT_BEFORE_OFFSET_SECONDS = 5"
definition IDEMPOTENCY_KEY_HEADER :: string where "IDEMPOTENCY_KEY_HEADER = ''idempotency-key''"

datatype auth_error =
    MissingCredentials
  | InvalidHeader
  | InvalidToken
  | MissingKeyId
  | UnknownKeyId
  | InvalidProviderCommand
  | InvalidProviderScope
  | InvalidExpectedScope
  | ScopeMismatch
  | TokenLifetimeExceeded
  | MissingIdempotencyKey
  | InvalidIdempotencyKey
  | IdempotencyKeyMismatch
  | InvalidConfiguration string

record 'k provider_authenticator =
  pv_issuer :: string
  pv_audience :: string
  pv_keys :: "(string \<times> 'k) list"
  pv_clock_skew_seconds :: u64

definition validate_key_id :: "string \<Rightarrow> auth_error + unit" where
  "validate_key_id value =
     (if value = [] \<or> length value > 128
         \<or> \<not> list_all (\<lambda>b. is_ascii_alphanumeric b \<or> b \<in> {CHR ''-'', CHR ''_'', CHR ''.''}) value
      then Err (InvalidConfiguration ''provider key ID is invalid'') else Ok ())"

definition from_public_keys_json ::
  "'k jwt_library \<Rightarrow> string \<Rightarrow> string \<Rightarrow> string \<Rightarrow> auth_error + 'k provider_authenticator" where
  "from_public_keys_json lib issuer audience public_keys_json =
     (if issuer = [] \<or> audience = []
      then Err (InvalidConfiguration ''provider issuer and audience are required'')
      else try_bind (ok_or (jl_keys_from_str lib public_keys_json)
             (InvalidConfiguration ''provider public key JSON is invalid'')) (\<lambda>encoded_keys.
      if encoded_keys = []
      then Err (InvalidConfiguration ''at least one provider public key is required'')
      else try_bind (collect_results (map (\<lambda>(key_id, pem).
             try_bind (validate_key_id key_id) (\<lambda>_.
             try_bind (ok_or (jl_from_ed_pem lib (as_bytes pem))
               (InvalidConfiguration ''provider public key is invalid'')) (\<lambda>key.
             Ok (key_id, key)))) encoded_keys)) (\<lambda>keys.
      Ok \<lparr>pv_issuer = issuer, pv_audience = audience, pv_keys = keys, pv_clock_skew_seconds = 5\<rparr>)))"

definition claims_scope :: "provider_claims \<Rightarrow> service_scope" where
  "claims_scope c = \<lparr>ss_organization_id = pc_organization_id c, ss_project_id = pc_project_id c,
     ss_service_instance_id = pc_service_instance_id c\<rparr>"

definition require_scope :: "provider_claims \<Rightarrow> service_scope \<Rightarrow> auth_error + unit" where
  "require_scope c expected = (if claims_scope c = expected then Ok () else Err ScopeMismatch)"

definition require_idempotency_key :: "'k jwt_library \<Rightarrow> headers \<Rightarrow> uuid \<Rightarrow> auth_error + unit" where
  "require_idempotency_key lib headers jwt_id =
     try_bind (ok_or (headers IDEMPOTENCY_KEY_HEADER) MissingIdempotencyKey) (\<lambda>header.
     case header of
       Opaque \<Rightarrow> Err InvalidIdempotencyKey
     | Visible value \<Rightarrow>
         if value = jl_uuid_to_string lib jwt_id then Ok () else Err IdempotencyKeyMismatch)"

definition bearer_token :: "headers \<Rightarrow> auth_error + string" where
  "bearer_token headers =
     try_bind (ok_or (headers ''authorization'') MissingCredentials) (\<lambda>header.
     case header of
       Opaque \<Rightarrow> Err InvalidHeader
     | Visible value \<Rightarrow>
         (case strip_prefix ''Bearer '' value of
            None \<Rightarrow> Err InvalidHeader
          | Some token \<Rightarrow> if token = [] then Err InvalidHeader else Ok token))"

definition provider_validation :: "'k provider_authenticator \<Rightarrow> jwt_validation" where
  "provider_validation auth = \<lparr>jv_algorithm = EdDSA, jv_issuer = [pv_issuer auth],
     jv_audience = [pv_audience auth],
     jv_required_spec_claims = [''exp'', ''iat'', ''nbf'', ''iss'', ''aud'', ''sub'', ''jti''],
     jv_leeway = pv_clock_skew_seconds auth, jv_validate_exp = True, jv_validate_nbf = True\<rparr>"

definition verify_token_for_action ::
  "'k jwt_library \<Rightarrow> 'k provider_authenticator \<Rightarrow> (nat \<Rightarrow> i64) \<Rightarrow> string \<Rightarrow> string
     \<Rightarrow> auth_error + provider_claims" where
  "verify_token_for_action lib auth clock token expected_action =
     (if expected_action = []
      then Err (InvalidConfiguration ''expected provider action is required'')
      else try_bind (ok_or (jl_decode_header lib token) InvalidToken) (\<lambda>header.
      if jh_alg header \<noteq> EdDSA then Err InvalidToken
      else try_bind (ok_or (jh_kid header) MissingKeyId) (\<lambda>key_id.
      try_bind (ok_or (map_of (pv_keys auth) key_id) UnknownKeyId) (\<lambda>key.
      try_bind (ok_or (jl_decode lib key (provider_validation auth) (clock 0) token) InvalidToken) (\<lambda>claims.
      if pc_action claims \<noteq> expected_action \<or> pc_generation claims \<le> 0
      then Err InvalidProviderCommand
      else if uuid_is_nil (pc_subject claims) \<or> uuid_is_nil (pc_jwt_id claims)
           \<or> \<not> is_ok (service_scope_validate (claims_scope claims))
      then Err InvalidProviderScope
      else if pc_expires_at claims \<le> pc_issued_at claims
           \<or> i64_saturating_sub (pc_expires_at claims) (pc_issued_at claims) > PROVIDER_MAX_TOKEN_TTL_SECONDS
           \<or> i64_checked_sub (pc_issued_at claims) PROVIDER_NOT_BEFORE_OFFSET_SECONDS
               \<noteq> Some (pc_not_before claims)
      then Err TokenLifetimeExceeded
      else try_bind (ok_or (i64_try_from_u64 (pv_clock_skew_seconds auth))
             (InvalidConfiguration ''provider clock skew is invalid'')) (\<lambda>skew.
      if pc_issued_at claims > i64_saturating_add (clock 1) skew then Err InvalidToken
      else Ok claims))))))"

definition verify_token ::
  "'k jwt_library \<Rightarrow> 'k provider_authenticator \<Rightarrow> (nat \<Rightarrow> i64) \<Rightarrow> string \<Rightarrow> auth_error + provider_claims" where
  "verify_token lib auth clock token = verify_token_for_action lib auth clock token PROVIDER_RECONCILE_ACTION"

definition authenticate_headers_for_action ::
  "'k jwt_library \<Rightarrow> 'k provider_authenticator \<Rightarrow> (nat \<Rightarrow> i64) \<Rightarrow> headers \<Rightarrow> string
     \<Rightarrow> auth_error + provider_claims" where
  "authenticate_headers_for_action lib auth clock headers expected_action =
     try_bind (bearer_token headers) (\<lambda>token.
     verify_token_for_action lib auth clock token expected_action)"

definition authenticate_headers ::
  "'k jwt_library \<Rightarrow> 'k provider_authenticator \<Rightarrow> (nat \<Rightarrow> i64) \<Rightarrow> headers \<Rightarrow> auth_error + provider_claims" where
  "authenticate_headers lib auth clock headers =
     authenticate_headers_for_action lib auth clock headers PROVIDER_RECONCILE_ACTION"

definition authenticate_command ::
  "'k jwt_library \<Rightarrow> 'k provider_authenticator \<Rightarrow> (nat \<Rightarrow> i64) \<Rightarrow> headers \<Rightarrow> string \<Rightarrow> service_scope
     \<Rightarrow> auth_error + provider_claims" where
  "authenticate_command lib auth clock headers expected_action expected_scope =
     try_bind (map_err (\<lambda>_. InvalidExpectedScope) (service_scope_validate expected_scope)) (\<lambda>_.
     try_bind (authenticate_headers_for_action lib auth clock headers expected_action) (\<lambda>claims.
     try_bind (require_scope claims expected_scope) (\<lambda>_.
     try_bind (require_idempotency_key lib headers (pc_jwt_id claims)) (\<lambda>_.
     Ok claims))))"

section \<open>What an accepted token says\<close>

lemma provider_decode:
  assumes "jwt_sound lib genuine" and "jl_decode lib key (provider_validation auth) now token = Some c"
  shows "genuine key token c" "pc_issuer c = pv_issuer auth" "pc_audience c = pv_audience auth"
    "now \<le> pc_expires_at c + uint (pv_clock_skew_seconds auth)"
    "pc_not_before c \<le> now + uint (pv_clock_skew_seconds auth)"
  using assms(1) [unfolded jwt_sound_def, rule_format, OF assms(2)]
  by (simp_all add: provider_validation_def)

lemma from_public_keys_json_Ok:
  assumes "from_public_keys_json lib issuer audience text = Ok auth"
  shows "pv_issuer auth = issuer" "pv_audience auth = audience" "pv_clock_skew_seconds auth = 5"
    "pv_keys auth \<noteq> []"
  using assms
  by (auto simp: from_public_keys_json_def try_bind_Ok collect_results_Ok split: if_splits)

lemma verify_token_Ok:
  assumes "verify_token_for_action lib auth clock token action = Ok c"
  obtains kid key skew where "map_of (pv_keys auth) kid = Some key"
    "jl_decode lib key (provider_validation auth) (clock 0) token = Some c"
    "pc_action c = action" "0 < pc_generation c" "\<not> uuid_is_nil (pc_subject c)" "\<not> uuid_is_nil (pc_jwt_id c)"
    "service_scope_validate (claims_scope c) = Ok ()"
    "pc_issued_at c < pc_expires_at c" "pc_expires_at c \<le> pc_issued_at c + 60"
    "pc_not_before c = pc_issued_at c - 5"
    "i64_try_from_u64 (pv_clock_skew_seconds auth) = Some skew"
    "pc_issued_at c \<le> i64_saturating_add (clock 1) skew"
proof -
  have sat: "e - i \<le> 60" if "i64_saturating_sub e i \<le> 60" for e i
    using that by (auto simp: i64_saturating_sub_def i64_saturate_def i64_max_def i64_min_def
        min_def max_def split: if_splits)
  from assms show thesis
    unfolding verify_token_for_action_def
    by (auto simp: try_bind_Ok not_less not_le is_ok_iff i64_checked_sub_def
        PROVIDER_MAX_TOKEN_TTL_SECONDS_def PROVIDER_NOT_BEFORE_OFFSET_SECONDS_def
        split: if_splits dest!: sat intro!: that)
qed

lemma strip_prefix_nonempty_Ok:
  "(case strip_prefix p s of None \<Rightarrow> Err e | Some t \<Rightarrow> if t = [] then Err e else Ok t) = Ok token
     \<longleftrightarrow> token \<noteq> [] \<and> s = p @ token"
proof (cases "strip_prefix p s")
  case None
  then have "s \<noteq> p @ token" using strip_prefix_Some [of p s token] by simp
  with None show ?thesis by simp
next
  case (Some t)
  then show ?thesis by auto
qed

lemma bearer_token_Ok:
  "bearer_token headers = Ok token \<longleftrightarrow>
     token \<noteq> [] \<and> headers ''authorization'' = Some (Visible (''Bearer '' @ token))"
proof (cases "headers ''authorization''")
  case (Some h)
  then show ?thesis
    by (cases h) (simp_all only: bearer_token_def ok_or_simps try_bind_simps header_value.case
        strip_prefix_nonempty_Ok, auto)
qed (simp add: bearer_token_def)

lemma authenticate_headers_Ok:
  "authenticate_headers_for_action lib auth clock headers action = Ok c \<longleftrightarrow>
     (\<exists>token. bearer_token headers = Ok token \<and> verify_token_for_action lib auth clock token action = Ok c)"
  by (simp add: authenticate_headers_for_action_def try_bind_Ok)

lemma require_idempotency_key_Ok:
  "require_idempotency_key lib headers jti = Ok () \<longleftrightarrow>
     headers IDEMPOTENCY_KEY_HEADER = Some (Visible (jl_uuid_to_string lib jti))"
proof -
  have "(case h of Opaque \<Rightarrow> Err InvalidIdempotencyKey
         | Visible value \<Rightarrow> if value = t then Ok () else Err IdempotencyKeyMismatch) = Ok ()
        \<longleftrightarrow> h = Visible t" for h t
    by (cases h) auto
  then show ?thesis
    unfolding require_idempotency_key_def by (simp add: try_bind_Ok)
qed

section \<open>Properties\<close>

text \<open>A concrete token service: one key, one token, and the checks the code asks the library for.\<close>

definition example_claims :: provider_claims where
  "example_claims = \<lparr>pc_issuer = ''flow'', pc_audience = ''syouyu'', pc_subject = 9, pc_organization_id = 1,
     pc_project_id = 2, pc_service_instance_id = 3, pc_action = ''service-instance.reconcile'',
     pc_generation = 4, pc_jwt_id = 5, pc_issued_at = 1000, pc_not_before = 995, pc_expires_at = 1060\<rparr>"

definition example_genuine :: "unit \<Rightarrow> string \<Rightarrow> provider_claims \<Rightarrow> bool" where
  "example_genuine key token c \<longleftrightarrow> token = ''t'' \<and> c = example_claims"

definition example_jwt :: "unit jwt_library" where
  "example_jwt = \<lparr>jl_keys_from_str = (\<lambda>_. Some [(''k1'', ''pem'')]), jl_from_ed_pem = (\<lambda>_. Some ()),
     jl_decode_header = (\<lambda>_. Some \<lparr>jh_alg = EdDSA, jh_kid = Some ''k1''\<rparr>),
     jl_decode = (\<lambda>_ v now token.
       if token = ''t'' \<and> ''flow'' \<in> set (jv_issuer v) \<and> ''syouyu'' \<in> set (jv_audience v)
          \<and> now \<le> 1060 + uint (jv_leeway v) \<and> 995 \<le> now + uint (jv_leeway v)
       then Some example_claims else None),
     jl_uuid_to_string = (\<lambda>u. if u = 5 then ''five'' else ''other'')\<rparr>"

definition example_authenticator :: "unit provider_authenticator" where
  "example_authenticator = \<lparr>pv_issuer = ''flow'', pv_audience = ''syouyu'', pv_keys = [(''k1'', ())],
     pv_clock_skew_seconds = 5\<rparr>"

definition example_headers :: headers where
  "example_headers = [''authorization'' \<mapsto> Visible ''Bearer t'', ''idempotency-key'' \<mapsto> Visible ''five'']"

lemma example_jwt_sound: "jwt_sound example_jwt example_genuine"
  by (auto simp: jwt_sound_def example_jwt_def example_genuine_def example_claims_def)

lemma example_authenticator_configured:
  "from_public_keys_json example_jwt ''flow'' ''syouyu'' ''{}'' = Ok example_authenticator"
  by (simp add: from_public_keys_json_def example_jwt_def example_authenticator_def validate_key_id_def
      str_defs byte_of_def)

lemma example_authenticated:
  "authenticate_command example_jwt example_authenticator (\<lambda>_. 1000) example_headers
     ''service-instance.reconcile''
     \<lparr>ss_organization_id = 1, ss_project_id = 2, ss_service_instance_id = 3\<rparr> = Ok example_claims"
  by code_simp

text \<open>
  C28: a provider command is accepted only with a genuine token: it is signed with one of the
  configured keys, names this issuer, audience and action and a positive generation, carries no nil
  identifier, its tenant scope is the scope of the request path, and the request's idempotency key is
  the canonical text of the token's identifier.
\<close>
theorem accepted_command_is_trusted:
  assumes "authenticate_command lib auth clock headers action scope = Ok c" and "jwt_sound lib genuine"
  shows "(\<exists>token kid key. headers ''authorization'' = Some (Visible (''Bearer '' @ token))
            \<and> map_of (pv_keys auth) kid = Some key \<and> genuine key token c)
         \<and> pc_issuer c = pv_issuer auth \<and> pc_audience c = pv_audience auth
         \<and> pc_action c = action \<and> 0 < pc_generation c
         \<and> \<not> uuid_is_nil (pc_subject c) \<and> \<not> uuid_is_nil (pc_jwt_id c)
         \<and> claims_scope c = scope \<and> service_scope_validate scope = Ok ()
         \<and> headers IDEMPOTENCY_KEY_HEADER = Some (Visible (jl_uuid_to_string lib (pc_jwt_id c)))"
proof -
  from assms(1) obtain token where headers: "headers ''authorization'' = Some (Visible (''Bearer '' @ token))"
    and verified: "verify_token_for_action lib auth clock token action = Ok c"
    and scope: "claims_scope c = scope" "service_scope_validate scope = Ok ()"
    and key: "headers IDEMPOTENCY_KEY_HEADER = Some (Visible (jl_uuid_to_string lib (pc_jwt_id c)))"
    unfolding authenticate_command_def authenticate_headers_Ok [unfolded bearer_token_Ok] require_scope_def
    by (auto simp: try_bind_Ok authenticate_headers_Ok bearer_token_Ok require_idempotency_key_Ok
        simp del: append_Cons split: if_splits)
  from verified obtain kid key where key_of: "map_of (pv_keys auth) kid = Some key"
    and decoded: "jl_decode lib key (provider_validation auth) (clock 0) token = Some c"
    and claims: "pc_action c = action" "0 < pc_generation c" "\<not> uuid_is_nil (pc_subject c)"
      "\<not> uuid_is_nil (pc_jwt_id c)"
    by (rule verify_token_Ok)
  with headers scope key provider_decode(1-3) [OF assms(2) decoded] show ?thesis by blast
qed

theorem accepted_command_is_trusted_witness:
  "example_genuine () ''t'' example_claims
   \<and> claims_scope example_claims = \<lparr>ss_organization_id = 1, ss_project_id = 2, ss_service_instance_id = 3\<rparr>
   \<and> example_headers IDEMPOTENCY_KEY_HEADER = Some (Visible ''five'')"
  using accepted_command_is_trusted [OF example_authenticated example_jwt_sound]
  by (auto simp: example_headers_def example_jwt_def example_claims_def)

text \<open>
  C29: an authenticator built from the configuration accepts a token only inside its window: the
  token lives for at least one and at most sixty seconds, it is not used more than five seconds
  before it was issued, nor more than sixty-five seconds after it was issued.
\<close>
theorem accepted_token_window:
  assumes "from_public_keys_json lib issuer audience keys = Ok auth"
    and "verify_token_for_action lib auth clock token action = Ok c" and "jwt_sound lib genuine"
    and "in_i64 (clock 1 + 5)"
  shows "pc_issued_at c < pc_expires_at c \<and> pc_expires_at c \<le> pc_issued_at c + 60
         \<and> pc_issued_at c - 5 \<le> clock 1 \<and> pc_issued_at c - 10 \<le> clock 0
         \<and> clock 0 \<le> pc_issued_at c + 65"
proof -
  have skew: "pv_clock_skew_seconds auth = 5" by (rule from_public_keys_json_Ok [OF assms(1)])
  from assms(2) obtain kid key skew where decoded: "jl_decode lib key (provider_validation auth) (clock 0) token = Some c"
    and life: "pc_issued_at c < pc_expires_at c" "pc_expires_at c \<le> pc_issued_at c + 60"
      "pc_not_before c = pc_issued_at c - 5"
    and not_future: "i64_try_from_u64 (pv_clock_skew_seconds auth) = Some skew"
      "pc_issued_at c \<le> i64_saturating_add (clock 1) skew"
    by (rule verify_token_Ok)
  have "clock 0 \<le> pc_expires_at c + 5" "pc_not_before c \<le> clock 0 + 5"
    using provider_decode(4,5) [OF assms(3) decoded] skew by simp_all
  moreover have "skew = 5" using not_future(1) skew by (auto simp: i64_try_from_u64_def split: if_splits)
  then have "pc_issued_at c \<le> clock 1 + 5"
    using not_future(2) assms(4) by (simp add: i64_defs)
  ultimately show ?thesis using life by simp
qed

theorem accepted_token_window_witness:
  "pc_expires_at example_claims \<le> pc_issued_at example_claims + 60
   \<and> (1000 :: i64) \<le> pc_issued_at example_claims + 65"
proof -
  have "verify_token_for_action example_jwt example_authenticator (\<lambda>_. 1000) ''t''
      ''service-instance.reconcile'' = Ok example_claims"
    by code_simp
  from accepted_token_window [OF example_authenticator_configured this example_jwt_sound]
  show ?thesis by (simp add: i64_defs)
qed

end
