(* ===== verification/Decimal_Text.thy ===== *)
theory Decimal_Text
  imports Syouyu_Prelude
begin

text \<open>
  Decimal text of integers as the standard library writes and reads it: \<open>to_string\<close> and \<open>format!\<close>
  of \<open>u64\<close>, \<open>u32\<close>, \<open>u16\<close> and \<open>i64\<close>, and \<open>str::parse::<u64>\<close>, which accepts one leading plus sign
  and any number of leading zeros and rejects what does not fit. The sources use the two to read
  timestamps and the configuration and to print limits, generations and delays.
\<close>

section \<open>Printing and parsing\<close>

definition digit_char :: "nat \<Rightarrow> char" where "digit_char d = char_of (48 + d)"

fun nat_to_string :: "nat \<Rightarrow> string" where
  "nat_to_string n =
     (if n < 10 then [digit_char n] else nat_to_string (n div 10) @ [digit_char (n mod 10)])"

declare nat_to_string.simps [simp del]

definition u64_to_string :: "u64 \<Rightarrow> string" where "u64_to_string v = nat_to_string (unat v)"
definition u32_to_string :: "u32 \<Rightarrow> string" where "u32_to_string v = nat_to_string (unat v)"
definition i64_to_string :: "i64 \<Rightarrow> string" where
  "i64_to_string v = (if v < 0 then CHR ''-'' # nat_to_string (nat (- v)) else nat_to_string (nat v))"

definition digits_value :: "string \<Rightarrow> nat" where
  "digits_value ds = foldl (\<lambda>n c. 10 * n + (byte_of c - 48)) 0 ds"

text \<open>\<open>parse\<close> at an unsigned type of which \<open>bound\<close> is the first value that does not fit.\<close>

definition parse_unsigned :: "nat \<Rightarrow> string \<Rightarrow> nat option" where
  "parse_unsigned bound s =
     (let ds = (case s of [] \<Rightarrow> [] | c # cs \<Rightarrow> if c = CHR ''+'' then cs else s) in
      if ds = [] \<or> \<not> list_all is_ascii_digit ds then None
      else if digits_value ds < bound then Some (digits_value ds) else None)"

definition parse_u64 :: "string \<Rightarrow> u64 option" where
  "parse_u64 s = map_option word_of_nat (parse_unsigned (2 ^ 64) s)"

definition parse_u32 :: "string \<Rightarrow> u32 option" where
  "parse_u32 s = map_option word_of_nat (parse_unsigned (2 ^ 32) s)"

section \<open>Facts\<close>

lemma byte_of_digit_char: "d < 10 \<Longrightarrow> byte_of (digit_char d) = 48 + d"
  by (simp add: byte_of_def digit_char_def)

lemma is_ascii_digit_digit_char: "d < 10 \<Longrightarrow> is_ascii_digit (digit_char d)"
  by (simp add: is_ascii_digit_def byte_of_digit_char)

lemma nat_to_string_digits: "list_all is_ascii_digit (nat_to_string n)"
  by (induction n rule: nat_to_string.induct)
     (subst nat_to_string.simps, simp add: is_ascii_digit_digit_char)

lemma nat_to_string_ne [simp]: "nat_to_string n \<noteq> []"
  by (subst nat_to_string.simps) simp

lemma digits_value_nat_to_string: "digits_value (nat_to_string n) = n"
proof (induction n rule: nat_to_string.induct)
  case (1 n)
  show ?case
  proof (cases "n < 10")
    case True
    then show ?thesis
      by (subst nat_to_string.simps) (simp add: digits_value_def byte_of_digit_char)
  next
    case False
    with 1 have "foldl (\<lambda>n c. 10 * n + (byte_of c - 48)) 0 (nat_to_string (n div 10)) = n div 10"
      by (simp add: digits_value_def)
    with False show ?thesis
      by (subst nat_to_string.simps) (simp add: digits_value_def byte_of_digit_char)
  qed
qed

lemma plus_not_digit: "is_ascii_digit c \<Longrightarrow> c \<noteq> CHR ''+''"
  by (auto simp: is_ascii_digit_def byte_of_def)

lemma parse_unsigned_to_string: "n < bound \<Longrightarrow> parse_unsigned bound (nat_to_string n) = Some n"
proof -
  assume "n < bound"
  obtain c cs where s: "nat_to_string n = c # cs" by (cases "nat_to_string n") auto
  with nat_to_string_digits [of n] have "c \<noteq> CHR ''+''" by (auto dest: plus_not_digit)
  with s nat_to_string_digits [of n] digits_value_nat_to_string [of n] \<open>n < bound\<close>
  show ?thesis by (simp add: parse_unsigned_def)
qed

lemma parse_u64_to_string [simp]: "parse_u64 (u64_to_string v) = Some v"
proof -
  have "unat v < 2 ^ 64" using unsigned_less [where ?'a = nat and w = v] by simp
  then show ?thesis by (simp add: parse_u64_def u64_to_string_def parse_unsigned_to_string)
qed

lemma parse_unsigned_chars:
  "parse_unsigned bound s = Some n \<Longrightarrow> \<forall>c \<in> set s. is_ascii_digit c \<or> c = CHR ''+''"
  by (auto simp: parse_unsigned_def Let_def list_all_iff split: if_splits list.splits)

lemma parse_u64_no_dot: "parse_u64 s = Some v \<Longrightarrow> CHR ''.'' \<notin> set s"
  by (auto simp: parse_u64_def is_ascii_digit_def byte_of_def dest!: parse_unsigned_chars)

end
