(* ===== verification/Principal_Auth.thy ===== *)
theory Principal_Auth
  imports Store_Models Decimal_Text
begin

text \<open>
  Signed principal contexts (\<open>src/crates/syouyu-api/src/principal_auth.rs\<close>): three headers carry an
  encoded context, the time it was signed and an HMAC over both. HMAC-SHA256, the URL-safe base64
  decoder, the JSON reader of the context and the calendar conversion are parameters; the wall clock
  is an argument (seconds).
\<close>

section \<open>Parameters and data\<close>

record signed_principal =
  sp_issuer :: string
  sp_audience :: string
  sp_scope :: service_scope
  sp_principal_id :: uuid
  sp_permissions :: "string set"
  sp_credential_limits :: credential_limits
  sp_issued_at :: u64
  sp_expires_at :: u64
  sp_context_id :: uuid

record principal_library =
  pl_key_accepted :: "bytes \<Rightarrow> bool"
  pl_hmac_sha256 :: "bytes \<Rightarrow> bytes \<Rightarrow> bytes"
  pl_base64_decode :: "string \<Rightarrow> bytes option"
  pl_from_slice :: "bytes \<Rightarrow> signed_principal option"
  pl_timestamp_opt :: "i64 \<Rightarrow> timestamp option"

definition PRINCIPAL_HEADER :: string where "PRINCIPAL_HEADER = ''x-syouyu-principal''"
definition PRINCIPAL_TIMESTAMP_HEADER :: string where "PRINCIPAL_TIMESTAMP_HEADER = ''x-syouyu-timestamp''"
definition PRINCIPAL_SIGNATURE_HEADER :: string where "PRINCIPAL_SIGNATURE_HEADER = ''x-syouyu-signature''"

datatype principal_auth_error =
    MissingCredentials
  | InvalidHeader
  | InvalidSignature
  | InvalidPrincipal
  | InvalidLifetime
  | Expired
  | PermissionDenied
  | InvalidConfiguration string

record principal_authenticator =
  pa_issuer :: string
  pa_audience :: string
  pa_secret :: bytes
  pa_max_ttl :: duration
  pa_clock_skew :: duration

record principal =
  pr_scope :: service_scope
  pr_principal_id :: uuid
  pr_permissions :: "string set"
  pr_credential_limits :: credential_limits
  pr_context_id :: uuid
  pr_issued_at :: timestamp
  pr_expires_at :: timestamp

definition from_secs :: "u64 \<Rightarrow> duration" where "from_secs s = unat s * 10 ^ 9"
definition as_secs :: "duration \<Rightarrow> u64" where "as_secs d = word_of_nat (d div 10 ^ 9)"

section \<open>Operations\<close>

definition principal_authenticator_new ::
  "string \<Rightarrow> string \<Rightarrow> bytes \<Rightarrow> duration \<Rightarrow> principal_auth_error + principal_authenticator" where
  "principal_authenticator_new issuer audience secret max_ttl =
     (if issuer = [] \<or> audience = []
      then Err (InvalidConfiguration ''principal issuer and audience are required'')
      else if length secret < 32
      then Err (InvalidConfiguration ''principal HMAC secret must contain at least 32 bytes'')
      else if max_ttl = 0 \<or> max_ttl > from_secs 300
      then Err (InvalidConfiguration ''principal maximum TTL must be between one and 300 seconds'')
      else Ok \<lparr>pa_issuer = issuer, pa_audience = audience, pa_secret = secret, pa_max_ttl = max_ttl,
                pa_clock_skew = from_secs 15\<rparr>)"

definition required_header :: "headers \<Rightarrow> string \<Rightarrow> principal_auth_error + string" where
  "required_header headers name =
     try_bind (ok_or (headers name) MissingCredentials) (\<lambda>header.
     case header of Opaque \<Rightarrow> Err InvalidHeader | Visible value \<Rightarrow> Ok value)"

definition principal_timestamp :: "principal_library \<Rightarrow> u64 \<Rightarrow> principal_auth_error + timestamp" where
  "principal_timestamp lib value =
     try_bind (ok_or (i64_try_from_u64 value) InvalidPrincipal) (\<lambda>seconds.
     ok_or (pl_timestamp_opt lib seconds) InvalidPrincipal)"

text \<open>The three updates of the MAC amount to one message.\<close>

definition signed_message :: "string \<Rightarrow> string \<Rightarrow> bytes" where
  "signed_message timestamp_text encoded = as_bytes timestamp_text @ as_bytes ''.'' @ as_bytes encoded"

definition principal_authenticate ::
  "principal_library \<Rightarrow> principal_authenticator \<Rightarrow> i64 \<Rightarrow> headers \<Rightarrow> principal_auth_error + principal" where
  "principal_authenticate lib auth clock headers =
     try_bind (required_header headers PRINCIPAL_HEADER) (\<lambda>encoded.
     try_bind (required_header headers PRINCIPAL_TIMESTAMP_HEADER) (\<lambda>timestamp_text.
     try_bind (required_header headers PRINCIPAL_SIGNATURE_HEADER) (\<lambda>signature_text.
     try_bind (ok_or (parse_u64 timestamp_text) InvalidHeader) (\<lambda>signed_at.
     if \<not> pl_key_accepted lib (pa_secret auth)
     then Err (InvalidConfiguration ''HMAC secret is invalid'')
     else try_bind (ok_or (pl_base64_decode lib signature_text) InvalidSignature) (\<lambda>signature.
     if signature \<noteq> pl_hmac_sha256 lib (pa_secret auth) (signed_message timestamp_text encoded)
     then Err InvalidSignature
     else try_bind (ok_or (pl_base64_decode lib encoded) InvalidPrincipal) (\<lambda>serialized.
     try_bind (ok_or (pl_from_slice lib serialized) InvalidPrincipal) (\<lambda>sgn.
     if signed_at \<noteq> sp_issued_at sgn \<or> sp_issuer sgn \<noteq> pa_issuer auth \<or> sp_audience sgn \<noteq> pa_audience auth
     then Err InvalidPrincipal
     else if sp_expires_at sgn \<le> sp_issued_at sgn
          \<or> sp_expires_at sgn - sp_issued_at sgn > as_secs (pa_max_ttl auth)
     then Err InvalidLifetime
     else try_bind (ok_or (u64_try_from_i64 clock) InvalidPrincipal) (\<lambda>now.
     if sp_issued_at sgn > u64_saturating_add now (as_secs (pa_clock_skew auth))
        \<or> u64_saturating_add (sp_expires_at sgn) (as_secs (pa_clock_skew auth)) \<le> now
     then Err Expired
     else try_bind (map_err (\<lambda>_. InvalidPrincipal) (service_scope_validate (sp_scope sgn))) (\<lambda>_.
     if uuid_is_nil (sp_principal_id sgn) \<or> uuid_is_nil (sp_context_id sgn)
     then Err InvalidPrincipal
     else try_bind (principal_timestamp lib (sp_issued_at sgn)) (\<lambda>issued_at.
     try_bind (principal_timestamp lib (sp_expires_at sgn)) (\<lambda>expires_at.
     Ok \<lparr>pr_scope = sp_scope sgn, pr_principal_id = sp_principal_id sgn,
          pr_permissions = sp_permissions sgn, pr_credential_limits = sp_credential_limits sgn,
          pr_context_id = sp_context_id sgn, pr_issued_at = issued_at, pr_expires_at = expires_at\<rparr>)))))))))))"

definition principal_require :: "principal \<Rightarrow> string \<Rightarrow> principal_auth_error + unit" where
  "principal_require p permission =
     (if permission \<in> pr_permissions p then Ok () else Err PermissionDenied)"

section \<open>What an accepted context says\<close>

lemma required_header_Ok [simp]: "required_header headers name = Ok v \<longleftrightarrow> headers name = Some (Visible v)"
proof -
  have "(case h of Opaque \<Rightarrow> Err InvalidHeader | Visible value \<Rightarrow> Ok value) = Ok v \<longleftrightarrow> h = Visible v" for h
    by (cases h) auto
  then show ?thesis by (simp add: required_header_def try_bind_Ok)
qed

lemma if_Err_Ok: "(if b then Err e else r) = Ok v \<longleftrightarrow> \<not> b \<and> r = Ok v"
  by simp

lemma principal_authenticate_Ok:
  assumes "principal_authenticate lib auth clock headers = Ok p"
  obtains encoded timestamp_text signature_text serialized sgn now where
    "headers PRINCIPAL_HEADER = Some (Visible encoded)"
    "headers PRINCIPAL_TIMESTAMP_HEADER = Some (Visible timestamp_text)"
    "headers PRINCIPAL_SIGNATURE_HEADER = Some (Visible signature_text)"
    "parse_u64 timestamp_text = Some (sp_issued_at sgn)"
    "pl_base64_decode lib signature_text
       = Some (pl_hmac_sha256 lib (pa_secret auth) (signed_message timestamp_text encoded))"
    "pl_base64_decode lib encoded = Some serialized" "pl_from_slice lib serialized = Some sgn"
    "sp_issuer sgn = pa_issuer auth" "sp_audience sgn = pa_audience auth"
    "sp_issued_at sgn < sp_expires_at sgn"
    "sp_expires_at sgn - sp_issued_at sgn \<le> as_secs (pa_max_ttl auth)"
    "u64_try_from_i64 clock = Some now"
    "sp_issued_at sgn \<le> u64_saturating_add now (as_secs (pa_clock_skew auth))"
    "now < u64_saturating_add (sp_expires_at sgn) (as_secs (pa_clock_skew auth))"
    "service_scope_validate (sp_scope sgn) = Ok ()"
    "\<not> uuid_is_nil (sp_principal_id sgn)" "\<not> uuid_is_nil (sp_context_id sgn)"
    "pr_scope p = sp_scope sgn" "pr_principal_id p = sp_principal_id sgn"
    "pr_permissions p = sp_permissions sgn" "pr_credential_limits p = sp_credential_limits sgn"
    "pr_context_id p = sp_context_id sgn"
  using assms unfolding principal_authenticate_def try_bind_Ok if_Err_Ok
  by (auto simp: not_less not_le)

lemma principal_authenticator_new_Ok:
  "principal_authenticator_new issuer audience secret max_ttl = Ok auth \<longleftrightarrow>
     issuer \<noteq> [] \<and> audience \<noteq> [] \<and> 32 \<le> length secret \<and> 0 < max_ttl \<and> max_ttl \<le> from_secs 300
     \<and> auth = \<lparr>pa_issuer = issuer, pa_audience = audience, pa_secret = secret, pa_max_ttl = max_ttl,
                pa_clock_skew = from_secs 15\<rparr>"
  by (auto simp: principal_authenticator_new_def)

lemma as_secs_from_secs [simp]: "as_secs (from_secs s) = s"
  by (simp add: as_secs_def from_secs_def)

lemma as_secs_le: "d \<le> from_secs s \<Longrightarrow> unat (as_secs d) \<le> unat s"
proof -
  assume "d \<le> from_secs s"
  then have "d div 10 ^ 9 \<le> unat s"
    using div_le_mono [of d "unat s * 10 ^ 9" "10 ^ 9"] by (simp add: from_secs_def)
  moreover have "unat (as_secs d) \<le> d div 10 ^ 9"
    by (simp add: as_secs_def unat_of_nat)
  ultimately show ?thesis by simp
qed

lemma u64_try_from_i64_unat: "in_i64 i \<Longrightarrow> u64_try_from_i64 i = Some v \<Longrightarrow> int (unat v) = i"
  by (auto simp: u64_try_from_i64_def in_i64_def i64_max_def unsigned_of_int take_bit_int_eq_self
      split: if_splits)

lemma signed_message_inject:
  assumes "CHR ''.'' \<notin> set t" and "CHR ''.'' \<notin> set t'" and "signed_message t e = signed_message t' e'"
  shows "t = t'" and "e = e'"
proof -
  from assms(3) have "as_bytes (t @ CHR ''.'' # e) = as_bytes (t' @ CHR ''.'' # e')"
    by (simp add: signed_message_def as_bytes_def)
  then have "t @ CHR ''.'' # e = t' @ CHR ''.'' # e'" by simp
  from append_sep_inject [OF assms(1,2) this] show "t = t'" "e = e'" by simp_all
qed

section \<open>Properties\<close>

definition example_signed :: signed_principal where
  "example_signed = \<lparr>sp_issuer = ''flow'', sp_audience = ''syouyu'',
     sp_scope = \<lparr>ss_organization_id = 1, ss_project_id = 2, ss_service_instance_id = 3\<rparr>,
     sp_principal_id = 4, sp_permissions = {''syouyu.usage.read''},
     sp_credential_limits = \<lparr>cl_max_credentials_per_bucket = 2, cl_max_total_credentials = 4\<rparr>,
     sp_issued_at = 100, sp_expires_at = 160, sp_context_id = 6\<rparr>"

text \<open>A toy MAC (the message itself) and decoder (the bytes of the text) are enough to run the checks.\<close>

definition example_principal_library :: principal_library where
  "example_principal_library = \<lparr>pl_key_accepted = (\<lambda>_. True), pl_hmac_sha256 = (\<lambda>_ message. message),
     pl_base64_decode = (\<lambda>t. Some (as_bytes t)), pl_from_slice = (\<lambda>_. Some example_signed),
     pl_timestamp_opt = (\<lambda>s. Some (s * 1000000))\<rparr>"

definition example_principal_authenticator :: principal_authenticator where
  "example_principal_authenticator = \<lparr>pa_issuer = ''flow'', pa_audience = ''syouyu'',
     pa_secret = replicate 32 1, pa_max_ttl = from_secs 300, pa_clock_skew = from_secs 15\<rparr>"

definition example_principal_headers :: headers where
  "example_principal_headers = [''x-syouyu-principal'' \<mapsto> Visible ''ctx'',
     ''x-syouyu-timestamp'' \<mapsto> Visible ''100'', ''x-syouyu-signature'' \<mapsto> Visible ''100.ctx'']"

definition example_principal :: principal where
  "example_principal = \<lparr>pr_scope = \<lparr>ss_organization_id = 1, ss_project_id = 2, ss_service_instance_id = 3\<rparr>,
     pr_principal_id = 4, pr_permissions = {''syouyu.usage.read''},
     pr_credential_limits = \<lparr>cl_max_credentials_per_bucket = 2, cl_max_total_credentials = 4\<rparr>,
     pr_context_id = 6, pr_issued_at = 100000000, pr_expires_at = 160000000\<rparr>"

lemma example_principal_configured:
  "principal_authenticator_new ''flow'' ''syouyu'' (replicate 32 1) (from_secs 300)
     = Ok example_principal_authenticator"
  by (simp add: principal_authenticator_new_def example_principal_authenticator_def from_secs_def)

lemma example_principal_accepted:
  "principal_authenticate example_principal_library example_principal_authenticator 120
     example_principal_headers = Ok example_principal"
proof -
  have parsed: "parse_u64 ''100'' = Some 100"
    by (simp add: parse_u64_def parse_unsigned_def digits_value_def is_ascii_digit_def byte_of_def)
  have scope: "service_scope_validate \<lparr>ss_organization_id = 1, ss_project_id = 2, ss_service_instance_id = 3\<rparr> = Ok ()"
    by code_simp
  have headers: "required_header example_principal_headers PRINCIPAL_HEADER = Ok ''ctx''"
    "required_header example_principal_headers PRINCIPAL_TIMESTAMP_HEADER = Ok ''100''"
    "required_header example_principal_headers PRINCIPAL_SIGNATURE_HEADER = Ok ''100.ctx''"
    by code_simp+
  have message: "signed_message ''100'' ''ctx'' = as_bytes ''100.ctx''" by (simp add: signed_message_def as_bytes_def)
  have times: "u64_try_from_i64 120 = Some 120" "u64_saturating_add 120 15 = 135" "u64_saturating_add 160 15 = 175"
    "i64_try_from_u64 100 = Some 100" "i64_try_from_u64 160 = Some 160"
    by (simp_all add: u64_try_from_i64_def u64_saturating_add_def i64_try_from_u64_def i64_max_def)
  show ?thesis
    unfolding principal_authenticate_def headers
    by (simp add: parsed scope message times example_principal_library_def example_principal_authenticator_def
        example_signed_def principal_timestamp_def example_principal_def uuid_is_nil_def)
qed

text \<open>
  C30: a configured authenticator accepts a principal only if the context and the signing time in the
  headers carry a valid MAC under a secret of at least 32 bytes, the decoded context names this
  issuer and audience, lives for between one and 300 seconds, was issued no more than 15 seconds in
  the future and expired no more than 15 seconds ago; the principal's tenant, identity, permissions
  and limits are those of the signed context.
\<close>
theorem accepted_principal_is_signed:
  assumes "principal_authenticator_new issuer audience secret max_ttl = Ok auth"
    and "principal_authenticate lib auth clock headers = Ok p" and "in_i64 clock"
  shows "\<exists>encoded timestamp_text signature_text serialized sgn.
      headers PRINCIPAL_HEADER = Some (Visible encoded)
      \<and> headers PRINCIPAL_TIMESTAMP_HEADER = Some (Visible timestamp_text)
      \<and> headers PRINCIPAL_SIGNATURE_HEADER = Some (Visible signature_text)
      \<and> pl_base64_decode lib signature_text
          = Some (pl_hmac_sha256 lib secret (signed_message timestamp_text encoded)) \<and> 32 \<le> length secret
      \<and> pl_base64_decode lib encoded = Some serialized \<and> pl_from_slice lib serialized = Some sgn
      \<and> parse_u64 timestamp_text = Some (sp_issued_at sgn)
      \<and> sp_issuer sgn = issuer \<and> sp_audience sgn = audience
      \<and> unat (sp_issued_at sgn) < unat (sp_expires_at sgn)
      \<and> unat (sp_expires_at sgn) \<le> unat (sp_issued_at sgn) + 300
      \<and> int (unat (sp_issued_at sgn)) - 15 \<le> clock \<and> clock < int (unat (sp_expires_at sgn)) + 15
      \<and> pr_scope p = sp_scope sgn \<and> service_scope_validate (pr_scope p) = Ok ()
      \<and> pr_principal_id p = sp_principal_id sgn \<and> pr_permissions p = sp_permissions sgn
      \<and> pr_credential_limits p = sp_credential_limits sgn"
proof -
  note new = assms(1) [unfolded principal_authenticator_new_Ok]
  from assms(2) obtain e t s b sgn now where signed_by: "headers PRINCIPAL_HEADER = Some (Visible e)"
      "headers PRINCIPAL_TIMESTAMP_HEADER = Some (Visible t)"
      "headers PRINCIPAL_SIGNATURE_HEADER = Some (Visible s)" "parse_u64 t = Some (sp_issued_at sgn)"
      "pl_base64_decode lib s = Some (pl_hmac_sha256 lib (pa_secret auth) (signed_message t e))"
      "pl_base64_decode lib e = Some b" "pl_from_slice lib b = Some sgn"
      "sp_issuer sgn = pa_issuer auth" "sp_audience sgn = pa_audience auth"
    and life: "sp_issued_at sgn < sp_expires_at sgn"
      "sp_expires_at sgn - sp_issued_at sgn \<le> as_secs (pa_max_ttl auth)"
    and clock: "u64_try_from_i64 clock = Some now"
      "sp_issued_at sgn \<le> u64_saturating_add now (as_secs (pa_clock_skew auth))"
      "now < u64_saturating_add (sp_expires_at sgn) (as_secs (pa_clock_skew auth))"
    and ctx: "service_scope_validate (sp_scope sgn) = Ok ()" "pr_scope p = sp_scope sgn"
      "pr_principal_id p = sp_principal_id sgn" "pr_permissions p = sp_permissions sgn"
      "pr_credential_limits p = sp_credential_limits sgn"
    by (rule principal_authenticate_Ok) blast
  have secs: "pa_max_ttl auth \<le> from_secs 300" "as_secs (pa_clock_skew auth) = 15" using new by auto
  have "unat (sp_expires_at sgn) - unat (sp_issued_at sgn) \<le> 300"
    using life as_secs_le [OF secs(1)] by (simp add: word_le_nat_alt word_less_nat_alt unat_sub)
  moreover have "unat (sp_issued_at sgn) < unat (sp_expires_at sgn)"
    using life(1) by (simp add: word_less_nat_alt)
  moreover have "clock = int (unat now)"
    using u64_try_from_i64_unat [OF assms(3) clock(1)] by simp
  moreover have "unat (sp_issued_at sgn) \<le> unat now + 15"
    using clock(2) by (simp add: word_le_nat_alt u64_saturating_add_unat secs)
  moreover have "unat now < unat (sp_expires_at sgn) + 15"
    using clock(3) by (simp add: word_less_nat_alt u64_saturating_add_unat secs)
  ultimately have "unat (sp_expires_at sgn) \<le> unat (sp_issued_at sgn) + 300"
      "int (unat (sp_issued_at sgn)) - 15 \<le> clock" "clock < int (unat (sp_expires_at sgn)) + 15"
    by linarith+
  with \<open>unat (sp_issued_at sgn) < unat (sp_expires_at sgn)\<close> signed_by ctx new show ?thesis by auto
qed

theorem accepted_principal_is_signed_witness:
  "pl_base64_decode example_principal_library ''100.ctx''
     = Some (pl_hmac_sha256 example_principal_library (replicate 32 1) (signed_message ''100'' ''ctx''))
   \<and> pr_permissions example_principal = sp_permissions example_signed"
proof -
  have "in_i64 120" by (simp add: i64_defs)
  from accepted_principal_is_signed [OF example_principal_configured example_principal_accepted this]
  show ?thesis
    by (auto simp: example_principal_headers_def example_principal_library_def PRINCIPAL_HEADER_def
        PRINCIPAL_TIMESTAMP_HEADER_def PRINCIPAL_SIGNATURE_HEADER_def)
qed

text \<open>
  C31: the signature covers exactly one context and one signing time: if two requests accepted by the
  same authenticator present the same signature text, then their encoded contexts and timestamps are
  the same, or the two messages that these requests presented are different and have the same MAC
  under the secret of the authenticator.
\<close>
theorem principal_signature_binds:
  assumes "principal_authenticate lib auth clock headers = Ok p"
    and "principal_authenticate lib auth clock' headers' = Ok p'"
    and "headers PRINCIPAL_SIGNATURE_HEADER = headers' PRINCIPAL_SIGNATURE_HEADER"
  shows "\<exists>encoded timestamp encoded' timestamp'.
      headers PRINCIPAL_HEADER = Some (Visible encoded) \<and> headers PRINCIPAL_TIMESTAMP_HEADER = Some (Visible timestamp)
      \<and> headers' PRINCIPAL_HEADER = Some (Visible encoded') \<and> headers' PRINCIPAL_TIMESTAMP_HEADER = Some (Visible timestamp')
      \<and> (encoded = encoded' \<and> timestamp = timestamp'
         \<or> signed_message timestamp encoded \<noteq> signed_message timestamp' encoded'
           \<and> pl_hmac_sha256 lib (pa_secret auth) (signed_message timestamp encoded)
               = pl_hmac_sha256 lib (pa_secret auth) (signed_message timestamp' encoded'))"
proof -
  from assms(1) obtain e t s and sgn :: signed_principal where a: "headers PRINCIPAL_HEADER = Some (Visible e)"
    "headers PRINCIPAL_TIMESTAMP_HEADER = Some (Visible t)"
    "headers PRINCIPAL_SIGNATURE_HEADER = Some (Visible s)" "parse_u64 t = Some (sp_issued_at sgn)"
    "pl_base64_decode lib s = Some (pl_hmac_sha256 lib (pa_secret auth) (signed_message t e))"
    by (rule principal_authenticate_Ok) blast
  from assms(2) obtain e' t' s' and sgn' :: signed_principal where b: "headers' PRINCIPAL_HEADER = Some (Visible e')"
    "headers' PRINCIPAL_TIMESTAMP_HEADER = Some (Visible t')"
    "headers' PRINCIPAL_SIGNATURE_HEADER = Some (Visible s')" "parse_u64 t' = Some (sp_issued_at sgn')"
    "pl_base64_decode lib s' = Some (pl_hmac_sha256 lib (pa_secret auth) (signed_message t' e'))"
    by (rule principal_authenticate_Ok) blast
  have "s = s'" using a(3) b(3) assms(3) by simp
  with a(5) b(5) have "pl_hmac_sha256 lib (pa_secret auth) (signed_message t e)
      = pl_hmac_sha256 lib (pa_secret auth) (signed_message t' e')" by simp
  moreover have "t = t'" "e = e'" if "signed_message t e = signed_message t' e'"
    using signed_message_inject [OF parse_u64_no_dot [OF a(4)] parse_u64_no_dot [OF b(4)] that] .
  ultimately show ?thesis using a(1,2) b(1,2) by blast
qed

text \<open>A second request repeats the signed headers of the first beside another idempotency key.\<close>

definition example_repeated_headers :: headers where
  "example_repeated_headers = example_principal_headers(''idempotency-key'' \<mapsto> Visible ''other'')"

lemma example_repeated_accepted:
  "principal_authenticate example_principal_library example_principal_authenticator 120
     example_repeated_headers = Ok example_principal"
proof -
  have "required_header example_repeated_headers name = required_header example_principal_headers name"
    if "name \<noteq> ''idempotency-key''" for name
    using that by (simp add: required_header_def example_repeated_headers_def)
  then show ?thesis
    using example_principal_accepted
    by (simp add: principal_authenticate_def PRINCIPAL_HEADER_def PRINCIPAL_TIMESTAMP_HEADER_def
        PRINCIPAL_SIGNATURE_HEADER_def)
qed

theorem principal_signature_binds_witness:
  "\<exists>encoded timestamp. example_principal_headers PRINCIPAL_HEADER = Some (Visible encoded)
     \<and> example_repeated_headers PRINCIPAL_HEADER = Some (Visible encoded)
     \<and> example_principal_headers PRINCIPAL_TIMESTAMP_HEADER = Some (Visible timestamp)
     \<and> example_repeated_headers PRINCIPAL_TIMESTAMP_HEADER = Some (Visible timestamp)"
proof -
  have "example_principal_headers PRINCIPAL_SIGNATURE_HEADER = example_repeated_headers PRINCIPAL_SIGNATURE_HEADER"
    by (simp add: example_repeated_headers_def PRINCIPAL_SIGNATURE_HEADER_def)
  from principal_signature_binds [OF example_principal_accepted example_repeated_accepted this]
  show ?thesis by (auto simp: example_principal_library_def)
qed

end
