(* ===== verification/Effects.thy ===== *)
theory Effects
  imports Syouyu_Prelude
begin

text \<open>
  Asynchronous code that calls out: a computation takes the state of its surroundings and returns a
  result and the state afterwards. \<open>eff_bind\<close> is \<open>.await?\<close> followed by the rest, \<open>eff_match\<close> is a
  \<open>match\<close> on the awaited result, and \<open>post\<close> is the condition a computation establishes for both
  outcomes; the \<open>post\<close> rules execute a body symbolically.
\<close>

type_synonym ('s, 'e, 'a) eff = "'s \<Rightarrow> ('e + 'a) \<times> 's"

named_theorems post_simps \<open>symbolic execution of computations\<close>

definition eff_return :: "'a \<Rightarrow> ('s, 'e, 'a) eff" where
  "eff_return a = (\<lambda>s. (Ok a, s))"

definition eff_throw :: "'e \<Rightarrow> ('s, 'e, 'a) eff" where
  "eff_throw e = (\<lambda>s. (Err e, s))"

definition eff_lift :: "'e + 'a \<Rightarrow> ('s, 'e, 'a) eff" where
  "eff_lift r = (\<lambda>s. (r, s))"

definition eff_match :: "('s, 'e, 'a) eff \<Rightarrow> ('e + 'a \<Rightarrow> ('s, 'f, 'b) eff) \<Rightarrow> ('s, 'f, 'b) eff" where
  "eff_match m f = (\<lambda>s. case m s of (r, s') \<Rightarrow> f r s')"

definition eff_bind :: "('s, 'e, 'a) eff \<Rightarrow> ('a \<Rightarrow> ('s, 'e, 'b) eff) \<Rightarrow> ('s, 'e, 'b) eff" where
  "eff_bind m f = eff_match m (\<lambda>r. case r of Err e \<Rightarrow> eff_throw e | Ok a \<Rightarrow> f a)"

definition eff_map_err :: "('e \<Rightarrow> 'f) \<Rightarrow> ('s, 'e, 'a) eff \<Rightarrow> ('s, 'f, 'a) eff" where
  "eff_map_err g m = eff_match m (\<lambda>r. eff_lift (map_err g r))"

text \<open>A loop over a list whose body may fail.\<close>

fun eff_for :: "'x list \<Rightarrow> ('x \<Rightarrow> ('s, 'e, unit) eff) \<Rightarrow> ('s, 'e, unit) eff" where
  "eff_for [] body = eff_return ()"
| "eff_for (x # xs) body = eff_bind (body x) (\<lambda>_. eff_for xs body)"

definition post :: "('s, 'e, 'a) eff \<Rightarrow> 's \<Rightarrow> ('e + 'a \<Rightarrow> 's \<Rightarrow> bool) \<Rightarrow> bool" where
  "post m s Q = (case m s of (r, s') \<Rightarrow> Q r s')"

lemma post_return [post_simps]: "post (eff_return a) s Q \<longleftrightarrow> Q (Ok a) s"
  by (simp add: post_def eff_return_def)

lemma post_throw [post_simps]: "post (eff_throw e) s Q \<longleftrightarrow> Q (Err e) s"
  by (simp add: post_def eff_throw_def)

lemma post_lift [post_simps]: "post (eff_lift r) s Q \<longleftrightarrow> Q r s"
  by (simp add: post_def eff_lift_def)

lemma post_match [post_simps]: "post (eff_match m f) s Q \<longleftrightarrow> post m s (\<lambda>r s'. post (f r) s' Q)"
  by (simp add: post_def eff_match_def split: prod.split)

lemma post_bind [post_simps]:
  "post (eff_bind m f) s Q \<longleftrightarrow> post m s (\<lambda>r s'. case r of Err e \<Rightarrow> Q (Err e) s' | Ok a \<Rightarrow> post (f a) s' Q)"
  by (simp add: post_def eff_bind_def eff_match_def eff_throw_def split: prod.split sum.split)

lemma post_map_err [post_simps]: "post (eff_map_err g m) s Q \<longleftrightarrow> post m s (\<lambda>r s'. Q (map_err g r) s')"
  by (simp add: eff_map_err_def post_simps)

lemma post_mono:
  assumes "post m s P" and "\<And>r s'. P r s' \<Longrightarrow> Q r s'"
  shows "post m s Q"
  using assms by (auto simp: post_def split: prod.splits)

lemma post_bindI:
  assumes "post m s P" and "\<And>e s'. P (Err e) s' \<Longrightarrow> Q (Err e) s'"
    and "\<And>a s'. P (Ok a) s' \<Longrightarrow> post (f a) s' Q"
  shows "post (eff_bind m f) s Q"
  unfolding post_bind by (rule post_mono [OF assms(1)]) (use assms(2,3) in \<open>auto split: sum.split\<close>)

lemma post_run: "m s = (r, s') \<Longrightarrow> post m s Q \<longleftrightarrow> Q r s'"
  by (simp add: post_def)

lemma postI: "(\<And>r s'. m s = (r, s') \<Longrightarrow> Q r s') \<Longrightarrow> post m s Q"
  by (auto simp: post_def split: prod.splits)

lemma post_for:
  assumes "I [] s"
    and "\<And>ys x s. set ys \<subseteq> set xs \<Longrightarrow> x \<in> set xs \<Longrightarrow> I ys s \<Longrightarrow>
           post (body x) s (\<lambda>r s'. case r of Err e \<Rightarrow> E e s' | Ok _ \<Rightarrow> I (ys @ [x]) s')"
  shows "post (eff_for xs body) s (\<lambda>r s'. case r of Err e \<Rightarrow> E e s' | Ok _ \<Rightarrow> I xs s')"
proof -
  have "post (eff_for zs body) s (\<lambda>r s'. case r of Err e \<Rightarrow> E e s' | Ok _ \<Rightarrow> I (ys @ zs) s')"
    if "I ys s" "set ys \<subseteq> set xs" "set zs \<subseteq> set xs" for ys zs s
    using that
  proof (induction zs arbitrary: ys s)
    case (Cons z zs)
    have "post (body z) s (\<lambda>r s'. case r of Err e \<Rightarrow> E e s' | Ok _ \<Rightarrow> I (ys @ [z]) s')"
      using assms(2) Cons.prems by simp
    then show ?case
      unfolding eff_for.simps post_bind
    proof (rule post_mono)
      fix r s'
      assume "case r of Err e \<Rightarrow> E e s' | Ok _ \<Rightarrow> I (ys @ [z]) s'"
      with Cons.IH [of "ys @ [z]" s', unfolded append_assoc append_Cons append_Nil] Cons.prems
      show "case r of Err e \<Rightarrow> case Err e of Err e \<Rightarrow> E e s' | Ok _ \<Rightarrow> I (ys @ z # zs) s'
            | Ok a \<Rightarrow> post (eff_for zs body) s' (\<lambda>r s'. case r of Err e \<Rightarrow> E e s' | Ok _ \<Rightarrow> I (ys @ z # zs) s')"
        by (cases r) simp_all
    qed
  qed (simp add: post_simps)
  from this [OF assms(1), unfolded append_Nil] show ?thesis by simp
qed

end
