(* ===== verification/Garage_Client.thy ===== *)
theory Garage_Client
  imports Effects Domain Decimal_Text
begin

text \<open>
  The client of Garage's administration API (\<open>src/crates/syouyu-garage/src/lib.rs\<close>). The remote
  server is a parameter: a function from its state and a request to an outcome (a transport failure,
  or a status and the chunks of the body, of which any may fail) and its next state. A request body is
  the value that is serialised; the JSON readers, the URL operations, the client builder and the texts
  of status codes and of foreign errors are parameters.
\<close>

section \<open>Data\<close>

datatype garage_error =
    InvalidConfiguration string
  | InvalidInput string string  \<comment> \<open>field, reason\<close>
  | ClientBuild string
  | Transport string string  \<comment> \<open>operation, source\<close>
  | Api string u16 "string option" string string bool  \<comment> \<open>operation, status, code, message, body, truncated\<close>
  | ResponseTooLarge string u16 nat  \<comment> \<open>operation, status, limit\<close>
  | Decode string u16 string string  \<comment> \<open>operation, status, body, source\<close>

fun status_code :: "garage_error \<Rightarrow> u16 option" where
  "status_code (Api _ status _ _ _ _) = Some status"
| "status_code (ResponseTooLarge _ status _) = Some status"
| "status_code (Decode _ status _ _) = Some status"
| "status_code (InvalidConfiguration _) = None"
| "status_code (InvalidInput _ _) = None"
| "status_code (ClientBuild _) = None"
| "status_code (Transport _ _) = None"

definition is_not_found :: "garage_error \<Rightarrow> bool" where
  "is_not_found e \<longleftrightarrow> status_code e = Some 404"

datatype cluster_health_status = Healthy | HealthDegraded | Unavailable

record cluster_health =
  ch_status :: cluster_health_status
  ch_known_nodes :: u64
  ch_connected_nodes :: u64
  ch_storage_nodes :: u64
  ch_storage_nodes_up :: u64
  ch_partitions :: u64
  ch_partitions_quorum :: u64
  ch_partitions_all_ok :: u64

record bucket_quotas =
  gq_max_size :: "u64 option"
  gq_max_objects :: "u64 option"

definition quotas_limited :: "u64 \<Rightarrow> u64 \<Rightarrow> bucket_quotas" where
  "quotas_limited max_size max_objects = \<lparr>gq_max_size = Some max_size, gq_max_objects = Some max_objects\<rparr>"

definition quotas_unlimited :: bucket_quotas where
  "quotas_unlimited = \<lparr>gq_max_size = None, gq_max_objects = None\<rparr>"

definition quotas_validate :: "bucket_quotas \<Rightarrow> garage_error + unit" where
  "quotas_validate q =
     (case (gq_max_size q, gq_max_objects q) of
        (Some max_size, Some objects) \<Rightarrow>
          if max_size > 0 \<and> objects > 0 then Ok ()
          else Err (InvalidInput ''quotas'' ''limited quotas must be non-zero'')
      | (None, None) \<Rightarrow> Ok ()
      | _ \<Rightarrow> Err (InvalidInput ''quotas'' ''Garage requires max_size and max_objects together''))"

definition quotas_try_from :: "bucket_quota \<Rightarrow> garage_error + bucket_quotas" where
  "quotas_try_from quota =
     try_bind (map_err (\<lambda>_. InvalidInput ''quotas'' ''domain quota is invalid'') (bucket_quota_validate quota))
       (\<lambda>_. Ok (quotas_limited (bq_bytes quota) (bq_objects quota)))"

record bucket_key_permissions =
  kp_read :: bool
  kp_write :: bool
  kp_owner :: bool

definition key_permissions_all :: bucket_key_permissions where
  "key_permissions_all = \<lparr>kp_read = True, kp_write = True, kp_owner = True\<rparr>"

definition key_permissions_is_empty :: "bucket_key_permissions \<Rightarrow> bool" where
  "key_permissions_is_empty p \<longleftrightarrow> \<not> kp_read p \<and> \<not> kp_write p \<and> \<not> kp_owner p"

definition key_permissions_from :: "bucket_permissions \<Rightarrow> bucket_key_permissions" where
  "key_permissions_from p = \<lparr>kp_read = bp_read p, kp_write = bp_write p, kp_owner = False\<rparr>"

record bucket_local_alias =
  bl_access_key_id :: string
  bl_alias :: string

record bucket_summary =
  bsu_id :: string
  bsu_created :: timestamp
  bsu_global_aliases :: "string list"
  bsu_local_aliases :: "bucket_local_alias list"

record bucket_key =
  bk_access_key_id :: string
  bk_name :: string
  bk_permissions :: bucket_key_permissions
  bk_bucket_local_aliases :: "string list"

record bucket =
  gb_id :: string
  gb_created :: timestamp
  gb_global_aliases :: "string list"
  gb_website_access :: bool
  gb_keys :: "bucket_key list"
  gb_objects :: u64
  gb_bytes :: u64
  gb_unfinished_uploads :: u64
  gb_unfinished_multipart_uploads :: u64
  gb_unfinished_multipart_upload_parts :: u64
  gb_unfinished_multipart_upload_bytes :: u64
  gb_quotas :: bucket_quotas

record access_key_summary =
  ks_id :: string
  ks_name :: string
  ks_expired :: bool
  ks_created :: "timestamp option"
  ks_expiration :: "timestamp option"

record global_key_permissions =
  gk_create_bucket :: bool

record key_bucket =
  kb_id :: string
  kb_global_aliases :: "string list"
  kb_local_aliases :: "string list"
  kb_permissions :: bucket_key_permissions

record access_key =
  ak_access_key_id :: string
  ak_name :: string
  ak_expired :: bool
  ak_created :: "timestamp option"
  ak_expiration :: "timestamp option"
  ak_permissions :: global_key_permissions
  ak_buckets :: "key_bucket list"
  ak_secret_access_key :: "string option"

record create_key_request =
  ck_name :: string
  ck_expiration :: "timestamp option"
  ck_never_expires :: bool

definition create_key_request_new :: "string \<Rightarrow> timestamp option \<Rightarrow> create_key_request" where
  "create_key_request_new name expiration =
     \<lparr>ck_name = name, ck_expiration = expiration, ck_never_expires = (expiration = None)\<rparr>"

record update_key_request =
  uk_name :: "string option"
  uk_expiration :: "timestamp option"
  uk_never_expires :: bool

record garage_api_error_body =
  ae_code :: "string option"
  ae_message :: "string option"

datatype request_body =
    CreateBucketRequest string
  | UpdateBucketRequest bucket_quotas
  | CreateKeyRequest create_key_request
  | UpdateKeyRequest update_key_request
  | BucketKeyPermissionChangeRequest string string bucket_key_permissions
      \<comment> \<open>bucket, access key, permissions\<close>

datatype http_method = GET | POST

record http_request =
  hq_method :: http_method
  hq_url :: url
  hq_query :: "(string \<times> string) list"
  hq_body :: "request_body option"
  hq_headers :: "(string \<times> string) list"

record http_response =
  hp_status :: u16
  hp_chunks :: "(string + bytes) list"

type_synonym 'g server = "'g \<Rightarrow> http_request \<Rightarrow> (string + http_response) \<times> 'g"

record http_client =
  hc_default_headers :: "(string \<times> string) list"
  hc_timeout :: duration
  hc_user_agent :: string

record garage_admin_client =
  ga_base_url :: url
  ga_client :: http_client

text \<open>What the client takes from the crates it uses.\<close>

record garage_library =
  gl_cluster_health :: "bytes \<Rightarrow> string + cluster_health"
  gl_buckets :: "bytes \<Rightarrow> string + bucket_summary list"
  gl_bucket :: "bytes \<Rightarrow> string + bucket"
  gl_keys :: "bytes \<Rightarrow> string + access_key_summary list"
  gl_access_key :: "bytes \<Rightarrow> string + access_key"
  gl_error_body :: "bytes \<Rightarrow> garage_api_error_body option"
  gl_from_utf8_lossy :: "bytes \<Rightarrow> string"
  gl_canonical_reason :: "u16 \<Rightarrow> string option"
  gl_status_text :: "u16 \<Rightarrow> string"
  gl_join :: "url \<Rightarrow> string \<Rightarrow> string + url"
  gl_set_path :: "url \<Rightarrow> string \<Rightarrow> url"
  gl_header_value :: "string \<Rightarrow> bool"
  gl_client_build :: "http_client \<Rightarrow> string option"
  gl_pkg_version :: string

section \<open>Validation and construction\<close>

definition DEFAULT_TIMEOUT :: duration where "DEFAULT_TIMEOUT = 10 * 10 ^ 9"
definition MAX_SUCCESS_BODY_BYTES :: nat where "MAX_SUCCESS_BODY_BYTES = 8 * 1024 * 1024"
definition MAX_ERROR_BODY_BYTES :: nat where "MAX_ERROR_BODY_BYTES = 16 * 1024"

definition validate_input :: "string \<Rightarrow> string \<Rightarrow> garage_error + unit" where
  "validate_input field value =
     (if value = [] \<or> length value > 256 \<or> list_ex char_is_control (str_chars value)
      then Err (InvalidInput field ''value must contain 1 to 256 non-control characters'')
      else Ok ())"

definition create_key_validate :: "create_key_request \<Rightarrow> garage_error + unit" where
  "create_key_validate r =
     try_bind (validate_input ''key_name'' (ck_name r)) (\<lambda>_.
     if ck_never_expires r = (ck_expiration r \<noteq> None)
     then Err (InvalidInput ''expiration'' ''set either expiration or never_expires'')
     else Ok ())"

definition update_key_validate :: "update_key_request \<Rightarrow> garage_error + unit" where
  "update_key_validate r =
     try_bind (if_some (uk_name r) (validate_input ''key_name'')) (\<lambda>_.
     if uk_never_expires r \<and> uk_expiration r \<noteq> None
     then Err (InvalidInput ''expiration'' ''expiration and never_expires are mutually exclusive'')
     else if uk_name r = None \<and> uk_expiration r = None \<and> \<not> uk_never_expires r
     then Err (InvalidInput ''update'' ''at least one key field must change'')
     else Ok ())"

definition validate_base_url :: "url \<Rightarrow> garage_error + unit" where
  "validate_base_url u =
     (if \<not> (url_scheme u = ''http'' \<or> url_scheme u = ''https'')
         \<or> url_host_str u = None \<or> url_username u \<noteq> [] \<or> url_password u \<noteq> None
         \<or> url_query u \<noteq> None \<or> url_fragment u \<noteq> None
      then Err (InvalidConfiguration
        ''base URL must be an HTTP(S) URL without credentials, query, or fragment'')
      else Ok ())"

definition with_timeout :: "garage_library \<Rightarrow> url \<Rightarrow> string \<Rightarrow> duration \<Rightarrow> garage_error + garage_admin_client" where
  "with_timeout lib base_url admin_token timeout =
     try_bind (validate_base_url base_url) (\<lambda>_.
     if admin_token = [] then Err (InvalidConfiguration ''admin token must not be empty'')
     else if timeout = 0 then Err (InvalidConfiguration ''request timeout must not be zero'')
     else
       let base_url = gl_set_path lib base_url (trim_end_matches (CHR ''/'') (url_path base_url) @ ''/'');
           authorization = ''Bearer '' @ admin_token in
       if \<not> gl_header_value lib authorization then Err (InvalidConfiguration ''admin token is invalid'')
       else
         let client = \<lparr>hc_default_headers = [(''authorization'', authorization), (''accept'', ''application/json'')],
                       hc_timeout = timeout, hc_user_agent = ''heterocloud-syouyu/'' @ gl_pkg_version lib\<rparr> in
         case gl_client_build lib client of
           Some e \<Rightarrow> Err (ClientBuild e)
         | None \<Rightarrow> Ok \<lparr>ga_base_url = base_url, ga_client = client\<rparr>)"

definition garage_client_new :: "garage_library \<Rightarrow> url \<Rightarrow> string \<Rightarrow> garage_error + garage_admin_client" where
  "garage_client_new lib base_url admin_token = with_timeout lib base_url admin_token DEFAULT_TIMEOUT"

section \<open>Reading responses\<close>

fun read_limited_from ::
  "nat \<Rightarrow> string \<Rightarrow> bytes \<Rightarrow> (string + bytes) list \<Rightarrow> garage_error + bytes \<times> bool" where
  "read_limited_from limit operation body [] = Ok (body, False)"
| "read_limited_from limit operation body (Err source # _) = Err (Transport operation source)"
| "read_limited_from limit operation body (Ok chunk # chunks) =
     (let remaining = limit - length body in
      if length chunk > remaining then Ok (body @ take remaining chunk, True)
      else read_limited_from limit operation (body @ chunk) chunks)"

definition read_limited :: "http_response \<Rightarrow> nat \<Rightarrow> string \<Rightarrow> garage_error + bytes \<times> bool" where
  "read_limited response limit operation = read_limited_from limit operation [] (hp_chunks response)"

definition display_body :: "garage_library \<Rightarrow> bytes \<Rightarrow> string" where
  "display_body lib body = str_trim (gl_from_utf8_lossy lib body)"

definition api_error :: "garage_library \<Rightarrow> http_response \<Rightarrow> string \<Rightarrow> garage_error" where
  "api_error lib response operation =
     (case read_limited response MAX_ERROR_BODY_BYTES operation of
        Err e \<Rightarrow> e
      | Ok (body, truncated) \<Rightarrow>
          let parsed = gl_error_body lib body;
              code = Option.bind parsed ae_code;
              message = (case Option.bind parsed ae_message of
                  Some m \<Rightarrow> m
                | None \<Rightarrow> (case gl_canonical_reason lib (hp_status response) of
                    Some reason \<Rightarrow> reason
                  | None \<Rightarrow> ''Garage administration request failed''))
          in Api operation (hp_status response) code message (display_body lib body) truncated)"

definition status_is_success :: "u16 \<Rightarrow> bool" where
  "status_is_success status \<longleftrightarrow> 200 \<le> status \<and> status < 300"

section \<open>Requests\<close>

definition client_request ::
  "garage_library \<Rightarrow> garage_admin_client \<Rightarrow> http_method \<Rightarrow> string \<Rightarrow> garage_error + http_request" where
  "client_request lib client method operation =
     (case gl_join lib (ga_base_url client) (''v2/'' @ operation) of
        Err e \<Rightarrow> Err (InvalidConfiguration (''cannot build Garage endpoint for '' @ operation @ '': '' @ e))
      | Ok endpoint \<Rightarrow> Ok \<lparr>hq_method = method, hq_url = endpoint, hq_query = [], hq_body = None,
                         hq_headers = hc_default_headers (ga_client client)\<rparr>)"

definition with_query :: "(string \<times> string) list \<Rightarrow> http_request \<Rightarrow> http_request" where
  "with_query params request = request\<lparr>hq_query := hq_query request @ params\<rparr>"

definition with_json :: "request_body \<Rightarrow> http_request \<Rightarrow> http_request" where
  "with_json body request = request\<lparr>hq_body := Some body\<rparr>"

definition send :: "'g server \<Rightarrow> string \<Rightarrow> http_request \<Rightarrow> ('g, garage_error, http_response) eff" where
  "send server operation request = (\<lambda>g. case server g request of
     (Err source, g') \<Rightarrow> (Err (Transport operation source), g')
   | (Ok response, g') \<Rightarrow> (Ok response, g'))"

definition execute_json ::
  "garage_library \<Rightarrow> 'g server \<Rightarrow> (bytes \<Rightarrow> string + 't) \<Rightarrow> http_request \<Rightarrow> string \<Rightarrow> ('g, garage_error, 't) eff" where
  "execute_json lib server from_slice request operation =
     eff_bind (send server operation request) (\<lambda>response.
     if \<not> status_is_success (hp_status response) then eff_throw (api_error lib response operation)
     else eff_bind (eff_lift (read_limited response MAX_SUCCESS_BODY_BYTES operation)) (\<lambda>(body, truncated).
     if truncated then eff_throw (ResponseTooLarge operation (hp_status response) MAX_SUCCESS_BODY_BYTES)
     else eff_lift (map_err (Decode operation (hp_status response) (display_body lib body)) (from_slice body))))"

definition execute_empty ::
  "garage_library \<Rightarrow> 'g server \<Rightarrow> http_request \<Rightarrow> string \<Rightarrow> ('g, garage_error, unit) eff" where
  "execute_empty lib server request operation =
     eff_bind (send server operation request) (\<lambda>response.
     if status_is_success (hp_status response) then eff_return ()
     else eff_throw (api_error lib response operation))"

section \<open>Operations\<close>

definition client_health ::
  "garage_library \<Rightarrow> garage_admin_client \<Rightarrow> 'g server \<Rightarrow> ('g, garage_error, cluster_health) eff" where
  "client_health lib client server =
     eff_bind (eff_lift (client_request lib client GET ''GetClusterHealth'')) (\<lambda>request.
     execute_json lib server (gl_cluster_health lib) request ''GetClusterHealth'')"

definition list_buckets ::
  "garage_library \<Rightarrow> garage_admin_client \<Rightarrow> 'g server \<Rightarrow> ('g, garage_error, bucket_summary list) eff" where
  "list_buckets lib client server =
     eff_bind (eff_lift (client_request lib client GET ''ListBuckets'')) (\<lambda>request.
     execute_json lib server (gl_buckets lib) request ''ListBuckets'')"

definition create_bucket ::
  "garage_library \<Rightarrow> garage_admin_client \<Rightarrow> 'g server \<Rightarrow> string \<Rightarrow> ('g, garage_error, bucket) eff" where
  "create_bucket lib client server global_alias =
     eff_bind (eff_lift (validate_input ''global_alias'' global_alias)) (\<lambda>_.
     eff_bind (eff_lift (client_request lib client POST ''CreateBucket'')) (\<lambda>request.
     execute_json lib server (gl_bucket lib) (with_json (CreateBucketRequest global_alias) request)
       ''CreateBucket''))"

definition get_bucket ::
  "garage_library \<Rightarrow> garage_admin_client \<Rightarrow> 'g server \<Rightarrow> string \<Rightarrow> ('g, garage_error, bucket) eff" where
  "get_bucket lib client server bucket_id =
     eff_bind (eff_lift (validate_input ''bucket_id'' bucket_id)) (\<lambda>_.
     eff_bind (eff_lift (client_request lib client GET ''GetBucketInfo'')) (\<lambda>request.
     execute_json lib server (gl_bucket lib) (with_query [(''id'', bucket_id)] request) ''GetBucketInfo''))"

definition get_bucket_by_alias ::
  "garage_library \<Rightarrow> garage_admin_client \<Rightarrow> 'g server \<Rightarrow> string \<Rightarrow> ('g, garage_error, bucket) eff" where
  "get_bucket_by_alias lib client server global_alias =
     eff_bind (eff_lift (validate_input ''global_alias'' global_alias)) (\<lambda>_.
     eff_bind (eff_lift (client_request lib client GET ''GetBucketInfo'')) (\<lambda>request.
     execute_json lib server (gl_bucket lib) (with_query [(''globalAlias'', global_alias)] request)
       ''GetBucketInfo''))"

definition update_bucket_quotas ::
  "garage_library \<Rightarrow> garage_admin_client \<Rightarrow> 'g server \<Rightarrow> string \<Rightarrow> bucket_quotas \<Rightarrow> ('g, garage_error, bucket) eff" where
  "update_bucket_quotas lib client server bucket_id quotas =
     eff_bind (eff_lift (validate_input ''bucket_id'' bucket_id)) (\<lambda>_.
     eff_bind (eff_lift (quotas_validate quotas)) (\<lambda>_.
     eff_bind (eff_lift (client_request lib client POST ''UpdateBucket'')) (\<lambda>request.
     execute_json lib server (gl_bucket lib)
       (with_json (UpdateBucketRequest quotas) (with_query [(''id'', bucket_id)] request)) ''UpdateBucket'')))"

definition client_delete_bucket ::
  "garage_library \<Rightarrow> garage_admin_client \<Rightarrow> 'g server \<Rightarrow> string \<Rightarrow> ('g, garage_error, unit) eff" where
  "client_delete_bucket lib client server bucket_id =
     eff_bind (eff_lift (validate_input ''bucket_id'' bucket_id)) (\<lambda>_.
     eff_bind (eff_lift (client_request lib client POST ''DeleteBucket'')) (\<lambda>request.
     execute_empty lib server (with_query [(''id'', bucket_id)] request) ''DeleteBucket''))"

definition list_keys ::
  "garage_library \<Rightarrow> garage_admin_client \<Rightarrow> 'g server \<Rightarrow> ('g, garage_error, access_key_summary list) eff" where
  "list_keys lib client server =
     eff_bind (eff_lift (client_request lib client GET ''ListKeys'')) (\<lambda>request.
     execute_json lib server (gl_keys lib) request ''ListKeys'')"

definition create_key ::
  "garage_library \<Rightarrow> garage_admin_client \<Rightarrow> 'g server \<Rightarrow> create_key_request \<Rightarrow> ('g, garage_error, access_key) eff" where
  "create_key lib client server key =
     eff_bind (eff_lift (create_key_validate key)) (\<lambda>_.
     eff_bind (eff_lift (client_request lib client POST ''CreateKey'')) (\<lambda>request.
     execute_json lib server (gl_access_key lib) (with_json (CreateKeyRequest key) request) ''CreateKey''))"

definition get_key_inner ::
  "garage_library \<Rightarrow> garage_admin_client \<Rightarrow> 'g server \<Rightarrow> string \<Rightarrow> bool \<Rightarrow> ('g, garage_error, access_key) eff" where
  "get_key_inner lib client server access_key_id show_secret =
     eff_bind (eff_lift (validate_input ''access_key_id'' access_key_id)) (\<lambda>_.
     eff_bind (eff_lift (client_request lib client GET ''GetKeyInfo'')) (\<lambda>request.
     execute_json lib server (gl_access_key lib)
       (with_query [(''id'', access_key_id), (''showSecretKey'', if show_secret then ''true'' else ''false'')] request)
       ''GetKeyInfo''))"

definition get_key ::
  "garage_library \<Rightarrow> garage_admin_client \<Rightarrow> 'g server \<Rightarrow> string \<Rightarrow> ('g, garage_error, access_key) eff" where
  "get_key lib client server access_key_id = get_key_inner lib client server access_key_id False"

definition get_key_with_secret ::
  "garage_library \<Rightarrow> garage_admin_client \<Rightarrow> 'g server \<Rightarrow> string \<Rightarrow> ('g, garage_error, access_key) eff" where
  "get_key_with_secret lib client server access_key_id = get_key_inner lib client server access_key_id True"

definition update_key ::
  "garage_library \<Rightarrow> garage_admin_client \<Rightarrow> 'g server \<Rightarrow> string \<Rightarrow> update_key_request \<Rightarrow> ('g, garage_error, access_key) eff" where
  "update_key lib client server access_key_id update =
     eff_bind (eff_lift (validate_input ''access_key_id'' access_key_id)) (\<lambda>_.
     eff_bind (eff_lift (update_key_validate update)) (\<lambda>_.
     eff_bind (eff_lift (client_request lib client POST ''UpdateKey'')) (\<lambda>request.
     execute_json lib server (gl_access_key lib)
       (with_json (UpdateKeyRequest update) (with_query [(''id'', access_key_id)] request)) ''UpdateKey'')))"

definition delete_key ::
  "garage_library \<Rightarrow> garage_admin_client \<Rightarrow> 'g server \<Rightarrow> string \<Rightarrow> ('g, garage_error, unit) eff" where
  "delete_key lib client server access_key_id =
     eff_bind (eff_lift (validate_input ''access_key_id'' access_key_id)) (\<lambda>_.
     eff_bind (eff_lift (client_request lib client POST ''DeleteKey'')) (\<lambda>request.
     execute_empty lib server (with_query [(''id'', access_key_id)] request) ''DeleteKey''))"

definition change_bucket_key_permissions ::
  "garage_library \<Rightarrow> garage_admin_client \<Rightarrow> 'g server \<Rightarrow> string \<Rightarrow> string \<Rightarrow> string \<Rightarrow> bucket_key_permissions
     \<Rightarrow> ('g, garage_error, bucket) eff" where
  "change_bucket_key_permissions lib client server operation bucket_id access_key_id permissions =
     eff_bind (eff_lift (validate_input ''bucket_id'' bucket_id)) (\<lambda>_.
     eff_bind (eff_lift (validate_input ''access_key_id'' access_key_id)) (\<lambda>_.
     eff_bind (eff_lift (client_request lib client POST operation)) (\<lambda>request.
     execute_json lib server (gl_bucket lib)
       (with_json (BucketKeyPermissionChangeRequest bucket_id access_key_id permissions) request) operation)))"

definition allow_bucket_key ::
  "garage_library \<Rightarrow> garage_admin_client \<Rightarrow> 'g server \<Rightarrow> string \<Rightarrow> string \<Rightarrow> bucket_key_permissions
     \<Rightarrow> ('g, garage_error, bucket) eff" where
  "allow_bucket_key lib client server = change_bucket_key_permissions lib client server ''AllowBucketKey''"

definition deny_bucket_key ::
  "garage_library \<Rightarrow> garage_admin_client \<Rightarrow> 'g server \<Rightarrow> string \<Rightarrow> string \<Rightarrow> bucket_key_permissions
     \<Rightarrow> ('g, garage_error, bucket) eff" where
  "deny_bucket_key lib client server = change_bucket_key_permissions lib client server ''DenyBucketKey''"

definition set_bucket_key_permissions ::
  "garage_library \<Rightarrow> garage_admin_client \<Rightarrow> 'g server \<Rightarrow> string \<Rightarrow> string \<Rightarrow> bucket_key_permissions
     \<Rightarrow> ('g, garage_error, bucket) eff" where
  "set_bucket_key_permissions lib client server bucket_id access_key_id permissions =
     eff_bind (deny_bucket_key lib client server bucket_id access_key_id key_permissions_all) (\<lambda>revoked.
     if key_permissions_is_empty permissions then eff_return revoked
     else allow_bucket_key lib client server bucket_id access_key_id permissions)"

section \<open>Properties\<close>

lemma read_limited_from_chunks:
  assumes "length body \<le> limit"
  shows "read_limited_from limit operation body (map Ok chunks @ rest)
     = (if limit < length (body @ concat chunks) then Ok (take limit (body @ concat chunks), True)
        else read_limited_from limit operation (body @ concat chunks) rest)"
  using assms
proof (induction chunks arbitrary: body)
  case (Cons chunk chunks)
  show ?case
  proof (cases "limit - length body < length chunk")
    case True
    then have "limit < length body + (length chunk + length (concat chunks))" by linarith
    with True Cons.prems show ?thesis by (simp add: Let_def del: length_concat)
  next
    case False
    with Cons.prems have "length (body @ chunk) \<le> limit" by simp
    from Cons.IH [OF this] False show ?thesis by (simp add: Let_def)
  qed
qed simp

text \<open>
  C32: reading a response body is bounded and loses nothing below the bound: of the chunks that arrive
  before the connection ends or fails, exactly the first \<open>limit\<close> bytes are kept and the result is
  marked truncated iff there were more; a failure is reported iff it comes before the bound is passed.
\<close>
theorem read_limited_is_prefix:
  "read_limited \<lparr>hp_status = status,
      hp_chunks = map Ok chunks @ (case failure of None \<Rightarrow> [] | Some e \<Rightarrow> Err e # later)\<rparr> limit operation
   = (if limit < length (concat chunks) then Ok (take limit (concat chunks), True)
      else case failure of None \<Rightarrow> Ok (concat chunks, False) | Some e \<Rightarrow> Err (Transport operation e))"
  by (simp add: read_limited_def read_limited_from_chunks split: option.split)

end
