(* ===== verification/Garage_Adapter.thy ===== *)
theory Garage_Adapter
  imports Garage_Client Store_Models
begin

text \<open>
  The storage backend of the handlers (\<open>src/crates/syouyu-api/src/garage.rs\<close>): the interface
  \<open>Garage\<close>, its implementation \<open>GarageAdapter\<close> on the administration client, and the errors it
  reports. Bucket creation and key deletion are retried by whole operations, so they accept what an
  earlier attempt left behind.
\<close>

section \<open>Interface\<close>

datatype garage_backend_error =
    NotFound string
  | Unavailable string
  | Conflict string
  | InvalidResponse string

record reconciled_bucket =
  rb_physical_bucket_id :: string

record issued_credential =
  ic_garage_key_id :: string
  ic_access_key_id :: string
  ic_secret_access_key :: string

record 'g garage_backend =
  be_health :: "('g, garage_backend_error, unit) eff"
  be_reconcile_bucket :: "string option \<Rightarrow> syouyu_spec \<Rightarrow> ('g, garage_backend_error, reconciled_bucket) eff"
  be_bucket_usage :: "string \<Rightarrow> ('g, garage_backend_error, bucket_usage) eff"
  be_create_credential ::
    "string \<Rightarrow> string \<Rightarrow> bucket_permissions \<Rightarrow> ('g, garage_backend_error, issued_credential) eff"
  be_revoke_credential :: "string \<Rightarrow> ('g, garage_backend_error, unit) eff"
  be_delete_bucket :: "string \<Rightarrow> ('g, garage_backend_error, unit) eff"

section \<open>Errors\<close>

text \<open>The texts of \<open>GarageError\<close>, which the errors of the backend carry.\<close>

fun garage_error_to_string :: "garage_library \<Rightarrow> garage_error \<Rightarrow> string" where
  "garage_error_to_string lib (InvalidConfiguration m) = ''invalid Garage configuration: '' @ m"
| "garage_error_to_string lib (InvalidInput field reason) = ''invalid '' @ field @ '': '' @ reason"
| "garage_error_to_string lib (ClientBuild e) = ''failed to build Garage HTTP client: '' @ e"
| "garage_error_to_string lib (Transport operation source) =
     ''Garage '' @ operation @ '' transport failed: '' @ source"
| "garage_error_to_string lib (Api operation status _ message _ _) =
     ''Garage '' @ operation @ '' returned HTTP '' @ gl_status_text lib status @ '': '' @ message"
| "garage_error_to_string lib (ResponseTooLarge operation _ limit) =
     ''Garage '' @ operation @ '' response exceeded '' @ nat_to_string limit @ '' bytes''"
| "garage_error_to_string lib (Decode operation status _ source) =
     ''Garage '' @ operation @ '' returned invalid JSON with HTTP '' @ gl_status_text lib status @ '': '' @ source"

definition backend_error_from :: "garage_library \<Rightarrow> garage_error \<Rightarrow> garage_backend_error" where
  "backend_error_from lib e =
     (if is_not_found e then NotFound (garage_error_to_string lib e)
      else if status_code e = Some 409 then Conflict (garage_error_to_string lib e)
      else Unavailable (garage_error_to_string lib e))"

definition bucket_is_empty :: "bucket_usage \<Rightarrow> bool" where
  "bucket_is_empty usage \<longleftrightarrow> bu_bytes usage = 0 \<and> bu_objects usage = 0
     \<and> bu_unfinished_upload_bytes usage = 0 \<and> bu_unfinished_uploads usage = 0"

section \<open>The adapter\<close>

definition adapter_health ::
  "garage_library \<Rightarrow> garage_admin_client \<Rightarrow> 'g server \<Rightarrow> ('g, garage_backend_error, unit) eff" where
  "adapter_health lib client server =
     eff_bind (eff_map_err (backend_error_from lib) (client_health lib client server)) (\<lambda>health.
     if ch_status health = cluster_health_status.Unavailable \<or> ch_storage_nodes_up health = 0
        \<or> ch_partitions_quorum health < ch_partitions health
     then eff_throw (Unavailable ''Garage does not currently have write quorum'')
     else eff_return ())"

definition adapter_find_bucket ::
  "garage_library \<Rightarrow> garage_admin_client \<Rightarrow> 'g server \<Rightarrow> string option \<Rightarrow> syouyu_spec
     \<Rightarrow> ('g, garage_backend_error, bucket) eff" where
  "adapter_find_bucket lib client server existing_physical_bucket_id spec =
     (case existing_physical_bucket_id of
        Some bucket_id \<Rightarrow>
          eff_bind (eff_map_err (backend_error_from lib) (get_bucket lib client server bucket_id)) (\<lambda>bucket.
          if sp_bucket_name spec \<notin> set (gb_global_aliases bucket)
          then eff_throw (Conflict ''bucket_name is immutable after service creation'')
          else eff_return bucket)
      | None \<Rightarrow>
          eff_match (get_bucket_by_alias lib client server (sp_bucket_name spec)) (\<lambda>r. case r of
            Ok bucket \<Rightarrow> eff_return bucket
          | Err e \<Rightarrow>
              if is_not_found e
              then eff_map_err (backend_error_from lib) (create_bucket lib client server (sp_bucket_name spec))
              else eff_throw (backend_error_from lib e)))"

definition adapter_reconcile_bucket ::
  "garage_library \<Rightarrow> garage_admin_client \<Rightarrow> 'g server \<Rightarrow> string option \<Rightarrow> syouyu_spec
     \<Rightarrow> ('g, garage_backend_error, reconciled_bucket) eff" where
  "adapter_reconcile_bucket lib client server existing_physical_bucket_id spec =
     eff_bind (adapter_find_bucket lib client server existing_physical_bucket_id spec) (\<lambda>bucket.
     eff_bind (eff_map_err (backend_error_from lib) (update_bucket_quotas lib client server (gb_id bucket)
       (quotas_limited (sp_quota_bytes spec) (sp_quota_objects spec)))) (\<lambda>bucket.
     eff_return \<lparr>rb_physical_bucket_id = gb_id bucket\<rparr>))"

definition adapter_bucket_usage ::
  "garage_library \<Rightarrow> garage_admin_client \<Rightarrow> 'g server \<Rightarrow> string \<Rightarrow> ('g, garage_backend_error, bucket_usage) eff" where
  "adapter_bucket_usage lib client server physical_bucket_id =
     eff_bind (eff_map_err (backend_error_from lib) (get_bucket lib client server physical_bucket_id)) (\<lambda>bucket.
     eff_return \<lparr>bu_bytes = gb_bytes bucket, bu_objects = gb_objects bucket,
       bu_unfinished_upload_bytes = gb_unfinished_multipart_upload_bytes bucket,
       bu_unfinished_uploads =
         u64_saturating_add (gb_unfinished_uploads bucket) (gb_unfinished_multipart_uploads bucket)\<rparr>)"

text \<open>Deletion of a key that may already be gone.\<close>

definition adapter_revoke_credential ::
  "garage_library \<Rightarrow> garage_admin_client \<Rightarrow> 'g server \<Rightarrow> string \<Rightarrow> ('g, garage_backend_error, unit) eff" where
  "adapter_revoke_credential lib client server garage_key_id =
     eff_match (delete_key lib client server garage_key_id) (\<lambda>r. case r of
       Ok _ \<Rightarrow> eff_return ()
     | Err e \<Rightarrow> if is_not_found e then eff_return () else eff_throw (backend_error_from lib e))"

definition adapter_create_credential ::
  "garage_library \<Rightarrow> garage_admin_client \<Rightarrow> 'g server \<Rightarrow> string \<Rightarrow> string \<Rightarrow> bucket_permissions
     \<Rightarrow> ('g, garage_backend_error, issued_credential) eff" where
  "adapter_create_credential lib client server physical_bucket_id deterministic_name permissions =
     eff_bind (eff_map_err (backend_error_from lib) (list_keys lib client server)) (\<lambda>keys.
     eff_bind (eff_for (map ks_id (filter (\<lambda>key. ks_name key = deterministic_name) keys)) (\<lambda>access_key_id.
       eff_match (delete_key lib client server access_key_id) (\<lambda>r. case r of
         Ok _ \<Rightarrow> eff_return ()
       | Err e \<Rightarrow> if is_not_found e then eff_return () else eff_throw (backend_error_from lib e)))) (\<lambda>_.
     eff_bind (eff_map_err (backend_error_from lib)
       (create_key lib client server (create_key_request_new deterministic_name None))) (\<lambda>key.
     case ak_secret_access_key key of
       None \<Rightarrow>
         eff_match (delete_key lib client server (ak_access_key_id key)) (\<lambda>_.
         eff_throw (InvalidResponse ''Garage omitted secretAccessKey from CreateKey''))
     | Some secret_access_key \<Rightarrow>
         eff_match (set_bucket_key_permissions lib client server physical_bucket_id (ak_access_key_id key)
             (key_permissions_from permissions)) (\<lambda>r. case r of
           Err e \<Rightarrow>
             eff_match (delete_key lib client server (ak_access_key_id key)) (\<lambda>_.
             eff_throw (backend_error_from lib e))
         | Ok _ \<Rightarrow>
             eff_return \<lparr>ic_garage_key_id = ak_access_key_id key, ic_access_key_id = ak_access_key_id key,
               ic_secret_access_key = secret_access_key\<rparr>))))"

definition adapter_delete_bucket ::
  "garage_library \<Rightarrow> garage_admin_client \<Rightarrow> 'g server \<Rightarrow> string \<Rightarrow> ('g, garage_backend_error, unit) eff" where
  "adapter_delete_bucket lib client server physical_bucket_id =
     eff_match (client_delete_bucket lib client server physical_bucket_id) (\<lambda>r. case r of
       Ok _ \<Rightarrow> eff_return ()
     | Err e \<Rightarrow> if is_not_found e then eff_return () else eff_throw (backend_error_from lib e))"

definition garage_adapter ::
  "garage_library \<Rightarrow> garage_admin_client \<Rightarrow> 'g server \<Rightarrow> 'g garage_backend" where
  "garage_adapter lib client server = \<lparr>be_health = adapter_health lib client server,
     be_reconcile_bucket = adapter_reconcile_bucket lib client server,
     be_bucket_usage = adapter_bucket_usage lib client server,
     be_create_credential = adapter_create_credential lib client server,
     be_revoke_credential = adapter_revoke_credential lib client server,
     be_delete_bucket = adapter_delete_bucket lib client server\<rparr>"

end
