(* ===== verification/Api_Error.thy ===== *)
theory Api_Error
  imports Provider_Auth Principal_Auth Garage_Adapter
begin

text \<open>
  Errors of the HTTP interface (\<open>src/crates/syouyu-api/src/error.rs\<close>): the error value, its
  conversion from the errors of the components, the response it is answered with and the response
  that is stored in a receipt. The text of a UUID and the check of a header value are parameters.
\<close>

section \<open>Texts of the component errors\<close>

fun validation_error_to_string :: "validation_error \<Rightarrow> string" where
  "validation_error_to_string (InvalidLength field minimum maximum actual) =
     field @ '' length must be between '' @ nat_to_string minimum @ '' and '' @ nat_to_string maximum
       @ '', got '' @ nat_to_string actual"
| "validation_error_to_string (OutOfRange field minimum maximum actual) =
     field @ '' must be between '' @ u64_to_string minimum @ '' and '' @ u64_to_string maximum
       @ '', got '' @ u64_to_string actual"
| "validation_error_to_string (InvalidField field reason) = field @ '' is invalid: '' @ reason"
| "validation_error_to_string (InvalidState reason) = ''invalid state: '' @ reason"

fun auth_error_to_string :: "auth_error \<Rightarrow> string" where
  "auth_error_to_string auth_error.MissingCredentials = ''credentials are missing''"
| "auth_error_to_string auth_error.InvalidHeader = ''credential header is invalid''"
| "auth_error_to_string InvalidToken = ''token is invalid or expired''"
| "auth_error_to_string MissingKeyId = ''provider token has no key ID''"
| "auth_error_to_string UnknownKeyId = ''provider token key ID is not trusted''"
| "auth_error_to_string InvalidProviderCommand = ''provider command claims are invalid''"
| "auth_error_to_string InvalidProviderScope = ''provider token contains an invalid scope''"
| "auth_error_to_string InvalidExpectedScope = ''expected request scope is invalid''"
| "auth_error_to_string ScopeMismatch = ''provider token scope does not match the request path''"
| "auth_error_to_string TokenLifetimeExceeded = ''credential lifetime exceeds the service limit''"
| "auth_error_to_string MissingIdempotencyKey = ''idempotency key is missing''"
| "auth_error_to_string InvalidIdempotencyKey = ''idempotency key is not a canonical UUID''"
| "auth_error_to_string IdempotencyKeyMismatch = ''idempotency key does not match provider token jti''"
| "auth_error_to_string (auth_error.InvalidConfiguration m) = ''invalid authentication configuration: '' @ m"

fun principal_auth_error_to_string :: "principal_auth_error \<Rightarrow> string" where
  "principal_auth_error_to_string principal_auth_error.MissingCredentials = ''credentials are missing''"
| "principal_auth_error_to_string principal_auth_error.InvalidHeader = ''credential header is invalid''"
| "principal_auth_error_to_string InvalidSignature = ''principal signature is invalid''"
| "principal_auth_error_to_string InvalidPrincipal = ''principal context is invalid''"
| "principal_auth_error_to_string InvalidLifetime = ''principal context lifetime is invalid''"
| "principal_auth_error_to_string Expired = ''principal context is expired''"
| "principal_auth_error_to_string PermissionDenied = ''principal lacks the required permission''"
| "principal_auth_error_to_string (principal_auth_error.InvalidConfiguration m) =
     ''invalid principal authentication configuration: '' @ m"

section \<open>The error value\<close>

record api_error =
  er_status :: u16
  er_code :: string
  er_message :: string
  er_operation_id :: "uuid option"
  er_retry_after_seconds :: "u64 option"

definition api_error_new :: "u16 \<Rightarrow> string \<Rightarrow> string \<Rightarrow> api_error" where
  "api_error_new status code message = \<lparr>er_status = status, er_code = code, er_message = message,
     er_operation_id = None, er_retry_after_seconds = None\<rparr>"

definition bad_request :: "string \<Rightarrow> api_error" where
  "bad_request message = api_error_new 400 ''invalid_request'' message"
definition unauthorized :: "string \<Rightarrow> api_error" where
  "unauthorized message = api_error_new 401 ''invalid_credentials'' message"
definition forbidden :: api_error where
  "forbidden = api_error_new 403 ''permission_denied'' ''principal does not have the required permission''"
definition error_not_found :: api_error where
  "error_not_found = api_error_new 404 ''not_found'' ''resource was not found''"
definition error_method_not_allowed :: api_error where
  "error_method_not_allowed =
     api_error_new 405 ''method_not_allowed'' ''HTTP method is not allowed for this route''"
definition conflict :: "string \<Rightarrow> string \<Rightarrow> api_error" where
  "conflict code message = api_error_new 409 code message"
definition dependency :: "string \<Rightarrow> api_error" where
  "dependency message = api_error_new 502 ''storage_backend_unavailable'' message"
definition operation_in_progress :: "uuid \<Rightarrow> api_error" where
  "operation_in_progress operation_id = \<lparr>er_status = 503, er_code = ''operation_in_progress'',
     er_message = ''another operation for this service is still in progress'',
     er_operation_id = Some operation_id, er_retry_after_seconds = Some 2\<rparr>"
definition internal :: api_error where
  "internal = api_error_new 500 ''internal_error'' ''internal service error''"

lemmas api_error_defs = bad_request_def unauthorized_def forbidden_def error_not_found_def
  error_method_not_allowed_def conflict_def dependency_def operation_in_progress_def internal_def
  api_error_new_def

record error_body =
  eb_code :: string
  eb_message :: string
  eb_operation_id :: "uuid option"

record error_envelope =
  ee_error :: error_body

definition envelope :: "api_error \<Rightarrow> error_envelope" where
  "envelope e = \<lparr>ee_error = \<lparr>eb_code = er_code e, eb_message = er_message e, eb_operation_id = er_operation_id e\<rparr>\<rparr>"

text \<open>The derived serialisation of the envelope: an absent operation is left out.\<close>

definition envelope_to_value :: "(uuid \<Rightarrow> string) \<Rightarrow> error_envelope \<Rightarrow> json" where
  "envelope_to_value uuid_text v = json_object [(''error'', json_object
     ([(''code'', JString (eb_code (ee_error v))), (''message'', JString (eb_message (ee_error v)))]
      @ (case eb_operation_id (ee_error v) of None \<Rightarrow> []
         | Some u \<Rightarrow> [(''operation_id'', JString (uuid_text u))])))]"

definition stored_response :: "(uuid \<Rightarrow> string) \<Rightarrow> api_error \<Rightarrow> stored_http_response" where
  "stored_response uuid_text e = \<lparr>sh_status = er_status e,
     sh_body = envelope_to_value uuid_text (envelope e), sh_failed = True\<rparr>"

text \<open>An answer: status, the headers set by the service, body.\<close>

record http_reply =
  rp_status :: u16
  rp_headers :: "(string \<times> string) list"
  rp_body :: json

definition error_into_response :: "(uuid \<Rightarrow> string) \<Rightarrow> (string \<Rightarrow> bool) \<Rightarrow> api_error \<Rightarrow> http_reply" where
  "error_into_response uuid_text header_ok e = \<lparr>rp_status = er_status e,
     rp_headers = (case er_retry_after_seconds e of
        None \<Rightarrow> []
      | Some seconds \<Rightarrow> if header_ok (u64_to_string seconds)
                       then [(''retry-after'', u64_to_string seconds)] else []),
     rp_body = envelope_to_value uuid_text (envelope e)\<rparr>"

section \<open>Conversions\<close>

definition api_error_from_auth :: "auth_error \<Rightarrow> api_error" where
  "api_error_from_auth e = unauthorized (auth_error_to_string e)"

definition api_error_from_principal :: "principal_auth_error \<Rightarrow> api_error" where
  "api_error_from_principal e =
     (case e of PermissionDenied \<Rightarrow> forbidden
      | other \<Rightarrow> unauthorized (principal_auth_error_to_string other))"

fun api_error_from_backend :: "garage_backend_error \<Rightarrow> api_error" where
  "api_error_from_backend (garage_backend_error.Conflict message) =
     conflict ''storage_backend_conflict'' message"
| "api_error_from_backend (garage_backend_error.NotFound message) = dependency message"
| "api_error_from_backend (garage_backend_error.Unavailable message) = dependency message"
| "api_error_from_backend (garage_backend_error.InvalidResponse message) = dependency message"

definition api_error_from_store :: "store_error \<Rightarrow> api_error" where
  "api_error_from_store e =
     (case e of
        store_error.NotFound \<Rightarrow> error_not_found
      | Validation message \<Rightarrow> bad_request message
      | DomainValidation error \<Rightarrow> bad_request (validation_error_to_string error)
      | InvalidNumericValue field \<Rightarrow> bad_request (field @ '' is outside the supported range'')
      | store_error.Conflict message \<Rightarrow> conflict ''conflict'' message
      | IdempotencyConflict \<Rightarrow>
          conflict ''idempotency_conflict'' ''Idempotency-Key was previously used for a different request''
      | BucketNameUnavailable \<Rightarrow>
          conflict ''bucket_name_unavailable'' ''bucket name is already owned by another service''
      | StaleGeneration current requested \<Rightarrow>
          conflict ''stale_generation'' (''generation '' @ i64_to_string requested
            @ '' is stale; current generation is '' @ i64_to_string current)
      | OperationInProgress operation_id \<Rightarrow> operation_in_progress operation_id
      | OperationLeaseLost current_operation_id \<Rightarrow> operation_in_progress current_operation_id
      | ServiceNotReady \<Rightarrow> conflict ''service_not_ready'' ''service instance is not ready''
      | CredentialLimitExceeded scope limit \<Rightarrow>
          conflict ''credential_limit_exceeded'' (scope @ '' active credential limit of ''
            @ u32_to_string limit @ '' has been reached'')
      | other \<Rightarrow> internal)"

section \<open>Properties\<close>

text \<open>
  C36: what a client learns from a failed store operation: the status is one of 400, 404, 409, 500 and
  503; the answer asks for a retry (and names the running operation) exactly when another operation
  holds the service; and every fault of the database, of the stored data, of the encryption or of the
  configuration gives the same opaque body, whatever its details.
\<close>
theorem store_errors_are_classified:
  "er_status (api_error_from_store e) \<in> {400, 404, 409, 500, 503}
   \<and> (rp_headers (error_into_response uuid_text (\<lambda>_. True) (api_error_from_store e)) = [(''retry-after'', ''2'')]
        \<longleftrightarrow> (\<exists>u. e = OperationInProgress u \<or> e = OperationLeaseLost u))
   \<and> (er_status (api_error_from_store e) = 503
        \<longleftrightarrow> (\<exists>u. (e = OperationInProgress u \<or> e = OperationLeaseLost u)
              \<and> er_operation_id (api_error_from_store e) = Some u))
   \<and> (api_error_from_store e = internal
        \<longleftrightarrow> (\<exists>d m. e = Database d \<or> e = Migration \<or> e = Configuration m \<or> e = CorruptData m \<or> e = Encryption m))"
proof -
  have "u64_to_string 2 = ''2''" by code_simp
  then show ?thesis
    by (cases e) (simp_all add: api_error_from_store_def api_error_defs error_into_response_def)
qed

end
