(* ===== verification/Routes.thy ===== *)
theory Routes
  imports Repository Api_Error
begin

text \<open>
  The HTTP handlers (\<open>src/crates/syouyu-api/src/routes.rs\<close>): extraction, authentication and
  validation decide what is to be done without touching anything; then the handler calls the store and
  the storage backend. Every call is one step of \<open>surroundings\<close>: other requests and processes may
  change the database and Garage before it (\<open>he_others\<close>), its own database session is \<open>he_pg\<close>, and it
  is recorded with its result. JSON encodings, the digest and the UUID parser are parameters.
\<close>

section \<open>Requests and responses\<close>

record reconcile_request =
  rq_generation :: i64
  rq_name :: string
  rq_spec :: syouyu_spec

record delete_query =
  dq_generation :: i64

record provider_operation_response =
  po_operation_id :: uuid
  po_status :: bucket_status

record service_overview_response =
  so_service_instance_id :: uuid
  so_name :: string
  so_region :: string
  so_bucket_name :: string
  so_phase :: bucket_phase
  so_endpoint :: string
  so_quota :: bucket_quota
  so_usage :: bucket_usage
  so_active_credentials :: u64
  so_measured_at :: timestamp

record usage_response =
  uo_service_instance_id :: uuid
  uo_bytes_used :: u64
  uo_objects_used :: u64
  uo_unfinished_upload_bytes :: u64
  uo_unfinished_uploads :: u64
  uo_quota_bytes :: u64
  uo_quota_objects :: u64
  uo_measured_at :: timestamp

record create_credential_request =
  cq_name :: string
  cq_permissions :: bucket_permissions

record credential_response =
  cd_id :: uuid
  cd_name :: string
  cd_access_key_id :: string
  cd_permissions :: bucket_permissions
  cd_status :: string
  cd_created_at :: timestamp
  cd_revoked_at :: "timestamp option"

record issued_credential_response =
  ir_credential :: credential_response
  ir_secret_access_key :: string
  ir_bucket_name :: string
  ir_endpoint :: string

record credential_list_response =
  lr_credentials :: "credential_response list"

record revoked_credential_response =
  vr_credential_id :: uuid
  vr_status :: string

definition credential_response_from :: "credential_record \<Rightarrow> credential_response" where
  "credential_response_from v = \<lparr>cd_id = ce_id v, cd_name = ce_name v, cd_access_key_id = ce_access_key_id v,
     cd_permissions = ce_permissions v, cd_status = ce_status v, cd_created_at = ce_created_at v,
     cd_revoked_at = ce_revoked_at v\<rparr>"

definition IDEMPOTENCY_KEY :: string where "IDEMPOTENCY_KEY = ''idempotency-key''"
definition REQUEST_ID :: string where "REQUEST_ID = ''x-request-id''"
definition CREDENTIAL_CREATE_PERMISSION :: string where
  "CREDENTIAL_CREATE_PERMISSION = ''syouyu.credential.create''"
definition CREDENTIAL_READ_PERMISSION :: string where
  "CREDENTIAL_READ_PERMISSION = ''syouyu.credential.read''"
definition CREDENTIAL_REVOKE_PERMISSION :: string where
  "CREDENTIAL_REVOKE_PERMISSION = ''syouyu.credential.revoke''"
definition OVERVIEW_READ_PERMISSION :: string where
  "OVERVIEW_READ_PERMISSION = ''syouyu.overview.read''"
definition USAGE_READ_PERMISSION :: string where
  "USAGE_READ_PERMISSION = ''syouyu.usage.read''"

section \<open>State, environment and calls\<close>

record 'k route_library =
  rl_jwt :: "'k jwt_library"
  rl_principal :: principal_library
  rl_sha256 :: "bytes \<Rightarrow> bytes"
  rl_json_to_vec :: "json \<Rightarrow> bytes option"
  rl_reconcile_to_vec :: "reconcile_request \<Rightarrow> bytes option"
  rl_create_request_value :: "create_credential_request \<Rightarrow> json"
  rl_limits_value :: "credential_limits \<Rightarrow> json"
  rl_permissions_value :: "bucket_permissions \<Rightarrow> json"
  rl_provider_response :: "provider_operation_response \<Rightarrow> json option"
  rl_issued_response :: "issued_credential_response \<Rightarrow> json option"
  rl_revoked_response :: "revoked_credential_response \<Rightarrow> json option"
  rl_uuid_parse :: "string \<Rightarrow> uuid option"
  rl_status_ok :: "u16 \<Rightarrow> bool"
  rl_url_to_string :: "url \<Rightarrow> string"

abbreviation uuid_text :: "'k route_library \<Rightarrow> uuid \<Rightarrow> string" where
  "uuid_text lib \<equiv> jl_uuid_to_string (rl_jwt lib)"

record ('g, 'k) app_state =
  as_store :: repository
  as_garage :: "'g garage_backend"
  as_provider_auth :: "'k provider_authenticator"
  as_principal_auth :: principal_authenticator
  as_storage_region :: string
  as_s3_endpoint :: url

datatype event =
    StoreHealthCall bool
  | PrepareCall operation_request bool
  | RenewCall operation_request uuid bool
  | CompleteCall operation_request uuid stored_http_response bool
  | FailCall operation_request uuid stored_http_response bool
  | ReadCall bool
  | RecordUsageCall bool
  | AuditCall audit_event bool
  | GarageHealthCall bool
  | ReconcileBucketCall "string option" syouyu_spec "garage_backend_error + reconciled_bucket"
  | BucketUsageCall string "garage_backend_error + bucket_usage"
  | CreateKeyCall string string bucket_permissions "garage_backend_error + issued_credential"
  | RevokeKeyCall string bool
  | DeleteBucketCall string bool

record 'g surroundings =
  su_db :: database
  su_garage :: 'g
  su_calls :: nat
  su_events :: "event list"

record 'g handler_env =
  he_pg :: "nat \<Rightarrow> pg_env"
  he_others :: "nat \<Rightarrow> database \<times> 'g \<Rightarrow> database \<times> 'g"
  he_clock :: "nat \<Rightarrow> i64"
  he_now :: timestamp
  he_request_uuid :: uuid

definition call_store ::
  "'g handler_env \<Rightarrow> (store_error + 'a \<Rightarrow> event) \<Rightarrow> 'a store_op \<Rightarrow> ('g surroundings, store_error, 'a) eff" where
  "call_store env event op = (\<lambda>s.
     case he_others env (su_calls s) (su_db s, su_garage s) of (db, g) \<Rightarrow>
     case op (he_pg env (su_calls s)) db of (r, db') \<Rightarrow>
       (r, \<lparr>su_db = db', su_garage = g, su_calls = Suc (su_calls s), su_events = su_events s @ [event r]\<rparr>))"

definition call_garage ::
  "'g handler_env \<Rightarrow> (garage_backend_error + 'a \<Rightarrow> event) \<Rightarrow> ('g, garage_backend_error, 'a) eff
     \<Rightarrow> ('g surroundings, garage_backend_error, 'a) eff" where
  "call_garage env event m = (\<lambda>s.
     case he_others env (su_calls s) (su_db s, su_garage s) of (db, g) \<Rightarrow>
     case m g of (r, g') \<Rightarrow>
       (r, \<lparr>su_db = db, su_garage = g', su_calls = Suc (su_calls s), su_events = su_events s @ [event r]\<rparr>))"

text \<open>A store call whose error is turned into an answer by \<open>?\<close>.\<close>

definition store_or_fail ::
  "'g handler_env \<Rightarrow> (store_error + 'a \<Rightarrow> event) \<Rightarrow> 'a store_op \<Rightarrow> ('g surroundings, api_error, 'a) eff" where
  "store_or_fail env event op = eff_map_err api_error_from_store (call_store env event op)"

section \<open>Helpers\<close>

text \<open>The extractors: a rejection of the framework becomes a bad request with its text.\<close>

definition strict :: "string + 'a \<Rightarrow> api_error + 'a" where
  "strict extracted = map_err bad_request extracted"

definition authorize ::
  "'k route_library \<Rightarrow> ('g, 'k) app_state \<Rightarrow> 'g handler_env \<Rightarrow> headers \<Rightarrow> string \<Rightarrow> api_error + principal" where
  "authorize lib app env headers permission =
     try_bind (map_err api_error_from_principal
       (principal_authenticate (rl_principal lib) (as_principal_auth app) (he_clock env 0) headers)) (\<lambda>principal.
     try_bind (map_err api_error_from_principal (principal_require principal permission)) (\<lambda>_.
     Ok principal))"

definition principal_operation :: "principal \<Rightarrow> uuid \<Rightarrow> string \<Rightarrow> bytes \<Rightarrow> operation_request" where
  "principal_operation p idempotency_key action hash = \<lparr>op_idempotency_key = idempotency_key,
     op_organization_id = ss_organization_id (pr_scope p), op_project_id = ss_project_id (pr_scope p),
     op_service_instance_id = ss_service_instance_id (pr_scope p), op_principal_id = pr_principal_id p,
     op_action = action, op_generation = None, op_request_hash = hash\<rparr>"

definition public_idempotency_key :: "'k route_library \<Rightarrow> headers \<Rightarrow> api_error + uuid" where
  "public_idempotency_key lib headers =
     try_bind (ok_or (headers IDEMPOTENCY_KEY) (bad_request ''Idempotency-Key is required'')) (\<lambda>header.
     case header of
       Opaque \<Rightarrow> Err (bad_request ''Idempotency-Key is invalid'')
     | Visible value \<Rightarrow>
         try_bind (ok_or (rl_uuid_parse lib value) (bad_request ''Idempotency-Key must be a canonical UUID''))
           (\<lambda>parsed.
         if uuid_text lib parsed \<noteq> value
         then Err (bad_request ''Idempotency-Key must use canonical lowercase UUID encoding'')
         else Ok parsed))"

definition stored_into_response :: "'k route_library \<Rightarrow> stored_http_response \<Rightarrow> api_error + http_reply" where
  "stored_into_response lib stored =
     (if \<not> rl_status_ok lib (sh_status stored) then Err internal
      else Ok \<lparr>rp_status = sh_status stored,
        rp_headers = [(''content-type'', ''application/json''), (''cache-control'', ''no-store, private''),
                      (''pragma'', ''no-cache'')],
        rp_body = sh_body stored\<rparr>)"

fun prepared_response :: "'k route_library \<Rightarrow> 'c prepare \<Rightarrow> api_error + http_reply" where
  "prepared_response lib (Replay response) = stored_into_response lib response"
| "prepared_response lib (InProgress operation_id) = Err (operation_in_progress operation_id)"
| "prepared_response lib (Execute _ _) = Err internal"

definition success_response :: "u16 \<Rightarrow> json option \<Rightarrow> api_error + stored_http_response" where
  "success_response status body =
     try_bind (ok_or body internal) (\<lambda>body.
     Ok \<lparr>sh_status = status, sh_body = body, sh_failed = False\<rparr>)"

definition audit_for_operation ::
  "operation_request \<Rightarrow> uuid option \<Rightarrow> string \<Rightarrow> string \<Rightarrow> string option \<Rightarrow> json \<Rightarrow> audit_event" where
  "audit_for_operation operation principal_context_id request_id resource_type resource_id details =
     \<lparr>au_organization_id = op_organization_id operation, au_project_id = op_project_id operation,
      au_service_instance_id = op_service_instance_id operation, au_principal_id = op_principal_id operation,
      au_principal_context_id = principal_context_id, au_request_id = request_id,
      au_action = op_action operation, au_resource_type = resource_type, au_resource_id = resource_id,
      au_outcome = ''allowed'', au_details = details\<rparr>"

definition request_id :: "'k route_library \<Rightarrow> 'g handler_env \<Rightarrow> headers \<Rightarrow> string" where
  "request_id lib env headers =
     (case headers REQUEST_ID of
        Some (Visible value) \<Rightarrow>
          if value \<noteq> [] \<and> length value \<le> 256 then value else uuid_text lib (he_request_uuid env)
      | _ \<Rightarrow> uuid_text lib (he_request_uuid env))"

definition request_generation :: "i64 \<Rightarrow> api_error + u64" where
  "request_generation generation = ok_or (u64_try_from_i64 generation) internal"

definition persist_failure ::
  "'k route_library \<Rightarrow> ('g, 'k) app_state \<Rightarrow> 'g handler_env \<Rightarrow> operation_request \<Rightarrow> uuid \<Rightarrow> api_error \<Rightarrow> audit_event
     \<Rightarrow> ('g surroundings, api_error, unit) eff" where
  "persist_failure lib app env operation operation_id e audit =
     store_or_fail env (\<lambda>r. FailCall operation operation_id (stored_response (uuid_text lib) e) (is_ok r))
       (rp_fail_operation (as_store app) operation operation_id (stored_response (uuid_text lib) e)
         (audit\<lparr>au_outcome := ''failed''\<rparr>))"

text \<open>The value of the error is what the caller returns, so the computation ends with it.\<close>

definition persist_backend_failure ::
  "'k route_library \<Rightarrow> ('g, 'k) app_state \<Rightarrow> 'g handler_env \<Rightarrow> operation_request \<Rightarrow> uuid \<Rightarrow> garage_backend_error
     \<Rightarrow> audit_event \<Rightarrow> ('g surroundings, api_error, 'a) eff" where
  "persist_backend_failure lib app env operation operation_id backend_error audit =
     (let e = api_error_from_backend backend_error;
          stored = stored_response (uuid_text lib) e in
      eff_match (call_store env (\<lambda>r. FailCall operation operation_id stored (is_ok r))
        (rp_fail_operation (as_store app) operation operation_id stored (audit\<lparr>au_outcome := ''failed''\<rparr>)))
        (\<lambda>r. case r of Err store_error \<Rightarrow> eff_throw (api_error_from_store store_error) | Ok _ \<Rightarrow> eff_throw e))"

definition renew ::
  "('g, 'k) app_state \<Rightarrow> 'g handler_env \<Rightarrow> operation_request \<Rightarrow> uuid \<Rightarrow> ('g surroundings, api_error, unit) eff" where
  "renew app env operation operation_id =
     store_or_fail env (\<lambda>r. RenewCall operation operation_id (is_ok r))
       (rp_renew_operation (as_store app) operation operation_id)"

definition record_read_audit ::
  "'k route_library \<Rightarrow> ('g, 'k) app_state \<Rightarrow> 'g handler_env \<Rightarrow> principal \<Rightarrow> headers \<Rightarrow> string \<Rightarrow> string
     \<Rightarrow> ('g surroundings, api_error, unit) eff" where
  "record_read_audit lib app env p headers action resource_type =
     (let audit = \<lparr>au_organization_id = ss_organization_id (pr_scope p), au_project_id = ss_project_id (pr_scope p),
            au_service_instance_id = ss_service_instance_id (pr_scope p), au_principal_id = pr_principal_id p,
            au_principal_context_id = Some (pr_context_id p), au_request_id = request_id lib env headers,
            au_action = action, au_resource_type = resource_type,
            au_resource_id = Some (uuid_text lib (ss_service_instance_id (pr_scope p))),
            au_outcome = ''allowed'', au_details = json_object []\<rparr> in
      store_or_fail env (\<lambda>r. AuditCall audit (is_ok r)) (rp_record_audit (as_store app) audit))"

end
