(* ===== verification/Config.thy ===== *)
theory Config
  imports Provider_Auth Principal_Auth Garage_Client Receipts
begin

text \<open>
  Configuration from the environment (\<open>src/crates/syouyu-api/src/config.rs\<close>): every variable is read,
  parsed and validated in order, and the first failure ends the start of the process with its message.
  The environment is a lookup; the socket address, base64 and URL parsers are parameters.
\<close>

section \<open>Data\<close>

record 'k config_library =
  cf_jwt :: "'k jwt_library"
  cf_parse_socket_addr :: "string \<Rightarrow> string option"
  cf_base64_decode :: "string \<Rightarrow> bytes option"
  cf_url_parse :: "string \<Rightarrow> url option"
  cf_set_path :: "url \<Rightarrow> string \<Rightarrow> url"

type_synonym environment = "string \<Rightarrow> string option"

record 'k config =
  co_bind_addr :: string
  co_database_url :: string
  co_database_max_connections :: u32
  co_migrate_on_start :: bool
  co_receipt_encryption_key :: bytes
  co_credential_limits :: credential_limits
  co_provider_authenticator :: "'k provider_authenticator"
  co_principal_authenticator :: principal_authenticator
  co_garage_admin_endpoint :: url
  co_garage_admin_token :: string
  co_garage_region :: string
  co_s3_public_endpoint :: url

section \<open>Reading variables\<close>

definition required :: "environment \<Rightarrow> string \<Rightarrow> string + string" where
  "required env name = ok_or (env name) (name @ '' is required'')"

definition parse_or :: "environment \<Rightarrow> (string \<Rightarrow> 't option) \<Rightarrow> string \<Rightarrow> string \<Rightarrow> string + 't" where
  "parse_or env parse name fallback =
     ok_or (parse (case env name of None \<Rightarrow> fallback | Some v \<Rightarrow> v)) (name @ '' is invalid'')"

definition parse_bool :: "string \<Rightarrow> bool option" where
  "parse_bool s = (if s = ''true'' then Some True else if s = ''false'' then Some False else None)"

definition absolute_http_url :: "'k config_library \<Rightarrow> string \<Rightarrow> string \<Rightarrow> string + url" where
  "absolute_http_url lib name value =
     try_bind (ok_or (cf_url_parse lib value) (name @ '' is invalid'')) (\<lambda>u.
     if \<not> (url_scheme u = ''http'' \<or> url_scheme u = ''https'')
        \<or> url_host_str u = None \<or> url_username u \<noteq> [] \<or> url_password u \<noteq> None
        \<or> url_query u \<noteq> None \<or> url_fragment u \<noteq> None
     then Err (name @ '' must be an HTTP(S) URL without credentials, query, or fragment'')
     else Ok (cf_set_path lib u (trim_end_matches (CHR ''/'') (url_path u) @ ''/'')))"

definition config_validate_region :: "string \<Rightarrow> string + unit" where
  "config_validate_region value =
     (if value = [] \<or> length value > 63 \<or> starts_with ''-'' value \<or> ends_with ''-'' value
         \<or> list_ex (\<lambda>b. \<not> is_ascii_lowercase b \<and> \<not> is_ascii_digit b \<and> b \<noteq> CHR ''-'') value
      then Err ''GARAGE_REGION must be a lowercase DNS label of at most 63 characters''
      else Ok ())"

definition from_env :: "'k config_library \<Rightarrow> environment \<Rightarrow> string + 'k config" where
  "from_env lib env =
     try_bind (parse_or env (cf_parse_socket_addr lib) ''SYOUYU_BIND_ADDR'' ''0.0.0.0:8080'') (\<lambda>bind_addr.
     try_bind (required env ''DATABASE_URL'') (\<lambda>database_url.
     try_bind (parse_or env parse_u32 ''DATABASE_MAX_CONNECTIONS'' ''20'') (\<lambda>database_max_connections.
     try_bind (parse_or env parse_bool ''MIGRATE_ON_START'' ''true'') (\<lambda>migrate_on_start.
     try_bind (required env ''SYOUYU_RECEIPT_ENCRYPTION_KEY_BASE64'') (\<lambda>encoded_key.
     try_bind (ok_or (cf_base64_decode lib encoded_key)
       ''SYOUYU_RECEIPT_ENCRYPTION_KEY_BASE64 is invalid'') (\<lambda>receipt_encryption_key.
     if length receipt_encryption_key \<noteq> 32
     then Err ''SYOUYU_RECEIPT_ENCRYPTION_KEY_BASE64 must decode to exactly 32 bytes''
     else
     try_bind (parse_or env parse_u32 ''SYOUYU_MAX_CREDENTIALS_PER_BUCKET'' ''10000'') (\<lambda>per_bucket.
     try_bind (parse_or env parse_u32 ''SYOUYU_MAX_TOTAL_CREDENTIALS'' ''1000000'') (\<lambda>total.
     try_bind (map_err (\<lambda>_. ''invalid credential limits'')
       (limits_validate \<lparr>cl_max_credentials_per_bucket = per_bucket, cl_max_total_credentials = total\<rparr>))
       (\<lambda>credential_limits.
     try_bind (required env ''HETEROCLOUD_PROVIDER_ISSUER'') (\<lambda>provider_issuer.
     try_bind (required env ''HETEROCLOUD_PROVIDER_AUDIENCE'') (\<lambda>provider_audience.
     try_bind (required env ''HETEROCLOUD_PROVIDER_PUBLIC_KEYS_JSON'') (\<lambda>public_keys.
     try_bind (map_err (\<lambda>_. ''invalid provider authentication configuration'')
       (from_public_keys_json (cf_jwt lib) provider_issuer provider_audience public_keys))
       (\<lambda>provider_authenticator.
     try_bind (required env ''SYOUYU_PRINCIPAL_ISSUER'') (\<lambda>principal_issuer.
     try_bind (required env ''SYOUYU_PRINCIPAL_AUDIENCE'') (\<lambda>principal_audience.
     try_bind (required env ''SYOUYU_PRINCIPAL_CONTEXT_HMAC_SECRET'') (\<lambda>secret.
     try_bind (parse_or env parse_u64 ''SYOUYU_PRINCIPAL_MAX_TTL_SECONDS'' ''300'') (\<lambda>max_ttl_seconds.
     try_bind (map_err (\<lambda>_. ''invalid principal authentication configuration'')
       (principal_authenticator_new principal_issuer principal_audience (as_bytes secret)
         (from_secs max_ttl_seconds))) (\<lambda>principal_authenticator.
     try_bind (required env ''GARAGE_ADMIN_ENDPOINT'') (\<lambda>admin_endpoint.
     try_bind (absolute_http_url lib ''GARAGE_ADMIN_ENDPOINT'' admin_endpoint) (\<lambda>garage_admin_endpoint.
     try_bind (required env ''GARAGE_ADMIN_TOKEN'') (\<lambda>garage_admin_token.
     let garage_region = (case env ''GARAGE_REGION'' of None \<Rightarrow> ''heteronet-global'' | Some v \<Rightarrow> v) in
     try_bind (config_validate_region garage_region) (\<lambda>_.
     try_bind (required env ''SYOUYU_S3_PUBLIC_ENDPOINT'') (\<lambda>s3_endpoint.
     try_bind (absolute_http_url lib ''SYOUYU_S3_PUBLIC_ENDPOINT'' s3_endpoint) (\<lambda>s3_public_endpoint.
     Ok \<lparr>co_bind_addr = bind_addr, co_database_url = database_url,
          co_database_max_connections = database_max_connections, co_migrate_on_start = migrate_on_start,
          co_receipt_encryption_key = receipt_encryption_key, co_credential_limits = credential_limits,
          co_provider_authenticator = provider_authenticator,
          co_principal_authenticator = principal_authenticator,
          co_garage_admin_endpoint = garage_admin_endpoint, co_garage_admin_token = garage_admin_token,
          co_garage_region = garage_region, co_s3_public_endpoint = s3_public_endpoint\<rparr>))))))))))))))))))))))))"

section \<open>Properties\<close>

lemma region_char_ascii:
  "is_ascii_lowercase b \<or> is_ascii_digit b \<or> b = CHR ''-'' \<Longrightarrow>
     byte_of b < 128 \<and> \<not> char_is_control (byte_of b)"
  by (auto simp: str_defs byte_of_def)

lemma region_char_alphanumeric:
  "is_ascii_lowercase b \<or> is_ascii_digit b \<or> b = CHR ''-'' \<Longrightarrow> is_ascii_alphanumeric b \<longleftrightarrow> b \<noteq> CHR ''-''"
  by (auto simp: str_defs byte_of_def)

text \<open>
  The region check of the configuration and the region check of service specifications accept
  exactly the same strings, so a service can always be created in the configured region and no
  configuration names a region that every specification would be refused for.
\<close>
lemma config_region_same: "config_validate_region region = Ok () \<longleftrightarrow> validate_region region = Ok ()"
proof (cases "region = []")
  case False
  let ?ok = "\<lambda>b. is_ascii_lowercase b \<or> is_ascii_digit b \<or> b = CHR ''-''"
  show ?thesis
  proof (cases "\<forall>b \<in> set region. ?ok b")
    case True
    then have ascii: "\<not> list_ex char_is_control (str_chars region)"
      by (auto simp: str_chars_ascii region_char_ascii list_ex_iff)
    have ends: "is_ascii_alphanumeric (hd region) \<longleftrightarrow> hd region \<noteq> CHR ''-''"
      "is_ascii_alphanumeric (last region) \<longleftrightarrow> last region \<noteq> CHR ''-''"
      using True False by (auto intro!: region_char_alphanumeric)
    have "starts_with ''-'' region \<longleftrightarrow> hd region = CHR ''-''"
      using False by (cases region) (auto simp: starts_with_def)
    moreover have "ends_with ''-'' region \<longleftrightarrow> last region = CHR ''-''"
      using False by (cases region rule: rev_cases) (auto simp: ends_with_def)
    ultimately show ?thesis
      using True False ascii ends
      by (auto simp: config_validate_region_def validate_region_def validate_identifier_def length_consts
          list_ex_iff list_all_iff)
  next
    case bad: False
    then have "list_ex (\<lambda>b. \<not> is_ascii_lowercase b \<and> \<not> is_ascii_digit b \<and> b \<noteq> CHR ''-'') region"
      "\<not> list_all ?ok region"
      by (auto simp: list_ex_iff list_all_iff)
    then show ?thesis
      by (simp add: config_validate_region_def validate_region_def try_bind_Ok)
  qed
qed (simp add: config_validate_region_def validate_region_def validate_identifier_def)

text \<open>What is relied on of \<open>Url::set_path\<close>: it replaces the path and nothing else.\<close>

definition only_path_changes :: "(url \<Rightarrow> string \<Rightarrow> url) \<Rightarrow> bool" where
  "only_path_changes set_path \<longleftrightarrow> (\<forall>u p. \<exists>p'. set_path u p = u\<lparr>url_path := p'\<rparr>)"

text \<open>Two addresses that agree in everything but their paths.\<close>

definition same_but_path :: "url \<Rightarrow> url \<Rightarrow> bool" where
  "same_but_path u v \<longleftrightarrow> u = v\<lparr>url_path := url_path u\<rparr>"

lemma only_path_changesD: "only_path_changes set_path \<Longrightarrow> same_but_path (set_path u p) u"
proof -
  assume "only_path_changes set_path"
  then obtain q where "set_path u p = u\<lparr>url_path := q\<rparr>" unfolding only_path_changes_def by blast
  then show "same_but_path (set_path u p) u" by (simp add: same_but_path_def)
qed

lemma same_but_path_trans: "same_but_path u v \<Longrightarrow> same_but_path v w \<Longrightarrow> same_but_path u w"
  unfolding same_but_path_def by (cases u, cases v, cases w) simp

lemma same_but_path_valid: "same_but_path u v \<Longrightarrow> validate_base_url v = Ok () \<Longrightarrow> validate_base_url u = Ok ()"
  unfolding same_but_path_def validate_base_url_def by (cases u, cases v) simp

lemma absolute_http_url_Ok:
  assumes "absolute_http_url lib name value = Ok u" and "only_path_changes (cf_set_path lib)"
  shows "validate_base_url u = Ok ()" and "\<exists>v. cf_url_parse lib value = Some v \<and> same_but_path u v"
proof -
  from assms(1) obtain v where v: "cf_url_parse lib value = Some v" "validate_base_url v = Ok ()"
    "u = cf_set_path lib v (trim_end_matches (CHR ''/'') (url_path v) @ ''/'')"
    unfolding absolute_http_url_def validate_base_url_def try_bind_Ok if_Err_Ok by auto
  have "same_but_path u v" unfolding v(3) by (rule only_path_changesD [OF assms(2)])
  with v same_but_path_valid show "validate_base_url u = Ok ()" "\<exists>v. cf_url_parse lib value = Some v \<and> same_but_path u v"
    by blast+
qed

lemma try_bind_if_Err: "try_bind (if b then Err e else r) f = (if b then Err e else try_bind r f)"
  by simp

lemma from_env_Ok:
  assumes "from_env lib env = Ok c"
  obtains issuer audience keys pissuer paudience secret ttl admin s3 where
    "length (co_receipt_encryption_key c) = 32" "limits_validate (co_credential_limits c) = Ok (co_credential_limits c)"
    "from_public_keys_json (cf_jwt lib) issuer audience keys = Ok (co_provider_authenticator c)"
    "principal_authenticator_new pissuer paudience secret ttl = Ok (co_principal_authenticator c)"
    "absolute_http_url lib ''GARAGE_ADMIN_ENDPOINT'' admin = Ok (co_garage_admin_endpoint c)"
    "config_validate_region (co_garage_region c) = Ok ()"
    "absolute_http_url lib ''SYOUYU_S3_PUBLIC_ENDPOINT'' s3 = Ok (co_s3_public_endpoint c)"
    "env ''GARAGE_ADMIN_ENDPOINT'' = Some admin" "env ''SYOUYU_S3_PUBLIC_ENDPOINT'' = Some s3"
    "env ''DATABASE_URL'' = Some (co_database_url c)" "env ''GARAGE_ADMIN_TOKEN'' = Some (co_garage_admin_token c)"
  using assms unfolding from_env_def Let_def try_bind_Ok if_Err_Ok map_err_Ok required_def ok_or_Ok
  by (elim exE conjE) (rule that, auto)

text \<open>
  A configuration that loads is one the process can start with: the store accepts the encryption
  key and the limits, the Garage client accepts the address of the administration interface, a
  specification can name the configured region, provider tokens are checked against at least one key
  with five seconds of skew, and principal contexts against a secret of at least 32 bytes with a
  lifetime of at most 300 seconds.
\<close>
lemma loaded_configuration:
  assumes "from_env lib env = Ok c" and "only_path_changes (cf_set_path lib)"
  shows "(\<exists>store. from_pool libraries (co_receipt_encryption_key c) (co_credential_limits c) = Ok store)
    \<and> validate_base_url (co_garage_admin_endpoint c) = Ok () \<and> validate_base_url (co_s3_public_endpoint c) = Ok ()
    \<and> validate_region (co_garage_region c) = Ok ()
    \<and> pv_keys (co_provider_authenticator c) \<noteq> [] \<and> pv_clock_skew_seconds (co_provider_authenticator c) = 5
    \<and> 32 \<le> length (pa_secret (co_principal_authenticator c))
    \<and> pa_max_ttl (co_principal_authenticator c) \<le> from_secs 300"
proof -
  from assms(1) obtain issuer audience keys pissuer paudience secret ttl admin s3 where
    ok: "length (co_receipt_encryption_key c) = 32" "limits_validate (co_credential_limits c) = Ok (co_credential_limits c)"
    "from_public_keys_json (cf_jwt lib) issuer audience keys = Ok (co_provider_authenticator c)"
    "principal_authenticator_new pissuer paudience secret ttl = Ok (co_principal_authenticator c)"
    "absolute_http_url lib ''GARAGE_ADMIN_ENDPOINT'' admin = Ok (co_garage_admin_endpoint c)"
    "config_validate_region (co_garage_region c) = Ok ()"
    "absolute_http_url lib ''SYOUYU_S3_PUBLIC_ENDPOINT'' s3 = Ok (co_s3_public_endpoint c)"
    by (rule from_env_Ok)
  have "\<exists>store. from_pool libraries (co_receipt_encryption_key c) (co_credential_limits c) = Ok store"
    using ok(1,2) by (simp add: from_pool_def cipher_new_def del: limits_validate_Ok)
  moreover have "32 \<le> length (pa_secret (co_principal_authenticator c))"
    "pa_max_ttl (co_principal_authenticator c) \<le> from_secs 300"
    using ok(4) [unfolded principal_authenticator_new_Ok] by auto
  ultimately show ?thesis
    using absolute_http_url_Ok [OF ok(5) assms(2)] absolute_http_url_Ok [OF ok(7) assms(2)]
      from_public_keys_json_Ok [OF ok(3)] ok(6) [unfolded config_region_same] by simp
qed

text \<open>An address is the one that a variable names, up to its path, and can be used as a base address.\<close>

definition configured_address :: "'k config_library \<Rightarrow> environment \<Rightarrow> string \<Rightarrow> url \<Rightarrow> bool" where
  "configured_address lib env name u \<longleftrightarrow> validate_base_url u = Ok ()
     \<and> (\<exists>text v. env name = Some text \<and> cf_url_parse lib text = Some v \<and> same_but_path u v)"

lemma loaded_addresses:
  assumes "from_env lib env = Ok c" and "only_path_changes (cf_set_path lib)"
  shows "configured_address lib env ''GARAGE_ADMIN_ENDPOINT'' (co_garage_admin_endpoint c)"
    and "configured_address lib env ''SYOUYU_S3_PUBLIC_ENDPOINT'' (co_s3_public_endpoint c)"
    and "env ''DATABASE_URL'' = Some (co_database_url c)"
    and "env ''GARAGE_ADMIN_TOKEN'' = Some (co_garage_admin_token c)"
proof -
  from assms(1) obtain admin s3 where
    ok: "absolute_http_url lib ''GARAGE_ADMIN_ENDPOINT'' admin = Ok (co_garage_admin_endpoint c)"
    "absolute_http_url lib ''SYOUYU_S3_PUBLIC_ENDPOINT'' s3 = Ok (co_s3_public_endpoint c)"
    "env ''GARAGE_ADMIN_ENDPOINT'' = Some admin" "env ''SYOUYU_S3_PUBLIC_ENDPOINT'' = Some s3"
    and texts: "env ''DATABASE_URL'' = Some (co_database_url c)"
    "env ''GARAGE_ADMIN_TOKEN'' = Some (co_garage_admin_token c)"
    by (rule from_env_Ok)
  from texts show "env ''DATABASE_URL'' = Some (co_database_url c)"
    "env ''GARAGE_ADMIN_TOKEN'' = Some (co_garage_admin_token c)" .
  show "configured_address lib env ''GARAGE_ADMIN_ENDPOINT'' (co_garage_admin_endpoint c)"
    "configured_address lib env ''SYOUYU_S3_PUBLIC_ENDPOINT'' (co_s3_public_endpoint c)"
    using absolute_http_url_Ok [OF ok(1) assms(2)] absolute_http_url_Ok [OF ok(2) assms(2)] ok(3,4)
    unfolding configured_address_def by auto
qed

definition example_config_library :: "unit config_library" where
  "example_config_library = \<lparr>cf_jwt = example_jwt, cf_parse_socket_addr = Some,
     cf_base64_decode = (\<lambda>t. Some (as_bytes t)),
     cf_url_parse = (\<lambda>t. Some \<lparr>url_scheme = ''https'', url_host_str = Some t, url_username = [],
       url_password = None, url_path = [], url_query = None, url_fragment = None\<rparr>),
     cf_set_path = (\<lambda>u p. u\<lparr>url_path := p\<rparr>)\<rparr>"

definition example_environment :: environment where
  "example_environment = [''DATABASE_URL'' \<mapsto> ''postgres'', ''DATABASE_MAX_CONNECTIONS'' \<mapsto> ''8'',
     ''SYOUYU_RECEIPT_ENCRYPTION_KEY_BASE64'' \<mapsto> ''abcdefghijklmnopqrstuvwxyzabcdef'',
     ''SYOUYU_MAX_CREDENTIALS_PER_BUCKET'' \<mapsto> ''5'', ''SYOUYU_MAX_TOTAL_CREDENTIALS'' \<mapsto> ''9'',
     ''HETEROCLOUD_PROVIDER_ISSUER'' \<mapsto> ''flow'', ''HETEROCLOUD_PROVIDER_AUDIENCE'' \<mapsto> ''syouyu'',
     ''HETEROCLOUD_PROVIDER_PUBLIC_KEYS_JSON'' \<mapsto> ''keys'',
     ''SYOUYU_PRINCIPAL_ISSUER'' \<mapsto> ''flow'', ''SYOUYU_PRINCIPAL_AUDIENCE'' \<mapsto> ''syouyu'',
     ''SYOUYU_PRINCIPAL_CONTEXT_HMAC_SECRET'' \<mapsto> ''abcdefghijklmnopqrstuvwxyzabcdef'',
     ''SYOUYU_PRINCIPAL_MAX_TTL_SECONDS'' \<mapsto> ''60'', ''GARAGE_ADMIN_ENDPOINT'' \<mapsto> ''garage'',
     ''GARAGE_ADMIN_TOKEN'' \<mapsto> ''t'', ''SYOUYU_S3_PUBLIC_ENDPOINT'' \<mapsto> ''s3'']"

lemma example_environment_loads: "\<exists>c. from_env example_config_library example_environment = Ok c"
proof -
  have parsed: "parse_u32 ''8'' = Some 8" "parse_u32 ''5'' = Some 5" "parse_u32 ''9'' = Some 9"
    "parse_u64 ''60'' = Some 60" "parse_bool ''true'' = Some True"
    by (simp_all add: parse_u32_def parse_u64_def parse_unsigned_def digits_value_def is_ascii_digit_def
        byte_of_def parse_bool_def)
  have region: "config_validate_region ''heteronet-global'' = Ok ()" by code_simp
  have keys: "\<exists>a. from_public_keys_json example_jwt ''flow'' ''syouyu'' ''keys'' = Ok a"
    by (simp add: from_public_keys_json_def example_jwt_def validate_key_id_def str_defs byte_of_def)
  show ?thesis
    using keys unfolding from_env_def example_environment_def example_config_library_def required_def parse_or_def
    by (clarsimp simp: parsed region limits_validate_def absolute_http_url_def principal_authenticator_new_def as_bytes_def
        from_secs_def)
qed

end
