(* ===== verification/Garage_Traces.thy ===== *)
theory Garage_Traces
  imports Garage_Adapter
begin

text \<open>
  What the adapter sends to Garage, whatever Garage answers. \<open>logged\<close> records every request with its
  outcome; \<open>sends_one\<close> says that an operation of the client sends at most one request of a given kind
  and how its result follows from the outcome. The properties are about the requests of permission
  changes, of credential creation and of revocation.
\<close>

section \<open>Recording the requests\<close>

type_synonym outcome = "string + http_response"
type_synonym 'g recorded = "'g \<times> (http_request \<times> outcome) list"

definition logged :: "'g server \<Rightarrow> 'g recorded server" where
  "logged server = (\<lambda>(g, log) request. case server g request of
     (outcome, g') \<Rightarrow> (outcome, (g', log @ [(request, outcome)])))"

definition succeeded :: "outcome \<Rightarrow> bool" where
  "succeeded outcome = (case outcome of Err _ \<Rightarrow> False | Ok response \<Rightarrow> status_is_success (hp_status response))"

definition gone :: "outcome \<Rightarrow> bool" where
  "gone outcome = (case outcome of Err _ \<Rightarrow> False | Ok response \<Rightarrow> hp_status response = 404)"

definition response_value :: "(bytes \<Rightarrow> string + 'a) \<Rightarrow> outcome \<Rightarrow> 'a \<Rightarrow> bool" where
  "response_value from_slice outcome x \<longleftrightarrow> (\<exists>response chunks. outcome = Ok response
     \<and> status_is_success (hp_status response) \<and> hp_chunks response = map Ok chunks
     \<and> length (concat chunks) \<le> MAX_SUCCESS_BODY_BYTES \<and> from_slice (concat chunks) = Ok x)"

definition calls :: "garage_library \<Rightarrow> garage_admin_client \<Rightarrow> string \<Rightarrow> http_request \<Rightarrow> bool" where
  "calls lib client operation request \<longleftrightarrow>
     gl_join lib (ga_base_url client) (''v2/'' @ operation) = Ok (hq_url request)
     \<and> hq_headers request = hc_default_headers (ga_client client)"

definition sends_one ::
  "(http_request \<Rightarrow> bool) \<Rightarrow> (outcome \<Rightarrow> 'a \<Rightarrow> bool) \<Rightarrow> ('g recorded, garage_error, 'a) eff \<Rightarrow> bool" where
  "sends_one Q V m \<longleftrightarrow> (\<forall>g log. post m (g, log) (\<lambda>r s'.
     (s' = (g, log) \<and> (\<exists>e. r = Err e \<and> \<not> is_not_found e))
     \<or> (\<exists>g' request outcome. s' = (g', log @ [(request, outcome)]) \<and> Q request
         \<and> (\<forall>x. r = Ok x \<longleftrightarrow> V outcome x) \<and> (\<forall>e. r = Err e \<longrightarrow> is_not_found e \<longrightarrow> gone outcome))))"

lemma read_limited_from_complete:
  "length body \<le> limit \<Longrightarrow> read_limited_from limit operation body chunks = Ok (b, False) \<Longrightarrow>
     \<exists>cs. chunks = map Ok cs \<and> b = body @ concat cs \<and> length b \<le> limit"
proof (induction limit operation body chunks rule: read_limited_from.induct)
  case (3 limit operation body chunk chunks)
  then have fits: "\<not> limit - length body < length chunk" "length (body @ chunk) \<le> limit"
    by (auto simp: Let_def split: if_splits)
  from 3(1) [OF refl fits] fits 3(3)
  obtain cs where "chunks = map Ok cs" "b = (body @ chunk) @ concat cs" "length b \<le> limit"
    by (auto simp: Let_def)
  then show ?case by (intro exI [of _ "chunk # cs"]) simp
qed simp_all

lemma read_limited_complete:
  "read_limited response limit operation = Ok (body, False) \<longleftrightarrow>
     (\<exists>chunks. hp_chunks response = map Ok chunks \<and> body = concat chunks \<and> length body \<le> limit)"
  using read_limited_from_chunks [of "[]" limit operation _ "[]"]
  by (auto simp: read_limited_def not_le dest: read_limited_from_complete [of "[]", simplified]
      split: if_splits)

lemma response_value_read:
  "response_value from_slice outcome x \<longleftrightarrow> (\<exists>response body. outcome = Ok response
     \<and> status_is_success (hp_status response)
     \<and> read_limited response MAX_SUCCESS_BODY_BYTES operation = Ok (body, False) \<and> from_slice body = Ok x)"
  by (auto simp: response_value_def read_limited_complete)

lemma read_limited_not_found: "read_limited response limit operation = Err e \<Longrightarrow> \<not> is_not_found e"
proof -
  have "read_limited_from limit operation body chunks = Err e \<Longrightarrow> \<not> is_not_found e" for body chunks
    by (induction limit operation body chunks rule: read_limited_from.induct)
       (auto simp: Let_def is_not_found_def split: if_splits)
  then show "read_limited response limit operation = Err e \<Longrightarrow> \<not> is_not_found e"
    by (simp add: read_limited_def)
qed

lemma api_error_not_found: "is_not_found (api_error lib response operation) \<Longrightarrow> hp_status response = 404"
  by (auto simp: api_error_def Let_def is_not_found_def [of "Api _ _ _ _ _ _"]
      split: sum.splits prod.splits dest: read_limited_not_found)

lemma post_send_logged:
  "post (send (logged server) operation request) (g, log) P \<longleftrightarrow>
     (case server g request of (outcome, g') \<Rightarrow>
        P (case outcome of Err e \<Rightarrow> Err (Transport operation e) | Ok response \<Rightarrow> Ok response)
          (g', log @ [(request, outcome)]))"
  by (simp add: post_def send_def logged_def split: prod.split sum.split)

lemma sends_one_json:
  assumes "Q request"
  shows "sends_one Q (response_value from_slice) (execute_json lib (logged server) from_slice request operation)"
  unfolding sends_one_def execute_json_def post_bind post_send_logged response_value_read [of _ _ _ operation]
  using assms
  by (auto simp: post_simps succeeded_def gone_def is_not_found_def [of "Transport _ _"]
      is_not_found_def [of "ResponseTooLarge _ _ _"] is_not_found_def [of "Decode _ _ _ _"]
      map_err_def
      split: prod.splits sum.splits dest: api_error_not_found read_limited_not_found)

lemma sends_one_empty:
  assumes "Q request"
  shows "sends_one Q (\<lambda>outcome _. succeeded outcome) (execute_empty lib (logged server) request operation)"
  unfolding sends_one_def execute_empty_def post_bind post_send_logged
  using assms
  by (auto simp: post_simps succeeded_def gone_def is_not_found_def [of "Transport _ _"]
      split: prod.splits sum.splits dest: api_error_not_found)

lemma sends_one_lift:
  assumes "\<And>e. r = Err e \<Longrightarrow> \<not> is_not_found e" and "\<And>x. r = Ok x \<Longrightarrow> sends_one Q V (f x)"
  shows "sends_one Q V (eff_bind (eff_lift r) f)"
proof (cases r)
  case (Inl e)
  with assms(1) show ?thesis by (simp add: sends_one_def post_simps)
next
  case (Inr x)
  with assms(2) [OF Inr] show ?thesis by (simp add: sends_one_def post_simps)
qed

lemma post_sends_one:
  assumes "sends_one Q V m" and "\<And>e. \<not> is_not_found e \<Longrightarrow> P (Err e) (g, log)"
    and "\<And>r g' request outcome. Q request \<Longrightarrow> (\<And>x. r = Ok x \<longleftrightarrow> V outcome x)
           \<Longrightarrow> (\<And>e. r = Err e \<Longrightarrow> is_not_found e \<Longrightarrow> gone outcome) \<Longrightarrow> P r (g', log @ [(request, outcome)])"
  shows "post m (g, log) P"
  using assms(1) [unfolded sends_one_def, THEN spec, THEN spec, of g log]
  by (rule post_mono) (use assms(2,3) in blast)

section \<open>The requests of the operations\<close>

definition list_keys_request :: "garage_library \<Rightarrow> garage_admin_client \<Rightarrow> http_request \<Rightarrow> bool" where
  "list_keys_request lib client request \<longleftrightarrow> calls lib client ''ListKeys'' request \<and> hq_method request = GET"

definition delete_key_request :: "garage_library \<Rightarrow> garage_admin_client \<Rightarrow> string \<Rightarrow> http_request \<Rightarrow> bool" where
  "delete_key_request lib client key_id request \<longleftrightarrow> calls lib client ''DeleteKey'' request
     \<and> hq_method request = POST \<and> hq_query request = [(''id'', key_id)]"

definition delete_bucket_request :: "garage_library \<Rightarrow> garage_admin_client \<Rightarrow> string \<Rightarrow> http_request \<Rightarrow> bool" where
  "delete_bucket_request lib client bucket_id request \<longleftrightarrow> calls lib client ''DeleteBucket'' request
     \<and> hq_method request = POST \<and> hq_query request = [(''id'', bucket_id)]"

definition new_key_request :: "garage_library \<Rightarrow> garage_admin_client \<Rightarrow> string \<Rightarrow> http_request \<Rightarrow> bool" where
  "new_key_request lib client name request \<longleftrightarrow> calls lib client ''CreateKey'' request
     \<and> hq_method request = POST \<and> hq_body request = Some (CreateKeyRequest
         \<lparr>ck_name = name, ck_expiration = None, ck_never_expires = True\<rparr>)"

definition permission_request ::
  "garage_library \<Rightarrow> garage_admin_client \<Rightarrow> string \<Rightarrow> string \<Rightarrow> string \<Rightarrow> bucket_key_permissions
     \<Rightarrow> http_request \<Rightarrow> bool" where
  "permission_request lib client operation bucket_id key_id permissions request \<longleftrightarrow>
     calls lib client operation request \<and> hq_method request = POST
     \<and> hq_body request = Some (BucketKeyPermissionChangeRequest bucket_id key_id permissions)"

lemma validate_input_not_found: "validate_input field value = Err e \<Longrightarrow> \<not> is_not_found e"
  by (auto simp: validate_input_def is_not_found_def split: if_splits)

lemma client_request_not_found: "client_request lib client method operation = Err e \<Longrightarrow> \<not> is_not_found e"
  by (auto simp: client_request_def is_not_found_def split: sum.splits)

lemma client_request_Ok:
  "client_request lib client method operation = Ok request \<Longrightarrow>
     calls lib client operation request \<and> hq_method request = method \<and> hq_query request = []"
  by (auto simp: client_request_def calls_def split: sum.splits)

lemma request_builder [simp]:
  "calls lib client operation (with_query ps request) = calls lib client operation request"
  "calls lib client operation (with_json b request) = calls lib client operation request"
  "hq_method (with_query ps request) = hq_method request" "hq_method (with_json b request) = hq_method request"
  "hq_query (with_query ps request) = hq_query request @ ps" "hq_body (with_json b request) = Some b"
  by (simp_all add: calls_def with_query_def with_json_def)

lemmas sends_one_intros = sends_one_lift sends_one_json sends_one_empty
lemmas local_errors = validate_input_not_found client_request_not_found

lemma list_keys_sends:
  "sends_one (list_keys_request lib client) (response_value (gl_keys lib)) (list_keys lib client (logged server))"
  unfolding list_keys_def
  by (intro sends_one_intros) (auto simp: list_keys_request_def dest: client_request_Ok local_errors)

lemma delete_key_sends:
  "sends_one (delete_key_request lib client key_id) (\<lambda>outcome _. succeeded outcome)
     (delete_key lib client (logged server) key_id)"
  unfolding delete_key_def
  by (intro sends_one_intros) (auto simp: delete_key_request_def dest: client_request_Ok local_errors)

lemma delete_bucket_sends:
  "sends_one (delete_bucket_request lib client bucket_id) (\<lambda>outcome _. succeeded outcome)
     (client_delete_bucket lib client (logged server) bucket_id)"
  unfolding client_delete_bucket_def
  by (intro sends_one_intros) (auto simp: delete_bucket_request_def dest: client_request_Ok local_errors)

lemma create_key_sends:
  "sends_one (new_key_request lib client name) (response_value (gl_access_key lib))
     (create_key lib client (logged server) (create_key_request_new name None))"
  unfolding create_key_def create_key_request_new_def
  by (intro sends_one_intros)
     (auto simp: new_key_request_def create_key_validate_def try_bind_Err is_not_found_def split: if_splits
       dest: client_request_Ok local_errors)

lemma permission_sends:
  "sends_one (permission_request lib client operation bucket_id key_id permissions) (response_value (gl_bucket lib))
     (change_bucket_key_permissions lib client (logged server) operation bucket_id key_id permissions)"
  unfolding change_bucket_key_permissions_def
  by (intro sends_one_intros) (auto simp: permission_request_def dest: client_request_Ok local_errors)

lemma response_value_succeeded: "response_value from_slice outcome x \<Longrightarrow> succeeded outcome"
  by (auto simp: response_value_def succeeded_def)

section \<open>Permissions and credentials\<close>

text \<open>
  The requests that replace the permissions of a key: everything is denied first, and the wanted
  permissions are allowed only after that succeeded.
\<close>

definition replaces_permissions ::
  "garage_library \<Rightarrow> garage_admin_client \<Rightarrow> string \<Rightarrow> string \<Rightarrow> bucket_key_permissions \<Rightarrow> bool
     \<Rightarrow> (http_request \<times> outcome) list \<Rightarrow> bool" where
  "replaces_permissions lib client bucket_id key_id permissions completed entries \<longleftrightarrow>
     (case entries of
        [] \<Rightarrow> \<not> completed
      | [(d, od)] \<Rightarrow>
          permission_request lib client ''DenyBucketKey'' bucket_id key_id key_permissions_all d
          \<and> (completed \<longrightarrow> succeeded od \<and> key_permissions_is_empty permissions)
      | [(d, od), (a, oa)] \<Rightarrow>
          permission_request lib client ''DenyBucketKey'' bucket_id key_id key_permissions_all d
          \<and> succeeded od \<and> \<not> key_permissions_is_empty permissions
          \<and> permission_request lib client ''AllowBucketKey'' bucket_id key_id permissions a
          \<and> (completed \<longrightarrow> succeeded oa)
      | _ \<Rightarrow> False)"

lemma set_permissions_post:
  "post (set_bucket_key_permissions lib client (logged server) bucket_id key_id permissions) (g, log) (\<lambda>r s'.
     \<exists>g' entries. s' = (g', log @ entries)
       \<and> replaces_permissions lib client bucket_id key_id permissions (is_ok r) entries)"
  unfolding set_bucket_key_permissions_def deny_bucket_key_def allow_bucket_key_def post_bind
proof (rule post_sends_one [OF permission_sends], goal_cases)
  case (1 e)
  show ?case by (auto simp: replaces_permissions_def)
next
  case (2 r g' request outcome)
  show ?case
  proof (cases r)
    case (Inl e)
    with 2(1) show ?thesis by (auto simp: replaces_permissions_def)
  next
    case (Inr revoked)
    with 2(2) have denied: "succeeded outcome" by (auto dest: response_value_succeeded)
    show ?thesis
    proof (cases "key_permissions_is_empty permissions")
      case True
      with Inr 2(1) denied show ?thesis by (auto simp: replaces_permissions_def post_simps)
    next
      case False
      have "post (change_bucket_key_permissions lib client (logged server) ''AllowBucketKey'' bucket_id key_id
              permissions) (g', log @ [(request, outcome)]) (\<lambda>r s'. \<exists>g' entries. s' = (g', log @ entries)
              \<and> replaces_permissions lib client bucket_id key_id permissions (is_ok r) entries)"
        by (rule post_sends_one [OF permission_sends])
          (use False 2(1) denied in \<open>auto simp: replaces_permissions_def is_ok_iff dest!: response_value_succeeded\<close>)
      with False Inr show ?thesis by (simp add: post_simps)
    qed
  qed
qed

text \<open>Keys are removed one after the other; a key that is already gone counts as removed.\<close>

definition removes_keys ::
  "garage_library \<Rightarrow> garage_admin_client \<Rightarrow> string list \<Rightarrow> (http_request \<times> outcome) list \<Rightarrow> bool" where
  "removes_keys lib client key_ids entries \<longleftrightarrow> list_all2 (\<lambda>key_id (request, outcome).
     delete_key_request lib client key_id request \<and> (succeeded outcome \<or> gone outcome)) key_ids entries"

definition lookup_or_removal :: "garage_library \<Rightarrow> garage_admin_client \<Rightarrow> http_request \<Rightarrow> bool" where
  "lookup_or_removal lib client request \<longleftrightarrow>
     list_keys_request lib client request \<or> (\<exists>key_id. delete_key_request lib client key_id request)"

lemma revoke_post:
  "post (adapter_revoke_credential lib client (logged server) key_id) (g, log) (\<lambda>r s'.
     \<exists>g' entries. s' = (g', log @ entries) \<and> list_all (delete_key_request lib client key_id \<circ> fst) entries
       \<and> (r = Ok () \<longrightarrow> removes_keys lib client [key_id] entries))"
  unfolding adapter_revoke_credential_def post_match
proof (rule post_sends_one [OF delete_key_sends], goal_cases)
  case (1 e)
  then show ?case by (auto simp: post_simps removes_keys_def)
next
  case (2 r g' request outcome)
  show ?case
  proof (cases r)
    case (Inl e)
    with 2(1) 2(3) [OF Inl] show ?thesis by (simp add: post_simps removes_keys_def)
  next
    case (Inr u)
    with 2(1) 2(2) [of u] show ?thesis by (simp add: post_simps removes_keys_def)
  qed
qed

text \<open>The requests of a credential creation, by its result.\<close>

definition deletable :: "garage_library \<Rightarrow> garage_admin_client \<Rightarrow> string \<Rightarrow> bool" where
  "deletable lib client key_id \<longleftrightarrow> is_ok (validate_input ''access_key_id'' key_id)
     \<and> is_ok (gl_join lib (ga_base_url client) ''v2/DeleteKey'')"

definition cleans_up ::
  "garage_library \<Rightarrow> garage_admin_client \<Rightarrow> string \<Rightarrow> (http_request \<times> outcome) list \<Rightarrow> bool" where
  "cleans_up lib client key_id entries \<longleftrightarrow>
     (case entries of
        [] \<Rightarrow> \<not> deletable lib client key_id
      | [(request, _)] \<Rightarrow> delete_key_request lib client key_id request
      | _ \<Rightarrow> False)"

definition issues_key ::
  "garage_library \<Rightarrow> garage_admin_client \<Rightarrow> string \<Rightarrow> string \<Rightarrow> bucket_permissions \<Rightarrow> issued_credential
     \<Rightarrow> (http_request \<times> outcome) list \<Rightarrow> bool" where
  "issues_key lib client bucket_id name permissions issued entries \<longleftrightarrow>
     (\<exists>l ol keys removals c oc key changes. entries = (l, ol) # removals @ (c, oc) # changes
        \<and> list_keys_request lib client l \<and> response_value (gl_keys lib) ol keys
        \<and> removes_keys lib client (map ks_id (filter (\<lambda>key. ks_name key = name) keys)) removals
        \<and> new_key_request lib client name c \<and> response_value (gl_access_key lib) oc key
        \<and> ic_garage_key_id issued = ak_access_key_id key \<and> ic_access_key_id issued = ak_access_key_id key
        \<and> ak_secret_access_key key = Some (ic_secret_access_key issued)
        \<and> replaces_permissions lib client bucket_id (ak_access_key_id key) (key_permissions_from permissions)
            True changes)"

definition abandons_key ::
  "garage_library \<Rightarrow> garage_admin_client \<Rightarrow> string \<Rightarrow> (http_request \<times> outcome) list \<Rightarrow> bool" where
  "abandons_key lib client name entries \<longleftrightarrow>
     (\<exists>start rest. entries = start @ rest \<and> list_all (lookup_or_removal lib client \<circ> fst) start
        \<and> (case rest of
             [] \<Rightarrow> True
           | (c, oc) # later \<Rightarrow> new_key_request lib client name c
               \<and> (\<forall>key. response_value (gl_access_key lib) oc key \<longrightarrow>
                    (\<exists>changes cleanup. later = changes @ cleanup
                       \<and> cleans_up lib client (ak_access_key_id key) cleanup))))"

lemma delete_key_cleans_up:
  "post (delete_key lib client (logged server) key_id) (g, log) (\<lambda>r s'.
     \<exists>g' entries. s' = (g', log @ entries) \<and> cleans_up lib client key_id entries)"
proof (cases "deletable lib client key_id")
  case False
  show ?thesis
    by (rule post_sends_one [OF delete_key_sends]) (use False in \<open>auto simp: cleans_up_def\<close>)
next
  case True
  then obtain endpoint where "validate_input ''access_key_id'' key_id = Ok ()"
    "gl_join lib (ga_base_url client) ''v2/DeleteKey'' = Ok endpoint"
    by (auto simp: deletable_def is_ok_iff)
  then show ?thesis
    by (auto simp: delete_key_def post_simps client_request_def execute_empty_def post_send_logged
        cleans_up_def delete_key_request_def calls_def with_query_def split: prod.splits sum.splits)
qed

lemma removal_loop_post:
  "post (eff_for key_ids (adapter_revoke_credential lib client (logged server))) (g, log) (\<lambda>r s'.
     \<exists>g' entries. s' = (g', log @ entries) \<and> list_all (lookup_or_removal lib client \<circ> fst) entries
       \<and> (r = Ok () \<longrightarrow> removes_keys lib client key_ids entries))"
proof (induction key_ids arbitrary: g log)
  case Nil
  show ?case by (simp add: post_simps removes_keys_def)
next
  case (Cons key_id key_ids)
  show ?case
    unfolding eff_for.simps post_bind
  proof (rule post_mono [OF revoke_post], elim exE conjE, goal_cases)
    case (1 r s' g' entries)
    then have start: "list_all (lookup_or_removal lib client \<circ> fst) entries"
      by (auto simp: lookup_or_removal_def list_all_iff)
    show ?case
    proof (cases r)
      case (Inl e)
      with 1 start show ?thesis by auto
    next
      case (Inr u)
      with 1 obtain x where x: "entries = [x]" "removes_keys lib client [key_id] [x]"
        by (auto simp: removes_keys_def list_all2_Cons1)
      show ?thesis
        unfolding Inr sum.case \<open>s' = (g', log @ entries)\<close>
        by (rule post_mono [OF Cons.IH]) (use x start in \<open>force simp: removes_keys_def\<close>)
    qed
  qed
qed

text \<open>The part of a creation that follows the answer to \<open>CreateKey\<close>.\<close>

definition grant_key ::
  "garage_library \<Rightarrow> garage_admin_client \<Rightarrow> 'g server \<Rightarrow> string \<Rightarrow> bucket_permissions \<Rightarrow> access_key
     \<Rightarrow> ('g, garage_backend_error, issued_credential) eff" where
  "grant_key lib client server physical_bucket_id permissions key =
     (case ak_secret_access_key key of
       None \<Rightarrow>
         eff_match (delete_key lib client server (ak_access_key_id key)) (\<lambda>_.
         eff_throw (InvalidResponse ''Garage omitted secretAccessKey from CreateKey''))
     | Some secret_access_key \<Rightarrow>
         eff_match (set_bucket_key_permissions lib client server physical_bucket_id (ak_access_key_id key)
             (key_permissions_from permissions)) (\<lambda>r. case r of
           Err e \<Rightarrow>
             eff_match (delete_key lib client server (ak_access_key_id key)) (\<lambda>_.
             eff_throw (backend_error_from lib e))
         | Ok _ \<Rightarrow>
             eff_return \<lparr>ic_garage_key_id = ak_access_key_id key, ic_access_key_id = ak_access_key_id key,
               ic_secret_access_key = secret_access_key\<rparr>))"

lemma adapter_create_credential_steps:
  "adapter_create_credential lib client server physical_bucket_id deterministic_name permissions =
     eff_bind (eff_map_err (backend_error_from lib) (list_keys lib client server)) (\<lambda>keys.
     eff_bind (eff_for (map ks_id (filter (\<lambda>key. ks_name key = deterministic_name) keys))
       (adapter_revoke_credential lib client server)) (\<lambda>_.
     eff_bind (eff_map_err (backend_error_from lib)
       (create_key lib client server (create_key_request_new deterministic_name None)))
     (grant_key lib client server physical_bucket_id permissions)))"
  unfolding adapter_create_credential_def grant_key_def [abs_def] adapter_revoke_credential_def [abs_def] ..

lemma cleanup_post:
  "post (eff_match (delete_key lib client (logged server) key_id) (\<lambda>_. eff_throw e)) (g, log) (\<lambda>r s'.
     r = Err e \<and> (\<exists>g' cleanup. s' = (g', log @ cleanup) \<and> cleans_up lib client key_id cleanup))"
  unfolding post_match post_throw by (rule post_mono [OF delete_key_cleans_up]) simp

lemma grant_key_post:
  "post (grant_key lib client (logged server) bucket_id permissions key) (g, log) (\<lambda>r s'.
     \<exists>g' changes cleanup. s' = (g', log @ changes @ cleanup)
       \<and> (case r of
            Err _ \<Rightarrow> cleans_up lib client (ak_access_key_id key) cleanup
          | Ok issued \<Rightarrow> cleanup = [] \<and> ic_garage_key_id issued = ak_access_key_id key
              \<and> ic_access_key_id issued = ak_access_key_id key
              \<and> ak_secret_access_key key = Some (ic_secret_access_key issued)
              \<and> replaces_permissions lib client bucket_id (ak_access_key_id key)
                  (key_permissions_from permissions) True changes))"
proof (cases "ak_secret_access_key key")
  case None
  show ?thesis
    unfolding grant_key_def None option.case
    by (rule post_mono [OF cleanup_post]) (use append_Nil in fastforce)
next
  case (Some secret)
  show ?thesis
    unfolding grant_key_def Some option.case post_match
  proof (rule post_mono [OF set_permissions_post], elim exE conjE, goal_cases)
    case (1 r s' g' changes)
    show ?case
    proof (cases r)
      case (Inl e)
      show ?thesis
        unfolding Inl sum.case \<open>s' = (g', log @ changes)\<close>
        by (rule post_mono [OF cleanup_post]) auto
    next
      case (Inr b)
      with 1 show ?thesis by (simp add: post_simps)
    qed
  qed
qed

lemma abandons_key_early:
  "list_all (lookup_or_removal lib client \<circ> fst) start \<Longrightarrow> abandons_key lib client name start"
  unfolding abandons_key_def by (intro exI [of _ start] exI [of _ "[]"]) simp

lemma abandons_key_late:
  assumes "list_all (lookup_or_removal lib client \<circ> fst) start" and "new_key_request lib client name c"
    and "\<And>key. response_value (gl_access_key lib) oc key \<Longrightarrow>
           \<exists>changes cleanup. later = changes @ cleanup \<and> cleans_up lib client (ak_access_key_id key) cleanup"
  shows "abandons_key lib client name (start @ (c, oc) # later)"
  unfolding abandons_key_def using assms by (intro exI [of _ start] exI [of _ "(c, oc) # later"]) simp

lemma response_value_unique: "response_value f outcome x \<Longrightarrow> response_value f outcome y \<Longrightarrow> x = y"
  by (auto simp: response_value_def inj_map_eq_map)

lemma issue_post:
  assumes "list_all (lookup_or_removal lib client \<circ> fst) start"
  shows "post (eff_bind (eff_map_err (backend_error_from lib)
       (create_key lib client (logged server) (create_key_request_new name None)))
     (grant_key lib client (logged server) bucket_id permissions)) (g, log @ start) (\<lambda>r s'.
     \<exists>g' later. s' = (g', log @ start @ later)
       \<and> (case r of Err _ \<Rightarrow> abandons_key lib client name (start @ later)
          | Ok issued \<Rightarrow> (\<exists>c oc key changes. later = (c, oc) # changes \<and> new_key_request lib client name c
              \<and> response_value (gl_access_key lib) oc key
              \<and> ic_garage_key_id issued = ak_access_key_id key \<and> ic_access_key_id issued = ak_access_key_id key
              \<and> ak_secret_access_key key = Some (ic_secret_access_key issued)
              \<and> replaces_permissions lib client bucket_id (ak_access_key_id key)
                  (key_permissions_from permissions) True changes)))"
  unfolding post_bind post_map_err
proof (rule post_sends_one [OF create_key_sends], goal_cases)
  case (1 e)
  with assms show ?case by (simp add: abandons_key_early)
next
  case (2 r g' c oc)
  show ?case
  proof (cases r)
    case (Inl e)
    with 2(2) have "\<not> response_value (gl_access_key lib) oc key" for key by auto
    with assms 2(1) have "abandons_key lib client name (start @ [(c, oc)])"
      by (intro abandons_key_late) blast+
    with Inl show ?thesis by simp
  next
    case (Inr key)
    with 2(2) [of key] have key: "response_value (gl_access_key lib) oc key" by simp
    show ?thesis
      unfolding Inr map_err_simps sum.case append_assoc
    proof (rule post_mono [OF grant_key_post], elim exE conjE, goal_cases)
      case (1 r' s'' g'' changes cleanup)
      show ?case
      proof (cases r')
        case (Inl e)
        have "abandons_key lib client name (start @ (c, oc) # changes @ cleanup)"
          using assms 2(1) 1 Inl response_value_unique [OF key]
          by (intro abandons_key_late) auto
        with Inl 1 show ?thesis by auto
      next
        case (Inr issued)
        with 1 key 2(1) show ?thesis by auto
      qed
    qed
  qed
qed

lemma issues_keyI:
  assumes "list_keys_request lib client l" and "response_value (gl_keys lib) ol keys"
    and "removes_keys lib client (map ks_id (filter (\<lambda>key. ks_name key = name) keys)) removals"
    and "new_key_request lib client name c" and "response_value (gl_access_key lib) oc key"
    and "ic_garage_key_id issued = ak_access_key_id key" and "ic_access_key_id issued = ak_access_key_id key"
    and "ak_secret_access_key key = Some (ic_secret_access_key issued)"
    and "replaces_permissions lib client bucket_id (ak_access_key_id key) (key_permissions_from permissions)
           True changes"
  shows "issues_key lib client bucket_id name permissions issued ((l, ol) # removals @ (c, oc) # changes)"
  unfolding issues_key_def using assms by blast

lemma creation_post:
  "post (adapter_create_credential lib client (logged server) bucket_id name permissions) (g, log) (\<lambda>r s'.
     \<exists>g' entries. s' = (g', log @ entries)
       \<and> (case r of Err _ \<Rightarrow> abandons_key lib client name entries
          | Ok issued \<Rightarrow> issues_key lib client bucket_id name permissions issued entries))"
  unfolding adapter_create_credential_steps post_bind [of "eff_map_err _ (list_keys _ _ _)"] post_map_err
proof (rule post_sends_one [OF list_keys_sends], goal_cases)
  case (1 e)
  show ?case by (simp add: abandons_key_early)
next
  case (2 r g' l ol)
  have l: "list_all (lookup_or_removal lib client \<circ> fst) [(l, ol)]"
    using 2(1) by (simp add: lookup_or_removal_def)
  show ?case
  proof (cases r)
    case (Inl e)
    with abandons_key_early [OF l] show ?thesis by auto
  next
    case (Inr keys)
    with 2(2) [of keys] have keys: "response_value (gl_keys lib) ol keys" by simp
    show ?thesis
      unfolding Inr map_err_simps sum.case post_bind [of "eff_for _ _"]
    proof (rule post_mono [OF removal_loop_post], elim exE conjE, goal_cases)
      case (1 r' s'' g'' removals)
      have start: "list_all (lookup_or_removal lib client \<circ> fst) ((l, ol) # removals)" using l 1 by simp
      show ?case
      proof (cases r')
        case (Inl e)
        with abandons_key_early [OF start] 1 show ?thesis by auto
      next
        case (Inr u)
        have removed: "removes_keys lib client (map ks_id (filter (\<lambda>key. ks_name key = name) keys)) removals"
          using 1 Inr by simp
        have state: "s'' = (g'', log @ (l, ol) # removals)" using 1 by simp
        show ?thesis
          unfolding Inr sum.case state
        proof (rule post_mono [OF issue_post [OF start]], elim exE conjE, goal_cases)
          case (1 r1 s1 g1 later)
          show ?case
          proof (cases r1)
            case (Inr issued)
            with 1 2(1) keys removed have "issues_key lib client bucket_id name permissions issued
                ((l, ol) # removals @ later)" by (auto intro: issues_keyI)
            with 1 Inr show ?thesis by auto
          qed (use 1 in auto)
        qed
      qed
    qed
  qed
qed

section \<open>Properties\<close>

text \<open>A Garage that answers every request with the same key, and one that refuses to change permissions.\<close>

definition example_key :: access_key where
  "example_key = \<lparr>ak_access_key_id = ''GK1'', ak_name = ''cred'', ak_expired = False, ak_created = None,
     ak_expiration = None, ak_permissions = \<lparr>gk_create_bucket = False\<rparr>, ak_buckets = [],
     ak_secret_access_key = Some ''s3cret''\<rparr>"

definition example_garage_bucket :: bucket where
  "example_garage_bucket = \<lparr>gb_id = ''b1'', gb_created = 0, gb_global_aliases = [''photos''],
     gb_website_access = False, gb_keys = [], gb_objects = 0, gb_bytes = 0, gb_unfinished_uploads = 0,
     gb_unfinished_multipart_uploads = 0, gb_unfinished_multipart_upload_parts = 0,
     gb_unfinished_multipart_upload_bytes = 0, gb_quotas = quotas_limited 1 1\<rparr>"

definition example_garage_library :: garage_library where
  "example_garage_library = \<lparr>gl_cluster_health = (\<lambda>_. Err ''none''), gl_buckets = (\<lambda>_. Ok []),
     gl_bucket = (\<lambda>_. Ok example_garage_bucket),
     gl_keys = (\<lambda>_. Ok [\<lparr>ks_id = ''GK0'', ks_name = ''cred'', ks_expired = False, ks_created = None,
       ks_expiration = None\<rparr>]),
     gl_access_key = (\<lambda>_. Ok example_key), gl_error_body = (\<lambda>_. None), gl_from_utf8_lossy = (\<lambda>_. []),
     gl_canonical_reason = (\<lambda>_. None), gl_status_text = (\<lambda>_. ''500''),
     gl_join = (\<lambda>u p. Ok (u\<lparr>url_path := url_path u @ p\<rparr>)), gl_set_path = (\<lambda>u p. u\<lparr>url_path := p\<rparr>),
     gl_header_value = (\<lambda>_. True), gl_client_build = (\<lambda>_. None), gl_pkg_version = ''0''\<rparr>"

definition example_client :: garage_admin_client where
  "example_client = \<lparr>ga_base_url = \<lparr>url_scheme = ''http'', url_host_str = Some ''garage'', url_username = [],
       url_password = None, url_path = ''/'', url_query = None, url_fragment = None\<rparr>,
     ga_client = \<lparr>hc_default_headers = [(''authorization'', ''Bearer t'')], hc_timeout = 1, hc_user_agent = []\<rparr>\<rparr>"

definition example_server :: "unit server" where
  "example_server = (\<lambda>_ request. (Ok \<lparr>hp_status = 200, hp_chunks = []\<rparr>, ()))"

definition refusing_server :: "unit server" where
  "refusing_server = (\<lambda>_ request. (Ok \<lparr>hp_status =
     (case hq_body request of Some (BucketKeyPermissionChangeRequest _ _ _) \<Rightarrow> 500 | _ \<Rightarrow> 200),
     hp_chunks = []\<rparr>, ()))"

lemmas eff_eval = eff_bind_def eff_match_def eff_lift_def eff_return_def eff_throw_def eff_map_err_def

lemma example_inputs_ok:
  "validate_input field ''b1'' = Ok ()" "validate_input field ''GK0'' = Ok ()"
  "validate_input field ''GK1'' = Ok ()" "validate_input field ''cred'' = Ok ()"
  by (simp_all add: validate_input_def str_chars_def char_is_control_def byte_of_def)

lemmas example_requests = client_request_def execute_json_def execute_empty_def send_def logged_def
  read_limited_def status_is_success_def example_inputs_ok with_query_def with_json_def
  example_garage_library_def example_client_def

lemma example_set_permissions:
  "fst (set_bucket_key_permissions example_garage_library example_client (logged example_server)
        ''b1'' ''GK1'' key_permissions_all ((), [])) = Ok example_garage_bucket"
  unfolding set_bucket_key_permissions_def deny_bucket_key_def allow_bucket_key_def
    change_bucket_key_permissions_def
  by (simp add: eff_eval example_requests example_server_def key_permissions_is_empty_def key_permissions_all_def)

lemma example_issue:
  "fst (adapter_create_credential example_garage_library example_client (logged example_server) ''b1'' ''cred''
      \<lparr>bp_read = True, bp_write = False\<rparr> ((), []))
     = Ok \<lparr>ic_garage_key_id = ''GK1'', ic_access_key_id = ''GK1'', ic_secret_access_key = ''s3cret''\<rparr>"
  unfolding adapter_create_credential_def set_bucket_key_permissions_def deny_bucket_key_def allow_bucket_key_def
    change_bucket_key_permissions_def list_keys_def delete_key_def create_key_def
  by (simp add: eff_eval example_requests example_server_def key_permissions_is_empty_def example_key_def
      key_permissions_from_def create_key_request_new_def create_key_validate_def)

lemma example_refused:
  "fst (adapter_create_credential example_garage_library example_client (logged refusing_server) ''b1'' ''cred''
      \<lparr>bp_read = True, bp_write = False\<rparr> ((), []))
     = Err (Unavailable ''Garage DenyBucketKey returned HTTP 500: Garage administration request failed'')"
  unfolding adapter_create_credential_def set_bucket_key_permissions_def deny_bucket_key_def allow_bucket_key_def
    change_bucket_key_permissions_def list_keys_def delete_key_def create_key_def
  by (simp add: eff_eval example_requests refusing_server_def key_permissions_is_empty_def example_key_def
      key_permissions_from_def create_key_request_new_def create_key_validate_def api_error_def
      backend_error_from_def is_not_found_def)

lemma example_revoke:
  "fst (adapter_revoke_credential example_garage_library example_client (logged example_server) ''GK1'' ((), []))
     = Ok ()"
  unfolding adapter_revoke_credential_def delete_key_def
  by (simp add: eff_eval example_requests example_server_def)

lemma run_surjective: "fst x = r \<Longrightarrow> x = (r, (fst (snd x), snd (snd x)))"
  by (cases x) auto

text \<open>
  C33: replacing the permissions of a key on a bucket never widens them on the way: the first request
  denies every permission, a request that allows the wanted ones is sent only after that denial
  succeeded, and the call succeeds only if every request did.
\<close>
theorem permissions_are_denied_first:
  assumes "set_bucket_key_permissions lib client (logged server) bucket_id key_id permissions (g, [])
             = (r, (g', entries))"
  shows "replaces_permissions lib client bucket_id key_id permissions (is_ok r) entries"
  using set_permissions_post [of lib client server bucket_id key_id permissions g "[]"]
  by (simp add: post_def assms)

theorem permissions_are_denied_first_witness:
  "replaces_permissions example_garage_library example_client ''b1'' ''GK1'' key_permissions_all True
     (snd (snd (set_bucket_key_permissions example_garage_library example_client (logged example_server)
        ''b1'' ''GK1'' key_permissions_all ((), []))))"
  using permissions_are_denied_first [OF run_surjective [OF example_set_permissions]] by simp

text \<open>
  C34: a credential is issued only by a complete sequence of requests: the keys are listed, every key
  that already has the deterministic name is deleted or found gone, one key with that name is
  created, and its permissions on the bucket are set to exactly the requested reads and writes,
  never ownership; the issued identifiers and secret are those of the created key.
\<close>
theorem issued_credential_requests:
  assumes "adapter_create_credential lib client (logged server) bucket_id name permissions (g, [])
             = (Ok issued, (g', entries))"
  shows "issues_key lib client bucket_id name permissions issued entries"
  using creation_post [of lib client server bucket_id name permissions g "[]"]
  by (simp add: post_def assms)

theorem issued_credential_requests_witness:
  "issues_key example_garage_library example_client ''b1'' ''cred'' \<lparr>bp_read = True, bp_write = False\<rparr>
     \<lparr>ic_garage_key_id = ''GK1'', ic_access_key_id = ''GK1'', ic_secret_access_key = ''s3cret''\<rparr>
     (snd (snd (adapter_create_credential example_garage_library example_client (logged example_server) ''b1''
        ''cred'' \<lparr>bp_read = True, bp_write = False\<rparr> ((), []))))"
  by (rule issued_credential_requests [OF run_surjective [OF example_issue]])

text \<open>
  C35: a credential creation that fails tries to leave no key behind: it fails before it asks for a key,
  or the answer to that request carries no key, or the last request deletes the key that was created
  (unless Garage named it with an identifier that cannot be sent).
\<close>
theorem failed_creation_is_undone:
  assumes "adapter_create_credential lib client (logged server) bucket_id name permissions (g, [])
             = (Err e, (g', entries))"
  shows "abandons_key lib client name entries"
  using creation_post [of lib client server bucket_id name permissions g "[]"]
  by (simp add: post_def assms)

theorem failed_creation_is_undone_witness:
  "abandons_key example_garage_library example_client ''cred''
     (snd (snd (adapter_create_credential example_garage_library example_client (logged refusing_server) ''b1''
        ''cred'' \<lparr>bp_read = True, bp_write = False\<rparr> ((), []))))"
  by (rule failed_creation_is_undone [OF run_surjective [OF example_refused]])

text \<open>
  Revocation sends nothing but the deletion of the given key and succeeds only if Garage confirmed
  it or no longer knows the key, so it can be repeated.
\<close>
lemma revocation_is_confirmed:
  assumes "adapter_revoke_credential lib client (logged server) key_id (g, []) = (Ok (), (g', entries))"
  shows "removes_keys lib client [key_id] entries"
  using revoke_post [of lib client server key_id g "[]"] by (simp add: post_def assms)

lemma revocation_is_confirmed_example:
  "removes_keys example_garage_library example_client [''GK1'']
     (snd (snd (adapter_revoke_credential example_garage_library example_client (logged example_server) ''GK1''
        ((), []))))"
  by (rule revocation_is_confirmed [OF run_surjective [OF example_revoke]])

end
