(* ===== verification/Server_Process.thy ===== *)
theory Server_Process
  imports Routes Config Garage_Traces Store_Examples
begin

text \<open>
  Starting the process (\<open>src/crates/syouyu-api/src/main.rs\<close>, and \<open>PgStore::connect\<close> and \<open>migrate\<close> of
  \<open>src/crates/syouyu-store/src/lib.rs\<close>): the configuration is loaded, the database connected and, when
  asked for, migrated, the Garage client built, the address bound and the router served. What the
  operating system, the database driver and the HTTP server do is a parameter, on a state of their own.
\<close>

section \<open>Parameters\<close>

record pool_options =
  px_max_connections :: u32
  px_min_connections :: u32
  px_acquire_timeout :: duration
  px_idle_timeout :: duration
  px_max_lifetime :: duration

record ('o, 'g, 'k) process_io =
  io_connect :: "pool_options \<Rightarrow> string \<Rightarrow> ('o, sqlx_error, unit) eff"
  io_migrate :: "('o, string, unit) eff"
  io_bind :: "string \<Rightarrow> ('o, string, unit) eff"
  io_serve :: "('g, 'k) app_state \<Rightarrow> ('o, string, unit) eff"

text \<open>An error with the context it is reported in.\<close>

datatype startup_error =
    ConfigFailed string
  | StoreFailed string store_error
  | GarageFailed string garage_error
  | IoFailed string string

datatype exit_code = SUCCESS | FAILURE

section \<open>The store\<close>

definition connect ::
  "('o, 'g, 'k) process_io \<Rightarrow> pg_store \<Rightarrow> string \<Rightarrow> u32 \<Rightarrow> bytes \<Rightarrow> credential_limits
     \<Rightarrow> ('o, store_error, pg_store) eff" where
  "connect io libraries database_url max_connections receipt_encryption_key credential_limits =
     (if database_url = [] then eff_throw (Configuration ''DATABASE_URL is empty'')
      else eff_bind (eff_map_err Database (io_connect io
             \<lparr>px_max_connections = max_connections, px_min_connections = 1,
              px_acquire_timeout = from_secs 5, px_idle_timeout = from_secs 30,
              px_max_lifetime = from_secs (5 * 60)\<rparr> database_url)) (\<lambda>_.
           eff_lift (from_pool libraries receipt_encryption_key credential_limits)))"

definition migrate :: "('o, 'g, 'k) process_io \<Rightarrow> ('o, store_error, unit) eff" where
  "migrate io = eff_map_err (\<lambda>_. Migration) (io_migrate io)"

section \<open>The process\<close>

definition migrate_argument :: "string list \<Rightarrow> bool" where
  "migrate_argument args \<longleftrightarrow> 1 < length args \<and> args ! 1 = ''migrate''"

definition run ::
  "'k config_library \<Rightarrow> pg_store \<Rightarrow> garage_library \<Rightarrow> 'g server \<Rightarrow> ('o, 'g, 'k) process_io
     \<Rightarrow> string list \<Rightarrow> environment \<Rightarrow> ('o, startup_error, unit) eff" where
  "run lib libraries garage_lib server io args env =
     eff_bind (eff_lift (map_err ConfigFailed (from_env lib env))) (\<lambda>config.
     eff_bind (eff_map_err (StoreFailed ''connect to PostgreSQL'')
       (connect io libraries (co_database_url config) (co_database_max_connections config)
         (co_receipt_encryption_key config) (co_credential_limits config))) (\<lambda>store.
     eff_bind (if co_migrate_on_start config \<or> migrate_argument args
       then eff_map_err (StoreFailed ''run database migrations'') (migrate io)
       else eff_return ()) (\<lambda>_.
     if migrate_argument args then eff_return ()
     else
       eff_bind (eff_lift (map_err (GarageFailed ''configure Garage administration client'')
         (garage_client_new garage_lib (co_garage_admin_endpoint config) (co_garage_admin_token config)))) (\<lambda>garage_client.
       let app = \<lparr>as_store = pg_repository store, as_garage = garage_adapter garage_lib garage_client server,
                  as_provider_auth = co_provider_authenticator config,
                  as_principal_auth = co_principal_authenticator config,
                  as_storage_region = co_garage_region config, as_s3_endpoint = co_s3_public_endpoint config\<rparr> in
       eff_bind (eff_map_err (IoFailed (''bind '' @ co_bind_addr config)) (io_bind io (co_bind_addr config))) (\<lambda>_.
       eff_map_err (IoFailed ''serve Syouyu API'') (io_serve io app))))))"

definition main ::
  "'k config_library \<Rightarrow> pg_store \<Rightarrow> garage_library \<Rightarrow> 'g server \<Rightarrow> ('o, 'g, 'k) process_io
     \<Rightarrow> string list \<Rightarrow> environment \<Rightarrow> 'o \<Rightarrow> exit_code \<times> 'o" where
  "main lib libraries garage_lib server io args env s =
     (case run lib libraries garage_lib server io args env s of
        (Ok _, s') \<Rightarrow> (SUCCESS, s') | (Err _, s') \<Rightarrow> (FAILURE, s'))"

section \<open>Properties\<close>

text \<open>
  A server that can do its work: its store has a 32-byte key and positive limits, its region can be
  named in a specification, tokens are checked against a key and contexts against a long secret for
  at most 300 seconds, the public endpoint and the address that the Garage client sends its requests to
  are the absolute HTTP(S) URLs of their variables up to the path, and requests to Garage carry the
  configured token and end after a positive time.
\<close>

definition well_configured ::
  "'k config_library \<Rightarrow> environment \<Rightarrow> garage_library \<Rightarrow> 'g server \<Rightarrow> pg_store \<Rightarrow> ('g, 'k) app_state \<Rightarrow> bool" where
  "well_configured lib env garage_lib server libraries app \<longleftrightarrow>
     (\<exists>key limits. length key = 32 \<and> cl_max_credentials_per_bucket limits \<noteq> 0 \<and> cl_max_total_credentials limits \<noteq> 0
        \<and> as_store app = pg_repository (libraries\<lparr>ps_receipt_cipher := \<lparr>cipher_key = key\<rparr>, ps_credential_limits := limits\<rparr>))
     \<and> (\<exists>client token. configured_address lib env ''GARAGE_ADMIN_ENDPOINT'' (ga_base_url client)
        \<and> env ''GARAGE_ADMIN_TOKEN'' = Some token \<and> token \<noteq> []
        \<and> (''authorization'', ''Bearer '' @ token) \<in> set (hc_default_headers (ga_client client))
        \<and> 0 < hc_timeout (ga_client client) \<and> as_garage app = garage_adapter garage_lib client server)
     \<and> configured_address lib env ''SYOUYU_S3_PUBLIC_ENDPOINT'' (as_s3_endpoint app)
     \<and> validate_region (as_storage_region app) = Ok ()
     \<and> pv_keys (as_provider_auth app) \<noteq> []
     \<and> 32 \<le> length (pa_secret (as_principal_auth app))
     \<and> pa_max_ttl (as_principal_auth app) \<le> from_secs 300"

lemma from_pool_Ok:
  "from_pool libraries key limits = Ok store \<Longrightarrow> length key = 32 \<and> cl_max_credentials_per_bucket limits \<noteq> 0
     \<and> cl_max_total_credentials limits \<noteq> 0
     \<and> store = libraries\<lparr>ps_receipt_cipher := \<lparr>cipher_key = key\<rparr>, ps_credential_limits := limits\<rparr>"
  by (auto simp: from_pool_def try_bind_Ok cipher_new_def split: if_splits)

lemma garage_client_new_Ok:
  "garage_client_new lib url token = Ok client \<Longrightarrow> token \<noteq> []
     \<and> ga_base_url client = gl_set_path lib url (trim_end_matches (CHR ''/'') (url_path url) @ ''/'')
     \<and> (''authorization'', ''Bearer '' @ token) \<in> set (hc_default_headers (ga_client client))
     \<and> 0 < hc_timeout (ga_client client)"
  by (auto simp: garage_client_new_def with_timeout_def try_bind_Ok DEFAULT_TIMEOUT_def Let_def
      split: if_splits option.splits)

lemma connect_Ok:
  "connect io libraries url n key limits s = (Ok store, s') \<Longrightarrow> from_pool libraries key limits = Ok store"
  by (auto simp: connect_def eff_bind_def eff_match_def eff_map_err_def eff_lift_def eff_throw_def
      split: if_splits prod.splits sum.splits)

text \<open>The same process with a record of what is served.\<close>

definition beside :: "('o, 'e, 'a) eff \<Rightarrow> ('o \<times> 'l, 'e, 'a) eff" where
  "beside m = (\<lambda>(s, l). case m s of (r, s') \<Rightarrow> (r, (s', l)))"

definition recording :: "('o, 'g, 'k) process_io \<Rightarrow> ('o \<times> ('g, 'k) app_state list, 'g, 'k) process_io" where
  "recording io = \<lparr>io_connect = (\<lambda>options url. beside (io_connect io options url)), io_migrate = beside (io_migrate io),
     io_bind = (\<lambda>addr. beside (io_bind io addr)),
     io_serve = (\<lambda>app (s, served). case io_serve io app s of (r, s') \<Rightarrow> (r, (s', served @ [app])))\<rparr>"

lemma post_beside: "post (beside m) (s, l) Q \<longleftrightarrow> post m s (\<lambda>r s'. Q r (s', l))"
  by (simp add: post_def beside_def split: prod.split)

lemma post_connect:
  "post (connect (recording io) libraries url n key limits) (s, l) (\<lambda>r x. snd x = l
     \<and> (\<forall>store. r = Ok store \<longrightarrow> from_pool libraries key limits = Ok store))"
  by (auto simp: post_def connect_def recording_def beside_def eff_bind_def eff_match_def eff_map_err_def
      eff_lift_def eff_throw_def split: prod.split sum.split)

lemma post_io:
  "post (migrate (recording io)) (s, l) (\<lambda>r x. snd x = l)"
  "post (io_bind (recording io) addr) (s, l) (\<lambda>r x. snd x = l)"
  "post (io_serve (recording io) app) (s, l) (\<lambda>r x. snd x = l @ [app])"
  by (auto simp: migrate_def recording_def post_simps post_beside) (auto simp: post_def split: prod.split)

lemma configured_server:
  assumes "from_env lib env = Ok c"
    and "only_path_changes (cf_set_path lib)" and "only_path_changes (gl_set_path garage_lib)"
    and "from_pool libraries (co_receipt_encryption_key c) (co_credential_limits c) = Ok store"
    and "garage_client_new garage_lib (co_garage_admin_endpoint c) (co_garage_admin_token c) = Ok client"
  shows "well_configured lib env garage_lib server libraries \<lparr>as_store = pg_repository store,
     as_garage = garage_adapter garage_lib client server, as_provider_auth = co_provider_authenticator c,
     as_principal_auth = co_principal_authenticator c, as_storage_region = co_garage_region c,
     as_s3_endpoint = co_s3_public_endpoint c\<rparr>"
proof -
  note loaded = loaded_configuration [OF assms(1,2)] and addresses = loaded_addresses [OF assms(1,2)]
    and client = garage_client_new_Ok [OF assms(5)]
  have "same_but_path (ga_base_url client) (co_garage_admin_endpoint c)"
    using client only_path_changesD [OF assms(3)] by simp
  then have "configured_address lib env ''GARAGE_ADMIN_ENDPOINT'' (ga_base_url client)"
    using addresses(1) same_but_path_trans same_but_path_valid unfolding configured_address_def by blast
  then have "\<exists>x token. configured_address lib env ''GARAGE_ADMIN_ENDPOINT'' (ga_base_url x)
      \<and> env ''GARAGE_ADMIN_TOKEN'' = Some token \<and> token \<noteq> []
      \<and> (''authorization'', ''Bearer '' @ token) \<in> set (hc_default_headers (ga_client x))
      \<and> 0 < hc_timeout (ga_client x) \<and> garage_adapter garage_lib client server = garage_adapter garage_lib x server"
    using client addresses(4) by (intro exI [of _ client] exI [of _ "co_garage_admin_token c"]) simp
  moreover have "\<exists>key limits. length key = 32 \<and> cl_max_credentials_per_bucket limits \<noteq> 0 \<and> cl_max_total_credentials limits \<noteq> 0
      \<and> pg_repository store = pg_repository (libraries\<lparr>ps_receipt_cipher := \<lparr>cipher_key = key\<rparr>, ps_credential_limits := limits\<rparr>)"
    using from_pool_Ok [OF assms(4)] by blast
  ultimately show ?thesis
    using loaded addresses(2) unfolding well_configured_def by simp
qed

lemma post_process:
  assumes "only_path_changes (cf_set_path lib)" and "only_path_changes (gl_set_path garage_lib)"
  shows "post (run lib libraries garage_lib server (recording io) args env) (s, []) (\<lambda>r x. snd x = [] \<or>
     (\<exists>app. snd x = [app] \<and> well_configured lib env garage_lib server libraries app \<and> \<not> migrate_argument args))"
    (is "post _ _ ?Q")
proof (cases "from_env lib env")
  case (Inl e)
  then show ?thesis by (simp add: run_def post_simps)
next
  case (Inr c)
  show ?thesis
    unfolding run_def Inr map_err_simps post_bind post_lift sum.case
    unfolding post_map_err
  proof (rule post_mono [OF post_connect], goal_cases)
    case (1 r x)
    show ?case
    proof (cases r)
      case (Inr store)
      with 1 have store: "from_pool libraries (co_receipt_encryption_key c) (co_credential_limits c) = Ok store"
        and x: "x = (fst x, [])" by (auto simp: prod_eq_iff)
      have migrated: "post (if co_migrate_on_start c \<or> migrate_argument args
          then eff_map_err (StoreFailed ''run database migrations'') (migrate (recording io)) else eff_return ())
          (fst x, []) (\<lambda>r y. snd y = [])"
        by (simp add: post_simps post_io(1))
      show ?thesis
        unfolding Inr map_err_simps sum.case
      proof (subst x, rule post_mono [OF migrated], goal_cases)
        case (1 r y)
        then have y: "y = (fst y, [])" by (simp add: prod_eq_iff)
        show ?case
        proof (cases "r = Ok () \<and> \<not> migrate_argument args")
          case False
          with 1 show ?thesis by (cases r) (auto simp: post_simps)
        next
          case serving: True
          show ?thesis
          proof (cases "garage_client_new garage_lib (co_garage_admin_endpoint c) (co_garage_admin_token c)")
            case (Inl e)
            with serving 1 show ?thesis by (simp add: post_simps)
          next
            case (Inr client)
            note ready = configured_server [OF \<open>from_env lib env = Ok c\<close> assms store Inr]
            have bound: "post (io_bind (recording io) (co_bind_addr c)) (fst y, []) (\<lambda>r z. snd z = [])"
              by (rule post_io(2))
            show ?thesis
              using serving unfolding Inr
              by (subst y) (auto simp: post_simps Let_def split: sum.split
                  intro!: post_mono [OF bound] post_mono [OF post_io(3)] ready)
          qed
        qed
      qed
    qed (use 1 in simp)
  qed
qed

text \<open>
  C40: the process serves at most once and only a server that is configured to do its work: its store
  has a 32-byte key and positive limits, its region can be named in a specification, its public endpoint
  and the address of its Garage client are the absolute HTTP(S) URLs of their variables up to the path,
  tokens and contexts are checked against keys and a long secret, and requests to Garage carry the
  configured token and are bounded in time. Called as \<open>migrate\<close>, it never serves.
\<close>
theorem only_configured_servers_start:
  assumes "run lib libraries garage_lib server (recording io) args env (s, []) = (r, (s', served))"
    and "only_path_changes (cf_set_path lib)" and "only_path_changes (gl_set_path garage_lib)"
  shows "served = [] \<or> (\<exists>app. served = [app] \<and> well_configured lib env garage_lib server libraries app
     \<and> \<not> migrate_argument args)"
  using post_process [OF assms(2,3), of libraries server io args env s] by (simp add: post_def assms(1))

definition example_io :: "(nat, unit, unit) process_io" where
  "example_io = \<lparr>io_connect = (\<lambda>_ _ n. (Ok (), Suc n)), io_migrate = (\<lambda>n. (Ok (), Suc n)),
     io_bind = (\<lambda>_ n. (Ok (), Suc n)), io_serve = (\<lambda>_ n. (Ok (), Suc n))\<rparr>"

lemma example_paths:
  "only_path_changes (cf_set_path example_config_library)"
  "only_path_changes (gl_set_path example_garage_library)"
  by (auto simp: only_path_changes_def example_config_library_def example_garage_library_def)

lemma example_process_serves:
  "\<exists>n app. run example_config_library example_store example_garage_library example_server (recording example_io)
     [''syouyu-api''] example_environment (0, []) = (Ok (), (n, [app]))"
proof -
  obtain c where c: "from_env example_config_library example_environment = Ok c"
    using example_environment_loads by blast
  note paths = example_paths(1)
  from loaded_configuration [OF c paths, of example_store] obtain store where
    store: "from_pool example_store (co_receipt_encryption_key c) (co_credential_limits c) = Ok store"
    and base: "validate_base_url (co_garage_admin_endpoint c) = Ok ()" by blast
  have texts: "co_database_url c = ''postgres''" "co_garage_admin_token c = ''t''"
    using loaded_addresses(3,4) [OF c paths] by (simp_all add: example_environment_def)
  obtain client where client: "garage_client_new example_garage_library (co_garage_admin_endpoint c)
      (co_garage_admin_token c) = Ok client"
    using base by (simp add: garage_client_new_def with_timeout_def texts DEFAULT_TIMEOUT_def Let_def
        example_garage_library_def)
  show ?thesis
    by (simp add: run_def connect_def migrate_def recording_def beside_def example_io_def eff_bind_def eff_match_def
        eff_map_err_def eff_lift_def eff_return_def migrate_argument_def c store client [unfolded texts] texts)
qed

theorem only_configured_servers_start_witness:
  "\<exists>app. well_configured example_config_library example_environment example_garage_library example_server example_store app
     \<and> snd (snd (run example_config_library example_store example_garage_library example_server
          (recording example_io) [''syouyu-api''] example_environment (0, []))) = [app]"
proof -
  from example_process_serves obtain app n where
    run: "run example_config_library example_store example_garage_library example_server (recording example_io)
       [''syouyu-api''] example_environment (0, []) = (Ok (), (n, [app]))" by blast
  from only_configured_servers_start [OF run example_paths] run show ?thesis by auto
qed

end
