(* ===== verification/Handlers.thy ===== *)
theory Handlers
  imports Routes
begin

text \<open>
  The handlers of \<open>src/crates/syouyu-api/src/routes.rs\<close> and the router. Each mutating handler is an
  admission (pure: what the request asks for, or why it is refused) followed by its execution: prepare
  the operation, renew its lease before every call to Garage, record a failure of Garage in the
  receipt, complete the operation and answer with the stored response.
\<close>

section \<open>Reconciliation\<close>

definition admit_reconcile ::
  "'k route_library \<Rightarrow> ('g, 'k) app_state \<Rightarrow> 'g handler_env \<Rightarrow> string + uuid \<Rightarrow> headers
     \<Rightarrow> string + reconcile_request \<Rightarrow> api_error + reconcile_command" where
  "admit_reconcile lib app env path headers body =
     try_bind (strict path) (\<lambda>service_instance_id.
     try_bind (strict body) (\<lambda>request.
     try_bind (map_err api_error_from_auth (authenticate_headers_for_action (rl_jwt lib) (as_provider_auth app)
       (he_clock env) headers PROVIDER_RECONCILE_ACTION)) (\<lambda>claims.
     try_bind (map_err api_error_from_auth
       (require_idempotency_key (rl_jwt lib) headers (pc_jwt_id claims))) (\<lambda>_.
     if pc_service_instance_id claims \<noteq> service_instance_id \<or> pc_generation claims \<noteq> rq_generation request
     then Err forbidden
     else try_bind (map_err (\<lambda>e. bad_request (validation_error_to_string e)) (spec_validate (rq_spec request))) (\<lambda>_.
     if sp_region (rq_spec request) \<noteq> as_storage_region app
     then Err (bad_request (''region must match the configured storage region '' @ as_storage_region app))
     else try_bind (map_err api_error_from_store
       (request_hash (rl_sha256 lib) (rl_reconcile_to_vec lib) PROVIDER_RECONCILE_ACTION request)) (\<lambda>hash.
     Ok \<lparr>rc_operation = \<lparr>op_idempotency_key = pc_jwt_id claims, op_organization_id = pc_organization_id claims,
            op_project_id = pc_project_id claims, op_service_instance_id = service_instance_id,
            op_principal_id = pc_subject claims, op_action = PROVIDER_RECONCILE_ACTION,
            op_generation = Some (rq_generation request), op_request_hash = hash\<rparr>,
          rc_name = rq_name request, rc_generation = rq_generation request, rc_spec = rq_spec request\<rparr>))))))"

definition service_audit ::
  "'k route_library \<Rightarrow> 'g handler_env \<Rightarrow> headers \<Rightarrow> operation_request \<Rightarrow> json \<Rightarrow> audit_event" where
  "service_audit lib env headers operation details =
     audit_for_operation operation None (request_id lib env headers) ''service_instance''
       (Some (uuid_text lib (op_service_instance_id operation))) details"

definition reconcile_physical_bucket ::
  "'k route_library \<Rightarrow> ('g, 'k) app_state \<Rightarrow> 'g handler_env \<Rightarrow> headers \<Rightarrow> reconcile_command \<Rightarrow> uuid
     \<Rightarrow> reconcile_context \<Rightarrow> ('g surroundings, api_error, string) eff" where
  "reconcile_physical_bucket lib app env headers command operation_id ctx =
     (if rx_previously_applied ctx
      then eff_lift (ok_or (br_physical_bucket_id (rx_bucket ctx)) internal)
      else eff_bind (renew app env (rc_operation command) operation_id) (\<lambda>_.
        eff_match (call_garage env
            (ReconcileBucketCall (br_physical_bucket_id (rx_bucket ctx)) (rc_spec command))
            (be_reconcile_bucket (as_garage app) (br_physical_bucket_id (rx_bucket ctx)) (rc_spec command)))
          (\<lambda>r. case r of
             Ok bucket \<Rightarrow> eff_return (rb_physical_bucket_id bucket)
           | Err e \<Rightarrow> persist_backend_failure lib app env (rc_operation command) operation_id e
               (service_audit lib env headers (rc_operation command)
                 (json_object [(''generation'', JNumber (rc_generation command))])))))"

definition execute_reconcile ::
  "'k route_library \<Rightarrow> ('g, 'k) app_state \<Rightarrow> 'g handler_env \<Rightarrow> headers \<Rightarrow> reconcile_command
     \<Rightarrow> ('g surroundings, api_error, http_reply) eff" where
  "execute_reconcile lib app env headers command =
     eff_bind (store_or_fail env (\<lambda>r. PrepareCall (rc_operation command) (is_ok r))
       (rp_prepare_reconcile (as_store app) command)) (\<lambda>prepared.
     case prepared of
       Execute operation_id ctx \<Rightarrow>
         eff_bind (reconcile_physical_bucket lib app env headers command operation_id ctx) (\<lambda>physical_bucket_id.
         eff_bind (eff_lift (request_generation (rc_generation command))) (\<lambda>observed_generation.
         eff_bind (eff_lift (success_response (if rx_previously_applied ctx then 200 else 202)
           (rl_provider_response lib \<lparr>po_operation_id = operation_id,
              po_status = \<lparr>st_observed_generation = observed_generation, st_phase = Ready,
                st_backend_bucket_id = Some physical_bucket_id,
                st_endpoint = Some (rl_url_to_string lib (as_s3_endpoint app)), st_usage = usage_default,
                st_message = None, st_updated_at = he_now env\<rparr>\<rparr>))) (\<lambda>stored.
         eff_bind (store_or_fail env (\<lambda>r. CompleteCall (rc_operation command) operation_id stored (is_ok r))
           (rp_complete_reconcile (as_store app) command operation_id physical_bucket_id stored
             (service_audit lib env headers (rc_operation command) (json_object
               [(''generation'', JNumber (rc_generation command)),
                (''bucket_name'', JString (sp_bucket_name (rc_spec command))),
                (''quota_bytes'', JNumber (uint (sp_quota_bytes (rc_spec command)))),
                (''quota_objects'', JNumber (uint (sp_quota_objects (rc_spec command))))])))) (\<lambda>_.
         eff_lift (stored_into_response lib stored)))))
     | other \<Rightarrow> eff_lift (prepared_response lib other))"

definition reconcile_service_instance ::
  "'k route_library \<Rightarrow> ('g, 'k) app_state \<Rightarrow> 'g handler_env \<Rightarrow> string + uuid \<Rightarrow> headers
     \<Rightarrow> string + reconcile_request \<Rightarrow> ('g surroundings, api_error, http_reply) eff" where
  "reconcile_service_instance lib app env path headers body =
     eff_bind (eff_lift (admit_reconcile lib app env path headers body))
       (execute_reconcile lib app env headers)"

section \<open>Deletion\<close>

definition admit_delete ::
  "'k route_library \<Rightarrow> ('g, 'k) app_state \<Rightarrow> 'g handler_env \<Rightarrow> string + uuid \<Rightarrow> string + delete_query
     \<Rightarrow> headers \<Rightarrow> api_error + delete_command" where
  "admit_delete lib app env path query headers =
     try_bind (strict path) (\<lambda>service_instance_id.
     try_bind (strict query) (\<lambda>query.
     try_bind (map_err api_error_from_auth (authenticate_headers_for_action (rl_jwt lib) (as_provider_auth app)
       (he_clock env) headers PROVIDER_DELETE_ACTION)) (\<lambda>claims.
     try_bind (map_err api_error_from_auth
       (require_idempotency_key (rl_jwt lib) headers (pc_jwt_id claims))) (\<lambda>_.
     if pc_service_instance_id claims \<noteq> service_instance_id \<or> pc_generation claims \<noteq> dq_generation query
     then Err forbidden
     else try_bind (map_err api_error_from_store
       (request_hash (rl_sha256 lib) (rl_json_to_vec lib) PROVIDER_DELETE_ACTION
         (json_object [(''service_instance_id'', JString (uuid_text lib service_instance_id)),
                       (''generation'', JNumber (dq_generation query))]))) (\<lambda>hash.
     Ok \<lparr>dc_operation = \<lparr>op_idempotency_key = pc_jwt_id claims, op_organization_id = pc_organization_id claims,
            op_project_id = pc_project_id claims, op_service_instance_id = service_instance_id,
            op_principal_id = pc_subject claims, op_action = PROVIDER_DELETE_ACTION,
            op_generation = Some (dq_generation query), op_request_hash = hash\<rparr>,
          dc_generation = dq_generation query\<rparr>)))))"

definition delete_failure ::
  "'k route_library \<Rightarrow> ('g, 'k) app_state \<Rightarrow> 'g handler_env \<Rightarrow> headers \<Rightarrow> delete_command \<Rightarrow> uuid \<Rightarrow> string
     \<Rightarrow> garage_backend_error \<Rightarrow> ('g surroundings, api_error, 'a) eff" where
  "delete_failure lib app env headers command operation_id phase e =
     persist_backend_failure lib app env (dc_operation command) operation_id e
       (service_audit lib env headers (dc_operation command)
         (json_object [(''generation'', JNumber (dc_generation command)), (''phase'', JString phase)]))"

definition check_usage ::
  "'k route_library \<Rightarrow> ('g, 'k) app_state \<Rightarrow> 'g handler_env \<Rightarrow> headers \<Rightarrow> delete_command \<Rightarrow> uuid \<Rightarrow> string
     \<Rightarrow> ('g surroundings, api_error, bucket_usage) eff" where
  "check_usage lib app env headers command operation_id physical_bucket_id =
     eff_match (call_garage env (BucketUsageCall physical_bucket_id)
         (be_bucket_usage (as_garage app) physical_bucket_id))
       (\<lambda>r. case r of
          Ok usage \<Rightarrow> eff_return usage
        | Err (garage_backend_error.NotFound _) \<Rightarrow> eff_return usage_default
        | Err e \<Rightarrow> delete_failure lib app env headers command operation_id ''usage_check'' e)"

definition refuse_nonempty_bucket ::
  "'k route_library \<Rightarrow> ('g, 'k) app_state \<Rightarrow> 'g handler_env \<Rightarrow> headers \<Rightarrow> delete_command \<Rightarrow> uuid \<Rightarrow> bucket_usage
     \<Rightarrow> ('g surroundings, api_error, unit) eff" where
  "refuse_nonempty_bucket lib app env headers command operation_id usage =
     (if bucket_is_empty usage then eff_return ()
      else
        let e = conflict ''bucket_not_empty''
              ''service bucket must contain no objects or unfinished uploads before deletion'' in
        eff_bind (persist_failure lib app env (dc_operation command) operation_id e
          (service_audit lib env headers (dc_operation command) (json_object
            [(''generation'', JNumber (dc_generation command)), (''bytes'', JNumber (uint (bu_bytes usage))),
             (''objects'', JNumber (uint (bu_objects usage))),
             (''unfinished_upload_bytes'', JNumber (uint (bu_unfinished_upload_bytes usage))),
             (''unfinished_uploads'', JNumber (uint (bu_unfinished_uploads usage)))]))) (\<lambda>_.
        eff_throw e))"

definition revoke_service_key ::
  "'k route_library \<Rightarrow> ('g, 'k) app_state \<Rightarrow> 'g handler_env \<Rightarrow> headers \<Rightarrow> delete_command \<Rightarrow> uuid \<Rightarrow> string
     \<Rightarrow> ('g surroundings, api_error, unit) eff" where
  "revoke_service_key lib app env headers command operation_id garage_key_id =
     eff_bind (renew app env (dc_operation command) operation_id) (\<lambda>_.
     eff_match (call_garage env (\<lambda>r. RevokeKeyCall garage_key_id (is_ok r))
         (be_revoke_credential (as_garage app) garage_key_id))
       (\<lambda>r. case r of
          Ok _ \<Rightarrow> eff_return ()
        | Err e \<Rightarrow> delete_failure lib app env headers command operation_id ''key_revocation'' e))"

definition remove_bucket ::
  "'k route_library \<Rightarrow> ('g, 'k) app_state \<Rightarrow> 'g handler_env \<Rightarrow> headers \<Rightarrow> delete_command \<Rightarrow> uuid \<Rightarrow> string
     \<Rightarrow> ('g surroundings, api_error, unit) eff" where
  "remove_bucket lib app env headers command operation_id physical_bucket_id =
     eff_bind (renew app env (dc_operation command) operation_id) (\<lambda>_.
     eff_match (call_garage env (\<lambda>r. DeleteBucketCall physical_bucket_id (is_ok r))
         (be_delete_bucket (as_garage app) physical_bucket_id))
       (\<lambda>r. case r of
          Ok _ \<Rightarrow> eff_return ()
        | Err e \<Rightarrow> delete_failure lib app env headers command operation_id ''bucket_deletion'' e))"

definition complete_deletion ::
  "'k route_library \<Rightarrow> ('g, 'k) app_state \<Rightarrow> 'g handler_env \<Rightarrow> headers \<Rightarrow> delete_command \<Rightarrow> uuid
     \<Rightarrow> ('g surroundings, api_error, http_reply) eff" where
  "complete_deletion lib app env headers command operation_id =
     eff_bind (eff_lift (request_generation (dc_generation command))) (\<lambda>observed_generation.
     eff_bind (eff_lift (success_response 200 (rl_provider_response lib \<lparr>po_operation_id = operation_id,
       po_status = \<lparr>st_observed_generation = observed_generation, st_phase = Deleted,
         st_backend_bucket_id = None, st_endpoint = None, st_usage = usage_default, st_message = None,
         st_updated_at = he_now env\<rparr>\<rparr>))) (\<lambda>stored.
     eff_bind (store_or_fail env (\<lambda>r. CompleteCall (dc_operation command) operation_id stored (is_ok r))
       (rp_complete_delete (as_store app) command operation_id stored
         (service_audit lib env headers (dc_operation command)
           (json_object [(''generation'', JNumber (dc_generation command))])))) (\<lambda>_.
     eff_lift (stored_into_response lib stored))))"

definition execute_delete ::
  "'k route_library \<Rightarrow> ('g, 'k) app_state \<Rightarrow> 'g handler_env \<Rightarrow> headers \<Rightarrow> delete_command
     \<Rightarrow> ('g surroundings, api_error, http_reply) eff" where
  "execute_delete lib app env headers command =
     eff_bind (store_or_fail env (\<lambda>r. PrepareCall (dc_operation command) (is_ok r))
       (rp_prepare_delete (as_store app) command)) (\<lambda>prepared.
     case prepared of
       Execute operation_id ctx \<Rightarrow>
         eff_bind (eff_lift (ok_or (br_physical_bucket_id (dx_bucket ctx)) internal)) (\<lambda>physical_bucket_id.
         eff_bind (renew app env (dc_operation command) operation_id) (\<lambda>_.
         eff_bind (check_usage lib app env headers command operation_id physical_bucket_id) (\<lambda>usage.
         eff_bind (refuse_nonempty_bucket lib app env headers command operation_id usage) (\<lambda>_.
         eff_bind (eff_for (dx_garage_key_ids ctx)
           (revoke_service_key lib app env headers command operation_id)) (\<lambda>_.
         eff_bind (remove_bucket lib app env headers command operation_id physical_bucket_id) (\<lambda>_.
         complete_deletion lib app env headers command operation_id))))))
     | other \<Rightarrow> eff_lift (prepared_response lib other))"

definition delete_service_instance ::
  "'k route_library \<Rightarrow> ('g, 'k) app_state \<Rightarrow> 'g handler_env \<Rightarrow> string + uuid \<Rightarrow> string + delete_query
     \<Rightarrow> headers \<Rightarrow> ('g surroundings, api_error, http_reply) eff" where
  "delete_service_instance lib app env path query headers =
     eff_bind (eff_lift (admit_delete lib app env path query headers)) (execute_delete lib app env headers)"

section \<open>Reading\<close>

definition service_overview_handler ::
  "'k route_library \<Rightarrow> ('g, 'k) app_state \<Rightarrow> 'g handler_env \<Rightarrow> headers
     \<Rightarrow> ('g surroundings, api_error, service_overview_response) eff" where
  "service_overview_handler lib app env headers =
     eff_bind (eff_lift (authorize lib app env headers OVERVIEW_READ_PERMISSION)) (\<lambda>p.
     eff_bind (store_or_fail env (\<lambda>r. ReadCall (is_ok r)) (rp_service_overview (as_store app)
       (ss_organization_id (pr_scope p)) (ss_project_id (pr_scope p)) (ss_service_instance_id (pr_scope p)))) (\<lambda>record.
     eff_bind (store_or_fail env (\<lambda>r. ReadCall (is_ok r)) (rp_list_credentials (as_store app)
       (ss_organization_id (pr_scope p)) (ss_project_id (pr_scope p)) (ss_service_instance_id (pr_scope p)))) (\<lambda>credentials.
     eff_bind (eff_lift (map_err (\<lambda>_. internal) (phase_from_str (sr_phase record)))) (\<lambda>phase.
     eff_bind (record_read_audit lib app env p headers ''service.overview.read'' ''service_instance'') (\<lambda>_.
     eff_return \<lparr>so_service_instance_id = sr_id record, so_name = sr_name record,
       so_region = br_region (sr_bucket record), so_bucket_name = br_bucket_name (sr_bucket record),
       so_phase = phase, so_endpoint = rl_url_to_string lib (as_s3_endpoint app),
       so_quota = \<lparr>bq_bytes = br_quota_bytes (sr_bucket record), bq_objects = br_quota_objects (sr_bucket record)\<rparr>,
       so_usage = usage_default\<lparr>bu_bytes := br_used_bytes (sr_bucket record),
         bu_objects := br_used_objects (sr_bucket record)\<rparr>,
       so_active_credentials =
         (let n = length (filter (\<lambda>c. ce_status c = ''active'') credentials) in
          if n < 2 ^ 64 then word_of_nat n else - 1),
       so_measured_at = (case br_usage_measured_at (sr_bucket record) of None \<Rightarrow> he_now env | Some t \<Rightarrow> t)\<rparr>)))))"

definition service_usage_handler ::
  "'k route_library \<Rightarrow> ('g, 'k) app_state \<Rightarrow> 'g handler_env \<Rightarrow> headers
     \<Rightarrow> ('g surroundings, api_error, usage_response) eff" where
  "service_usage_handler lib app env headers =
     eff_bind (eff_lift (authorize lib app env headers USAGE_READ_PERMISSION)) (\<lambda>p.
     eff_bind (store_or_fail env (\<lambda>r. ReadCall (is_ok r)) (rp_service_overview (as_store app)
       (ss_organization_id (pr_scope p)) (ss_project_id (pr_scope p)) (ss_service_instance_id (pr_scope p)))) (\<lambda>service.
     eff_bind (eff_lift (ok_or (br_physical_bucket_id (sr_bucket service)) internal)) (\<lambda>physical_bucket_id.
     eff_bind (eff_map_err api_error_from_backend (call_garage env (BucketUsageCall physical_bucket_id)
       (be_bucket_usage (as_garage app) physical_bucket_id))) (\<lambda>usage.
     eff_bind (store_or_fail env (\<lambda>r. RecordUsageCall (is_ok r)) (rp_record_usage (as_store app)
       (ss_organization_id (pr_scope p)) (ss_project_id (pr_scope p)) (ss_service_instance_id (pr_scope p))
       (bu_bytes usage) (bu_objects usage) (he_now env))) (\<lambda>stored.
     eff_bind (record_read_audit lib app env p headers ''usage.read'' ''bucket'') (\<lambda>_.
     eff_return \<lparr>uo_service_instance_id = ur_service_instance_id stored, uo_bytes_used = ur_bytes_used stored,
       uo_objects_used = ur_objects_used stored, uo_unfinished_upload_bytes = bu_unfinished_upload_bytes usage,
       uo_unfinished_uploads = bu_unfinished_uploads usage, uo_quota_bytes = ur_quota_bytes stored,
       uo_quota_objects = ur_quota_objects stored, uo_measured_at = ur_measured_at stored\<rparr>))))))"

definition list_credentials_handler ::
  "'k route_library \<Rightarrow> ('g, 'k) app_state \<Rightarrow> 'g handler_env \<Rightarrow> headers
     \<Rightarrow> ('g surroundings, api_error, credential_list_response) eff" where
  "list_credentials_handler lib app env headers =
     eff_bind (eff_lift (authorize lib app env headers CREDENTIAL_READ_PERMISSION)) (\<lambda>p.
     eff_bind (store_or_fail env (\<lambda>r. ReadCall (is_ok r)) (rp_list_credentials (as_store app)
       (ss_organization_id (pr_scope p)) (ss_project_id (pr_scope p)) (ss_service_instance_id (pr_scope p)))) (\<lambda>credentials.
     eff_bind (record_read_audit lib app env p headers ''credential.list'' ''credential'') (\<lambda>_.
     eff_return \<lparr>lr_credentials = map credential_response_from credentials\<rparr>)))"

section \<open>Credentials\<close>

definition admit_create ::
  "'k route_library \<Rightarrow> ('g, 'k) app_state \<Rightarrow> 'g handler_env \<Rightarrow> headers \<Rightarrow> string + create_credential_request
     \<Rightarrow> api_error + principal \<times> create_credential_command" where
  "admit_create lib app env headers body =
     try_bind (strict body) (\<lambda>request.
     try_bind (authorize lib app env headers CREDENTIAL_CREATE_PERMISSION) (\<lambda>p.
     try_bind (map_err (\<lambda>e. bad_request (validation_error_to_string e))
       (credential_spec_validate \<lparr>cs_name = cq_name request, cs_permissions = cq_permissions request\<rparr>)) (\<lambda>_.
     try_bind (public_idempotency_key lib headers) (\<lambda>idempotency_key.
     try_bind (map_err api_error_from_store
       (request_hash (rl_sha256 lib) (rl_json_to_vec lib) CREDENTIAL_CREATE_ACTION
         (json_object [(''request'', rl_create_request_value lib request),
                       (''credential_limits'', rl_limits_value lib (pr_credential_limits p))]))) (\<lambda>hash.
     Ok (p, \<lparr>cc_operation = principal_operation p idempotency_key CREDENTIAL_CREATE_ACTION hash,
          cc_name = cq_name request, cc_permissions = cq_permissions request,
          cc_credential_limits = pr_credential_limits p\<rparr>))))))"

definition credential_audit ::
  "'k route_library \<Rightarrow> 'g handler_env \<Rightarrow> headers \<Rightarrow> principal \<Rightarrow> operation_request \<Rightarrow> uuid \<Rightarrow> json \<Rightarrow> audit_event" where
  "credential_audit lib env headers p operation credential_id details =
     audit_for_operation operation (Some (pr_context_id p)) (request_id lib env headers) ''credential''
       (Some (uuid_text lib credential_id)) details"

definition deterministic_name :: "'k route_library \<Rightarrow> principal \<Rightarrow> uuid \<Rightarrow> string" where
  "deterministic_name lib p credential_id =
     ''syouyu-'' @ uuid_text lib (ss_service_instance_id (pr_scope p)) @ ''-'' @ uuid_text lib credential_id"

definition issue_key ::
  "'k route_library \<Rightarrow> ('g, 'k) app_state \<Rightarrow> 'g handler_env \<Rightarrow> headers \<Rightarrow> principal \<Rightarrow> create_credential_command
     \<Rightarrow> uuid \<Rightarrow> create_credential_context \<Rightarrow> string \<Rightarrow> ('g surroundings, api_error, issued_credential) eff" where
  "issue_key lib app env headers p command operation_id ctx physical_bucket_id =
     eff_match (call_garage env
         (CreateKeyCall physical_bucket_id (deterministic_name lib p (cx_credential_id ctx)) (cc_permissions command))
         (be_create_credential (as_garage app) physical_bucket_id
           (deterministic_name lib p (cx_credential_id ctx)) (cc_permissions command)))
       (\<lambda>r. case r of
          Ok issued \<Rightarrow> eff_return issued
        | Err e \<Rightarrow> persist_backend_failure lib app env (cc_operation command) operation_id e
            (credential_audit lib env headers p (cc_operation command) (cx_credential_id ctx)
              (json_object [(''name'', JString (cc_name command))])))"

definition issued_response ::
  "'k route_library \<Rightarrow> ('g, 'k) app_state \<Rightarrow> 'g handler_env \<Rightarrow> create_credential_command
     \<Rightarrow> create_credential_context \<Rightarrow> issued_credential \<Rightarrow> issued_credential_response" where
  "issued_response lib app env command ctx issued = \<lparr>ir_credential = \<lparr>cd_id = cx_credential_id ctx,
       cd_name = cc_name command, cd_access_key_id = ic_access_key_id issued,
       cd_permissions = cc_permissions command, cd_status = ''active'', cd_created_at = he_now env,
       cd_revoked_at = None\<rparr>,
     ir_secret_access_key = ic_secret_access_key issued, ir_bucket_name = br_bucket_name (cx_bucket ctx),
     ir_endpoint = rl_url_to_string lib (as_s3_endpoint app)\<rparr>"

definition new_credential_of ::
  "'k route_library \<Rightarrow> create_credential_command \<Rightarrow> create_credential_context \<Rightarrow> issued_credential \<Rightarrow> new_credential" where
  "new_credential_of lib command ctx issued = \<lparr>nc_id = cx_credential_id ctx,
     nc_garage_key_id = ic_garage_key_id issued, nc_access_key_id = ic_access_key_id issued,
     nc_secret_key_fingerprint = rl_sha256 lib (as_bytes (ic_secret_access_key issued)),
     nc_name = cc_name command, nc_permissions = cc_permissions command\<rparr>"

definition record_issued_key ::
  "'k route_library \<Rightarrow> ('g, 'k) app_state \<Rightarrow> 'g handler_env \<Rightarrow> headers \<Rightarrow> principal \<Rightarrow> create_credential_command
     \<Rightarrow> uuid \<Rightarrow> create_credential_context \<Rightarrow> issued_credential \<Rightarrow> stored_http_response
     \<Rightarrow> ('g surroundings, api_error, unit) eff" where
  "record_issued_key lib app env headers p command operation_id ctx issued stored =
     eff_match (call_store env (\<lambda>r. CompleteCall (cc_operation command) operation_id stored (is_ok r))
         (rp_complete_create_credential (as_store app) command operation_id (new_credential_of lib command ctx issued)
           stored (credential_audit lib env headers p (cc_operation command) (cx_credential_id ctx)
             (json_object [(''name'', JString (cc_name command)),
                (''permissions'', rl_permissions_value lib (cc_permissions command)),
                (''access_key_id'', JString (ic_access_key_id issued))]))))
       (\<lambda>r. case r of
          Ok _ \<Rightarrow> eff_return ()
        | Err (OperationLeaseLost j) \<Rightarrow>
            eff_match (call_garage env (\<lambda>r. RevokeKeyCall (ic_garage_key_id issued) (is_ok r))
              (be_revoke_credential (as_garage app) (ic_garage_key_id issued)))
            (\<lambda>_. eff_throw (api_error_from_store (OperationLeaseLost j)))
        | Err e \<Rightarrow> eff_throw (api_error_from_store e))"

definition execute_create ::
  "'k route_library \<Rightarrow> ('g, 'k) app_state \<Rightarrow> 'g handler_env \<Rightarrow> headers \<Rightarrow> principal \<Rightarrow> create_credential_command
     \<Rightarrow> ('g surroundings, api_error, http_reply) eff" where
  "execute_create lib app env headers p command =
     eff_bind (store_or_fail env (\<lambda>r. PrepareCall (cc_operation command) (is_ok r))
       (rp_prepare_create_credential (as_store app) command)) (\<lambda>prepared.
     case prepared of
       Execute operation_id ctx \<Rightarrow>
         eff_bind (eff_lift (ok_or (br_physical_bucket_id (cx_bucket ctx)) internal)) (\<lambda>physical_bucket_id.
         eff_bind (renew app env (cc_operation command) operation_id) (\<lambda>_.
         eff_bind (issue_key lib app env headers p command operation_id ctx physical_bucket_id) (\<lambda>issued.
         eff_bind (eff_lift (success_response 201
           (rl_issued_response lib (issued_response lib app env command ctx issued)))) (\<lambda>stored.
         eff_bind (record_issued_key lib app env headers p command operation_id ctx issued stored) (\<lambda>_.
         eff_lift (stored_into_response lib stored))))))
     | other \<Rightarrow> eff_lift (prepared_response lib other))"

definition create_credential ::
  "'k route_library \<Rightarrow> ('g, 'k) app_state \<Rightarrow> 'g handler_env \<Rightarrow> headers \<Rightarrow> string + create_credential_request
     \<Rightarrow> ('g surroundings, api_error, http_reply) eff" where
  "create_credential lib app env headers body =
     eff_bind (eff_lift (admit_create lib app env headers body)) (\<lambda>(p, command).
     execute_create lib app env headers p command)"

definition admit_revoke ::
  "'k route_library \<Rightarrow> ('g, 'k) app_state \<Rightarrow> 'g handler_env \<Rightarrow> string + uuid \<Rightarrow> headers
     \<Rightarrow> api_error + principal \<times> revoke_credential_command" where
  "admit_revoke lib app env path headers =
     try_bind (strict path) (\<lambda>credential_id.
     try_bind (authorize lib app env headers CREDENTIAL_REVOKE_PERMISSION) (\<lambda>p.
     try_bind (public_idempotency_key lib headers) (\<lambda>idempotency_key.
     try_bind (map_err api_error_from_store
       (request_hash (rl_sha256 lib) (rl_json_to_vec lib) CREDENTIAL_REVOKE_ACTION
         (json_object [(''credential_id'', JString (uuid_text lib credential_id))]))) (\<lambda>hash.
     Ok (p, \<lparr>vc_operation = principal_operation p idempotency_key CREDENTIAL_REVOKE_ACTION hash,
          vc_credential_id = credential_id\<rparr>)))))"

definition execute_revoke ::
  "'k route_library \<Rightarrow> ('g, 'k) app_state \<Rightarrow> 'g handler_env \<Rightarrow> headers \<Rightarrow> principal \<Rightarrow> revoke_credential_command
     \<Rightarrow> ('g surroundings, api_error, http_reply) eff" where
  "execute_revoke lib app env headers p command =
     eff_bind (store_or_fail env (\<lambda>r. PrepareCall (vc_operation command) (is_ok r))
       (rp_prepare_revoke_credential (as_store app) command)) (\<lambda>prepared.
     case prepared of
       Execute operation_id ctx \<Rightarrow>
         eff_bind (renew app env (vc_operation command) operation_id) (\<lambda>_.
         eff_bind (if vx_already_revoked ctx then eff_return ()
           else eff_match (call_garage env (\<lambda>r. RevokeKeyCall (vx_garage_key_id ctx) (is_ok r))
               (be_revoke_credential (as_garage app) (vx_garage_key_id ctx)))
             (\<lambda>r. case r of
                Ok _ \<Rightarrow> eff_return ()
              | Err e \<Rightarrow> persist_backend_failure lib app env (vc_operation command) operation_id e
                  (credential_audit lib env headers p (vc_operation command) (vc_credential_id command)
                    (json_object [])))) (\<lambda>_.
         eff_bind (eff_lift (success_response 200 (rl_revoked_response lib
           \<lparr>vr_credential_id = vc_credential_id command, vr_status = ''revoked''\<rparr>))) (\<lambda>stored.
         eff_bind (store_or_fail env (\<lambda>r. CompleteCall (vc_operation command) operation_id stored (is_ok r))
           (rp_complete_revoke_credential (as_store app) command operation_id stored
             (credential_audit lib env headers p (vc_operation command) (vc_credential_id command)
               (json_object [(''already_revoked'', JBool (vx_already_revoked ctx))])))) (\<lambda>_.
         eff_lift (stored_into_response lib stored)))))
     | other \<Rightarrow> eff_lift (prepared_response lib other))"

definition revoke_credential ::
  "'k route_library \<Rightarrow> ('g, 'k) app_state \<Rightarrow> 'g handler_env \<Rightarrow> string + uuid \<Rightarrow> headers
     \<Rightarrow> ('g surroundings, api_error, http_reply) eff" where
  "revoke_credential lib app env path headers =
     eff_bind (eff_lift (admit_revoke lib app env path headers)) (\<lambda>(p, command).
     execute_revoke lib app env headers p command)"

section \<open>Probes and the router\<close>

definition live :: "('g surroundings, api_error, json) eff" where
  "live = eff_return (json_object [(''status'', JString ''ok'')])"

definition ready :: "('g, 'k) app_state \<Rightarrow> 'g handler_env \<Rightarrow> ('g surroundings, api_error, json) eff" where
  "ready app env =
     eff_bind (store_or_fail env (\<lambda>r. StoreHealthCall (is_ok r)) (rp_health (as_store app))) (\<lambda>_.
     eff_bind (eff_map_err api_error_from_backend
       (call_garage env (\<lambda>r. GarageHealthCall (is_ok r)) (be_health (as_garage app)))) (\<lambda>_.
     eff_return (json_object [(''status'', JString ''ready'')])))"

definition metrics :: "(string \<times> string) \<times> string" where
  "metrics = ((''content-type'', ''text/plain; version=0.0.4; charset=utf-8''),
     ''# HELP syouyu_api_up Whether the Syouyu API process is running.'' @ [CHR 0x0A]
     @ ''# TYPE syouyu_api_up gauge'' @ [CHR 0x0A] @ ''syouyu_api_up 1'' @ [CHR 0x0A])"

text \<open>
  The routes with what the framework extracted for them: \<open>Err\<close> is a rejected path, query or body.
\<close>

datatype api_request =
    GetLive
  | GetReady
  | GetMetrics
  | PutServiceInstance "string + uuid" "string + reconcile_request"
  | DeleteServiceInstance "string + uuid" "string + delete_query"
  | GetServiceOverview
  | GetUsage
  | PostCredentials "string + create_credential_request"
  | GetCredentials
  | DeleteCredential "string + uuid"
  | OtherMethod
  | OtherPath

text \<open>
  The routing table. A path is the list of its segments; a path parameter matches one non-empty
  segment, and the handlers of GET routes answer HEAD too. \<open>None\<close> is the documentation service, which
  is a library.
\<close>

datatype http_method = GET | HEAD | POST | PUT | DELETE | OtherVerb

record extracted =
  ex_path :: "string \<Rightarrow> string + uuid"
  ex_query :: "string + delete_query"
  ex_reconcile :: "string + reconcile_request"
  ex_create :: "string + create_credential_request"

definition get_route :: "http_method \<Rightarrow> api_request \<Rightarrow> api_request" where
  "get_route verb request = (if verb = GET \<or> verb = HEAD then request else OtherMethod)"

definition dispatch :: "extracted \<Rightarrow> http_method \<Rightarrow> string list \<Rightarrow> api_request option" where
  "dispatch ex verb path =
     (if path = [''health'', ''live''] then Some (get_route verb GetLive)
      else if path = [''health'', ''ready''] then Some (get_route verb GetReady)
      else if path = [''metrics''] then Some (get_route verb GetMetrics)
      else if length path = 4 \<and> take 3 path = [''internal'', ''v1'', ''service-instances''] \<and> last path \<noteq> []
      then Some (case verb of
             PUT \<Rightarrow> PutServiceInstance (ex_path ex (last path)) (ex_reconcile ex)
           | DELETE \<Rightarrow> DeleteServiceInstance (ex_path ex (last path)) (ex_query ex)
           | _ \<Rightarrow> OtherMethod)
      else if path = [''v1'', ''service-overview''] then Some (get_route verb GetServiceOverview)
      else if path = [''v1'', ''usage''] then Some (get_route verb GetUsage)
      else if path = [''v1'', ''credentials'']
      then Some (if verb = POST then PostCredentials (ex_create ex) else get_route verb GetCredentials)
      else if length path = 3 \<and> take 2 path = [''v1'', ''credentials''] \<and> last path \<noteq> []
      then Some (if verb = DELETE then DeleteCredential (ex_path ex (last path)) else OtherMethod)
      else if take 1 path = [''docs''] \<or> path = [''openapi.json''] then None
      else Some OtherPath)"

datatype api_response =
    JsonReply json
  | TextReply "string \<times> string" string
  | StoredReply http_reply
  | OverviewReply service_overview_response
  | UsageReply usage_response
  | CredentialsReply credential_list_response

definition eff_map :: "('a \<Rightarrow> 'b) \<Rightarrow> ('s, 'e, 'a) eff \<Rightarrow> ('s, 'e, 'b) eff" where
  "eff_map f m = eff_bind m (\<lambda>a. eff_return (f a))"

fun router ::
  "'k route_library \<Rightarrow> ('g, 'k) app_state \<Rightarrow> 'g handler_env \<Rightarrow> headers \<Rightarrow> api_request
     \<Rightarrow> ('g surroundings, api_error, api_response) eff" where
  "router lib app env headers GetLive = eff_map JsonReply live"
| "router lib app env headers GetReady = eff_map JsonReply (ready app env)"
| "router lib app env headers GetMetrics = eff_return (TextReply (fst metrics) (snd metrics))"
| "router lib app env headers (PutServiceInstance path body) =
     eff_map StoredReply (reconcile_service_instance lib app env path headers body)"
| "router lib app env headers (DeleteServiceInstance path query) =
     eff_map StoredReply (delete_service_instance lib app env path query headers)"
| "router lib app env headers GetServiceOverview =
     eff_map OverviewReply (service_overview_handler lib app env headers)"
| "router lib app env headers GetUsage = eff_map UsageReply (service_usage_handler lib app env headers)"
| "router lib app env headers (PostCredentials body) =
     eff_map StoredReply (create_credential lib app env headers body)"
| "router lib app env headers GetCredentials =
     eff_map CredentialsReply (list_credentials_handler lib app env headers)"
| "router lib app env headers (DeleteCredential path) =
     eff_map StoredReply (revoke_credential lib app env path headers)"
| "router lib app env headers OtherMethod = eff_throw error_method_not_allowed"
| "router lib app env headers OtherPath = eff_throw error_not_found"

end
