(* ===== verification/Handler_Traces.thy ===== *)
theory Handler_Traces
  imports Handlers
begin

text \<open>
  What the handlers call and in which order. \<open>emits m P\<close> says that the computation \<open>m\<close> ends with a
  result and a list of new events related by \<open>P\<close>, whatever the store, Garage and the other processes
  do; it composes along \<open>?\<close>, \<open>match\<close> and loops.
\<close>

section \<open>Events of a computation\<close>

definition emits :: "('g surroundings, 'e, 'a) eff \<Rightarrow> ('e + 'a \<Rightarrow> event list \<Rightarrow> bool) \<Rightarrow> bool" where
  "emits m P \<longleftrightarrow> (\<forall>s. post m s (\<lambda>r s'. \<exists>es. su_events s' = su_events s @ es \<and> P r es))"

lemma emitsI: "(\<And>s. post m s (\<lambda>r s'. \<exists>es. su_events s' = su_events s @ es \<and> P r es)) \<Longrightarrow> emits m P"
  by (simp add: emits_def)

lemma emitsD: "emits m P \<Longrightarrow> post m s (\<lambda>r s'. \<exists>es. su_events s' = su_events s @ es \<and> P r es)"
  by (simp add: emits_def)

lemma emits_mono: "emits m P \<Longrightarrow> (\<And>r es. P r es \<Longrightarrow> Q r es) \<Longrightarrow> emits m Q"
  unfolding emits_def by (blast intro: post_mono)

lemma emits_run:
  assumes "emits m P" and "m s = (r, s')"
  obtains es where "su_events s' = su_events s @ es" "P r es"
  using emitsD [OF assms(1), of s] by (auto simp: post_def assms(2))

lemma emits_return: "P (Ok a) [] \<Longrightarrow> emits (eff_return a) P"
  by (simp add: emits_def post_simps)

lemma emits_throw: "P (Err e) [] \<Longrightarrow> emits (eff_throw e) P"
  by (simp add: emits_def post_simps)

lemma emits_lift: "P r [] \<Longrightarrow> emits (eff_lift r) P"
  by (simp add: emits_def post_simps)

lemma emits_match:
  fixes m :: "('g surroundings, 'e, 'a) eff"
  assumes "emits m P" and "\<And>r es. P r es \<Longrightarrow> emits (f r) (\<lambda>r' es'. Q r' (es @ es'))"
  shows "emits (eff_match m f) Q"
proof (rule emitsI, unfold post_match, rule post_mono [OF emitsD [OF assms(1)]], elim exE conjE)
  fix s s' :: "'g surroundings" and r es
  assume s': "su_events s' = su_events s @ es" and "P r es"
  then have "emits (f r) (\<lambda>r' es'. Q r' (es @ es'))" by (intro assms(2))
  from emitsD [OF this, of s']
  show "post (f r) s' (\<lambda>r s'. \<exists>es. su_events s' = su_events s @ es \<and> Q r es)"
    by (rule post_mono) (auto simp: s')
qed

lemma emits_bind:
  assumes "emits m P" and "\<And>e es. P (Err e) es \<Longrightarrow> Q (Err e) es"
    and "\<And>a es. P (Ok a) es \<Longrightarrow> emits (f a) (\<lambda>r' es'. Q r' (es @ es'))"
  shows "emits (eff_bind m f) Q"
  unfolding eff_bind_def
  by (rule emits_match [OF assms(1)]) (use assms(2,3) in \<open>auto split: sum.split intro: emits_throw\<close>)

lemma emits_map_err: "emits m (\<lambda>r. P (map_err g r)) \<Longrightarrow> emits (eff_map_err g m) P"
  by (simp add: emits_def post_simps)

lemma emits_store: "(\<And>r. P r [ev r]) \<Longrightarrow> emits (call_store env ev op) P"
  by (auto simp: emits_def post_def call_store_def split: prod.split)

lemma emits_garage: "(\<And>r. P r [ev r]) \<Longrightarrow> emits (call_garage env ev m) P"
  by (auto simp: emits_def post_def call_garage_def split: prod.split)

lemma emits_store_or_fail:
  "(\<And>a. P (Ok a) [ev (Ok a)]) \<Longrightarrow> (\<And>e. P (Err (api_error_from_store e)) [ev (Err e)])
     \<Longrightarrow> emits (store_or_fail env ev op) P"
  unfolding store_or_fail_def
proof (rule emits_map_err, rule emits_store)
  fix r assume "\<And>a. P (Ok a) [ev (Ok a)]" "\<And>e. P (Err (api_error_from_store e)) [ev (Err e)]"
  then show "P (map_err api_error_from_store r) [ev r]" by (cases r) simp_all
qed

section \<open>Events of the helpers\<close>

lemma emits_renew:
  "emits (renew app env operation i) (\<lambda>r es. es = [RenewCall operation i (is_ok r)])"
  unfolding renew_def by (rule emits_store_or_fail) simp_all

lemma emits_backend_failure:
  "emits (persist_backend_failure lib app env operation i e audit) (\<lambda>r es. \<exists>recorded answer.
     r = Err answer
     \<and> es = [FailCall operation i (stored_response (uuid_text lib) (api_error_from_backend e)) recorded]
     \<and> (recorded \<longrightarrow> answer = api_error_from_backend e)
     \<and> (\<not> recorded \<longrightarrow> (\<exists>s. answer = api_error_from_store s)))"
  unfolding persist_backend_failure_def Let_def
  by (rule emits_match [OF emits_store [where P = "\<lambda>r es. es = [FailCall operation i
        (stored_response (uuid_text lib) (api_error_from_backend e)) (is_ok r)]"]])
     (auto intro!: emits_throw split: sum.split)

lemma emits_failure:
  "emits (persist_failure lib app env operation i e audit)
     (\<lambda>r es. es = [FailCall operation i (stored_response (uuid_text lib) e) (is_ok r)])"
  unfolding persist_failure_def by (rule emits_store_or_fail) simp_all

section \<open>Deletion of a service\<close>

definition revocations :: "operation_request \<Rightarrow> uuid \<Rightarrow> string list \<Rightarrow> event list" where
  "revocations operation i keys = concat (map (\<lambda>k. [RenewCall operation i True, RevokeKeyCall k True]) keys)"

definition is_bucket_deletion :: "event \<Rightarrow> bool" where
  "is_bucket_deletion e = (case e of DeleteBucketCall _ _ \<Rightarrow> True | _ \<Rightarrow> False)"

definition found_empty :: "garage_backend_error + bucket_usage \<Rightarrow> bool" where
  "found_empty u = (case u of Ok usage \<Rightarrow> bucket_is_empty usage
     | Err e \<Rightarrow> (case e of garage_backend_error.NotFound _ \<Rightarrow> True | _ \<Rightarrow> False))"

definition deletion_trace ::
  "operation_request \<Rightarrow> uuid \<Rightarrow> string list \<Rightarrow> string \<Rightarrow> event list \<Rightarrow> bool" where
  "deletion_trace operation i keys b es \<longleftrightarrow>
     (\<exists>u deleted rest. es = [RenewCall operation i True, BucketUsageCall b u] @ revocations operation i keys
          @ [RenewCall operation i True, DeleteBucketCall b deleted] @ rest
        \<and> found_empty u \<and> \<not> list_ex is_bucket_deletion rest)"

lemma emits_delete_failure:
  "emits (delete_failure lib app env headers command i phase e)
     (\<lambda>r es. \<not> is_ok r \<and> \<not> list_ex is_bucket_deletion es)"
  unfolding delete_failure_def
  by (rule emits_mono [OF emits_backend_failure]) (auto simp: is_bucket_deletion_def split: if_splits)

lemma emits_check_usage:
  "emits (check_usage lib app env headers command i b) (\<lambda>r es. case r of
     Ok usage \<Rightarrow> \<exists>u. es = [BucketUsageCall b u] \<and> (bucket_is_empty usage \<longrightarrow> found_empty u)
   | Err _ \<Rightarrow> \<not> list_ex is_bucket_deletion es)"
  unfolding check_usage_def
proof (rule emits_match [OF emits_garage [where P = "\<lambda>r es. es = [BucketUsageCall b r]"]])
  fix r es assume "es = [BucketUsageCall b r]"
  then show "emits (case r of Ok usage \<Rightarrow> eff_return usage
        | Err (garage_backend_error.NotFound x) \<Rightarrow> eff_return usage_default
        | Err e \<Rightarrow> delete_failure lib app env headers command i ''usage_check'' e)
      (\<lambda>r' es'. case r' of
         Ok usage \<Rightarrow> \<exists>u. es @ es' = [BucketUsageCall b u] \<and> (bucket_is_empty usage \<longrightarrow> found_empty u)
       | Err _ \<Rightarrow> \<not> list_ex is_bucket_deletion (es @ es'))"
    by (auto split: sum.split garage_backend_error.split intro!: emits_return
        emits_mono [OF emits_delete_failure] simp: found_empty_def is_bucket_deletion_def)
qed simp

lemma emits_refuse:
  "emits (refuse_nonempty_bucket lib app env headers command i usage) (\<lambda>r es.
     if r = Ok () then es = [] \<and> bucket_is_empty usage else \<not> list_ex is_bucket_deletion es)"
  unfolding refuse_nonempty_bucket_def Let_def
  by (auto intro!: emits_return emits_throw emits_bind [OF emits_failure] simp: is_bucket_deletion_def)

lemma emits_revoke_key:
  "emits (revoke_service_key lib app env headers command i k) (\<lambda>r es.
     \<not> list_ex is_bucket_deletion es
     \<and> (r = Ok () \<longrightarrow> es = [RenewCall (dc_operation command) i True, RevokeKeyCall k True]))"
  unfolding revoke_service_key_def
proof (rule emits_bind [OF emits_renew], goal_cases)
  case (1 e es)
  then show ?case by (simp add: is_bucket_deletion_def)
next
  case (2 a es)
  show ?case
    by (rule emits_match [OF emits_garage [where P = "\<lambda>r es. es = [RevokeKeyCall k (is_ok r)]"]])
       (use 2 in \<open>auto split: sum.split intro!: emits_return emits_mono [OF emits_delete_failure]
          simp: is_bucket_deletion_def\<close>)
qed

lemma emits_revocations:
  "emits (eff_for keys (revoke_service_key lib app env headers command i)) (\<lambda>r es.
     \<not> list_ex is_bucket_deletion es \<and> (r = Ok () \<longrightarrow> es = revocations (dc_operation command) i keys))"
proof (induction keys)
  case Nil
  show ?case by (auto intro: emits_return simp: revocations_def)
next
  case (Cons k keys)
  show ?case
    unfolding eff_for.simps
    by (rule emits_bind [OF emits_revoke_key])
       (auto intro!: emits_mono [OF Cons.IH] simp: revocations_def)
qed

lemma emits_remove_bucket:
  "emits (remove_bucket lib app env headers command i b) (\<lambda>r es.
     \<not> list_ex is_bucket_deletion es
     \<or> (\<exists>deleted rest. es = [RenewCall (dc_operation command) i True, DeleteBucketCall b deleted] @ rest
          \<and> \<not> list_ex is_bucket_deletion rest))"
  unfolding remove_bucket_def
proof (rule emits_bind [OF emits_renew], goal_cases)
  case (1 e es)
  then show ?case by (simp add: is_bucket_deletion_def)
next
  case (2 a es)
  show ?case
    by (rule emits_match [OF emits_garage [where P = "\<lambda>r es. es = [DeleteBucketCall b (is_ok r)]"]])
       (use 2 in \<open>auto split: sum.split intro!: emits_return emits_mono [OF emits_delete_failure]\<close>)
qed

lemma emits_complete_deletion:
  "emits (complete_deletion lib app env headers command i) (\<lambda>r es. \<not> list_ex is_bucket_deletion es)"
  unfolding complete_deletion_def
  by (intro emits_bind [OF emits_lift [where P = "\<lambda>r es. es = []"]] emits_lift
      emits_bind [OF emits_store_or_fail [where P = "\<lambda>r es. \<not> list_ex is_bucket_deletion es"]])
     (simp_all add: is_bucket_deletion_def)

text \<open>What follows a granted prepare.\<close>

definition delete_granted ::
  "'k route_library \<Rightarrow> ('g, 'k) app_state \<Rightarrow> 'g handler_env \<Rightarrow> headers \<Rightarrow> delete_command \<Rightarrow> uuid
     \<Rightarrow> delete_context \<Rightarrow> ('g surroundings, api_error, http_reply) eff" where
  "delete_granted lib app env headers command operation_id ctx =
     eff_bind (eff_lift (ok_or (br_physical_bucket_id (dx_bucket ctx)) internal)) (\<lambda>physical_bucket_id.
     eff_bind (renew app env (dc_operation command) operation_id) (\<lambda>_.
     eff_bind (check_usage lib app env headers command operation_id physical_bucket_id) (\<lambda>usage.
     eff_bind (refuse_nonempty_bucket lib app env headers command operation_id usage) (\<lambda>_.
     eff_bind (eff_for (dx_garage_key_ids ctx)
       (revoke_service_key lib app env headers command operation_id)) (\<lambda>_.
     eff_bind (remove_bucket lib app env headers command operation_id physical_bucket_id) (\<lambda>_.
     complete_deletion lib app env headers command operation_id))))))"

lemma deletion_traceI:
  assumes "found_empty u" and "\<not> list_ex is_bucket_deletion rest"
  shows "deletion_trace operation i keys b (RenewCall operation i True # BucketUsageCall b u
     # revocations operation i keys @ RenewCall operation i True # DeleteBucketCall b deleted # rest)"
  using assms unfolding deletion_trace_def by auto

lemma emits_delete_granted:
  "emits (delete_granted lib app env headers command i ctx) (\<lambda>r es. list_ex is_bucket_deletion es \<longrightarrow>
     (\<exists>b. br_physical_bucket_id (dx_bucket ctx) = Some b
        \<and> deletion_trace (dc_operation command) i (dx_garage_key_ids ctx) b es))"
  unfolding delete_granted_def
proof (rule emits_bind [OF emits_lift [where P = "\<lambda>r es. es = [] \<and> r = ok_or (br_physical_bucket_id (dx_bucket ctx)) internal"]],
    simp, simp, elim conjE, goal_cases)
  case (1 b es0)
  note nd = is_bucket_deletion_def
  have b: "br_physical_bucket_id (dx_bucket ctx) = Some b"
    using 1(2) by (cases "br_physical_bucket_id (dx_bucket ctx)") simp_all
  show ?case
  proof (rule emits_bind [OF emits_renew], goal_cases)
    case renewed: (2 a es1)
    show ?case
    proof (rule emits_bind [OF emits_check_usage], goal_cases)
      case checked: (2 usage es2)
      show ?case
      proof (rule emits_bind [OF emits_refuse], goal_cases)
        case empty: (2 u es3)
        show ?case
        proof (rule emits_bind [OF emits_revocations], goal_cases)
          case revoked: (2 u es4)
          show ?case
          proof (rule emits_bind [OF emits_remove_bucket], goal_cases)
            case removed: (2 u es5)
            show ?case
              by (rule emits_mono [OF emits_complete_deletion])
                 (use 1 renewed checked empty revoked removed in
                   \<open>auto simp: nd b intro!: deletion_traceI\<close>)
          qed (use 1 renewed checked empty revoked in \<open>auto simp: nd b intro!: deletion_traceI\<close>)
        qed (use 1 renewed checked empty in \<open>auto simp: nd\<close>)
      qed (use 1 renewed checked in \<open>auto simp: nd split: if_splits\<close>)
    qed (use 1 renewed in \<open>auto simp: nd\<close>)
  qed (use 1 in \<open>auto simp: nd\<close>)
qed

text \<open>The database a call finds: other processes acted before it.\<close>

definition seen_db :: "'g handler_env \<Rightarrow> 'g surroundings \<Rightarrow> database" where
  "seen_db env s = fst (he_others env (su_calls s) (su_db s, su_garage s))"

lemma post_store_or_fail:
  "post (store_or_fail env ev op) s Q \<longleftrightarrow>
     (case op (he_pg env (su_calls s)) (seen_db env s) of (r, db') \<Rightarrow>
        Q (map_err api_error_from_store r) \<lparr>su_db = db',
          su_garage = snd (he_others env (su_calls s) (su_db s, su_garage s)),
          su_calls = Suc (su_calls s), su_events = su_events s @ [ev r]\<rparr>)"
  by (simp add: post_def store_or_fail_def eff_map_err_def eff_match_def eff_lift_def call_store_def seen_db_def
      split: prod.split)

lemma execute_delete_post:
  "post (execute_delete lib app env headers command) s (\<lambda>r s'. \<exists>es. su_events s' = su_events s @ es
     \<and> (list_ex is_bucket_deletion es \<longrightarrow>
          (\<exists>i ctx db' b rest. rp_prepare_delete (as_store app) command (he_pg env (su_calls s)) (seen_db env s)
               = (Ok (Execute i ctx), db')
             \<and> br_physical_bucket_id (dx_bucket ctx) = Some b
             \<and> es = PrepareCall (dc_operation command) True # rest
             \<and> deletion_trace (dc_operation command) i (dx_garage_key_ids ctx) b rest)))"
proof -
  obtain r0 db0 where prepared: "rp_prepare_delete (as_store app) command (he_pg env (su_calls s)) (seen_db env s)
      = (r0, db0)" by fastforce
  show ?thesis
  proof (cases "\<exists>i ctx. r0 = Ok (Execute i ctx)")
    case True
    then obtain i ctx where granted: "r0 = Ok (Execute i ctx)" by blast
    show ?thesis
      unfolding execute_delete_def post_bind post_store_or_fail prepared granted prod.case map_err_simps sum.case
        prepare.case delete_granted_def [symmetric]
      by (rule post_mono [OF emitsD [OF emits_delete_granted]]) (use granted in \<open>auto simp: is_bucket_deletion_def\<close>)
  next
    case False
    then show ?thesis
      unfolding execute_delete_def post_bind post_store_or_fail prepared prod.case
      by (cases r0) (auto simp: post_simps is_bucket_deletion_def split: prepare.split)
  qed
qed

section \<open>Creation of a credential\<close>

definition create_granted ::
  "'k route_library \<Rightarrow> ('g, 'k) app_state \<Rightarrow> 'g handler_env \<Rightarrow> headers \<Rightarrow> principal \<Rightarrow> create_credential_command
     \<Rightarrow> uuid \<Rightarrow> create_credential_context \<Rightarrow> ('g surroundings, api_error, http_reply) eff" where
  "create_granted lib app env headers p command operation_id ctx =
     eff_bind (eff_lift (ok_or (br_physical_bucket_id (cx_bucket ctx)) internal)) (\<lambda>physical_bucket_id.
     eff_bind (renew app env (cc_operation command) operation_id) (\<lambda>_.
     eff_bind (issue_key lib app env headers p command operation_id ctx physical_bucket_id) (\<lambda>issued.
     eff_bind (eff_lift (success_response 201
       (rl_issued_response lib (issued_response lib app env command ctx issued)))) (\<lambda>stored.
     eff_bind (record_issued_key lib app env headers p command operation_id ctx issued stored) (\<lambda>_.
     eff_lift (stored_into_response lib stored))))))"

text \<open>
  The possible courses of a granted creation: nothing was asked of Garage; Garage refused and the
  refusal was offered to the receipt; a key was issued and then recorded, or not recorded and, if the
  lease was lost, revoked again.
\<close>

inductive creation_course ::
  "'k route_library \<Rightarrow> ('g, 'k) app_state \<Rightarrow> 'g handler_env \<Rightarrow> principal \<Rightarrow> create_credential_command
     \<Rightarrow> uuid \<Rightarrow> create_credential_context \<Rightarrow> api_error + http_reply \<Rightarrow> event list \<Rightarrow> bool"
  for lib app env p command i ctx where
  no_bucket: "br_physical_bucket_id (cx_bucket ctx) = None \<Longrightarrow>
     creation_course lib app env p command i ctx (Err internal) []"
| not_renewed: "creation_course lib app env p command i ctx (Err e) [RenewCall (cc_operation command) i False]"
| refused: "br_physical_bucket_id (cx_bucket ctx) = Some b \<Longrightarrow>
     (recorded \<Longrightarrow> answer = api_error_from_backend e) \<Longrightarrow>
     (\<not> recorded \<Longrightarrow> \<exists>s. answer = api_error_from_store s) \<Longrightarrow>
     creation_course lib app env p command i ctx (Err answer)
       [RenewCall (cc_operation command) i True,
        CreateKeyCall b (deterministic_name lib p (cx_credential_id ctx)) (cc_permissions command) (Err e),
        FailCall (cc_operation command) i (stored_response (uuid_text lib) (api_error_from_backend e)) recorded]"
| not_encoded: "br_physical_bucket_id (cx_bucket ctx) = Some b \<Longrightarrow>
     rl_issued_response lib (issued_response lib app env command ctx issued) = None \<Longrightarrow>
     creation_course lib app env p command i ctx (Err internal)
       [RenewCall (cc_operation command) i True,
        CreateKeyCall b (deterministic_name lib p (cx_credential_id ctx)) (cc_permissions command) (Ok issued)]"
| recorded: "br_physical_bucket_id (cx_bucket ctx) = Some b \<Longrightarrow>
     rl_issued_response lib (issued_response lib app env command ctx issued) = Some body \<Longrightarrow>
     stored = \<lparr>sh_status = 201, sh_body = body, sh_failed = False\<rparr> \<Longrightarrow>
     creation_course lib app env p command i ctx (stored_into_response lib stored)
       [RenewCall (cc_operation command) i True,
        CreateKeyCall b (deterministic_name lib p (cx_credential_id ctx)) (cc_permissions command) (Ok issued),
        CompleteCall (cc_operation command) i stored True]"
| not_recorded: "br_physical_bucket_id (cx_bucket ctx) = Some b \<Longrightarrow>
     (\<And>j. e \<noteq> OperationLeaseLost j) \<Longrightarrow>
     creation_course lib app env p command i ctx (Err (api_error_from_store e))
       [RenewCall (cc_operation command) i True,
        CreateKeyCall b (deterministic_name lib p (cx_credential_id ctx)) (cc_permissions command) (Ok issued),
        CompleteCall (cc_operation command) i stored False]"
| fenced: "br_physical_bucket_id (cx_bucket ctx) = Some b \<Longrightarrow>
     creation_course lib app env p command i ctx (Err (operation_in_progress j))
       [RenewCall (cc_operation command) i True,
        CreateKeyCall b (deterministic_name lib p (cx_credential_id ctx)) (cc_permissions command) (Ok issued),
        CompleteCall (cc_operation command) i stored False,
        RevokeKeyCall (ic_garage_key_id issued) revoked]"

lemma emits_issue_key:
  "emits (issue_key lib app env headers p command i ctx b) (\<lambda>r es. case r of
     Ok issued \<Rightarrow> es = [CreateKeyCall b (deterministic_name lib p (cx_credential_id ctx)) (cc_permissions command) (Ok issued)]
   | Err answer \<Rightarrow> \<exists>e recorded. es =
        [CreateKeyCall b (deterministic_name lib p (cx_credential_id ctx)) (cc_permissions command) (Err e),
         FailCall (cc_operation command) i (stored_response (uuid_text lib) (api_error_from_backend e)) recorded]
      \<and> (recorded \<longrightarrow> answer = api_error_from_backend e)
      \<and> (\<not> recorded \<longrightarrow> (\<exists>s. answer = api_error_from_store s)))"
  unfolding issue_key_def
proof (rule emits_match [OF emits_garage [where P = "\<lambda>r es. es =
      [CreateKeyCall b (deterministic_name lib p (cx_credential_id ctx)) (cc_permissions command) r]"]], simp, goal_cases)
  case (1 r es)
  show ?case
  proof (cases r)
    case (Inl e)
    show ?thesis
      unfolding Inl sum.case
    proof (rule emits_mono [OF emits_backend_failure], elim exE conjE, goal_cases)
      case (1 r' es' recorded answer)
      then show ?case
        unfolding \<open>es = _\<close> Inl by (intro exI [of _ e] exI [of _ recorded] | simp)+
    qed
  next
    case (Inr issued)
    with 1 show ?thesis by (auto intro: emits_return)
  qed
qed

lemma emits_record_issued_key:
  "emits (record_issued_key lib app env headers p command i ctx issued stored) (\<lambda>r es. case r of
     Ok _ \<Rightarrow> es = [CompleteCall (cc_operation command) i stored True]
   | Err answer \<Rightarrow>
       (\<exists>e. (\<forall>j. e \<noteq> OperationLeaseLost j) \<and> answer = api_error_from_store e
            \<and> es = [CompleteCall (cc_operation command) i stored False])
       \<or> (\<exists>j revoked. answer = operation_in_progress j
            \<and> es = [CompleteCall (cc_operation command) i stored False, RevokeKeyCall (ic_garage_key_id issued) revoked]))"
  unfolding record_issued_key_def
proof (rule emits_match [OF emits_store [where P = "\<lambda>r es. es =
      [CompleteCall (cc_operation command) i stored (is_ok r)]"]], simp, goal_cases)
  case (1 r es)
  show ?case
  proof (cases "\<exists>j. r = Err (OperationLeaseLost j)")
    case True
    then obtain j where j: "r = Err (OperationLeaseLost j)" by blast
    show ?thesis
      unfolding j sum.case store_error.case
      by (rule emits_match [OF emits_garage [where P = "\<lambda>r es. es = [RevokeKeyCall (ic_garage_key_id issued) (is_ok r)]"]])
         (use 1 j in \<open>auto intro!: emits_throw simp: api_error_from_store_def\<close>)
  next
    case False
    with 1 show ?thesis
      by (cases r) (auto intro!: emits_return emits_throw split: store_error.split)
  qed
qed

lemma emits_create_granted:
  "emits (create_granted lib app env headers p command i ctx) (creation_course lib app env p command i ctx)"
proof (cases "br_physical_bucket_id (cx_bucket ctx)")
  case None
  then show ?thesis
    unfolding create_granted_def
    by (auto intro!: emits_bind [OF emits_lift [where P = "\<lambda>r es. r = Err internal \<and> es = []"]] no_bucket)
next
  case (Some b)
  show ?thesis
    unfolding create_granted_def Some
  proof (rule emits_bind [OF emits_lift [where P = "\<lambda>r es. r = Ok b \<and> es = []"]], simp, simp, goal_cases)
    case (1 a es0)
    show ?case
    proof (rule emits_bind [OF emits_renew], goal_cases)
      case renewed: (2 u es1)
      show ?case
      proof (rule emits_bind [OF emits_issue_key], goal_cases)
        case (1 answer es2)
        then show ?case using \<open>Ok a = Ok b \<and> es0 = []\<close> renewed Some by (auto intro!: creation_course.intros split: if_splits)
      next
        case issued: (2 issued es2)
        note start = \<open>Ok a = Ok b \<and> es0 = []\<close> renewed
        show ?case
        proof (cases "rl_issued_response lib (issued_response lib app env command ctx issued)")
          case None
          then show ?thesis
            using start issued Some
            by (auto simp: success_response_def intro!: emits_throw creation_course.not_encoded
                emits_bind [OF emits_lift [where P = "\<lambda>r es. r = Err internal \<and> es = []"]])
        next
          case body: (Some body)
          show ?thesis
            unfolding body success_response_def ok_or_simps try_bind_simps
          proof (rule emits_bind [OF emits_lift [where P = "\<lambda>r es. r = Ok \<lparr>sh_status = 201, sh_body = body, sh_failed = False\<rparr> \<and> es = []"]],
              simp, simp, goal_cases)
            case (1 stored es3)
            show ?case
              by (rule emits_bind [OF emits_record_issued_key])
                 (use 1 start issued Some body in \<open>auto intro!: emits_lift creation_course.intros\<close>)
          qed
        qed
      qed
    qed (use 1 in \<open>auto intro: not_renewed\<close>)
  qed
qed

text \<open>A creation is a replay, a refusal at once, or a granted course.\<close>

lemma execute_create_post:
  "post (execute_create lib app env headers p command) s (\<lambda>r s'.
     case rp_prepare_create_credential (as_store app) command (he_pg env (su_calls s)) (seen_db env s) of
       (Ok (Execute i ctx), _) \<Rightarrow> (\<exists>es. su_events s' = su_events s @ PrepareCall (cc_operation command) True # es
          \<and> creation_course lib app env p command i ctx r es)
     | (Ok (Replay stored), db') \<Rightarrow> su_events s' = su_events s @ [PrepareCall (cc_operation command) True]
          \<and> su_db s' = db' \<and> r = stored_into_response lib stored
     | (Ok (InProgress i), db') \<Rightarrow> su_events s' = su_events s @ [PrepareCall (cc_operation command) True]
          \<and> r = Err (operation_in_progress i)
     | (Err e, db') \<Rightarrow> su_events s' = su_events s @ [PrepareCall (cc_operation command) False]
          \<and> r = Err (api_error_from_store e))"
proof -
  obtain r0 db0 where prepared: "rp_prepare_create_credential (as_store app) command (he_pg env (su_calls s))
      (seen_db env s) = (r0, db0)" by fastforce
  show ?thesis
  proof (cases "\<exists>i ctx. r0 = Ok (Execute i ctx)")
    case True
    then obtain i ctx where granted: "r0 = Ok (Execute i ctx)" by blast
    show ?thesis
      unfolding execute_create_def post_bind post_store_or_fail prepared granted prod.case map_err_simps sum.case
        prepare.case create_granted_def [symmetric]
      by (rule post_mono [OF emitsD [OF emits_create_granted]]) simp
  next
    case False
    then show ?thesis
      unfolding execute_create_def post_bind post_store_or_fail prepared prod.case
      by (cases r0) (auto simp: post_simps split: prepare.split)
  qed
qed

lemma create_credential_admitted:
  "admit_create lib app env headers body = Ok (p, command) \<Longrightarrow>
     create_credential lib app env headers body s = execute_create lib app env headers p command s"
  by (simp add: create_credential_def eff_bind_def eff_match_def eff_lift_def)

section \<open>Who may call\<close>

text \<open>
  What a request must carry before anything is called: a verified provider token for the action and
  the service of the path, bound to the idempotency key, or a principal with the permission of the
  route. The health and metrics routes and the fallbacks read no credentials, so nothing that a request
  carries makes it trusted there.
\<close>

definition provider_trusted ::
  "'k route_library \<Rightarrow> ('g, 'k) app_state \<Rightarrow> 'g handler_env \<Rightarrow> headers \<Rightarrow> string \<Rightarrow> string + uuid \<Rightarrow> bool" where
  "provider_trusted lib app env headers action path \<longleftrightarrow> (\<exists>claims.
     authenticate_headers_for_action (rl_jwt lib) (as_provider_auth app) (he_clock env) headers action = Ok claims
     \<and> require_idempotency_key (rl_jwt lib) headers (pc_jwt_id claims) = Ok ()
     \<and> path = Ok (pc_service_instance_id claims))"

definition principal_trusted ::
  "'k route_library \<Rightarrow> ('g, 'k) app_state \<Rightarrow> 'g handler_env \<Rightarrow> headers \<Rightarrow> string \<Rightarrow> bool" where
  "principal_trusted lib app env headers permission \<longleftrightarrow> (\<exists>p.
     principal_authenticate (rl_principal lib) (as_principal_auth app) (he_clock env 0) headers = Ok p
     \<and> permission \<in> pr_permissions p)"

fun trusted :: "'k route_library \<Rightarrow> ('g, 'k) app_state \<Rightarrow> 'g handler_env \<Rightarrow> headers \<Rightarrow> api_request \<Rightarrow> bool" where
  "trusted lib app env headers (PutServiceInstance path _) =
     provider_trusted lib app env headers PROVIDER_RECONCILE_ACTION path"
| "trusted lib app env headers (DeleteServiceInstance path _) =
     provider_trusted lib app env headers PROVIDER_DELETE_ACTION path"
| "trusted lib app env headers GetServiceOverview =
     principal_trusted lib app env headers OVERVIEW_READ_PERMISSION"
| "trusted lib app env headers GetUsage = principal_trusted lib app env headers USAGE_READ_PERMISSION"
| "trusted lib app env headers (PostCredentials _) =
     principal_trusted lib app env headers CREDENTIAL_CREATE_PERMISSION"
| "trusted lib app env headers GetCredentials =
     principal_trusted lib app env headers CREDENTIAL_READ_PERMISSION"
| "trusted lib app env headers (DeleteCredential _) =
     principal_trusted lib app env headers CREDENTIAL_REVOKE_PERMISSION"
| "trusted lib app env headers _ = False"

text \<open>The routes for which something must be carried; the others serve everyone.\<close>

fun authenticated_route :: "api_request \<Rightarrow> bool" where
  "authenticated_route GetLive = False"
| "authenticated_route GetReady = False"
| "authenticated_route GetMetrics = False"
| "authenticated_route OtherMethod = False"
| "authenticated_route OtherPath = False"
| "authenticated_route _ = True"

definition refusal :: "api_error + 'a \<Rightarrow> bool" where
  "refusal r = (case r of Err e \<Rightarrow> er_status e \<in> {400, 401, 403} | Ok _ \<Rightarrow> False)"

lemma refusal_bind:
  "refusal r \<Longrightarrow> refusal (try_bind r f)"
  "(\<And>x. r = Ok x \<Longrightarrow> refusal (f x)) \<Longrightarrow> (\<And>e. r = Err e \<Longrightarrow> refusal r) \<Longrightarrow> refusal (try_bind r f)"
  by (cases r; simp add: refusal_def)+

lemma refusal_errors [simp]:
  "refusal (Err (bad_request m))" "refusal (Err (unauthorized m))" "refusal (Err forbidden)"
  "refusal (Err (api_error_from_auth a))" "refusal (Err (api_error_from_principal q))"
  by (simp_all add: refusal_def api_error_defs api_error_from_auth_def api_error_from_principal_def
      split: principal_auth_error.split)

lemma authorize_untrusted:
  "\<not> principal_trusted lib app env headers permission \<Longrightarrow> refusal (authorize lib app env headers permission)"
  by (cases "principal_authenticate (rl_principal lib) (as_principal_auth app) (he_clock env 0) headers")
     (auto simp: authorize_def principal_trusted_def principal_require_def)

lemma admit_untrusted:
  "\<not> provider_trusted lib app env headers PROVIDER_RECONCILE_ACTION path \<Longrightarrow>
     refusal (admit_reconcile lib app env path headers body)"
  "\<not> provider_trusted lib app env headers PROVIDER_DELETE_ACTION path \<Longrightarrow>
     refusal (admit_delete lib app env path query headers)"
  "\<not> principal_trusted lib app env headers CREDENTIAL_CREATE_PERMISSION \<Longrightarrow>
     refusal (admit_create lib app env headers request)"
  "\<not> principal_trusted lib app env headers CREDENTIAL_REVOKE_PERMISSION \<Longrightarrow>
     refusal (admit_revoke lib app env path headers)"
  unfolding admit_reconcile_def admit_delete_def admit_create_def admit_revoke_def strict_def
  by (auto simp: provider_trusted_def map_err_def intro!: refusal_bind authorize_untrusted split: sum.splits)

lemma refused_run:
  assumes "refusal r"
  shows "\<exists>e. eff_map f (eff_bind (eff_lift r) g) s = (Err e, s) \<and> er_status e \<in> {400, 401, 403}"
  using assms
  by (cases r) (simp_all add: refusal_def eff_map_def eff_bind_def eff_match_def eff_lift_def eff_throw_def)

end
