(* ===== verification/Handler_Replay.thy ===== *)
theory Handler_Replay
  imports Handler_Traces
begin

text \<open>
  Idempotency of the handlers, for any repository whose operations replay. A handler that ends with a
  successful completion answers with the response it recorded (\<open>answers\<close>); everything before it
  keeps the database well-formed and completes nothing (\<open>calm\<close>). Both compose along the code of a
  handler, and the locale \<open>replayed_handler\<close> turns them into: the same command, asked again, gets the
  same answer.
\<close>

section \<open>Completions in the events\<close>

definition completes_with :: "operation_request \<Rightarrow> uuid \<Rightarrow> stored_http_response \<Rightarrow> 'g surroundings \<Rightarrow> bool" where
  "completes_with operation i stored s \<longleftrightarrow>
     su_events s \<noteq> [] \<and> last (su_events s) = CompleteCall operation i stored True"

definition quiet :: "'g surroundings \<Rightarrow> bool" where
  "quiet s \<longleftrightarrow> (\<forall>operation i stored. \<not> completes_with operation i stored s)"

definition is_completion :: "event \<Rightarrow> bool" where
  "is_completion e = (case e of CompleteCall _ _ _ ok \<Rightarrow> ok | _ \<Rightarrow> False)"

lemma quiet_snoc:
  "su_events s = es @ [e] \<Longrightarrow> quiet s \<longleftrightarrow> \<not> is_completion e"
  by (auto simp: quiet_def completes_with_def is_completion_def split: event.splits)

text \<open>Other processes leave a well-formed database.\<close>

definition others_keep :: "(database \<Rightarrow> bool) \<Rightarrow> 'g handler_env \<Rightarrow> bool" where
  "others_keep well_formed env \<longleftrightarrow> (\<forall>n db g. well_formed db \<longrightarrow> well_formed (fst (he_others env n (db, g))))"

section \<open>Calm computations\<close>

definition calm :: "(database \<Rightarrow> bool) \<Rightarrow> ('g surroundings, 'e, 'a) eff \<Rightarrow> bool" where
  "calm well_formed m \<longleftrightarrow> (\<forall>s. well_formed (su_db s) \<longrightarrow> quiet s \<longrightarrow> post m s (\<lambda>r s'. well_formed (su_db s') \<and> quiet s'))"

lemma calm_pure [intro]:
  "calm well_formed (eff_return a)" "calm well_formed (eff_throw e)" "calm well_formed (eff_lift r)"
  by (simp_all add: calm_def post_simps)

lemma calm_match [intro]: "calm well_formed m \<Longrightarrow> (\<And>r. calm well_formed (f r)) \<Longrightarrow> calm well_formed (eff_match m f)"
  unfolding calm_def post_match by (blast intro: post_mono)

lemma calm_bind [intro]: "calm well_formed m \<Longrightarrow> (\<And>a. calm well_formed (f a)) \<Longrightarrow> calm well_formed (eff_bind m f)"
  unfolding eff_bind_def by (rule calm_match) (auto split: sum.split)

lemma calm_map_err [intro]: "calm well_formed m \<Longrightarrow> calm well_formed (eff_map_err g m)"
  unfolding eff_map_err_def by blast

lemma calm_for [intro]: "(\<And>x. calm well_formed (body x)) \<Longrightarrow> calm well_formed (eff_for xs body)"
  by (induction xs) auto

lemma calm_store:
  assumes "others_keep well_formed env" and "\<And>e db r db'. well_formed db \<Longrightarrow> op e db = (r, db') \<Longrightarrow> well_formed db'"
    and "\<And>r. \<not> is_completion (ev r)"
  shows "calm well_formed (call_store env ev op)"
  using assms unfolding calm_def others_keep_def
  by (auto simp: post_def call_store_def quiet_snoc split: prod.split) (metis fst_conv)

lemma calm_garage:
  assumes "others_keep well_formed env" and "\<And>r. \<not> is_completion (ev r)"
  shows "calm well_formed (call_garage env ev m)"
  using assms unfolding calm_def others_keep_def
  by (auto simp: post_def call_garage_def quiet_snoc split: prod.split) (metis fst_conv)

lemma calm_store_or_fail:
  assumes "others_keep well_formed env" and "\<And>e db r db'. well_formed db \<Longrightarrow> op e db = (r, db') \<Longrightarrow> well_formed db'"
    and "\<And>r. \<not> is_completion (ev r)"
  shows "calm well_formed (store_or_fail env ev op)"
  unfolding store_or_fail_def by (rule calm_map_err, rule calm_store) (use assms in blast)+

section \<open>Answering with the recorded response\<close>

definition answers ::
  "(database \<Rightarrow> bool) \<Rightarrow> (stored_http_response \<Rightarrow> unit store_op \<Rightarrow> bool) \<Rightarrow> 'k route_library
     \<Rightarrow> ('g surroundings, api_error, http_reply) eff \<Rightarrow> bool" where
  "answers well_formed completes lib m \<longleftrightarrow> (\<forall>s. well_formed (su_db s) \<longrightarrow> quiet s \<longrightarrow> post m s (\<lambda>r s'.
     \<forall>operation i stored. completes_with operation i stored s' \<longrightarrow> r = stored_into_response lib stored
       \<and> (\<exists>env complete db. completes stored complete \<and> well_formed db \<and> complete env db = (Ok (), su_db s'))))"

lemma answers_calm: "calm well_formed m \<Longrightarrow> answers well_formed completes lib m"
  unfolding calm_def answers_def quiet_def by (blast intro: post_mono)

lemma answers_bind:
  fixes m :: "('g surroundings, api_error, 'a) eff"
  assumes "calm well_formed m" and "\<And>a. answers well_formed completes lib (f a)"
  shows "answers well_formed completes lib (eff_bind m f)"
  unfolding answers_def
proof (intro allI impI)
  fix s :: "'g surroundings"
  assume "well_formed (su_db s)" "quiet s"
  then have "post m s (\<lambda>r s'. well_formed (su_db s') \<and> quiet s')" using assms(1) unfolding calm_def by blast
  then show "post (eff_bind m f) s (\<lambda>r s'. \<forall>operation i stored. completes_with operation i stored s' \<longrightarrow>
      r = stored_into_response lib stored
      \<and> (\<exists>env complete db. completes stored complete \<and> well_formed db \<and> complete env db = (Ok (), su_db s')))"
    by (rule post_bindI) (use assms(2) in \<open>auto simp: quiet_def answers_def\<close>)
qed

lemma answers_complete:
  fixes env :: "'g handler_env"
  assumes "others_keep well_formed env" and "completes stored complete"
  shows "answers well_formed completes lib (eff_bind (store_or_fail env (\<lambda>r. CompleteCall operation i stored (is_ok r))
     complete) (\<lambda>_. eff_lift (stored_into_response lib stored)))"
  unfolding answers_def post_bind post_store_or_fail
proof (intro allI impI, goal_cases)
  case (1 s)
  obtain r db' where run: "complete (he_pg env (su_calls s)) (seen_db env s) = (r, db')" by fastforce
  have "well_formed (seen_db env s)" using assms(1) 1 by (simp add: others_keep_def seen_db_def)
  with run assms(2) show ?case
    by (cases r) (auto simp: post_simps completes_with_def)
qed

section \<open>Replay\<close>

locale replayed_handler =
  replaying_operation well_formed usable "op_idempotency_key operation" prepare completes
  for well_formed usable operation and prepare :: "'c prepare store_op" and completes +
  fixes lib :: "'k route_library"
    and handler :: "'x \<Rightarrow> 'g handler_env \<Rightarrow> ('g surroundings, api_error, http_reply) eff"
    and body :: "'x \<Rightarrow> 'g handler_env \<Rightarrow> uuid \<Rightarrow> 'c \<Rightarrow> ('g surroundings, api_error, http_reply) eff"
  assumes handler: "handler x env = eff_bind (store_or_fail env (\<lambda>r. PrepareCall operation (is_ok r)) prepare)
      (\<lambda>prepared. case prepared of Execute i ctx \<Rightarrow> body x env i ctx
         | other \<Rightarrow> eff_lift (prepared_response lib other))"
    and body: "others_keep well_formed env \<Longrightarrow> answers well_formed completes lib (body x env i ctx)"
begin

lemma granted_if_completed:
  assumes "handler x env s = (r, s1)" and "completes_with o1 j stored s1"
  shows "\<exists>i ctx db'. prepare (he_pg env (su_calls s)) (seen_db env s) = (Ok (Execute i ctx), db')"
proof -
  obtain r0 db0 where prepared: "prepare (he_pg env (su_calls s)) (seen_db env s) = (r0, db0)" by fastforce
  have "post (handler x env) s (\<lambda>r s'. completes_with o1 j stored s')"
    using assms by (simp add: post_def)
  then show ?thesis
    unfolding handler post_bind post_store_or_fail prepared
    by (cases r0) (auto simp: post_simps completes_with_def split: prepare.splits)
qed

lemma recorded_answer:
  assumes "others_keep well_formed env" and "well_formed (su_db s)" and "handler x env s = (r, s1)"
    and "completes_with o1 j stored s1"
  shows "r = stored_into_response lib stored
     \<and> (\<exists>env0 complete db. completes stored complete \<and> well_formed db \<and> complete env0 db = (Ok (), su_db s1))"
proof -
  obtain i ctx db0 where prepared: "prepare (he_pg env (su_calls s)) (seen_db env s) = (Ok (Execute i ctx), db0)"
    using granted_if_completed [OF assms(3,4)] by blast
  have "well_formed (seen_db env s)" using assms(1,2) by (simp add: others_keep_def seen_db_def)
  then have "well_formed db0" by (rule prepare_stable [OF _ prepared])
  then have "post (handler x env) s (\<lambda>r s'. \<forall>o1 j stored. completes_with o1 j stored s' \<longrightarrow>
      r = stored_into_response lib stored
      \<and> (\<exists>env0 complete db. completes stored complete \<and> well_formed db \<and> complete env0 db = (Ok (), su_db s')))"
    unfolding handler post_bind post_store_or_fail prepared
    using body [OF assms(1)] unfolding answers_def
    by (simp add: quiet_def completes_with_def)
  with assms(3,4) show ?thesis by (simp add: post_def)
qed

lemma replayed:
  assumes "prepare (he_pg env (su_calls s)) (seen_db env s) = (Ok (Replay stored), seen_db env s)"
  shows "\<exists>s'. handler x env s = (stored_into_response lib stored, s') \<and> su_db s' = seen_db env s
     \<and> su_events s' = su_events s @ [PrepareCall operation True]"
proof -
  have "post (handler x env) s (\<lambda>r s'. r = stored_into_response lib stored \<and> su_db s' = seen_db env s
     \<and> su_events s' = su_events s @ [PrepareCall operation True])"
    unfolding handler post_bind post_store_or_fail assms by (simp add: post_simps)
  then show ?thesis by (auto simp: post_def split: prod.splits)
qed

lemma same_answer:
  assumes "usable" and "others_keep well_formed env" and "well_formed (su_db s)" and "handler x env s = (r, s1)"
    and "completes_with o1 j stored s1"
    and "receipt_of (seen_db env' s2) (op_idempotency_key operation) = receipt_of (su_db s1) (op_idempotency_key operation)"
    and "no_faults (he_pg env' (su_calls s2))"
  shows "\<exists>s3. handler y env' s2 = (r, s3) \<and> su_db s3 = seen_db env' s2
     \<and> su_events s3 = su_events s2 @ [PrepareCall operation True]"
proof -
  obtain i ctx db' where "prepare (he_pg env (su_calls s)) (seen_db env s) = (Ok (Execute i ctx), db')"
    using granted_if_completed [OF assms(4,5)] by blast
  moreover obtain env0 complete db where "completes stored complete" "well_formed db"
    "complete env0 db = (Ok (), su_db s1)" and r: "r = stored_into_response lib stored"
    using recorded_answer [OF assms(2-5)] by blast
  ultimately have "prepare (he_pg env' (su_calls s2)) (seen_db env' s2) = (Ok (Replay stored), seen_db env' s2)"
    using assms(1,6,7) replays by blast
  from replayed [OF this] show ?thesis by (simp add: r)
qed

end

section \<open>The four handlers\<close>

text \<open>The server's state with the store behind the interface.\<close>

abbreviation pg_app :: "pg_store \<Rightarrow> ('g, 'k) app_state \<Rightarrow> ('g, 'k) app_state" where
  "pg_app st app \<equiv> app\<lparr>as_store := pg_repository st\<rparr>"

lemma is_completion_simps [simp]:
  "\<not> is_completion (PrepareCall operation ok)" "\<not> is_completion (RenewCall operation i ok)"
  "\<not> is_completion (FailCall operation i stored ok)" "\<not> is_completion (BucketUsageCall b u)"
  "\<not> is_completion (ReconcileBucketCall p spec rb)" "\<not> is_completion (CreateKeyCall b n q issued)"
  "\<not> is_completion (RevokeKeyCall k ok)" "\<not> is_completion (DeleteBucketCall b ok)"
  "is_completion (CompleteCall operation i stored ok) = ok"
  by (simp_all add: is_completion_def)

lemma renew_schema: "schema_ok db \<Longrightarrow> renew_operation operation i env db = (r, db') \<Longrightarrow> schema_ok db'"
  using renew_operation_effect by blast

lemma calm_renew:
  "others_keep schema_ok env \<Longrightarrow> calm schema_ok (renew (pg_app st app) env operation i)"
  unfolding renew_def by (rule calm_store_or_fail) (auto intro: renew_schema)

lemma calm_fail:
  assumes "others_keep schema_ok env"
  shows "calm schema_ok (persist_backend_failure lib (pg_app st app) env operation i e audit)"
    and "calm schema_ok (persist_failure lib (pg_app st app) env operation i answer audit)"
  unfolding persist_backend_failure_def persist_failure_def Let_def
  using assms by (auto intro!: calm_match calm_store calm_store_or_fail intro: fail.keeps_schema split: sum.split)

lemma calm_delete_failure:
  "others_keep schema_ok env \<Longrightarrow> calm schema_ok (delete_failure lib (pg_app st app) env headers command i phase e)"
  unfolding delete_failure_def by (rule calm_fail)

lemma calm_delete_steps:
  assumes "others_keep schema_ok env"
  shows "calm schema_ok (check_usage lib (pg_app st app) env headers command i b)"
    and "calm schema_ok (refuse_nonempty_bucket lib (pg_app st app) env headers command i usage)"
    and "calm schema_ok (revoke_service_key lib (pg_app st app) env headers command i k)"
    and "calm schema_ok (remove_bucket lib (pg_app st app) env headers command i b)"
  unfolding check_usage_def refuse_nonempty_bucket_def revoke_service_key_def remove_bucket_def Let_def
  using assms
  by (auto intro!: calm_bind calm_match calm_garage calm_renew calm_fail calm_delete_failure
      split: sum.split garage_backend_error.split)

lemma answers_delete:
  assumes "others_keep schema_ok env"
  shows "answers schema_ok (\<lambda>response complete. \<exists>i audit.
      complete = rp_complete_delete (pg_repository st) command i response audit) lib
    (delete_granted lib (pg_app st app) env headers command i ctx)"
  unfolding delete_granted_def complete_deletion_def
  using assms
  by (intro answers_bind calm_renew calm_delete_steps calm_for calm_pure answers_complete) auto

lemma calm_issue_key:
  "others_keep schema_ok env \<Longrightarrow> calm schema_ok (issue_key lib (pg_app st app) env headers p command i ctx b)"
  unfolding issue_key_def by (auto intro!: calm_match calm_garage calm_fail split: sum.split)

lemma answers_record_issued_key:
  fixes env :: "'g handler_env"
  assumes "others_keep schema_ok env"
  shows "answers schema_ok (\<lambda>response complete. \<exists>i credential audit.
      complete = rp_complete_create_credential (pg_repository st) command i credential response audit) lib
    (eff_bind (record_issued_key lib (pg_app st app) env headers p command i ctx issued stored)
      (\<lambda>_. eff_lift (stored_into_response lib stored)))"
  unfolding answers_def
proof (intro allI impI)
  fix s :: "'g surroundings"
  assume "schema_ok (su_db s)" "quiet s"
  then have "schema_ok (seen_db env s)" using assms by (simp add: others_keep_def seen_db_def)
  let ?audit = "credential_audit lib env headers p (cc_operation command) (cx_credential_id ctx)
    (json_object [(''name'', JString (cc_name command)),
       (''permissions'', rl_permissions_value lib (cc_permissions command)),
       (''access_key_id'', JString (ic_access_key_id issued))])"
  obtain r db' where run: "complete_create_credential st command i (new_credential_of lib command ctx issued)
      stored ?audit (he_pg env (su_calls s)) (seen_db env s) = (r, db')" by fastforce
  show "post (eff_bind (record_issued_key lib (pg_app st app) env headers p command i ctx issued stored)
      (\<lambda>_. eff_lift (stored_into_response lib stored))) s (\<lambda>r s'. \<forall>operation j stored.
      completes_with operation j stored s' \<longrightarrow> r = stored_into_response lib stored
      \<and> (\<exists>env complete db. (\<exists>i credential audit. complete
            = rp_complete_create_credential (pg_repository st) command i credential stored audit)
          \<and> schema_ok db \<and> complete env db = (Ok (), su_db s')))"
    using run \<open>schema_ok (seen_db env s)\<close>
    unfolding record_issued_key_def
    by (auto simp: post_def eff_bind_def eff_match_def call_store_def seen_db_def eff_return_def eff_throw_def
        eff_lift_def call_garage_def completes_with_def split: prod.splits sum.splits store_error.splits) blast
qed

lemma answers_create:
  assumes "others_keep schema_ok env"
  shows "answers schema_ok (\<lambda>response complete. \<exists>i credential audit.
      complete = rp_complete_create_credential (pg_repository st) command i credential response audit) lib
    (create_granted lib (pg_app st app) env headers p command i ctx)"
  unfolding create_granted_def
  using assms by (intro answers_bind calm_renew calm_issue_key calm_pure answers_record_issued_key)

text \<open>What follows a granted prepare of the other two.\<close>

definition reconcile_granted ::
  "'k route_library \<Rightarrow> ('g, 'k) app_state \<Rightarrow> 'g handler_env \<Rightarrow> headers \<Rightarrow> reconcile_command \<Rightarrow> uuid
     \<Rightarrow> reconcile_context \<Rightarrow> ('g surroundings, api_error, http_reply) eff" where
  "reconcile_granted lib app env headers command operation_id ctx =
     eff_bind (reconcile_physical_bucket lib app env headers command operation_id ctx) (\<lambda>physical_bucket_id.
     eff_bind (eff_lift (request_generation (rc_generation command))) (\<lambda>observed_generation.
     eff_bind (eff_lift (success_response (if rx_previously_applied ctx then 200 else 202)
       (rl_provider_response lib \<lparr>po_operation_id = operation_id,
          po_status = \<lparr>st_observed_generation = observed_generation, st_phase = Ready,
            st_backend_bucket_id = Some physical_bucket_id,
            st_endpoint = Some (rl_url_to_string lib (as_s3_endpoint app)), st_usage = usage_default,
            st_message = None, st_updated_at = he_now env\<rparr>\<rparr>))) (\<lambda>stored.
     eff_bind (store_or_fail env (\<lambda>r. CompleteCall (rc_operation command) operation_id stored (is_ok r))
       (rp_complete_reconcile (as_store app) command operation_id physical_bucket_id stored
         (service_audit lib env headers (rc_operation command) (json_object
           [(''generation'', JNumber (rc_generation command)),
            (''bucket_name'', JString (sp_bucket_name (rc_spec command))),
            (''quota_bytes'', JNumber (uint (sp_quota_bytes (rc_spec command)))),
            (''quota_objects'', JNumber (uint (sp_quota_objects (rc_spec command))))])))) (\<lambda>_.
     eff_lift (stored_into_response lib stored)))))"

definition revoke_granted ::
  "'k route_library \<Rightarrow> ('g, 'k) app_state \<Rightarrow> 'g handler_env \<Rightarrow> headers \<Rightarrow> principal \<Rightarrow> revoke_credential_command
     \<Rightarrow> uuid \<Rightarrow> revoke_credential_context \<Rightarrow> ('g surroundings, api_error, http_reply) eff" where
  "revoke_granted lib app env headers p command operation_id ctx =
     eff_bind (renew app env (vc_operation command) operation_id) (\<lambda>_.
     eff_bind (if vx_already_revoked ctx then eff_return ()
       else eff_match (call_garage env (\<lambda>r. RevokeKeyCall (vx_garage_key_id ctx) (is_ok r))
           (be_revoke_credential (as_garage app) (vx_garage_key_id ctx)))
         (\<lambda>r. case r of
            Ok _ \<Rightarrow> eff_return ()
          | Err e \<Rightarrow> persist_backend_failure lib app env (vc_operation command) operation_id e
              (credential_audit lib env headers p (vc_operation command) (vc_credential_id command)
                (json_object [])))) (\<lambda>_.
     eff_bind (eff_lift (success_response 200 (rl_revoked_response lib
       \<lparr>vr_credential_id = vc_credential_id command, vr_status = ''revoked''\<rparr>))) (\<lambda>stored.
     eff_bind (store_or_fail env (\<lambda>r. CompleteCall (vc_operation command) operation_id stored (is_ok r))
       (rp_complete_revoke_credential (as_store app) command operation_id stored
         (credential_audit lib env headers p (vc_operation command) (vc_credential_id command)
           (json_object [(''already_revoked'', JBool (vx_already_revoked ctx))])))) (\<lambda>_.
     eff_lift (stored_into_response lib stored)))))"

lemma calm_physical_bucket:
  "others_keep schema_ok env \<Longrightarrow>
     calm schema_ok (reconcile_physical_bucket lib (pg_app st app) env headers command i ctx)"
  unfolding reconcile_physical_bucket_def
  by (auto intro!: calm_bind calm_renew calm_match calm_garage calm_fail split: sum.split)

lemma answers_reconcile:
  assumes "others_keep schema_ok env"
  shows "answers schema_ok (\<lambda>response complete. \<exists>i physical audit.
      complete = rp_complete_reconcile (pg_repository st) command i physical response audit) lib
    (reconcile_granted lib (pg_app st app) env headers command i ctx)"
  unfolding reconcile_granted_def
  using assms by (intro answers_bind calm_physical_bucket calm_pure answers_complete) auto

lemma answers_revoke:
  assumes "others_keep schema_ok env"
  shows "answers schema_ok (\<lambda>response complete. \<exists>i audit.
      complete = rp_complete_revoke_credential (pg_repository st) command i response audit) lib
    (revoke_granted lib (pg_app st app) env headers p command i ctx)"
  unfolding revoke_granted_def
  using assms
  by (intro answers_bind calm_renew calm_pure answers_complete)
     (auto intro!: calm_match calm_garage calm_fail split: sum.split)

lemma execute_granted:
  "execute_reconcile lib app env headers c = eff_bind (store_or_fail env (\<lambda>r. PrepareCall (rc_operation c) (is_ok r))
     (rp_prepare_reconcile (as_store app) c)) (\<lambda>prepared. case prepared of
       Execute i ctx \<Rightarrow> reconcile_granted lib app env headers c i ctx
     | other \<Rightarrow> eff_lift (prepared_response lib other))"
  "execute_delete lib app env headers d = eff_bind (store_or_fail env (\<lambda>r. PrepareCall (dc_operation d) (is_ok r))
     (rp_prepare_delete (as_store app) d)) (\<lambda>prepared. case prepared of
       Execute i dx \<Rightarrow> delete_granted lib app env headers d i dx
     | other \<Rightarrow> eff_lift (prepared_response lib other))"
  "execute_create lib app env headers p k = eff_bind (store_or_fail env (\<lambda>r. PrepareCall (cc_operation k) (is_ok r))
     (rp_prepare_create_credential (as_store app) k)) (\<lambda>prepared. case prepared of
       Execute i cx \<Rightarrow> create_granted lib app env headers p k i cx
     | other \<Rightarrow> eff_lift (prepared_response lib other))"
  "execute_revoke lib app env headers p v = eff_bind (store_or_fail env (\<lambda>r. PrepareCall (vc_operation v) (is_ok r))
     (rp_prepare_revoke_credential (as_store app) v)) (\<lambda>prepared. case prepared of
       Execute i vx \<Rightarrow> revoke_granted lib app env headers p v i vx
     | other \<Rightarrow> eff_lift (prepared_response lib other))"
  by (simp_all only: execute_reconcile_def reconcile_granted_def execute_delete_def delete_granted_def
      execute_create_def create_granted_def execute_revoke_def revoke_granted_def)

interpretation reconcile_replay: replayed_handler schema_ok "store_codecs_ok st" "rc_operation command"
    "rp_prepare_reconcile (pg_repository st) command"
    "\<lambda>response complete. \<exists>i physical audit.
       complete = rp_complete_reconcile (pg_repository st) command i physical response audit"
    lib "\<lambda>headers env. execute_reconcile lib (pg_app st app) env headers command"
    "\<lambda>headers env. reconcile_granted lib (pg_app st app) env headers command"
  for st command lib app
  by unfold_locales (simp add: execute_granted, rule answers_reconcile)

interpretation delete_replay: replayed_handler schema_ok "store_codecs_ok st" "dc_operation command"
    "rp_prepare_delete (pg_repository st) command"
    "\<lambda>response complete. \<exists>i audit. complete = rp_complete_delete (pg_repository st) command i response audit"
    lib "\<lambda>headers env. execute_delete lib (pg_app st app) env headers command"
    "\<lambda>headers env. delete_granted lib (pg_app st app) env headers command"
  for st command lib app
  by unfold_locales (simp add: execute_granted, rule answers_delete)

interpretation create_replay: replayed_handler schema_ok "store_codecs_ok st" "cc_operation command"
    "rp_prepare_create_credential (pg_repository st) command"
    "\<lambda>response complete. \<exists>i credential audit.
       complete = rp_complete_create_credential (pg_repository st) command i credential response audit"
    lib "\<lambda>(headers, p) env. execute_create lib (pg_app st app) env headers p command"
    "\<lambda>(headers, p) env. create_granted lib (pg_app st app) env headers p command"
  for st command lib app
  by unfold_locales (auto simp: execute_granted simp del: pg_repository_sel intro: answers_create)

interpretation revoke_replay: replayed_handler schema_ok "store_codecs_ok st" "vc_operation command"
    "rp_prepare_revoke_credential (pg_repository st) command"
    "\<lambda>response complete. \<exists>i audit.
       complete = rp_complete_revoke_credential (pg_repository st) command i response audit"
    lib "\<lambda>(headers, p) env. execute_revoke lib (pg_app st app) env headers p command"
    "\<lambda>(headers, p) env. revoke_granted lib (pg_app st app) env headers p command"
  for st command lib app
  by unfold_locales (auto simp: execute_granted simp del: pg_repository_sel intro: answers_revoke)

end
