(* ===== verification/Handler_Examples.thy ===== *)
theory Handler_Examples
  imports Handler_Traces Store_Examples Store_Invariants
begin

text \<open>
  Concrete requests for the handlers: a creation of a credential and a deletion of the service, on the
  states of the run of the store, with a Garage that issues one key and stand-ins for the libraries.
\<close>

section \<open>Libraries and configuration\<close>

definition demo_signed :: signed_principal where
  "demo_signed = \<lparr>sp_issuer = ''flow'', sp_audience = ''syouyu'',
     sp_scope = \<lparr>ss_organization_id = 1, ss_project_id = 2, ss_service_instance_id = 3\<rparr>,
     sp_principal_id = 4, sp_permissions = {CREDENTIAL_CREATE_PERMISSION},
     sp_credential_limits = example_limits, sp_issued_at = 100, sp_expires_at = 160, sp_context_id = 6\<rparr>"

definition demo_principal :: principal where
  "demo_principal = \<lparr>pr_scope = \<lparr>ss_organization_id = 1, ss_project_id = 2, ss_service_instance_id = 3\<rparr>,
     pr_principal_id = 4, pr_permissions = {CREDENTIAL_CREATE_PERMISSION},
     pr_credential_limits = example_limits, pr_context_id = 6, pr_issued_at = 100000000,
     pr_expires_at = 160000000\<rparr>"

definition demo_claims :: provider_claims where
  "demo_claims = \<lparr>pc_issuer = ''flow'', pc_audience = ''syouyu'', pc_subject = 4, pc_organization_id = 1,
     pc_project_id = 2, pc_service_instance_id = 3, pc_action = PROVIDER_DELETE_ACTION,
     pc_generation = 2, pc_jwt_id = 12, pc_issued_at = 100, pc_not_before = 95, pc_expires_at = 160\<rparr>"

definition demo_jwt :: "unit jwt_library" where
  "demo_jwt = \<lparr>jl_keys_from_str = (\<lambda>_. Some [(''k1'', ''pem'')]), jl_from_ed_pem = (\<lambda>_. Some ()),
     jl_decode_header = (\<lambda>_. Some \<lparr>jh_alg = EdDSA, jh_kid = Some ''k1''\<rparr>),
     jl_decode = (\<lambda>_ _ _ token. if token = ''d'' then Some demo_claims else None),
     jl_uuid_to_string = (\<lambda>u. if u = 11 then ''key-11'' else if u = 12 then ''key-12'' else ''other'')\<rparr>"

definition demo_lib :: "unit route_library" where
  "demo_lib = \<lparr>rl_jwt = demo_jwt,
     rl_principal = example_principal_library\<lparr>pl_from_slice := \<lambda>_. Some demo_signed\<rparr>,
     rl_sha256 = (\<lambda>_. replicate 32 9), rl_json_to_vec = (\<lambda>_. Some []), rl_reconcile_to_vec = (\<lambda>_. Some []),
     rl_create_request_value = (\<lambda>_. JNull), rl_limits_value = (\<lambda>_. JNull), rl_permissions_value = (\<lambda>_. JNull),
     rl_provider_response = (\<lambda>_. Some JNull), rl_issued_response = (\<lambda>_. Some JNull),
     rl_revoked_response = (\<lambda>_. Some JNull),
     rl_uuid_parse = (\<lambda>t. if t = ''key-11'' then Some 11 else None),
     rl_status_ok = (\<lambda>s. 100 \<le> s), rl_url_to_string = (\<lambda>_. ''https://s3'')\<rparr>"

definition demo_url :: url where
  "demo_url = \<lparr>url_scheme = ''https'', url_host_str = Some ''s3'', url_username = '''', url_password = None,
     url_path = ''/'', url_query = None, url_fragment = None\<rparr>"

text \<open>A Garage that counts its calls, reports every bucket empty and issues the key \<open>GK1\<close>.\<close>

definition demo_garage :: "nat garage_backend" where
  "demo_garage = \<lparr>be_health = (\<lambda>n. (Ok (), Suc n)),
     be_reconcile_bucket = (\<lambda>_ _ n. (Ok \<lparr>rb_physical_bucket_id = ''phys''\<rparr>, Suc n)),
     be_bucket_usage = (\<lambda>_ n. (Ok usage_default, Suc n)),
     be_create_credential = (\<lambda>_ _ _ n. (Ok \<lparr>ic_garage_key_id = ''GK1'', ic_access_key_id = ''GK1'',
        ic_secret_access_key = ''secret''\<rparr>, Suc n)),
     be_revoke_credential = (\<lambda>_ n. (Ok (), Suc n)), be_delete_bucket = (\<lambda>_ n. (Ok (), Suc n))\<rparr>"

definition demo_app :: "(nat, unit) app_state" where
  "demo_app = \<lparr>as_store = pg_repository example_store, as_garage = demo_garage, as_provider_auth = example_authenticator,
     as_principal_auth = example_principal_authenticator, as_storage_region = ''region'', as_s3_endpoint = demo_url\<rparr>"

definition demo_env :: "pg_env \<Rightarrow> nat handler_env" where
  "demo_env first = \<lparr>he_pg = (\<lambda>n. if n = 0 then first else example_env (n + 5) (int n + 25)),
     he_others = (\<lambda>_ x. x), he_clock = (\<lambda>_. 120), he_now = 10, he_request_uuid = 77\<rparr>"

definition demo_start :: "database \<Rightarrow> nat surroundings" where
  "demo_start db = \<lparr>su_db = db, su_garage = 0, su_calls = 0, su_events = []\<rparr>"

definition demo_create_headers :: headers where
  "demo_create_headers = example_principal_headers(IDEMPOTENCY_KEY \<mapsto> Visible ''key-11'')"

definition demo_create_request :: create_credential_request where
  "demo_create_request = \<lparr>cq_name = ''key'', cq_permissions = \<lparr>bp_read = True, bp_write = False\<rparr>\<rparr>"

definition demo_delete_headers :: headers where
  "demo_delete_headers = [''authorization'' \<mapsto> Visible ''Bearer d'', ''idempotency-key'' \<mapsto> Visible ''key-12'']"

section \<open>Admission\<close>

lemma demo_fields [simp]:
  "rl_jwt demo_lib = demo_jwt" "rl_sha256 demo_lib b = replicate 32 9" "rl_json_to_vec demo_lib v = Some []"
  "rl_permissions_value demo_lib perms = JNull" "rl_issued_response demo_lib issued = Some JNull"
  "rl_provider_response demo_lib provided = Some JNull" "rl_status_ok demo_lib status = (100 \<le> status)"
  "as_store demo_app = pg_repository example_store" "as_garage demo_app = demo_garage"
  "as_provider_auth demo_app = example_authenticator"
  "he_pg (demo_env first) n = (if n = 0 then first else example_env (n + 5) (int n + 25))"
  "he_others (demo_env first) n x = x" "he_clock (demo_env first) n = 120" "he_now (demo_env first) = 10"
  "he_request_uuid (demo_env first) = 77"
  by (simp_all add: demo_lib_def demo_app_def demo_env_def)

lemma demo_authenticated:
  "principal_authenticate (rl_principal demo_lib) example_principal_authenticator 120 demo_create_headers
     = Ok demo_principal"
proof -
  have parsed: "parse_u64 ''100'' = Some 100"
    by (simp add: parse_u64_def parse_unsigned_def digits_value_def is_ascii_digit_def byte_of_def)
  have scope: "service_scope_validate \<lparr>ss_organization_id = 1, ss_project_id = 2, ss_service_instance_id = 3\<rparr> = Ok ()"
    by code_simp
  have headers: "required_header demo_create_headers PRINCIPAL_HEADER = Ok ''ctx''"
    "required_header demo_create_headers PRINCIPAL_TIMESTAMP_HEADER = Ok ''100''"
    "required_header demo_create_headers PRINCIPAL_SIGNATURE_HEADER = Ok ''100.ctx''"
    by code_simp+
  have message: "signed_message ''100'' ''ctx'' = as_bytes ''100.ctx''" by (simp add: signed_message_def as_bytes_def)
  have times: "u64_try_from_i64 120 = Some 120" "u64_saturating_add 120 15 = 135" "u64_saturating_add 160 15 = 175"
    "i64_try_from_u64 100 = Some 100" "i64_try_from_u64 160 = Some 160"
    by (simp_all add: u64_try_from_i64_def u64_saturating_add_def i64_try_from_u64_def i64_max_def)
  show ?thesis
    unfolding principal_authenticate_def headers
    by (simp add: parsed scope message times demo_lib_def example_principal_library_def
        example_principal_authenticator_def demo_signed_def principal_timestamp_def demo_principal_def uuid_is_nil_def
        example_limits_def)
qed

lemma demo_create_admitted:
  "admit_create demo_lib demo_app (demo_env first) demo_create_headers (Ok demo_create_request)
     = Ok (demo_principal, example_create)"
proof -
  have valid: "credential_spec_validate \<lparr>cs_name = ''key'', cs_permissions = \<lparr>bp_read = True, bp_write = False\<rparr>\<rparr> = Ok ()"
    by code_simp
  have key: "public_idempotency_key demo_lib demo_create_headers = Ok 11" by code_simp
  have authorized: "authorize demo_lib demo_app (demo_env first) demo_create_headers CREDENTIAL_CREATE_PERMISSION
      = Ok demo_principal"
    using demo_authenticated
    by (simp add: authorize_def demo_app_def demo_env_def principal_require_def demo_principal_def)
  show ?thesis
    unfolding admit_create_def authorized key
    by (simp add: strict_def valid demo_create_request_def request_hash_def demo_lib_def principal_operation_def
        example_create_def example_operation_def demo_principal_def)
qed

lemma demo_delete_admitted:
  "admit_delete demo_lib demo_app (demo_env first) (Ok 3) (Ok \<lparr>dq_generation = 2\<rparr>) demo_delete_headers = Ok example_delete"
proof -
  have token: "authenticate_headers_for_action demo_jwt example_authenticator (\<lambda>_. 120) demo_delete_headers
      PROVIDER_DELETE_ACTION = Ok demo_claims"
    by code_simp
  have key: "require_idempotency_key demo_jwt demo_delete_headers 12 = Ok ()" by code_simp
  have claims: "pc_jwt_id demo_claims = 12" "pc_service_instance_id demo_claims = 3" "pc_generation demo_claims = 2"
    "pc_organization_id demo_claims = 1" "pc_project_id demo_claims = 2" "pc_subject demo_claims = 4"
    by (simp_all add: demo_claims_def)
  have clock: "he_clock (demo_env first) = (\<lambda>_. 120)" by (simp add: demo_env_def)
  show ?thesis
    by (simp add: admit_delete_def strict_def clock token key claims request_hash_def example_delete_def
        example_operation_def)
qed

section \<open>Runs\<close>

definition demo_create_renewed :: database where
  "demo_create_renewed = snd (renew_operation (cc_operation example_create) 102 (example_env 6 26) example_key_started)"

definition demo_issued :: issued_credential where
  "demo_issued = \<lparr>ic_garage_key_id = ''GK1'', ic_access_key_id = ''GK1'', ic_secret_access_key = ''secret''\<rparr>"

definition demo_context :: create_credential_context where
  "demo_context = \<lparr>cx_bucket = example_bucket_record, cx_credential_id = 202\<rparr>"

definition demo_create_audit :: audit_event where
  "demo_create_audit = \<lparr>au_organization_id = 1, au_project_id = 2, au_service_instance_id = 3, au_principal_id = 4,
     au_principal_context_id = Some 6, au_request_id = ''other'', au_action = CREDENTIAL_CREATE_ACTION,
     au_resource_type = ''credential'', au_resource_id = Some ''other'', au_outcome = ''allowed'',
     au_details = json_object [(''name'', JString ''key''), (''permissions'', JNull),
       (''access_key_id'', JString ''GK1'')]\<rparr>"

definition demo_create_stored :: stored_http_response where
  "demo_create_stored = \<lparr>sh_status = 201, sh_body = JNull, sh_failed = False\<rparr>"

definition demo_created_db :: database where
  "demo_created_db = snd (complete_create_credential example_store example_create 102
     (new_credential_of demo_lib example_create demo_context demo_issued) demo_create_stored demo_create_audit
     (example_env 8 28) demo_create_renewed)"

definition demo_reply :: "u16 \<Rightarrow> http_reply" where
  "demo_reply status = \<lparr>rp_status = status, rp_headers = [(''content-type'', ''application/json''),
     (''cache-control'', ''no-store, private''), (''pragma'', ''no-cache'')], rp_body = JNull\<rparr>"

lemma demo_create_store:
  "renew_operation (cc_operation example_create) 102 (example_env 6 26) example_key_started
     = (Ok (), demo_create_renewed)"
  "complete_create_credential example_store example_create 102
     (new_credential_of demo_lib example_create demo_context demo_issued) demo_create_stored demo_create_audit
     (example_env 8 28) demo_create_renewed = (Ok (), demo_created_db)"
proof -
  have "fst (renew_operation (cc_operation example_create) 102 (example_env 6 26) example_key_started) = Ok ()"
    by code_simp
  then show "renew_operation (cc_operation example_create) 102 (example_env 6 26) example_key_started
     = (Ok (), demo_create_renewed)"
    by (simp add: demo_create_renewed_def prod_eq_iff)
  have credential: "new_credential_of demo_lib example_create demo_context demo_issued = \<lparr>nc_id = 202,
      nc_garage_key_id = ''GK1'', nc_access_key_id = ''GK1'', nc_secret_key_fingerprint = replicate 32 9,
      nc_name = ''key'', nc_permissions = \<lparr>bp_read = True, bp_write = False\<rparr>\<rparr>"
    by (simp add: new_credential_of_def example_create_def demo_context_def demo_issued_def)
  have "fst (complete_create_credential example_store example_create 102 \<lparr>nc_id = 202,
      nc_garage_key_id = ''GK1'', nc_access_key_id = ''GK1'', nc_secret_key_fingerprint = replicate 32 9,
      nc_name = ''key'', nc_permissions = \<lparr>bp_read = True, bp_write = False\<rparr>\<rparr> demo_create_stored demo_create_audit
      (example_env 8 28) demo_create_renewed) = Ok ()"
    by code_simp
  then show "complete_create_credential example_store example_create 102
     (new_credential_of demo_lib example_create demo_context demo_issued) demo_create_stored demo_create_audit
     (example_env 8 28) demo_create_renewed = (Ok (), demo_created_db)"
    by (simp add: demo_created_db_def prod_eq_iff credential)
qed

definition demo_created :: "nat surroundings" where
  "demo_created = \<lparr>su_db = demo_created_db, su_garage = 1, su_calls = 4,
     su_events = [PrepareCall (cc_operation example_create) True, RenewCall (cc_operation example_create) 102 True,
       CreateKeyCall ''phys'' ''syouyu-other-other'' \<lparr>bp_read = True, bp_write = False\<rparr> (Ok demo_issued),
       CompleteCall (cc_operation example_create) 102 demo_create_stored True]\<rparr>"

lemma demo_create_run:
  "create_credential demo_lib demo_app (demo_env (example_env 2 10)) demo_create_headers (Ok demo_create_request)
     (demo_start example_ready) = (Ok (demo_reply 201), demo_created)"
proof -
  have start: "prepare_create_credential example_store example_create (example_env 2 10) example_ready
     = (Ok (Execute 102 demo_context), example_key_started)"
    using example_prepares(2) by (simp add: demo_context_def)
  have bucket: "br_physical_bucket_id (cx_bucket demo_context) = Some ''phys''" by code_simp
  have id: "cx_credential_id demo_context = 202" by (simp add: demo_context_def)
  have audit: "credential_audit demo_lib (demo_env (example_env 2 10)) demo_create_headers demo_principal
      (cc_operation example_create) 202 (json_object [(''name'', JString ''key''), (''permissions'', JNull),
       (''access_key_id'', JString ''GK1'')]) = demo_create_audit"
    by (simp add: credential_audit_def audit_for_operation_def demo_create_audit_def example_create_def
        example_operation_def request_id_def demo_create_headers_def example_principal_headers_def REQUEST_ID_def
        IDEMPOTENCY_KEY_def demo_jwt_def demo_principal_def)
  have name: "deterministic_name demo_lib demo_principal 202 = ''syouyu-other-other''"
    by (simp add: deterministic_name_def demo_jwt_def demo_principal_def)
  have command: "cc_name example_create = ''key''"
    "cc_permissions example_create = \<lparr>bp_read = True, bp_write = False\<rparr>" by (simp_all add: example_create_def)
  have issue: "be_create_credential demo_garage b t q n = (Ok demo_issued, Suc n)" for b t q n
    by (simp add: demo_garage_def demo_issued_def)
  have keys: "ic_access_key_id demo_issued = ''GK1''" by (simp add: demo_issued_def)
  have answer: "stored_into_response demo_lib demo_create_stored = Ok (demo_reply 201)"
    by (simp add: stored_into_response_def demo_create_stored_def demo_reply_def)
  show ?thesis
    unfolding create_credential_admitted [OF demo_create_admitted]
    by (simp add: execute_create_def eff_bind_def eff_match_def eff_lift_def eff_return_def store_or_fail_def
        eff_map_err_def call_store_def call_garage_def renew_def issue_key_def record_issued_key_def
        success_response_def answer demo_start_def start bucket id audit name command issue keys
        demo_create_store demo_create_stored_def [symmetric] demo_created_def)
qed

text \<open>The deletion: the lease is renewed three times, at the times 26, 28 and 30.\<close>

definition demo_delete_renewed :: "nat \<Rightarrow> timestamp \<Rightarrow> database \<Rightarrow> database" where
  "demo_delete_renewed k t db = snd (renew_operation (dc_operation example_delete) 104 (example_env k t) db)"

definition demo_lease1 :: database where
  "demo_lease1 = demo_delete_renewed 6 26 example_delete_started"
definition demo_lease2 :: database where
  "demo_lease2 = demo_delete_renewed 8 28 demo_lease1"
definition demo_lease3 :: database where
  "demo_lease3 = demo_delete_renewed 10 30 demo_lease2"

definition demo_delete_audit :: audit_event where
  "demo_delete_audit = \<lparr>au_organization_id = 1, au_project_id = 2, au_service_instance_id = 3, au_principal_id = 4,
     au_principal_context_id = None, au_request_id = ''other'', au_action = PROVIDER_DELETE_ACTION,
     au_resource_type = ''service_instance'', au_resource_id = Some ''other'', au_outcome = ''allowed'',
     au_details = json_object [(''generation'', JNumber 2)]\<rparr>"

definition demo_deleted_db :: database where
  "demo_deleted_db = snd (complete_delete example_store example_delete 104 example_response demo_delete_audit
     (example_env 12 32) demo_lease3)"

lemma demo_delete_store:
  "renew_operation (dc_operation example_delete) 104 (example_env 6 26) example_delete_started = (Ok (), demo_lease1)"
  "renew_operation (dc_operation example_delete) 104 (example_env 8 28) demo_lease1 = (Ok (), demo_lease2)"
  "renew_operation (dc_operation example_delete) 104 (example_env 10 30) demo_lease2 = (Ok (), demo_lease3)"
  "complete_delete example_store example_delete 104 example_response demo_delete_audit (example_env 12 32) demo_lease3
     = (Ok (), demo_deleted_db)"
proof -
  have "fst (renew_operation (dc_operation example_delete) 104 (example_env 6 26) example_delete_started) = Ok ()"
    by code_simp
  then show "renew_operation (dc_operation example_delete) 104 (example_env 6 26) example_delete_started
      = (Ok (), demo_lease1)"
    by (simp add: demo_lease1_def demo_delete_renewed_def prod_eq_iff)
  have "fst (renew_operation (dc_operation example_delete) 104 (example_env 8 28) demo_lease1) = Ok ()"
    by code_simp
  then show "renew_operation (dc_operation example_delete) 104 (example_env 8 28) demo_lease1 = (Ok (), demo_lease2)"
    by (simp add: demo_lease2_def demo_delete_renewed_def prod_eq_iff)
  have "fst (renew_operation (dc_operation example_delete) 104 (example_env 10 30) demo_lease2) = Ok ()"
    by code_simp
  then show "renew_operation (dc_operation example_delete) 104 (example_env 10 30) demo_lease2 = (Ok (), demo_lease3)"
    by (simp add: demo_lease3_def demo_delete_renewed_def prod_eq_iff)
  have "fst (complete_delete example_store example_delete 104 example_response demo_delete_audit
      (example_env 12 32) demo_lease3) = Ok ()"
    by code_simp
  then show "complete_delete example_store example_delete 104 example_response demo_delete_audit
      (example_env 12 32) demo_lease3 = (Ok (), demo_deleted_db)"
    by (simp add: demo_deleted_db_def prod_eq_iff)
qed

definition demo_deleted :: "nat surroundings" where
  "demo_deleted = \<lparr>su_db = demo_deleted_db, su_garage = 3, su_calls = 8,
     su_events = [PrepareCall (dc_operation example_delete) True, RenewCall (dc_operation example_delete) 104 True,
       BucketUsageCall ''phys'' (Ok usage_default), RenewCall (dc_operation example_delete) 104 True,
       RevokeKeyCall ''GK1'' True, RenewCall (dc_operation example_delete) 104 True,
       DeleteBucketCall ''phys'' True, CompleteCall (dc_operation example_delete) 104 example_response True]\<rparr>"

lemma demo_delete_run:
  "delete_service_instance demo_lib demo_app (demo_env (example_env 4 20)) (Ok 3) (Ok \<lparr>dq_generation = 2\<rparr>)
     demo_delete_headers (demo_start example_key_ready) = (Ok (demo_reply 200), demo_deleted)"
proof -
  have bucket: "br_physical_bucket_id example_bucket_record = Some ''phys''" by code_simp
  have audit: "service_audit demo_lib (demo_env (example_env 4 20)) demo_delete_headers
      (dc_operation example_delete) (json_object [(''generation'', JNumber 2)]) = demo_delete_audit"
    by (simp add: service_audit_def audit_for_operation_def demo_delete_audit_def example_delete_def
        example_operation_def request_id_def demo_delete_headers_def REQUEST_ID_def demo_jwt_def)
  have command: "dc_generation example_delete = 2" by (simp add: example_delete_def)
  have generation: "request_generation 2 = Ok 2"
    by (simp add: request_generation_def u64_try_from_i64_def)
  have garage: "be_bucket_usage demo_garage b n = (Ok usage_default, Suc n)"
    "be_revoke_credential demo_garage k n = (Ok (), Suc n)" "be_delete_bucket demo_garage b n = (Ok (), Suc n)" for b k n
    by (simp_all add: demo_garage_def)
  have empty: "bucket_is_empty usage_default" by code_simp
  have answer: "stored_into_response demo_lib example_response = Ok (demo_reply 200)"
    by (simp add: stored_into_response_def example_response_def demo_reply_def)
  show ?thesis
    by (simp add: delete_service_instance_def demo_delete_admitted execute_delete_def eff_bind_def eff_match_def
        eff_lift_def eff_return_def store_or_fail_def eff_map_err_def call_store_def call_garage_def renew_def
        check_usage_def refuse_nonempty_bucket_def revoke_service_key_def remove_bucket_def complete_deletion_def
        success_response_def answer demo_start_def example_prepares(3) bucket audit command generation garage empty
        demo_delete_store example_response_def [symmetric] demo_deleted_def)
qed

lemma demo_schema: "schema_ok example_ready" "schema_ok example_key_ready"
  using reachable_invariant [OF example_reachable(2)] reachable_invariant [OF example_reachable(4)]
  by (simp_all add: invariant_def world_defs)

end
