(* ===== verification/Handler_Properties.thy ===== *)
theory Handler_Properties
  imports Handler_Replay Handler_Examples
begin

text \<open>
  End-to-end properties of the handlers, over every behaviour of the database, of Garage and of the
  other processes: who may cause a call, when a bucket is deleted, what an answer to a creation
  stands for, what becomes of an issued key, and that a repeated request gets the same answer.
\<close>

section \<open>Commands\<close>

text \<open>The command a mutating request is admitted as; the principal of a public request is not part of it.\<close>

datatype api_command =
    ReconcileCommand reconcile_command
  | DeleteCommand delete_command
  | CreateCommand create_credential_command
  | RevokeCommand revoke_credential_command

fun command_operation :: "api_command \<Rightarrow> operation_request" where
  "command_operation (ReconcileCommand c) = rc_operation c"
| "command_operation (DeleteCommand c) = dc_operation c"
| "command_operation (CreateCommand c) = cc_operation c"
| "command_operation (RevokeCommand c) = vc_operation c"

definition ok_command :: "('a \<Rightarrow> api_command) \<Rightarrow> api_error + 'a \<Rightarrow> api_command option" where
  "ok_command f r = (case r of Ok a \<Rightarrow> Some (f a) | Err _ \<Rightarrow> None)"

fun admitted_command ::
  "'k route_library \<Rightarrow> ('g, 'k) app_state \<Rightarrow> 'g handler_env \<Rightarrow> headers \<Rightarrow> api_request \<Rightarrow> api_command option" where
  "admitted_command lib app env headers (PutServiceInstance path body) =
     ok_command ReconcileCommand (admit_reconcile lib app env path headers body)"
| "admitted_command lib app env headers (DeleteServiceInstance path query) =
     ok_command DeleteCommand (admit_delete lib app env path query headers)"
| "admitted_command lib app env headers (PostCredentials body) =
     ok_command (CreateCommand \<circ> snd) (admit_create lib app env headers body)"
| "admitted_command lib app env headers (DeleteCredential path) =
     ok_command (RevokeCommand \<circ> snd) (admit_revoke lib app env path headers)"
| "admitted_command lib app env headers _ = None"

lemma ok_command_Some: "ok_command f r = Some c \<longleftrightarrow> (\<exists>a. r = Ok a \<and> c = f a)"
  by (cases r) (auto simp: ok_command_def)

text \<open>An admitted request runs the execution of its command.\<close>

fun execute_command ::
  "'k route_library \<Rightarrow> ('g, 'k) app_state \<Rightarrow> api_command \<Rightarrow> headers \<times> principal \<Rightarrow> 'g handler_env
     \<Rightarrow> ('g surroundings, api_error, http_reply) eff" where
  "execute_command lib app (ReconcileCommand c) (headers, p) env = execute_reconcile lib app env headers c"
| "execute_command lib app (DeleteCommand c) (headers, p) env = execute_delete lib app env headers c"
| "execute_command lib app (CreateCommand c) (headers, p) env = execute_create lib app env headers p c"
| "execute_command lib app (RevokeCommand c) (headers, p) env = execute_revoke lib app env headers p c"

lemma bind_lift_Ok: "eff_bind (eff_lift (Ok a)) f = f a"
  by (simp add: eff_bind_def eff_match_def eff_lift_def)

lemma admitted_request:
  assumes "admitted_command lib app env headers request = Some c"
  obtains p where "router lib app env headers request = eff_map StoredReply (execute_command lib app c (headers, p) env)"
  using assms
  by (cases request) (auto simp: ok_command_Some reconcile_service_instance_def delete_service_instance_def
      create_credential_def revoke_credential_def bind_lift_Ok)

lemma stored_reply_run:
  "eff_map StoredReply m s = (Ok reply, s') \<longleftrightarrow> (\<exists>x. reply = StoredReply x \<and> m s = (Ok x, s'))"
  by (auto simp: eff_map_def eff_bind_def eff_match_def eff_return_def eff_throw_def split: prod.split sum.split)

lemma command_same_answer:
  assumes "store_codecs_ok st" and "others_keep schema_ok env" and "schema_ok (su_db s)"
    and "execute_command lib (pg_app st app) c (headers, p) env s = (r, s1)" and "completes_with o1 i stored s1"
    and "receipt_of (seen_db env' s2) (op_idempotency_key (command_operation c))
           = receipt_of (su_db s1) (op_idempotency_key (command_operation c))"
    and "no_faults (he_pg env' (su_calls s2))"
  shows "\<exists>s3. execute_command lib (pg_app st app) c (headers', p') env' s2 = (r, s3)
    \<and> su_db s3 = seen_db env' s2 \<and> su_events s3 = su_events s2 @ [PrepareCall (command_operation c) True]"
proof (cases c)
  case (ReconcileCommand command)
  then show ?thesis
    using reconcile_replay.same_answer [OF assms(1-3), where x = headers and y = headers'] assms(4-7) by simp
next
  case (DeleteCommand command)
  then show ?thesis
    using delete_replay.same_answer [OF assms(1-3), where x = headers and y = headers'] assms(4-7) by simp
next
  case (CreateCommand command)
  then show ?thesis
    using create_replay.same_answer [OF assms(1-3), where x = "(headers, p)" and y = "(headers', p')"] assms(4-7)
    by simp
next
  case (RevokeCommand command)
  then show ?thesis
    using revoke_replay.same_answer [OF assms(1-3), where x = "(headers, p)" and y = "(headers', p')"] assms(4-7)
    by simp
qed

lemma create_credential_admission:
  assumes "create_credential lib app env headers body s = (Ok reply, s')"
  obtains p command where "admit_create lib app env headers body = Ok (p, command)"
    "execute_create lib app env headers p command s = (Ok reply, s')"
  using assms
  by (cases "admit_create lib app env headers body")
     (auto simp: create_credential_def eff_bind_def eff_match_def eff_lift_def eff_throw_def)

text \<open>What a granted deletion is told about the service.\<close>

lemma claim_effect_rows:
  "claim_effect operation env db claimed db' \<Longrightarrow> credentials db' = credentials db \<and> buckets db' = buckets db"
  by (auto simp: claim_effect_def taken_over_def)

lemma granted_delete_context:
  assumes "prepare_delete st command env db = (Ok (Execute i ctx), db')" and "schema_ok db"
  shows "\<exists>row. bucket_of db (op_service_instance_id (dc_operation command)) = Some row
     \<and> bk_physical_bucket_id row = br_physical_bucket_id (dx_bucket ctx)
     \<and> dx_garage_key_ids ctx = active_key_ids db (op_service_instance_id (dc_operation command))"
proof -
  have same: "br_physical_bucket_id bucket = bk_physical_bucket_id row"
    if "bucket_row_try_into_record row = Ok bucket" for row bucket
    using that by (auto simp: bucket_row_try_into_record_def try_bind_Ok)
  let ?sid = "op_service_instance_id (dc_operation command)"
  from prepare_delete_effect [OF assms] obtain claimed db1 row where
    "claim_effect (dc_operation command) env db claimed db1" "dx_garage_key_ids ctx = active_key_ids db1 ?sid"
    "bucket_of db1 ?sid = Some row" "bucket_row_try_into_record row = Ok (dx_bucket ctx)"
    unfolding prepare_delete_effect_def by blast
  with same show ?thesis
    by (auto simp: active_key_ids_def bucket_of_def dest!: claim_effect_rows)
qed

lemma deletion_in: "DeleteBucketCall b deleted \<in> set es \<Longrightarrow> list_ex is_bucket_deletion es"
  by (force simp: list_ex_iff is_bucket_deletion_def)

lemma revocations_no_deletion: "\<not> list_ex is_bucket_deletion (revocations operation i keys)"
  by (auto simp: revocations_def list_ex_iff is_bucket_deletion_def)

lemma deletion_trace_bucket:
  assumes "deletion_trace operation i keys b' es" and "DeleteBucketCall b deleted \<in> set es"
  shows "b' = b"
proof -
  have "DeleteBucketCall b deleted \<notin> set (revocations operation i keys)"
    using revocations_no_deletion deletion_in by blast
  with assms show ?thesis by (auto simp: deletion_trace_def dest: deletion_in)
qed

definition is_key_call :: "event \<Rightarrow> bool" where
  "is_key_call e = (case e of CreateKeyCall _ _ _ _ \<Rightarrow> True | _ \<Rightarrow> False)"

definition is_lease_lost :: "store_error \<Rightarrow> bool" where
  "is_lease_lost e = (case e of OperationLeaseLost _ \<Rightarrow> True | _ \<Rightarrow> False)"

section \<open>Properties\<close>

lemma untrusted_refused:
  assumes "\<not> trusted lib app env headers request" and "authenticated_route request"
  shows "\<exists>e. router lib app env headers request s = (Err e, s) \<and> er_status e \<in> {400, 401, 403}"
proof (cases request)
  case (PutServiceInstance path body)
  show ?thesis
    unfolding PutServiceInstance router.simps reconcile_service_instance_def
    by (rule refused_run) (use assms(1) PutServiceInstance in \<open>simp add: admit_untrusted\<close>)
next
  case (DeleteServiceInstance path query)
  show ?thesis
    unfolding DeleteServiceInstance router.simps delete_service_instance_def
    by (rule refused_run) (use assms(1) DeleteServiceInstance in \<open>simp add: admit_untrusted\<close>)
next
  case (PostCredentials body)
  show ?thesis
    unfolding PostCredentials router.simps create_credential_def
    by (rule refused_run) (use assms(1) PostCredentials in \<open>simp add: admit_untrusted\<close>)
next
  case (DeleteCredential path)
  show ?thesis
    unfolding DeleteCredential router.simps revoke_credential_def
    by (rule refused_run) (use assms(1) DeleteCredential in \<open>simp add: admit_untrusted\<close>)
next
  case GetServiceOverview
  show ?thesis
    unfolding GetServiceOverview router.simps service_overview_handler_def
    by (rule refused_run) (use assms(1) GetServiceOverview in \<open>simp add: authorize_untrusted\<close>)
next
  case GetUsage
  show ?thesis
    unfolding GetUsage router.simps service_usage_handler_def
    by (rule refused_run) (use assms(1) GetUsage in \<open>simp add: authorize_untrusted\<close>)
next
  case GetCredentials
  show ?thesis
    unfolding GetCredentials router.simps list_credentials_handler_def
    by (rule refused_run) (use assms(1) GetCredentials in \<open>simp add: authorize_untrusted\<close>)
qed (use assms(2) in simp_all)

definition is_health_call :: "event \<Rightarrow> bool" where
  "is_health_call e = (case e of StoreHealthCall _ \<Rightarrow> True | GarageHealthCall _ \<Rightarrow> True | _ \<Rightarrow> False)"

lemma emits_ready: "emits (ready app env) (\<lambda>r es. list_all is_health_call es)"
  unfolding ready_def
  by (rule emits_bind [where P = "\<lambda>r es. list_all is_health_call es"])
     (auto simp: is_health_call_def intro!: emits_store_or_fail emits_bind [where P = "\<lambda>r es. list_all is_health_call es"]
        emits_map_err emits_garage emits_return)

lemma open_route_calls:
  assumes "\<not> authenticated_route request" and "router lib app env headers request s = (r, s')"
  shows "\<exists>es. su_events s' = su_events s @ es \<and> list_all is_health_call es \<and> (es = [] \<or> request = GetReady)"
proof (cases request)
  case GetReady
  with assms(2) obtain q where "ready app env s = (q, s')"
    by (auto simp: eff_map_def eff_bind_def eff_match_def eff_return_def eff_throw_def split: prod.splits sum.splits)
  with GetReady show ?thesis by (metis emits_run [OF emits_ready])
qed (use assms in \<open>auto simp: live_def eff_map_def eff_bind_def eff_match_def eff_return_def eff_throw_def\<close>)

text \<open>
  C5: nothing is called for a stranger. On the seven routes of the API that need credentials (reconcile,
  delete, overview, usage, the three of credentials), unless the request carries a verified provider
  token for the action and the service in its path, bound to its idempotency key, or a principal context
  with the permission of the route, it is answered with 400, 401 or 403 and neither the database nor
  Garage is touched. The remaining routes read no credentials: there nothing is called but the health
  checks of the store and of Garage, and these only for the readiness probe.
\<close>
theorem untrusted_requests_are_refused:
  assumes "\<not> trusted lib app env headers request" and "router lib app env headers request s = (r, s')"
  shows "if authenticated_route request then s' = s \<and> (\<exists>e. r = Err e \<and> er_status e \<in> {400, 401, 403})
     else \<exists>es. su_events s' = su_events s @ es \<and> list_all is_health_call es \<and> (es = [] \<or> request = GetReady)"
  using untrusted_refused [OF assms(1), of s] open_route_calls [OF _ assms(2)] assms(2) by auto

theorem untrusted_requests_are_refused_witness:
  "snd (router demo_lib demo_app (demo_env (example_env 2 10)) Map.empty (DeleteCredential (Ok 202))
      (demo_start example_key_ready)) = demo_start example_key_ready
   \<and> list_all is_health_call (su_events (snd (router demo_lib demo_app (demo_env (example_env 2 10)) Map.empty GetReady
      (demo_start example_key_ready))))"
proof -
  have "\<not> trusted demo_lib demo_app (demo_env (example_env 2 10)) Map.empty (DeleteCredential (Ok 202))"
    "\<not> trusted demo_lib demo_app (demo_env (example_env 2 10)) Map.empty GetReady"
    by (simp_all add: principal_trusted_def principal_authenticate_def required_header_def)
  from untrusted_requests_are_refused [OF this(1) surjective_pairing, of "demo_start example_key_ready"]
    untrusted_requests_are_refused [OF this(2) surjective_pairing, of "demo_start example_key_ready"]
  show ?thesis by (auto simp: demo_start_def)
qed

text \<open>
  C3: a bucket is deleted only when that is safe: the deletion was granted for the service, the lease
  was renewed, Garage reported the bucket empty (or gone), every key that is active in the database was
  revoked, each under a renewed lease, and the lease was renewed once more, in this order; and the
  bucket is the one recorded for the service.
\<close>
theorem bucket_deleted_only_when_empty:
  assumes "delete_service_instance lib app env path query headers s = (r, s')"
    and "su_events s' = su_events s @ es" and "DeleteBucketCall b deleted \<in> set es"
    and "schema_ok (seen_db env s)" and "as_store app = pg_repository st"
  shows "\<exists>command i row rest. admit_delete lib app env path query headers = Ok command
    \<and> bucket_of (seen_db env s) (op_service_instance_id (dc_operation command)) = Some row
    \<and> bk_physical_bucket_id row = Some b
    \<and> es = PrepareCall (dc_operation command) True # rest
    \<and> deletion_trace (dc_operation command) i
        (active_key_ids (seen_db env s) (op_service_instance_id (dc_operation command))) b rest"
proof -
  from assms(1-3) obtain command where command: "admit_delete lib app env path query headers = Ok command"
    and run: "execute_delete lib app env headers command s = (r, s')"
    by (cases "admit_delete lib app env path query headers")
       (auto simp: delete_service_instance_def eff_bind_def eff_match_def eff_lift_def eff_throw_def)
  have deletes: "list_ex is_bucket_deletion es" using assms(3) by (rule deletion_in)
  from execute_delete_post [of lib app env headers command s] obtain i ctx db' b' rest where
    prepared: "rp_prepare_delete (as_store app) command (he_pg env (su_calls s)) (seen_db env s)
        = (Ok (Execute i ctx), db')"
    and b': "br_physical_bucket_id (dx_bucket ctx) = Some b'"
    and es: "es = PrepareCall (dc_operation command) True # rest"
    and trace: "deletion_trace (dc_operation command) i (dx_garage_key_ids ctx) b' rest"
    using deletes assms(2) by (auto simp: post_def run)
  obtain row where row: "bucket_of (seen_db env s) (op_service_instance_id (dc_operation command)) = Some row"
      "bk_physical_bucket_id row = br_physical_bucket_id (dx_bucket ctx)"
    and keys: "dx_garage_key_ids ctx
        = active_key_ids (seen_db env s) (op_service_instance_id (dc_operation command))"
    using granted_delete_context [OF prepared [unfolded assms(5) pg_repository_sel] assms(4)] by blast
  have "b' = b" using trace assms(3) unfolding es by (auto dest: deletion_trace_bucket)
  with command row b' es trace keys show ?thesis by auto
qed

theorem bucket_deleted_only_when_empty_witness:
  "\<exists>i rest. su_events demo_deleted = PrepareCall (dc_operation example_delete) True # rest
     \<and> deletion_trace (dc_operation example_delete) i [''GK1''] ''phys'' rest"
proof -
  have "schema_ok (seen_db (demo_env (example_env 4 20)) (demo_start example_key_ready))"
    by (simp add: seen_db_def demo_start_def demo_schema)
  moreover have "su_events demo_deleted = su_events (demo_start example_key_ready) @ su_events demo_deleted"
    and "DeleteBucketCall ''phys'' True \<in> set (su_events demo_deleted)"
    by (simp_all add: demo_start_def demo_deleted_def)
  moreover have "active_key_ids example_key_ready 3 = [''GK1'']" by code_simp
  ultimately show ?thesis
    using bucket_deleted_only_when_empty [OF demo_delete_run _ _ _ demo_fields(8)]
    by (fastforce simp: demo_delete_admitted seen_db_def demo_start_def example_delete_def example_operation_def)
qed

text \<open>
  C8: a positive answer to a credential request stands for a recorded credential: it is the replay of
  the receipt of the same operation, with no call to Garage, or the answer 201 to a key that Garage
  issued under a renewed lease with the requested permissions and that was then recorded together with
  this very response. It is never to be cached.
\<close>
theorem credential_answers_are_recorded:
  assumes "create_credential lib app env headers body s = (Ok reply, s')"
  shows "\<exists>p command es. admit_create lib app env headers body = Ok (p, command)
    \<and> su_events s' = su_events s @ PrepareCall (cc_operation command) True # es
    \<and> (''cache-control'', ''no-store, private'') \<in> set (rp_headers reply)
    \<and> ((\<exists>stored. es = [] \<and> fst (rp_prepare_create_credential (as_store app) command
             (he_pg env (su_calls s)) (seen_db env s)) = Ok (Replay stored)
           \<and> rp_status reply = sh_status stored \<and> rp_body reply = sh_body stored)
       \<or> (\<exists>i ctx b issued stored. fst (rp_prepare_create_credential (as_store app) command
             (he_pg env (su_calls s)) (seen_db env s)) = Ok (Execute i ctx)
           \<and> br_physical_bucket_id (cx_bucket ctx) = Some b
           \<and> es = [RenewCall (cc_operation command) i True,
                  CreateKeyCall b (deterministic_name lib p (cx_credential_id ctx)) (cc_permissions command) (Ok issued),
                  CompleteCall (cc_operation command) i stored True]
           \<and> rl_issued_response lib (issued_response lib app env command ctx issued) = Some (rp_body reply)
           \<and> rp_status reply = 201 \<and> sh_status stored = 201 \<and> sh_body stored = rp_body reply))"
proof -
  from assms obtain p command where admitted: "admit_create lib app env headers body = Ok (p, command)"
    and run: "execute_create lib app env headers p command s = (Ok reply, s')"
    by (rule create_credential_admission)
  have replied: "rp_status reply = sh_status stored \<and> rp_body reply = sh_body stored
      \<and> (''cache-control'', ''no-store, private'') \<in> set (rp_headers reply)"
    if "Ok reply = stored_into_response lib stored" for stored
    using that by (auto simp: stored_into_response_def split: if_splits)
  obtain r0 db0 where prepared: "rp_prepare_create_credential (as_store app) command (he_pg env (su_calls s))
      (seen_db env s) = (r0, db0)" by fastforce
  note course = execute_create_post [of lib app env headers p command s, unfolded post_def run prepared prod.case]
  show ?thesis
  proof (cases r0)
    case (Inl e)
    with course show ?thesis by simp
  next
    case granted: (Inr start)
    show ?thesis
    proof (cases start)
      case (Replay stored)
      with course granted have "Ok reply = stored_into_response lib stored"
        and "su_events s' = su_events s @ [PrepareCall (cc_operation command) True]" by simp_all
      with replied admitted prepared granted Replay show ?thesis by auto
    next
      case (InProgress i)
      with course granted show ?thesis by simp
    next
      case (Execute i ctx)
      with course granted obtain es where es: "su_events s' = su_events s @ PrepareCall (cc_operation command) True # es"
        and "creation_course lib app env p command i ctx (Ok reply) es" by auto
      from this(2) show ?thesis
      proof (cases rule: creation_course.cases)
        case (recorded b issued body stored)
        with replied [of stored] show ?thesis
          using admitted es prepared granted Execute by auto
      qed
    qed
  qed
qed

theorem credential_answers_are_recorded_witness:
  "(''cache-control'', ''no-store, private'') \<in> set (rp_headers (demo_reply 201))
   \<and> (\<exists>es. su_events demo_created = PrepareCall (cc_operation example_create) True # es)"
  using credential_answers_are_recorded [OF demo_create_run]
  by (auto simp: demo_create_admitted demo_start_def)

text \<open>
  C4: the same request gets the same answer: once a mutating request (reconcile, delete, create or
  revoke) was answered after its operation completed, a later request of the same command, whose
  database still holds that receipt (a finished receipt never changes), is answered with the same
  reply, calls nothing but the prepare, and leaves the database as it finds it; so nothing is done
  twice and no second key is issued.
\<close>
theorem repeated_requests_get_the_same_answer:
  assumes "as_store app = pg_repository st" and "store_codecs_ok st" and "schema_ok (su_db s)"
    and "others_keep schema_ok env"
    and "admitted_command lib app env headers request = Some c"
    and "router lib app env headers request s = (Ok reply, s1)"
    and "completes_with (command_operation c) i stored s1"
    and "admitted_command lib app env' headers' request' = Some c"
    and "receipt_of (seen_db env' s2) (op_idempotency_key (command_operation c))
           = receipt_of (su_db s1) (op_idempotency_key (command_operation c))"
    and "no_faults (he_pg env' (su_calls s2))"
  shows "\<exists>s3. router lib app env' headers' request' s2 = (Ok reply, s3)
    \<and> su_db s3 = seen_db env' s2 \<and> su_events s3 = su_events s2 @ [PrepareCall (command_operation c) True]"
proof -
  have app: "pg_app st app = app" using assms(1) by simp
  obtain p where first: "router lib app env headers request
      = eff_map StoredReply (execute_command lib app c (headers, p) env)"
    using assms(5) by (rule admitted_request)
  obtain p' where again: "router lib app env' headers' request'
      = eff_map StoredReply (execute_command lib app c (headers', p') env')"
    using assms(8) by (rule admitted_request)
  from assms(6) obtain x where reply: "reply = StoredReply x"
    and run: "execute_command lib app c (headers, p) env s = (Ok x, s1)"
    unfolding first stored_reply_run by blast
  from command_same_answer [OF assms(2,4,3), of lib app, unfolded app, OF run assms(7,9,10)] obtain s3
    where "execute_command lib app c (headers', p') env' s2 = (Ok x, s3)"
      "su_db s3 = seen_db env' s2" "su_events s3 = su_events s2 @ [PrepareCall (command_operation c) True]"
    by blast
  then show ?thesis unfolding again stored_reply_run reply by blast
qed

theorem repeated_requests_get_the_same_answer_witness:
  "\<exists>s3. router demo_lib demo_app (demo_env (example_env 2 10)) demo_create_headers
      (PostCredentials (Ok demo_create_request)) demo_created = (Ok (StoredReply (demo_reply 201)), s3)
    \<and> su_db s3 = demo_created_db
    \<and> su_events s3 = su_events demo_created @ [PrepareCall (cc_operation example_create) True]"
proof -
  let ?env = "demo_env (example_env 2 10)"
  have admitted: "admitted_command demo_lib demo_app ?env demo_create_headers (PostCredentials (Ok demo_create_request))
      = Some (CreateCommand example_create)"
    by (simp add: demo_create_admitted ok_command_def)
  have run: "router demo_lib demo_app ?env demo_create_headers (PostCredentials (Ok demo_create_request))
      (demo_start example_ready) = (Ok (StoredReply (demo_reply 201)), demo_created)"
    by (simp add: stored_reply_run demo_create_run)
  have completed: "completes_with (command_operation (CreateCommand example_create)) 102 demo_create_stored demo_created"
    by (simp add: completes_with_def demo_created_def)
  have seen: "seen_db ?env demo_created = su_db demo_created" by (simp add: seen_db_def)
  have db: "su_db demo_created = demo_created_db" by (simp add: demo_created_def)
  have "schema_ok (su_db (demo_start example_ready))" "others_keep schema_ok ?env"
    "no_faults (he_pg ?env (su_calls demo_created))"
    by (simp_all add: demo_start_def demo_schema others_keep_def)
  from repeated_requests_get_the_same_answer [OF demo_fields(8) example_codecs_ok this(1,2) admitted run completed
      admitted _ this(3)] seen db show ?thesis by simp
qed

text \<open>
  C9: every call for a key is followed up: a request calls Garage for a key at most once, and the last
  thing it does is to record Garage's refusal in the receipt and answer with it, to record the key
  with its response and answer with that, to report that recording failed (the receipt then stays
  open for a retry), or, when another process has taken the operation over, to revoke the key.
  The only other way is that the response cannot be encoded as JSON.
\<close>
theorem creation_outcomes_are_followed_up:
  assumes "create_credential lib app env headers body s = (r, s')"
    and "su_events s' = su_events s @ es" and "CreateKeyCall b name permissions outcome \<in> set es"
  shows "\<exists>p command i ctx. admit_create lib app env headers body = Ok (p, command)
    \<and> filter is_key_call es = [CreateKeyCall b name permissions outcome]
    \<and> (case outcome of
         Err e \<Rightarrow> \<exists>recorded. last es = FailCall (cc_operation command) i
             (stored_response (uuid_text lib) (api_error_from_backend e)) recorded
           \<and> (if recorded then r = Err (api_error_from_backend e) else \<exists>e'. r = Err (api_error_from_store e'))
       | Ok issued \<Rightarrow>
           (\<exists>stored. last es = CompleteCall (cc_operation command) i stored True
              \<and> r = stored_into_response lib stored)
           \<or> (\<exists>stored e. last es = CompleteCall (cc_operation command) i stored False
              \<and> r = Err (api_error_from_store e) \<and> \<not> is_lease_lost e)
           \<or> (\<exists>revoked j. last es = RevokeKeyCall (ic_garage_key_id issued) revoked
              \<and> r = Err (operation_in_progress j))
           \<or> r = Err internal \<and> rl_issued_response lib (issued_response lib app env command ctx issued) = None)"
proof -
  from assms obtain p command where admitted: "admit_create lib app env headers body = Ok (p, command)"
    and run: "execute_create lib app env headers p command s = (r, s')"
    by (cases "admit_create lib app env headers body")
       (auto simp: create_credential_def eff_bind_def eff_match_def eff_lift_def eff_throw_def)
  obtain r0 db0 where prepared: "rp_prepare_create_credential (as_store app) command (he_pg env (su_calls s))
      (seen_db env s) = (r0, db0)" by fastforce
  note course = execute_create_post [of lib app env headers p command s, unfolded post_def run prepared prod.case]
  obtain i ctx rest where es: "es = PrepareCall (cc_operation command) True # rest"
    and "creation_course lib app env p command i ctx r rest"
    using course assms(2,3) by (cases r0) (auto split: prepare.splits)
  from this(2) have "filter is_key_call es = [CreateKeyCall b name permissions outcome]
    \<and> (case outcome of
         Err e \<Rightarrow> \<exists>recorded. last es = FailCall (cc_operation command) i
             (stored_response (uuid_text lib) (api_error_from_backend e)) recorded
           \<and> (if recorded then r = Err (api_error_from_backend e) else \<exists>e'. r = Err (api_error_from_store e'))
       | Ok issued \<Rightarrow>
           (\<exists>stored. last es = CompleteCall (cc_operation command) i stored True
              \<and> r = stored_into_response lib stored)
           \<or> (\<exists>stored e. last es = CompleteCall (cc_operation command) i stored False
              \<and> r = Err (api_error_from_store e) \<and> \<not> is_lease_lost e)
           \<or> (\<exists>revoked j. last es = RevokeKeyCall (ic_garage_key_id issued) revoked
              \<and> r = Err (operation_in_progress j))
           \<or> r = Err internal \<and> rl_issued_response lib (issued_response lib app env command ctx issued) = None)"
  proof (cases rule: creation_course.cases)
    case (not_recorded b' e issued stored)
    then show ?thesis using assms(3) by (cases e) (auto simp: es is_key_call_def is_lease_lost_def)
  qed (use assms(3) in \<open>auto simp: es is_key_call_def\<close>)
  with admitted show ?thesis by blast
qed

theorem creation_outcomes_are_followed_up_witness:
  "filter is_key_call (su_events demo_created) = [CreateKeyCall ''phys'' ''syouyu-other-other''
     \<lparr>bp_read = True, bp_write = False\<rparr> (Ok demo_issued)]"
proof -
  have "su_events demo_created = su_events (demo_start example_ready) @ su_events demo_created"
    and "CreateKeyCall ''phys'' ''syouyu-other-other'' \<lparr>bp_read = True, bp_write = False\<rparr> (Ok demo_issued)
      \<in> set (su_events demo_created)"
    by (simp_all add: demo_start_def demo_created_def)
  from creation_outcomes_are_followed_up [OF demo_create_run this] show ?thesis by blast
qed

end
