(* ===== verification/Handler_Bounds.thy ===== *)
theory Handler_Bounds
  imports Handler_Properties Store_Safety
begin

text \<open>
  Every request ends after a bounded number of calls to the store and to Garage. \<open>costs m n f\<close> counts
  the calls of a computation: at most \<open>n\<close> when it returns, at most \<open>f\<close> more when it fails. The loop over
  the keys of a service is bounded by the credential limit of the store.
\<close>

section \<open>Counting calls\<close>

definition costs :: "('g surroundings, 'e, 'a) eff \<Rightarrow> nat \<Rightarrow> nat \<Rightarrow> bool" where
  "costs m n f \<longleftrightarrow> (\<forall>s. post m s (\<lambda>r s'. su_calls s' \<le> su_calls s + n + (if is_ok r then 0 else f)))"

lemma costsD: "costs m n f \<Longrightarrow> m s = (r, s') \<Longrightarrow> su_calls s' \<le> su_calls s + n + (if is_ok r then 0 else f)"
  unfolding costs_def by (metis post_run)

lemma costs_pure [intro!]:
  "costs (eff_return a) n f" "costs (eff_throw e) n f" "costs (eff_lift r) n f"
  by (simp_all add: costs_def post_simps)

lemma costs_mono: "costs m n f \<Longrightarrow> n \<le> n' \<Longrightarrow> n + f \<le> n' + f' \<Longrightarrow> costs m n' f'"
  unfolding costs_def by (rule allI, drule spec, erule post_mono) (auto split: if_splits)

lemma costs_store: "costs (call_store env ev op) 1 f"
  by (simp add: costs_def post_def call_store_def split: prod.split)

lemma costs_garage: "costs (call_garage env ev m) 1 f"
  by (simp add: costs_def post_def call_garage_def split: prod.split)

lemma costs_map_err: "costs m n f \<Longrightarrow> costs (eff_map_err g m) n f"
  unfolding costs_def post_map_err
  by (rule allI, drule spec, erule post_mono) (simp add: map_err_def is_ok_def split: sum.splits)

lemma costs_store_or_fail: "costs (store_or_fail env ev op) 1 f"
  unfolding store_or_fail_def by (intro costs_map_err costs_store)

lemma costs_match:
  fixes m :: "('g surroundings, 'e, 'a) eff" and g :: "'e + 'a \<Rightarrow> ('g surroundings, 'f, 'b) eff"
  assumes "costs m n 0" and "\<And>a. costs (g (Ok a)) k f" and "\<And>e. costs (g (Err e)) k f" and "n + k \<le> N"
  shows "costs (eff_match m g) N f"
proof (rule costs_mono [of _ "n + k" f], unfold costs_def post_match, rule allI)
  fix s
  have "post m s (\<lambda>r s'. su_calls s' \<le> su_calls s + n)" using assms(1) by (simp add: costs_def)
  then show "post m s (\<lambda>r s'. post (g r) s' (\<lambda>r s'. su_calls s' \<le> su_calls s + (n + k) + (if is_ok r then 0 else f)))"
  proof (rule post_mono)
    fix r and s' :: "'g surroundings" assume s': "su_calls s' \<le> su_calls s + n"
    have "costs (g r) k f" using assms(2,3) by (cases r) auto
    then have "post (g r) s' (\<lambda>r s''. su_calls s'' \<le> su_calls s' + k + (if is_ok r then 0 else f))"
      unfolding costs_def by blast
    then show "post (g r) s' (\<lambda>r s'. su_calls s' \<le> su_calls s + (n + k) + (if is_ok r then 0 else f))"
      by (rule post_mono) (use s' in simp)
  qed
qed (use assms(4) in simp_all)

lemma costs_bind:
  fixes m :: "('g surroundings, 'e, 'a) eff"
  assumes "costs m n f" and "\<And>a. costs (g a) k f" and "n + k \<le> N"
  shows "costs (eff_bind m g) N f"
proof (rule costs_mono [of _ "n + k" f], unfold costs_def, rule allI)
  fix s
  have "post m s (\<lambda>r s'. su_calls s' \<le> su_calls s + n + (if is_ok r then 0 else f))"
    using assms(1) unfolding costs_def by blast
  then show "post (eff_bind m g) s (\<lambda>r s'. su_calls s' \<le> su_calls s + (n + k) + (if is_ok r then 0 else f))"
  proof (rule post_bindI)
    fix a and s' :: "'g surroundings" assume "su_calls s' \<le> su_calls s + n + (if is_ok (Ok a :: 'e + 'a) then 0 else f)"
    then have s': "su_calls s' \<le> su_calls s + n" by simp
    have "post (g a) s' (\<lambda>r s''. su_calls s'' \<le> su_calls s' + k + (if is_ok r then 0 else f))"
      using assms(2) unfolding costs_def by blast
    then show "post (g a) s' (\<lambda>r s'. su_calls s' \<le> su_calls s + (n + k) + (if is_ok r then 0 else f))"
      by (rule post_mono) (use s' in simp)
  qed simp
qed (use assms(3) in simp_all)

text \<open>Bodies: a pure step is free, a step with one call leaves one call less.\<close>

lemma costs_free: "(\<And>a. costs (g a) N f) \<Longrightarrow> costs (eff_bind (eff_lift r) g) N f"
  by (rule costs_bind [where n = 0 and k = N]) (auto simp: costs_pure)

lemma costs_call: "costs m 1 f \<Longrightarrow> (\<And>a. costs (g a) N f) \<Longrightarrow> costs (eff_bind m g) (Suc N) f"
  by (rule costs_bind [where n = 1 and k = N]) auto

lemma costs_fails:
  assumes "costs m n 0" and "\<And>s. post m s (\<lambda>r _. \<not> is_ok r)"
  shows "costs m 0 n"
  unfolding costs_def
proof
  fix s
  show "post m s (\<lambda>r s'. su_calls s' \<le> su_calls s + 0 + (if is_ok r then 0 else n))"
    using assms(1) assms(2) [of s] by (auto simp: costs_def post_def split: prod.splits)
qed

lemma costs_for:
  assumes "\<And>x. costs (body x) n f"
  shows "costs (eff_for xs body) (n * length xs) f"
proof (induction xs)
  case (Cons x xs)
  show ?case unfolding eff_for.simps by (rule costs_bind [OF assms Cons.IH]) simp
qed (simp add: costs_pure)

lemma costs_map: "costs m n f \<Longrightarrow> costs (eff_map h m) n f"
  unfolding eff_map_def by (rule costs_bind [where k = 0]) (auto simp: costs_pure)

lemma costs_if: "(b \<Longrightarrow> costs m n f) \<Longrightarrow> (\<not> b \<Longrightarrow> costs m' n f) \<Longrightarrow> costs (if b then m else m') n f"
  by simp

section \<open>The handlers\<close>

lemma costs_renew: "costs (renew app env operation i) 1 f"
  unfolding renew_def by (rule costs_store_or_fail)

lemma costs_read_audit: "costs (record_read_audit lib app env p headers action resource) 1 f"
  unfolding record_read_audit_def Let_def by (rule costs_store_or_fail)

lemma costs_backend_failure: "costs (persist_backend_failure lib app env operation i e audit) 0 1"
  unfolding persist_backend_failure_def Let_def
proof (rule costs_fails, rule costs_match [where n = 1 and k = 0, OF costs_store])
  show "post (eff_match m (\<lambda>r. case r of Err e \<Rightarrow> eff_throw (h e) | Ok _ \<Rightarrow> eff_throw x)) s (\<lambda>r _. \<not> is_ok r)"
    for m :: "('g surroundings, store_error, unit) eff" and h and x :: api_error and s
    by (rule postI) (auto simp: eff_match_def eff_throw_def split: prod.splits sum.splits)
qed (simp_all add: costs_pure)

lemma costs_delete_failure: "costs (delete_failure lib app env headers command i phase e) 0 1"
  unfolding delete_failure_def by (rule costs_backend_failure)

lemma costs_check_usage: "costs (check_usage lib app env headers command i b) 1 1"
  unfolding check_usage_def
  by (rule costs_match [OF costs_garage, where k = 0])
     (simp_all add: costs_pure costs_delete_failure del: One_nat_def split: garage_backend_error.split)

lemma costs_refuse: "costs (refuse_nonempty_bucket lib app env headers command i usage) 0 1"
  unfolding refuse_nonempty_bucket_def Let_def persist_failure_def
proof (rule costs_if [OF costs_pure(1)], rule costs_fails, rule costs_bind [where n = 1 and k = 0, OF costs_store_or_fail])
  show "post (eff_bind m (\<lambda>_. eff_throw x)) s (\<lambda>r _. \<not> is_ok r)"
    for m :: "('g surroundings, api_error, unit) eff" and x :: api_error and s
    by (rule postI) (auto simp: eff_bind_def eff_match_def eff_throw_def split: prod.splits sum.splits)
qed (simp_all add: costs_pure)

lemma costs_renewed_call:
  assumes "\<And>a. costs (g (Ok a)) 0 1" and "\<And>e. costs (g (Err e)) 0 1"
  shows "costs (eff_bind (renew app env operation i) (\<lambda>_. eff_match (call_garage env ev m) g)) 2 1"
  by (rule costs_bind [where k = 1, OF costs_renew costs_match [OF costs_garage assms]]) simp_all

lemma costs_revoke_key: "costs (revoke_service_key lib app env headers command i k) 2 1"
  unfolding revoke_service_key_def by (rule costs_renewed_call) (simp_all add: costs_pure costs_delete_failure del: One_nat_def)

lemma costs_remove_bucket: "costs (remove_bucket lib app env headers command i b) 2 1"
  unfolding remove_bucket_def by (rule costs_renewed_call) (simp_all add: costs_pure costs_delete_failure del: One_nat_def)

lemma costs_physical_bucket: "costs (reconcile_physical_bucket lib app env headers command i ctx) 2 1"
  unfolding reconcile_physical_bucket_def
  by (rule costs_if [OF costs_pure(3) costs_renewed_call]) (simp_all add: costs_pure costs_backend_failure del: One_nat_def)

lemma costs_issue_key: "costs (issue_key lib app env headers p command i ctx b) 1 1"
  unfolding issue_key_def
  by (rule costs_match [OF costs_garage, where k = 0]) (simp_all add: costs_pure costs_backend_failure del: One_nat_def)

lemma costs_compensation: "costs (eff_match (call_garage env ev m) (\<lambda>_. eff_throw x)) 0 1"
proof (rule costs_fails, rule costs_match [where n = 1 and k = 0, OF costs_garage])
  show "post (eff_match (call_garage env ev m) (\<lambda>_. eff_throw x)) s (\<lambda>r _. \<not> is_ok r)" for s
    by (rule postI) (auto simp: eff_match_def eff_throw_def split: prod.splits)
qed (simp_all add: costs_pure)

lemma costs_record_key: "costs (record_issued_key lib app env headers p command i ctx issued stored) 1 1"
  unfolding record_issued_key_def
  by (intro costs_match [OF costs_store, where k = 0])
     (simp_all add: costs_pure costs_compensation del: One_nat_def split: store_error.split)

lemma costs_prepared:
  assumes "\<And>i ctx. costs (g i ctx) N f"
  shows "costs (eff_bind (store_or_fail env ev op) (\<lambda>prepared.
     case prepared of Execute i ctx \<Rightarrow> g i ctx | other \<Rightarrow> eff_lift (h other))) (Suc N) f"
  by (rule costs_call [OF costs_store_or_fail]) (use assms in \<open>auto split: prepare.split intro: costs_pure\<close>)

lemma costs_reconcile: "costs (execute_reconcile lib app env headers command) (Suc (2 + 1)) 1"
  unfolding execute_reconcile_def
  by (rule costs_prepared, rule costs_bind [OF costs_physical_bucket _ order_refl], unfold One_nat_def)
     (intro costs_free costs_call costs_store_or_fail costs_pure)

lemma costs_create: "costs (execute_create lib app env headers p command) (Suc (Suc (Suc (Suc 0)))) 1"
  unfolding execute_create_def
  by (intro costs_prepared costs_free costs_call costs_renew costs_issue_key costs_record_key costs_pure)

lemma costs_revoke: "costs (execute_revoke lib app env headers p command) (Suc (Suc (Suc (Suc 0)))) 1"
  unfolding execute_revoke_def
  by (intro costs_prepared costs_free costs_call costs_renew costs_store_or_fail costs_pure costs_if
      costs_match [OF costs_garage, where k = 0])
     (simp_all add: costs_pure costs_backend_failure del: One_nat_def)

lemma costs_reads:
  "costs (service_overview_handler lib app env headers) (Suc (Suc (Suc 0))) 1"
  "costs (service_usage_handler lib app env headers) (Suc (Suc (Suc (Suc 0)))) 1"
  "costs (list_credentials_handler lib app env headers) (Suc (Suc 0)) 1"
  "costs (ready app env) (Suc (Suc 0)) 1"
  unfolding service_overview_handler_def service_usage_handler_def list_credentials_handler_def ready_def
  by (intro costs_free costs_call costs_store_or_fail costs_read_audit costs_map_err costs_garage costs_pure)+

lemma costs_deletion:
  "costs (eff_bind (eff_lift (ok_or (br_physical_bucket_id (dx_bucket ctx)) internal)) (\<lambda>b.
     eff_bind (renew app env (dc_operation command) i) (\<lambda>_.
     eff_bind (check_usage lib app env headers command i b) (\<lambda>usage.
     eff_bind (refuse_nonempty_bucket lib app env headers command i usage) (\<lambda>_.
     eff_bind (eff_for (dx_garage_key_ids ctx) (revoke_service_key lib app env headers command i)) (\<lambda>_.
     eff_bind (remove_bucket lib app env headers command i b) (\<lambda>_.
     complete_deletion lib app env headers command i))))))) (Suc (Suc (0 + (2 * length (dx_garage_key_ids ctx) + (2 + 1))))) 1"
  unfolding complete_deletion_def One_nat_def [symmetric]
  by (intro costs_free costs_call costs_renew costs_check_usage costs_bind [OF costs_refuse _ order_refl]
      costs_bind [OF costs_for [OF costs_revoke_key] _ order_refl] costs_bind [OF costs_remove_bucket _ order_refl]
      costs_bind [OF costs_store_or_fail, where k = 0] costs_pure) simp

lemma costs_delete:
  assumes "\<And>i ctx db'. rp_prepare_delete (as_store app) command (he_pg env (su_calls s)) (seen_db env s)
      = (Ok (Execute i ctx), db') \<Longrightarrow> length (dx_garage_key_ids ctx) \<le> k"
  shows "post (execute_delete lib app env headers command) s (\<lambda>r s'. su_calls s' \<le> su_calls s + (7 + 2 * k))"
proof -
  let ?call = "call_store env (\<lambda>r. PrepareCall (dc_operation command) (is_ok r)) (rp_prepare_delete (as_store app) command)"
  obtain r s1 where call: "?call s = (r, s1)" by fastforce
  then have s1: "su_calls s1 = Suc (su_calls s)"
    and r: "fst (rp_prepare_delete (as_store app) command (he_pg env (su_calls s)) (seen_db env s)) = r"
    by (auto simp: call_store_def seen_db_def split: prod.splits)
  have run: "post ?call s Q \<longleftrightarrow> Q r s1" for Q by (simp add: post_def call)
  show ?thesis
  proof (cases r)
    case (Inl e)
    then show ?thesis by (simp add: execute_delete_def store_or_fail_def post_bind post_map_err run s1)
  next
    case (Inr prepared)
    show ?thesis
    proof (cases prepared)
      case (Execute i ctx)
      have "length (dx_garage_key_ids ctx) \<le> k"
        using assms r Inr Execute by (metis prod.collapse)
      then show ?thesis
        unfolding execute_delete_def store_or_fail_def post_bind [of _ "case_prepare _ _ _"] post_map_err run
        by (simp add: Inr Execute)
           (rule post_mono [OF costs_deletion [unfolded costs_def, rule_format, of _ _ _ _ _ _ _ s1]], auto simp: s1 split: if_splits)
    qed (simp_all add: execute_delete_def store_or_fail_def post_simps run s1 Inr)
  qed
qed

section \<open>Requests\<close>

lemma granted_keys:
  assumes "reachable st w" and "prepare_delete st command env (w_db w) = (Ok (Execute i ctx), db')"
  shows "length (dx_garage_key_ids ctx) \<le> unat (cl_max_credentials_per_bucket (ps_credential_limits st))"
proof -
  let ?sid = "op_service_instance_id (dc_operation command)"
  have "prepare_delete_effect command env (w_db w) i ctx db'"
    using prepare_delete_effect [OF assms(2) reachableD [OF assms(1)]] by auto
  then obtain claimed db1 where "claim_effect (dc_operation command) env (w_db w) claimed db1"
    and keys: "dx_garage_key_ids ctx = active_key_ids db1 ?sid"
    by (auto simp: prepare_delete_effect_def)
  then have "credentials db1 = credentials (w_db w)" by (simp add: claim_effect_tables)
  with keys have "length (dx_garage_key_ids ctx) \<le> bucket_credentials (w_db w) ?sid"
    by (simp add: active_key_ids_def bucket_credentials_def count_rows_def)
  also have "\<dots> \<le> unat (cl_max_credentials_per_bucket (ps_credential_limits st))"
    using reachable_invariant [OF assms(1)] by (simp add: invariant_def within_limits_def)
  finally show ?thesis .
qed

lemma costs_router:
  assumes "\<And>path query. request \<noteq> DeleteServiceInstance path query"
  shows "costs (router lib app env headers request) 4 1"
proof (cases request)
  case (PutServiceInstance path body)
  then show ?thesis
    by (auto simp: reconcile_service_instance_def intro!: costs_map costs_free costs_mono [OF costs_reconcile])
next
  case (PostCredentials body)
  then show ?thesis
    by (auto simp: create_credential_def intro!: costs_map costs_free costs_mono [OF costs_create] split: prod.split)
next
  case (DeleteCredential path)
  then show ?thesis
    by (auto simp: revoke_credential_def intro!: costs_map costs_free costs_mono [OF costs_revoke] split: prod.split)
qed (use assms in \<open>auto simp: live_def intro!: costs_map costs_mono [OF costs_reads(1)] costs_mono [OF costs_reads(2)]
    costs_mono [OF costs_reads(3)] costs_mono [OF costs_reads(4)]\<close>)

text \<open>
  C12: every request ends, after at most five calls of its store and of its Garage interface, and a
  deletion after at most seven and two for every key of the service, of which the store admits no more than its limit per
  bucket: no request loops on retries, and none runs longer because others interfere.
\<close>
theorem requests_make_few_calls:
  assumes "as_store app = pg_repository st" and "reachable st w" and "seen_db env s = w_db w"
    and "router lib app env headers request s = (r, s')"
  shows "su_calls s' \<le> su_calls s + (case request of
     DeleteServiceInstance _ _ \<Rightarrow> 7 + 2 * unat (cl_max_credentials_per_bucket (ps_credential_limits st)) | _ \<Rightarrow> 5)"
proof (cases "\<exists>path query. request = DeleteServiceInstance path query")
  case False
  then have "costs (router lib app env headers request) 4 1" by (intro costs_router) blast
  from costsD [OF this assms(4)] have "su_calls s' \<le> su_calls s + 5" by (auto split: if_splits)
  with False show ?thesis by (cases request) auto
next
  case True
  then obtain path query where request: "request = DeleteServiceInstance path query" by blast
  let ?k = "unat (cl_max_credentials_per_bucket (ps_credential_limits st))"
  have "post (execute_delete lib app env headers command) s (\<lambda>r s'. su_calls s' \<le> su_calls s + (7 + 2 * ?k))" for command
    by (rule costs_delete) (use granted_keys [OF assms(2)] assms(1,3) in simp)
  then have "post (router lib app env headers request) s (\<lambda>r s'. su_calls s' \<le> su_calls s + (7 + 2 * ?k))"
    unfolding request router.simps eff_map_def delete_service_instance_def post_simps
    by (auto split: sum.split elim!: post_mono)
  with assms(4) request show ?thesis by (simp add: post_def)
qed

theorem requests_make_few_calls_witness:
  "su_calls demo_deleted = 8 \<and> su_calls demo_deleted \<le> su_calls (demo_start example_key_ready) + (7 + 2 * 2)"
proof
  have limit: "unat (cl_max_credentials_per_bucket (ps_credential_limits example_store)) = 2" by code_simp
  have "router demo_lib demo_app (demo_env (example_env 4 20)) demo_delete_headers
      (DeleteServiceInstance (Ok 3) (Ok \<lparr>dq_generation = 2\<rparr>)) (demo_start example_key_ready)
    = (Ok (StoredReply (demo_reply 200)), demo_deleted)"
    by (simp add: eff_map_def eff_bind_def eff_match_def eff_return_def demo_delete_run)
  from requests_make_few_calls [OF demo_fields(8) example_reachable(4) _ this] limit
  show "su_calls demo_deleted \<le> su_calls (demo_start example_key_ready) + (7 + 2 * 2)"
    by (simp add: seen_db_def demo_start_def world_key_ready_def)
qed (simp add: demo_deleted_def)

end
