(* ===== verification/Spec2Isabelle.thy ===== *)
theory Spec2Isabelle
  imports Store_Reads Store_Progress Store_Conflicts Store_Locks Store_Idempotency Server_Process Handler_Bounds
begin

text \<open>
  Syouyu, the object-storage provider of HeteroCloud. A control plane (HeteroFlow) reconciles and
  deletes \<^emph>\<open>service instances\<close>, each with one bucket of a Garage cluster; the principals of a tenant
  issue and revoke S3 credentials of their bucket and read its usage. The program is a stateless HTTP
  server: its state is a PostgreSQL database and the Garage cluster, shared by any number of
  processes, which may stop between any two calls. The development models the sources under
  \<open>src/crates\<close>; a definition has the name of the Rust item it translates where that is possible.

  \<^bold>\<open>Parts and theories.\<close>

  \<^item> Values: \<open>Domain\<close> is \<open>syouyu-domain/src/lib.rs\<close> (specifications, names, quotas, phases, statuses and
    their validation, in the order of the checks); \<open>Store_Models\<close> is \<open>syouyu-store/src/models.rs\<close>
    (commands, contexts, records, actions, the request digest, store errors).
  \<^item> Receipt encryption: \<open>Receipt_Cipher\<close> is \<open>syouyu-store/src/cipher.rs\<close>.
  \<^item> Database: \<open>Pg_Tables\<close> has the tables of both migrations as lists of rows with their CHECK, UNIQUE
    and foreign-key conditions; \<open>Pg_Transaction\<close> has statements, row and advisory locks, faults,
    rollback and a COMMIT whose acknowledgement is lost, and the weakest-precondition rules.
  \<^item> Store: \<open>Receipts\<close> (claims, leases, takeover, completion and failure of operation receipts, audit),
    \<open>Store_Service\<close> (reconcile, delete, overview) and \<open>Store_Credentials\<close> (create, revoke, list, usage)
    translate \<open>syouyu-store/src/lib.rs\<close> statement by statement. \<open>Receipt_Contracts\<close> states what every
    operation promises: the locales \<open>starting_operation\<close>, \<open>fenced_operation\<close>, \<open>completing_operation\<close> and
    \<open>operation_cycle\<close>, interpreted for the four operations and for failing.
  \<^item> Behaviour of the store: \<open>Store_Steps\<close> lets any processes call the operations in any order and
    lets leases expire; \<open>Store_Invariants\<close> proves the invariant of the reachable states; \<open>Store_Safety\<close>
    and \<open>Store_Idempotency\<close> state the properties. \<open>Store_Refinement\<close> has the abstract registry that the
    store implements and the locale \<open>simulation\<close>, interpreted on the two; \<open>Store_Reads\<close> shows that what
    was stored can be read; \<open>Store_Progress\<close> that a held operation can be ended; \<open>Store_Conflicts\<close> has
    two places where statements of the store disagree, \<open>Store_Locks\<close> two transactions that take their
    locks in opposite orders; \<open>Store_Examples\<close> is a concrete run.
  \<^item> Authentication: \<open>Provider_Auth\<close> is \<open>syouyu-auth/src/lib.rs\<close> (Ed25519 provider tokens) and
    \<open>Principal_Auth\<close> is \<open>syouyu-api/src/principal_auth.rs\<close> (signed principal contexts).
  \<^item> Garage: \<open>Garage_Client\<close> is \<open>syouyu-garage/src/lib.rs\<close> (the admin client over a server that may
    answer anything), \<open>Garage_Adapter\<close> is \<open>syouyu-api/src/garage.rs\<close>, and \<open>Garage_Traces\<close> logs the
    requests that are sent and proves which sequences occur.
  \<^item> Interface: \<open>Api_Error\<close> is \<open>syouyu-api/src/error.rs\<close>, \<open>Config\<close> is \<open>syouyu-api/src/config.rs\<close>,
    \<open>Repository\<close>, \<open>Routes\<close> and \<open>Handlers\<close> are \<open>syouyu-api/src/routes.rs\<close> (the trait through which the
    store is called and its implementation, types, helpers, every handler, the routing table).
    \<open>Handler_Traces\<close> has the trace logic of the handlers, \<open>Handler_Replay\<close> the contract of a replayed
    request, \<open>Handler_Properties\<close> their end-to-end properties, \<open>Handler_Bounds\<close> the number of their calls
    and \<open>Handler_Examples\<close> concrete requests.
  \<^item> Process: \<open>Server_Process\<close> is \<open>syouyu-api/src/main.rs\<close> with \<open>PgStore::connect\<close> and \<open>migrate\<close>.
  \<^item> Shared: \<open>Syouyu_Prelude\<close> (results, machine integers, strings as their UTF-8 bytes, rows),
    \<open>Decimal_Text\<close> (printing and parsing numbers), \<open>Effects\<close> (computations that call out).

  \<^bold>\<open>State and operations.\<close> A store operation takes the store (keys and limits), the environment of its
  database session (times, generated identifiers, nonces, faults) and the database, and returns its
  result and the database after it; a transaction is a state transformer on a copy that is committed
  or dropped. A client call takes the state of the remote server. The handlers call the store through
  a record of its operations (the trait \<open>Repository\<close>). A handler takes the database, Garage,
  the number of calls made and the list of calls; before each of its calls an arbitrary function of
  the environment stands for everything other processes do. Rust's \<open>Result\<close> is a sum with \<open>Err\<close> on the
  left, \<open>?\<close> is \<open>try_bind\<close> or \<open>eff_bind\<close>. \<open>u64\<close>, \<open>u32\<close>, \<open>u16\<close> and UUIDs are words; \<open>i64\<close> is an integer with
  its range written out where the code checks, saturates or converts.

  \<^bold>\<open>What is shown.\<close> For the store, in every reachable state: one operation at a time per service,
  credential limits, reservations only for running creations, nothing left of deleted services; along
  every run: generations do not decrease, bucket names and finished receipts do not change, the audit
  trail only grows, revoked keys stay revoked. Every run is a run of the abstract registry, and no
  operation finds stored data unreadable; the holder of a receipt can always end it. For idempotency:
  completed requests are replayed even if the acknowledgement of the commit was lost, and recorded
  failures are; a superseded process is fenced off, a live lease is respected and taken over only after
  it expired, and an idempotency key is not reused. For authentication: what an accepted token or
  context proves. For Garage: permissions are denied before they are granted, a failed creation ends
  with the deletion of its key, the bounded reader equals taking a prefix. For the handlers: on the
  authenticated routes nothing is called for a request without a valid token or permission, a bucket is deleted only when it was found empty and its keys are revoked, an
  answer to a creation is a recorded one, a repeated mutation of any kind gets the same answer, every
  issued key is recorded, revoked or left to the open receipt, and every request ends after a bounded
  number of calls. For the process: only a server whose configuration the components accept is started.
  Three theorems state faults of the code: a bucket name is never usable again after the deletion of
  its service, a late usage measurement makes two tables disagree, and a takeover and a late completion
  of the same operation ask for their locks in opposite orders.

  \<^bold>\<open>Bounds.\<close> Every definition is total: loops run over finite lists (table rows, body chunks, keys), so
  no fuel is needed. The reader of response bodies is bounded by the code's own limits.

  \<^bold>\<open>Parameters.\<close> AES-256-GCM, SHA-256, HMAC, Ed25519 JWT verification, JSON and base64 codecs, the URL
  and UUID parsers, reqwest, the web framework's extractors and the clock are arguments; what is relied
  on is a named hypothesis (\<open>store_codecs_ok\<close>, \<open>jwt_sound\<close>, the laws of the cipher) with an instance.

  \<^bold>\<open>Not modelled.\<close> The set-up of logging and the signal handler of \<open>main.rs\<close>, the connection pool and
  the migration runner, tracing, the request-id and body-limit layers, the OpenAPI document, serde
  attributes, the unit and integration tests and the deployment files: I/O, or library code with no
  logic of this program.
  Waiting is not represented: a lock is granted or the statement fails, and a transaction records the
  locks it asked for. \<open>clock_timestamp()\<close> has one value per statement.
\<close>

end
